(* ===== verification/Prelude.thy ===== *)
theory Prelude
  imports Main "HOL-Library.Word" "HOL-Library.Multiset"
begin

text \<open>
  Shared vocabulary of the development.

  A SQL table is a list of rows. \<open>update_where\<close> is the meaning of
  \<^verbatim>\<open>UPDATE t SET f WHERE p\<close>, \<open>find_row\<close> that of a
  \<^verbatim>\<open>SELECT ... WHERE key = k\<close> that yields at most one row.
  The locale \<open>keyed_update\<close> states what a SET clause that leaves the key column
  alone guarantees; every UPDATE of the program is an instance of it.
  \<open>reach_inv\<close> is the contract of an invariant of a transition system.
  The collections \<open>row_simps\<close> and \<open>stmt_simps\<close> gather the unfolding rules of the row
  updates and of the statements, so that component proofs are one \<open>simp add:\<close> away.
\<close>

named_theorems row_simps "row updates of the SQL statements, unfolded"
named_theorems stmt_simps "statements of the database layer, unfolded"

section \<open>Machine integers\<close>

type_synonym int16 = "16 word"
type_synonym int64 = "64 word"

text \<open>Incrementing below the largest value does not wrap around.\<close>

lemma sint16_range: "- 32768 \<le> sint (a :: int16) \<and> sint a \<le> 32767"
  using sint_ge [of a] sint_lt [of a] by simp

lemma sint64_range:
  "- 9223372036854775808 \<le> sint (a :: int64) \<and> sint a \<le> 9223372036854775807"
  using sint_ge [of a] sint_lt [of a] by simp

lemma signed_take_bit_id:
  "- (2 ^ n) \<le> (k :: int) \<Longrightarrow> k < 2 ^ n \<Longrightarrow> signed_take_bit n k = k"
  by (simp add: signed_take_bit_int_eq_self)

lemma sint16_inc: "sint (a :: int16) < 32767 \<Longrightarrow> sint (a + 1) = sint a + 1"
proof -
  assume "sint a < 32767"
  moreover have "- 32768 \<le> sint a" using sint16_range by blast
  ultimately show ?thesis
    by (simp add: sint_word_add signed_take_bit_id)
qed

lemma sint64_mult:
  assumes "- 9223372036854775808 \<le> sint (a :: int64) * sint b"
    and "sint a * sint b \<le> 9223372036854775807"
  shows "sint (a * b) = sint a * sint b"
  using assms by (simp add: sint_word_mult signed_take_bit_id)

lemma sint64_add:
  assumes "- 9223372036854775808 \<le> sint (a :: int64) + sint b"
    and "sint a + sint b \<le> 9223372036854775807"
  shows "sint (a + b) = sint a + sint b"
  using assms by (simp add: sint_word_add signed_take_bit_id)

lemma sint64_of_int:
  "- 9223372036854775808 \<le> k \<Longrightarrow> k \<le> 9223372036854775807 \<Longrightarrow>
    sint (word_of_int k :: int64) = k"
  by (simp add: sint_sbintrunc' signed_take_bit_id)

lemma sint64_eqI: "sint (a :: int64) = sint b \<Longrightarrow> a = b"
  by (rule signed_word_eqI)

section \<open>Tables\<close>

definition update_where :: "('r \<Rightarrow> bool) \<Rightarrow> ('r \<Rightarrow> 'r) \<Rightarrow> 'r list \<Rightarrow> 'r list" where
  "update_where p f rows = map (\<lambda>r. if p r then f r else r) rows"

definition count_where :: "('r \<Rightarrow> bool) \<Rightarrow> 'r list \<Rightarrow> nat" where
  "count_where p rows = length (filter p rows)"

definition find_row :: "('r \<Rightarrow> 'k) \<Rightarrow> 'k \<Rightarrow> 'r list \<Rightarrow> 'r option" where
  "find_row key k rows = find (\<lambda>r. key r = k) rows"

lemma find_row_Nil [simp]: "find_row key k [] = None"
  by (simp add: find_row_def)

lemma find_row_Cons [simp]:
  "find_row key k (r # rows) = (if key r = k then Some r else find_row key k rows)"
  by (simp add: find_row_def)

lemma find_row_append [simp]:
  "find_row key k (xs @ ys) = (case find_row key k xs of None \<Rightarrow> find_row key k ys | Some r \<Rightarrow> Some r)"
  by (induction xs) auto

lemma find_row_SomeD: "find_row key k rows = Some r \<Longrightarrow> r \<in> set rows \<and> key r = k"
  by (induction rows) (auto split: if_splits)

lemma find_row_None_iff: "find_row key k rows = None \<longleftrightarrow> k \<notin> key ` set rows"
  by (induction rows) auto

lemma find_row_distinct:
  "distinct (map key rows) \<Longrightarrow> r \<in> set rows \<Longrightarrow> find_row key (key r) rows = Some r"
  by (induction rows) (auto simp: rev_image_eqI)

lemma find_row_iff:
  "distinct (map key rows) \<Longrightarrow>
    find_row key k rows = Some r \<longleftrightarrow> r \<in> set rows \<and> key r = k"
  using find_row_SomeD find_row_distinct by fastforce

lemma update_where_Nil [simp]: "update_where p f [] = []"
  by (simp add: update_where_def)

lemma update_where_Cons [simp]:
  "update_where p f (r # rows) = (if p r then f r else r) # update_where p f rows"
  by (simp add: update_where_def)

lemma update_where_append [simp]:
  "update_where p f (xs @ ys) = update_where p f xs @ update_where p f ys"
  by (simp add: update_where_def)

lemma length_update_where [simp]: "length (update_where p f rows) = length rows"
  by (simp add: update_where_def)

lemma set_update_where:
  "set (update_where p f rows) = (\<lambda>r. if p r then f r else r) ` set rows"
  by (simp add: update_where_def)

lemma in_update_whereE:
  assumes "r \<in> set (update_where p f rows)"
  obtains (kept) "r \<in> set rows" "\<not> p r"
  | (changed) r0 where "r0 \<in> set rows" "p r0" "r = f r0"
  using assms by (auto simp: set_update_where split: if_splits)

lemma update_where_idle: "(\<And>r. r \<in> set rows \<Longrightarrow> \<not> p r) \<Longrightarrow> update_where p f rows = rows"
  by (induction rows) auto

lemma distinct_key_eq:
  "distinct (map key rows) \<Longrightarrow> r \<in> set rows \<Longrightarrow> s \<in> set rows \<Longrightarrow> key r = key s \<Longrightarrow> r = s"
  by (auto simp: distinct_map dest: inj_onD)

locale keyed_update =
  fixes key :: "'r \<Rightarrow> 'k"
    and f :: "'r \<Rightarrow> 'r"
  assumes key_kept: "key (f r) = key r"
begin

lemma keys_update: "map key (update_where p f rows) = map key rows"
  by (simp add: update_where_def key_kept)

lemma distinct_update: "distinct (map key (update_where p f rows)) = distinct (map key rows)"
  by (simp add: keys_update)

lemma find_update:
  "find_row key k (update_where p f rows) =
    (case find_row key k rows of None \<Rightarrow> None | Some r \<Rightarrow> Some (if p r then f r else r))"
  by (induction rows) (auto simp: key_kept)

lemma find_update_key:
  "find_row key k (update_where (\<lambda>r. key r = i) f rows) =
    (if k = i then map_option f (find_row key i rows) else find_row key k rows)"
  by (auto simp: find_update split: option.splits dest: find_row_SomeD)

lemma find_update_prop:
  assumes "\<And>r. P (f r) = P r"
  shows "(case find_row key k (update_where p f rows) of None \<Rightarrow> False | Some r \<Rightarrow> P r) =
    (case find_row key k rows of None \<Rightarrow> False | Some r \<Rightarrow> P r)"
  by (simp add: find_update assms split: option.split)

lemma update_twice:
  assumes "\<And>r. f (f r) = f r"
  shows "update_where (\<lambda>r. key r = i) f (update_where (\<lambda>r. key r = i) f rows) =
    update_where (\<lambda>r. key r = i) f rows"
  by (induction rows) (auto simp: key_kept assms)

end

text \<open>Part of a list without repetitions has none.\<close>

lemma distinct_mset_sub: "mset xs \<subseteq># mset ys \<Longrightarrow> distinct ys \<Longrightarrow> distinct xs"
proof -
  assume sub: "mset xs \<subseteq># mset ys" and "distinct ys"
  then have "count (mset ys) a \<le> 1" for a by (simp add: distinct_count_atmost_1)
  moreover have "count (mset xs) a \<le> count (mset ys) a" for a using sub by (rule mset_subset_eq_count)
  ultimately have "count (mset xs) a \<le> 1" for a by (meson order_trans)
  then show ?thesis unfolding distinct_count_atmost_1
    by (metis One_nat_def count_mset_0_iff le_Suc_eq le_zero_eq)
qed

section \<open>Ordering a selection\<close>

text \<open>
  \<open>ORDER BY k LIMIT n\<close> keeps the \<open>n\<close> rows with the least keys: nothing left out comes
  strictly before anything kept.
\<close>

definition top_by :: "('r \<Rightarrow> 'k::linorder) \<Rightarrow> nat \<Rightarrow> 'r list \<Rightarrow> 'r list" where
  "top_by k n rows = take n (sort_key k rows)"

lemma set_top_by: "set (top_by k n rows) \<subseteq> set rows"
  using set_take_subset [of n "sort_key k rows"] by (simp add: top_by_def)

lemma length_top_by: "length (top_by k n rows) = min n (length rows)"
  by (simp add: top_by_def)

lemma sorted_top_by: "sorted (map k (top_by k n rows))"
  by (simp add: top_by_def take_map [symmetric] sorted_wrt_take)

lemma distinct_top_by: "distinct rows \<Longrightarrow> distinct (top_by k n rows)"
  by (simp add: top_by_def)

lemma top_by_best:
  assumes "r \<in> set (top_by k n rows)" and "s \<in> set rows" and "s \<notin> set (top_by k n rows)"
  shows "k r \<le> k s"
proof -
  let ?ys = "sort_key k rows"
  have "s \<in> set ?ys" using assms(2) by simp
  then have "s \<in> set (take n ?ys) \<union> set (drop n ?ys)"
    by (metis append_take_drop_id set_append)
  then have "s \<in> set (drop n ?ys)"
    using assms(3) by (auto simp: top_by_def)
  moreover have "sorted (map k (take n ?ys) @ map k (drop n ?ys))"
    by (metis append_take_drop_id map_append sorted_sort_key)
  ultimately show ?thesis
    using assms(1) by (auto simp: sorted_append top_by_def)
qed

lemma top_by_all: "length rows \<le> n \<Longrightarrow> set (top_by k n rows) = set rows"
  by (simp add: top_by_def)

section \<open>Invariants of transition systems\<close>

text \<open>
  What a component owes to have an invariant in all its runs: the start states satisfy it
  and every step keeps it. The runs are given as lists of events.
\<close>

locale reach_inv =
  fixes step :: "'s \<Rightarrow> 'e \<Rightarrow> 's"
    and inv :: "'s \<Rightarrow> bool"
  assumes step_inv: "inv s \<Longrightarrow> inv (step s e)"
begin

lemma run_inv: "inv s \<Longrightarrow> inv (foldl step s es)"
  by (induction es arbitrary: s) (auto intro: step_inv)

lemma run_prefix_inv: "inv s \<Longrightarrow> inv (foldl step s (take n es))"
  by (rule run_inv)

end

end
