(* ===== verification/Go_Base.thy ===== *)
theory Go_Base
  imports Prelude
begin

text \<open>
  The parts of Go and of the database driver that every component uses: error values and
  \<^verbatim>\<open>errors.Is\<close>, instants, JSON values, and the ways a statement sent to the server
  can end.
\<close>

section \<open>Error values\<close>

text \<open>
  \<open>Sentinel n msg\<close> is a package-level \<^verbatim>\<open>errors.New\<close> value, compared by identity
  (\<open>n\<close>). \<open>Errorf msg\<close> is an error made on the spot, equal to no other value.
  \<open>Wrapped pre e post\<close> is \<^verbatim>\<open>fmt.Errorf\<close> with one \<^verbatim>\<open>%w\<close>: its text is
  the texts around the wrapped error, and \<^verbatim>\<open>errors.Is\<close> looks through it.
\<close>

datatype error =
    Sentinel nat string
  | Errorf string
  | Wrapped string error string

fun err_msg :: "error \<Rightarrow> string" where
  "err_msg (Sentinel n s) = s"
| "err_msg (Errorf s) = s"
| "err_msg (Wrapped pre e post) = pre @ err_msg e @ post"

fun errors_Is :: "error \<Rightarrow> error \<Rightarrow> bool" where
  "errors_Is (Sentinel n s) target = (case target of Sentinel m _ \<Rightarrow> n = m | _ \<Rightarrow> False)"
| "errors_Is (Errorf s) target = False"
| "errors_Is (Wrapped pre e post) target = errors_Is e target"

section \<open>Instants\<close>

text \<open>
  An instant is the number of nanoseconds since Go's zero \<^verbatim>\<open>time.Time\<close>, so
  \<^verbatim>\<open>t.IsZero()\<close> is \<open>t = 0\<close> and \<^verbatim>\<open>t.Add(d)\<close> adds the signed value of
  the 64-bit duration.
\<close>

type_synonym instant = int
type_synonym duration = int64

definition time_Add :: "instant \<Rightarrow> duration \<Rightarrow> instant" where
  "time_Add t d = t + sint d"

definition time_Second :: duration where "time_Second = 1000000000"
definition time_Hour :: duration where "time_Hour = 3600000000000"

section \<open>JSON values\<close>

text \<open>
  A JSON text is held as the value it denotes. Integers are \<open>JNum\<close>; a number with a
  fraction or an exponent keeps its literal (\<open>JDec\<close>). A nil \<^verbatim>\<open>json.RawMessage\<close>
  is \<open>None\<close> where it can occur.
\<close>

datatype json =
    JNull
  | JBool bool
  | JNum int
  | JDec string
  | JStr string
  | JArr "json list"
  | JObj "(string \<times> json) list"

text \<open>
  A Go value handed to \<^verbatim>\<open>json.Marshal\<close> is represented by what Marshal makes of it:
  an error, or the JSON value.
\<close>

type_synonym go_value = "error + json"

section \<open>Statements\<close>

text \<open>
  A statement sent through the pool ends in one of three ways: it ran and its answer
  arrived (\<open>Done\<close>), it did not run and the driver reports an error (\<open>Refused\<close>), or
  it ran but the answer was lost and the driver reports an error (\<open>Lost\<close>). What the
  server contributes to one statement is the record \<open>pg\<close>: its clock \<^verbatim>\<open>NOW()\<close>, how
  the statement ended, and the job rows that concurrent transactions hold locked.
\<close>

datatype outcome = Done | Refused error | Lost error

record pg =
  pgNow :: instant
  pgOutcome :: outcome
  pgLocked :: "int list"

definition pg_at :: "instant \<Rightarrow> pg" where
  "pg_at t = \<lparr>pgNow = t, pgOutcome = Done, pgLocked = []\<rparr>"

definition run_stmt :: "pg \<Rightarrow> ('s \<Rightarrow> (error + 'a) \<times> 's) \<Rightarrow> 's \<Rightarrow> (error + 'a) \<times> 's" where
  "run_stmt e st s =
    (case pgOutcome e of
      Done \<Rightarrow> st s
    | Refused err \<Rightarrow> (Inl err, s)
    | Lost err \<Rightarrow> (Inl err, snd (st s)))"

lemma run_stmt_state: "snd (run_stmt e st s) = s \<or> snd (run_stmt e st s) = snd (st s)"
  by (simp add: run_stmt_def split: outcome.splits)

lemma run_stmt_Inr:
  "fst (run_stmt e st s) = Inr a \<Longrightarrow> pgOutcome e = Done \<and> run_stmt e st s = st s"
  by (simp add: run_stmt_def split: outcome.splits)

text \<open>A property of the stored state that the statement keeps survives every way it can end.\<close>

lemma run_stmt_keeps: "P s \<Longrightarrow> (P s \<Longrightarrow> P (snd (st s))) \<Longrightarrow> P (snd (run_stmt e st s))"
  using run_stmt_state [of e st s] by auto

lemma pg_at_simps [simp]:
  "pgNow (pg_at t) = t" "pgOutcome (pg_at t) = Done" "pgLocked (pg_at t) = []"
  by (simp_all add: pg_at_def)

lemma run_stmt_pg_at [simp]: "run_stmt (pg_at t) st s = st s"
  by (simp add: run_stmt_def)

end
