(* ===== verification/Schema.thy ===== *)
theory Schema
  imports Go_Base
begin

text \<open>
  The stored data: one record per row type of \<^verbatim>\<open>internal/db/db.go\<close>, with the
  columns of the migrations, and the record \<open>db\<close> of all tables with the sequences of
  their \<^verbatim>\<open>BIGSERIAL\<close> keys. A table is the list of its rows in insertion order.
\<close>

section \<open>Jobs\<close>

datatype JobState =
    JobStateAvailable
  | JobStateScheduled
  | JobStateRunning
  | JobStateRetryable
  | JobStateCompleted
  | JobStateCancelled
  | JobStateDiscarded

fun job_state_text :: "JobState \<Rightarrow> string" where
  "job_state_text JobStateAvailable = ''available''"
| "job_state_text JobStateScheduled = ''scheduled''"
| "job_state_text JobStateRunning = ''running''"
| "job_state_text JobStateRetryable = ''retryable''"
| "job_state_text JobStateCompleted = ''completed''"
| "job_state_text JobStateCancelled = ''cancelled''"
| "job_state_text JobStateDiscarded = ''discarded''"

lemma job_state_text_inject [simp]: "job_state_text a = job_state_text b \<longleftrightarrow> a = b"
  by (cases a; cases b) simp_all

text \<open>One element of the JSON array in the column \<^verbatim>\<open>errors\<close>.\<close>

record AttemptError =
  aeAttempt :: int16
  aeAt :: instant
  aeError :: string

record JobRow =
  jID :: int
  jKind :: string
  jQueue :: string
  jNamespace :: string
  jPriority :: int16
  jState :: JobState
  jPayload :: json
  jMetadata :: json
  jScheduledAt :: instant
  jAttempt :: int16
  jMaxAttempts :: int16
  jAttemptedAt :: "instant option"
  jAttemptedBy :: "string option"
  jCompletedAt :: "instant option"
  jCancelledAt :: "instant option"
  jDiscardedAt :: "instant option"
  jErrors :: "AttemptError list"
  jIdempotencyKey :: "string option"
  jWorkflowRunID :: "int option"
  jStepID :: "string option"
  jCreatedAt :: instant
  jUpdatedAt :: instant

section \<open>Execution logs, queues, workers\<close>

text \<open>
  The log of one execution of a job, and of one execution of a workflow step. The column
  \<^verbatim>\<open>logs\<close> is declared NOT NULL in both tables.
\<close>

record JobLog =
  lID :: int
  lJobID :: int
  lAttempt :: int16
  lWorkerID :: string
  lStartedAt :: instant
  lCompletedAt :: "instant option"
  lDurationMs :: "int option"
  lInput :: "json option"
  lOutput :: "json option"
  lStatus :: string
  lError :: "string option"
  lErrorStack :: "string option"
  lLogs :: json
  lCreatedAt :: instant

record WorkflowStepLog =
  sID :: int
  sWorkflowRunID :: int
  sStepID :: string
  sAttempt :: int
  sWorkerID :: string
  sStartedAt :: instant
  sCompletedAt :: "instant option"
  sDurationMs :: "int option"
  sInput :: json
  sOutput :: "json option"
  sStatus :: string
  sError :: "string option"
  sErrorStack :: "string option"
  sLogs :: json
  sCreatedAt :: instant

record QueueConfig =
  qName :: string
  qNamespace :: string
  qConcurrency :: int
  qPaused :: bool
  qPriority :: int
  qCreatedAt :: instant
  qUpdatedAt :: instant

record Worker =
  wID :: string
  wNamespace :: string
  wQueues :: "string list"
  wConcurrency :: int
  wStatus :: string
  wStartedAt :: instant
  wLastHeartbeat :: instant
  wJobsProcessed :: int
  wJobsFailed :: int

section \<open>Workflows\<close>

datatype StepState =
    StepStatePending
  | StepStateRunning
  | StepStateCompleted
  | StepStateFailed
  | StepStateSkipped

datatype WorkflowState =
    WorkflowStatePending
  | WorkflowStateRunning
  | WorkflowStateCompleted
  | WorkflowStateFailed
  | WorkflowStateCancelled

text \<open>
  A step's runtime state. The column \<^verbatim>\<open>step_states\<close> holds the JSON object of the
  map from step ids to these; it is kept here as the map.
\<close>

record StepRunState =
  ssState :: StepState
  ssOutput :: "json option"
  ssError :: string
  ssAttempt :: int
  ssStartedAt :: "instant option"
  ssCompletedAt :: "instant option"

type_synonym step_states = "string \<rightharpoonup> StepRunState"

record WorkflowDefinitionRow =
  dID :: int
  dName :: string
  dVersion :: int
  dNamespace :: string
  dDefinition :: json
  dCreatedAt :: instant

record WorkflowRunRow =
  rID :: int
  rDefinitionID :: int
  rNamespace :: string
  rState :: WorkflowState
  rInput :: json
  rOutput :: "json option"
  rStepStates :: step_states
  rError :: "string option"
  rStartedAt :: "instant option"
  rCompletedAt :: "instant option"
  rCreatedAt :: instant
  rUpdatedAt :: instant

section \<open>The database\<close>

record db =
  tJobs :: "JobRow list"
  seqJobs :: int
  tJobLogs :: "JobLog list"
  seqJobLogs :: int
  tQueues :: "QueueConfig list"
  tWorkers :: "Worker list"
  tDefs :: "WorkflowDefinitionRow list"
  seqDefs :: int
  tRuns :: "WorkflowRunRow list"
  seqRuns :: int
  tStepLogs :: "WorkflowStepLog list"
  seqStepLogs :: int

definition empty_db :: db where
  "empty_db = \<lparr>tJobs = [], seqJobs = 1, tJobLogs = [], seqJobLogs = 1, tQueues = [],
    tWorkers = [], tDefs = [], seqDefs = 1, tRuns = [], seqRuns = 1, tStepLogs = [],
    seqStepLogs = 1\<rparr>"

text \<open>
  \<^verbatim>\<open>nextval\<close> of a \<^verbatim>\<open>BIGSERIAL\<close> sequence: it fails past the largest
  64-bit value.
\<close>

definition seq_max :: int where "seq_max = 9223372036854775807"

definition seq_error :: error where
  "seq_error = Errorf ''nextval: reached maximum value of sequence''"

text \<open>What the server answers to a violated constraint or to a number out of range.\<close>

definition unique_error :: error where
  "unique_error = Errorf ''duplicate key value violates unique constraint''"

definition not_null_error :: error where
  "not_null_error = Errorf ''null value violates not-null constraint''"

definition fk_error :: error where
  "fk_error = Errorf ''violates foreign key constraint''"

definition smallint_error :: error where
  "smallint_error = Errorf ''smallint out of range''"

end
