(* ===== verification/Job_Store.thy ===== *)
theory Job_Store
  imports Schema
begin

text \<open>
  The job statements of \<^verbatim>\<open>internal/db/db.go\<close>: \<open>InsertJob\<close>, \<open>FetchJobs\<close>,
  \<open>CompleteJob\<close>, \<open>FailJob\<close>, \<open>PromoteScheduledJobs\<close>, \<open>GetJob\<close>, \<open>CancelJob\<close>
  and \<open>ListJobs\<close>, each the meaning of its SQL text on the table, with the constraints of
  migration 001 (primary key, unique index for idempotency, smallint columns). Each takes
  the server's contribution \<open>pg\<close> of every statement it sends.
\<close>

section \<open>States and the idempotency index\<close>

definition terminal :: "JobState \<Rightarrow> bool" where
  "terminal st \<longleftrightarrow> st \<in> {JobStateCompleted, JobStateCancelled, JobStateDiscarded}"

lemma terminal_simps [simp]:
  "terminal JobStateCompleted" "terminal JobStateCancelled" "terminal JobStateDiscarded"
  "\<not> terminal JobStateAvailable" "\<not> terminal JobStateScheduled"
  "\<not> terminal JobStateRunning" "\<not> terminal JobStateRetryable"
  by (simp_all add: terminal_def)

text \<open>
  The entry of a row in \<^verbatim>\<open>rivo_jobs_idempotency_idx\<close>: a unique index over the rows
  with a key and a state that is not terminal.
\<close>

definition live_key :: "JobRow \<Rightarrow> (string \<times> string \<times> string) option" where
  "live_key r =
    (case jIdempotencyKey r of
      None \<Rightarrow> None
    | Some k \<Rightarrow> if terminal (jState r) then None else Some (jNamespace r, jKind r, k))"

definition idem_clash :: "JobRow \<Rightarrow> JobRow list \<Rightarrow> bool" where
  "idem_clash r rows \<longleftrightarrow>
    live_key r \<noteq> None \<and> list_ex (\<lambda>s. jID s \<noteq> jID r \<and> live_key s = live_key r) rows"

section \<open>InsertJob\<close>

record InsertJobParams =
  ipKind :: string
  ipQueue :: string
  ipNamespace :: string
  ipPriority :: int16
  ipState :: JobState
  ipPayload :: json
  ipMetadata :: json
  ipScheduledAt :: instant
  ipMaxAttempts :: int16
  ipIdempotencyKey :: string
  ipWorkflowRunID :: "int option"
  ipStepID :: string

definition nonempty :: "string \<Rightarrow> string option" where
  "nonempty s = (if s = '''' then None else Some s)"

definition new_job :: "instant \<Rightarrow> int \<Rightarrow> InsertJobParams \<Rightarrow> JobRow" where
  "new_job now i p =
    \<lparr>jID = i, jKind = ipKind p, jQueue = ipQueue p, jNamespace = ipNamespace p,
     jPriority = ipPriority p, jState = ipState p, jPayload = ipPayload p,
     jMetadata = ipMetadata p, jScheduledAt = ipScheduledAt p, jAttempt = 0,
     jMaxAttempts = ipMaxAttempts p, jAttemptedAt = None, jAttemptedBy = None,
     jCompletedAt = None, jCancelledAt = None, jDiscardedAt = None, jErrors = [],
     jIdempotencyKey = nonempty (ipIdempotencyKey p), jWorkflowRunID = ipWorkflowRunID p,
     jStepID = nonempty (ipStepID p), jCreatedAt = now, jUpdatedAt = now\<rparr>"

definition find_live :: "string \<Rightarrow> string \<Rightarrow> string \<Rightarrow> JobRow list \<Rightarrow> JobRow option" where
  "find_live ns kind k rows =
    find (\<lambda>r. jNamespace r = ns \<and> jKind r = kind \<and> jIdempotencyKey r = Some k
      \<and> \<not> terminal (jState r)) rows"

definition insert_stmt :: "instant \<Rightarrow> InsertJobParams \<Rightarrow> db \<Rightarrow> (error + JobRow) \<times> db" where
  "insert_stmt now p s =
    (if seqJobs s > seq_max then (Inl seq_error, s)
     else let r = new_job now (seqJobs s) p; s' = s\<lparr>seqJobs := seqJobs s + 1\<rparr> in
       if idem_clash r (tJobs s) then (Inl unique_error, s')
       else (Inr r, s'\<lparr>tJobs := tJobs s @ [r]\<rparr>))"

text \<open>
  With an idempotency key the existing live job is looked up first and returned as a
  duplicate; any error of that query but \<^verbatim>\<open>pgx.ErrNoRows\<close> (here the answer
  \<open>None\<close>) ends the call. \<open>s\<close> is the state the querier sees: the pool's, or the
  transaction's when a transaction is passed.
\<close>

definition insert_new :: "pg \<Rightarrow> InsertJobParams \<Rightarrow> db \<Rightarrow> (error + JobRow \<times> bool) \<times> db" where
  "insert_new e p s =
    (case run_stmt e (insert_stmt (pgNow e) p) s of
      (Inl err, s') \<Rightarrow> (Inl (Wrapped ''inserting job: '' err ''''), s')
    | (Inr r, s') \<Rightarrow> (Inr (r, False), s'))"

definition InsertJob :: "pg \<Rightarrow> pg \<Rightarrow> InsertJobParams \<Rightarrow> db \<Rightarrow> (error + JobRow \<times> bool) \<times> db" where
  "InsertJob e1 e2 p s =
    (case nonempty (ipIdempotencyKey p) of
      None \<Rightarrow> insert_new e2 p s
    | Some k \<Rightarrow>
      (case run_stmt e1 (\<lambda>s. (Inr (find_live (ipNamespace p) (ipKind p) k (tJobs s)), s)) s of
        (Inr (Some existing), s') \<Rightarrow> (Inr (existing, True), s')
      | (Inr None, s') \<Rightarrow> insert_new e2 p s'
      | (Inl err, s') \<Rightarrow> (Inl (Wrapped ''checking idempotency: '' err ''''), s')))"

section \<open>FetchJobs\<close>

text \<open>\<^verbatim>\<open>ORDER BY priority DESC, scheduled_at ASC, id ASC\<close>\<close>

datatype fetch_key = Fetch_Key (fk_priority: int) (fk_scheduled: int) (fk_id: int)

definition fetch_order :: "fetch_key \<Rightarrow> fetch_key \<Rightarrow> bool" where
  "fetch_order a b \<longleftrightarrow>
    fk_priority a > fk_priority b \<or>
    fk_priority a = fk_priority b \<and>
      (fk_scheduled a < fk_scheduled b \<or>
       fk_scheduled a = fk_scheduled b \<and> fk_id a \<le> fk_id b)"

text \<open>The order of the type is that of the statement, so that \<open>top_by\<close> sorts by it.\<close>

instantiation fetch_key :: linorder
begin

definition less_eq_fetch_key :: "fetch_key \<Rightarrow> fetch_key \<Rightarrow> bool" where
  "less_eq_fetch_key a b \<longleftrightarrow> fetch_order a b"

definition less_fetch_key :: "fetch_key \<Rightarrow> fetch_key \<Rightarrow> bool" where
  "less_fetch_key a b \<longleftrightarrow> a \<le> b \<and> \<not> b \<le> (a :: fetch_key)"

instance
  by intro_classes
    (auto simp: less_eq_fetch_key_def less_fetch_key_def fetch_order_def fetch_key.expand)

end

definition fetch_key :: "JobRow \<Rightarrow> fetch_key" where
  "fetch_key r = Fetch_Key (sint (jPriority r)) (jScheduledAt r) (jID r)"

definition fetchable :: "instant \<Rightarrow> string \<Rightarrow> string list \<Rightarrow> JobRow \<Rightarrow> bool" where
  "fetchable now ns queues r \<longleftrightarrow>
    jNamespace r = ns \<and> jQueue r \<in> set queues \<and> jState r = JobStateAvailable \<and>
    jScheduledAt r \<le> now"

definition next_jobs :: "pg \<Rightarrow> string \<Rightarrow> string list \<Rightarrow> nat \<Rightarrow> JobRow list \<Rightarrow> JobRow list" where
  "next_jobs e ns queues limit rows =
    top_by fetch_key limit
      (filter (\<lambda>r. fetchable (pgNow e) ns queues r \<and> jID r \<notin> set (pgLocked e)) rows)"

definition claim :: "instant \<Rightarrow> string \<Rightarrow> JobRow \<Rightarrow> JobRow" where
  "claim now worker r =
    r\<lparr>jState := JobStateRunning, jAttempt := jAttempt r + 1, jAttemptedAt := Some now,
      jAttemptedBy := Some worker, jUpdatedAt := now\<rparr>"

text \<open>
  The statement locks and claims the selected rows and returns them. The order in which
  \<^verbatim>\<open>RETURNING\<close> lists them is the server's: the argument \<open>ord\<close> rearranges the rows
  as the server does. \<^verbatim>\<open>attempt + 1\<close> past the smallint range fails the statement.
\<close>

definition fetch_stmt ::
  "(JobRow list \<Rightarrow> JobRow list) \<Rightarrow> pg \<Rightarrow> string \<Rightarrow> string list \<Rightarrow> int \<Rightarrow> string \<Rightarrow> db
    \<Rightarrow> (error + JobRow list) \<times> db" where
  "fetch_stmt ord e ns queues limit worker s =
    (if limit < 0 then (Inl (Errorf ''LIMIT must not be negative''), s)
     else let chosen = next_jobs e ns queues (nat limit) (tJobs s); ids = map jID chosen in
       if list_ex (\<lambda>r. sint (jAttempt r) = 32767) chosen then (Inl smallint_error, s)
       else let rows = update_where (\<lambda>r. jID r \<in> set ids) (claim (pgNow e) worker) (tJobs s) in
         (Inr (ord (filter (\<lambda>r. jID r \<in> set ids) rows)), s\<lparr>tJobs := rows\<rparr>))"

text \<open>
  An error of sending the query is wrapped; an error of running it, or of reading its
  answer, comes out of \<^verbatim>\<open>rows.Err()\<close> as it is.
\<close>

definition FetchJobs ::
  "(JobRow list \<Rightarrow> JobRow list) \<Rightarrow> pg \<Rightarrow> string \<Rightarrow> string list \<Rightarrow> int \<Rightarrow> string \<Rightarrow> db
    \<Rightarrow> (error + JobRow list) \<times> db" where
  "FetchJobs ord e ns queues limit worker s =
    (case pgOutcome e of
      Refused err \<Rightarrow> (Inl (Wrapped ''fetching jobs: '' err ''''), s)
    | _ \<Rightarrow> run_stmt e (fetch_stmt ord e ns queues limit worker) s)"

section \<open>CompleteJob, FailJob, CancelJob, PromoteScheduledJobs\<close>

definition complete_row :: "instant \<Rightarrow> JobRow \<Rightarrow> JobRow" where
  "complete_row now r =
    r\<lparr>jState := JobStateCompleted, jCompletedAt := Some now, jUpdatedAt := now\<rparr>"

definition CompleteJob :: "pg \<Rightarrow> int \<Rightarrow> db \<Rightarrow> (error + unit) \<times> db" where
  "CompleteJob e i =
    run_stmt e (\<lambda>s. (Inr (),
      s\<lparr>tJobs := update_where (\<lambda>r. jID r = i) (complete_row (pgNow e)) (tJobs s)\<rparr>))"

definition fail_row :: "instant \<Rightarrow> string \<Rightarrow> instant option \<Rightarrow> JobRow \<Rightarrow> JobRow" where
  "fail_row now msg retryAt r =
    (let st = (case retryAt of Some _ \<Rightarrow> JobStateRetryable | None \<Rightarrow> JobStateDiscarded) in
     r\<lparr>jState := st,
       jScheduledAt := (case retryAt of Some t \<Rightarrow> t | None \<Rightarrow> jScheduledAt r),
       jErrors := jErrors r @ [\<lparr>aeAttempt = jAttempt r, aeAt = now, aeError = msg\<rparr>],
       jDiscardedAt := (if st = JobStateDiscarded then Some now else None),
       jUpdatedAt := now\<rparr>)"

text \<open>Making a row live again may collide in the idempotency index; then nothing is written.\<close>

definition FailJob :: "pg \<Rightarrow> int \<Rightarrow> string \<Rightarrow> instant option \<Rightarrow> db \<Rightarrow> (error + unit) \<times> db" where
  "FailJob e i msg retryAt =
    run_stmt e (\<lambda>s.
      let f = fail_row (pgNow e) msg retryAt in
      if list_ex (\<lambda>r. jID r = i \<and> idem_clash (f r) (tJobs s)) (tJobs s)
      then (Inl unique_error, s)
      else (Inr (), s\<lparr>tJobs := update_where (\<lambda>r. jID r = i) f (tJobs s)\<rparr>))"

definition cancel_row :: "instant \<Rightarrow> JobRow \<Rightarrow> JobRow" where
  "cancel_row now r =
    r\<lparr>jState := JobStateCancelled, jCancelledAt := Some now, jUpdatedAt := now\<rparr>"

definition CancelJob :: "pg \<Rightarrow> int \<Rightarrow> db \<Rightarrow> (error + unit) \<times> db" where
  "CancelJob e i =
    run_stmt e (\<lambda>s. (Inr (),
      s\<lparr>tJobs := update_where (\<lambda>r. jID r = i \<and> \<not> terminal (jState r))
          (cancel_row (pgNow e)) (tJobs s)\<rparr>))"

definition due :: "instant \<Rightarrow> string \<Rightarrow> JobRow \<Rightarrow> bool" where
  "due now ns r \<longleftrightarrow>
    jNamespace r = ns \<and> jState r \<in> {JobStateScheduled, JobStateRetryable} \<and>
    jScheduledAt r \<le> now"

definition promote_row :: "instant \<Rightarrow> JobRow \<Rightarrow> JobRow" where
  "promote_row now r = r\<lparr>jState := JobStateAvailable, jUpdatedAt := now\<rparr>"

definition PromoteScheduledJobs :: "pg \<Rightarrow> string \<Rightarrow> db \<Rightarrow> (error + int) \<times> db" where
  "PromoteScheduledJobs e ns =
    run_stmt e (\<lambda>s. (Inr (int (count_where (due (pgNow e) ns) (tJobs s))),
      s\<lparr>tJobs := update_where (due (pgNow e) ns) (promote_row (pgNow e)) (tJobs s)\<rparr>))"

section \<open>GetJob, ListJobs\<close>

definition GetJob :: "pg \<Rightarrow> int \<Rightarrow> db \<Rightarrow> (error + JobRow option) \<times> db" where
  "GetJob e i = run_stmt e (\<lambda>s. (Inr (find_row jID i (tJobs s)), s))"

text \<open>
  \<^verbatim>\<open>ORDER BY created_at DESC LIMIT n\<close>, with the filters that are set. \<open>ord\<close> is the
  order in which the server visits the rows; it decides between rows of equal age.
\<close>

definition list_filter :: "string \<Rightarrow> string \<Rightarrow> string \<Rightarrow> JobRow \<Rightarrow> bool" where
  "list_filter ns st queue r \<longleftrightarrow>
    jNamespace r = ns \<and> (st = '''' \<or> job_state_text (jState r) = st) \<and>
    (queue = '''' \<or> jQueue r = queue)"

definition ListJobs ::
  "(JobRow list \<Rightarrow> JobRow list) \<Rightarrow> pg \<Rightarrow> string \<Rightarrow> string \<Rightarrow> string \<Rightarrow> int \<Rightarrow> db
    \<Rightarrow> (error + JobRow list) \<times> db" where
  "ListJobs ord e ns st queue limit =
    run_stmt e (\<lambda>s.
      if limit < 0 then (Inl (Errorf ''LIMIT must not be negative''), s)
      else (Inr (top_by (\<lambda>r. - jCreatedAt r) (nat limit)
             (filter (list_filter ns st queue) (ord (tJobs s)))), s))"

lemmas [stmt_simps] =
  CompleteJob_def FailJob_def CancelJob_def PromoteScheduledJobs_def GetJob_def ListJobs_def

lemmas [row_simps] =
  claim_def complete_row_def fail_row_def cancel_row_def promote_row_def Let_def


section \<open>The row updates leave the key alone\<close>

interpretation claim_upd: keyed_update jID "claim now w" for now w
  by unfold_locales (simp add: row_simps)

interpretation complete_upd: keyed_update jID "complete_row now" for now
  by unfold_locales (simp add: row_simps)

interpretation fail_upd: keyed_update jID "fail_row now msg at" for now msg at
  by unfold_locales (simp add: row_simps)

interpretation cancel_upd: keyed_update jID "cancel_row now" for now
  by unfold_locales (simp add: row_simps)

interpretation promote_upd: keyed_update jID "promote_row now" for now
  by unfold_locales (simp add: row_simps)

section \<open>Well-formed job tables\<close>

definition idem_unique :: "JobRow list \<Rightarrow> bool" where
  "idem_unique rows \<longleftrightarrow> (\<forall>r \<in> set rows. \<not> idem_clash r rows)"

definition jobs_wf :: "db \<Rightarrow> bool" where
  "jobs_wf s \<longleftrightarrow> distinct (map jID (tJobs s)) \<and> (\<forall>r \<in> set (tJobs s). jID r < seqJobs s) \<and>
    idem_unique (tJobs s)"

lemma idem_clash_iff:
  "idem_clash r rows \<longleftrightarrow>
    (\<exists>s \<in> set rows. jID s \<noteq> jID r \<and> live_key s = live_key r \<and> live_key r \<noteq> None)"
  by (auto simp: idem_clash_def list_ex_iff)

lemma idem_unique_iff:
  "idem_unique rows \<longleftrightarrow>
    (\<forall>r \<in> set rows. \<forall>s \<in> set rows. live_key r \<noteq> None \<longrightarrow> live_key s = live_key r \<longrightarrow> jID s = jID r)"
  unfolding idem_unique_def idem_clash_iff by metis

lemma live_key_claim: "jState r = JobStateAvailable \<Longrightarrow> live_key (claim now w r) = live_key r"
  by (simp add: live_key_def row_simps split: option.split)

lemma live_key_promote: "due now ns r \<Longrightarrow> live_key (promote_row t r) = live_key r"
  by (auto simp: live_key_def row_simps due_def split: option.split)

lemma live_key_terminal: "terminal (jState r) \<Longrightarrow> live_key r = None"
  by (simp add: live_key_def split: option.split)

lemma live_key_complete: "live_key (complete_row now r) = None"
  by (rule live_key_terminal) (simp add: row_simps)

lemma live_key_cancel: "live_key (cancel_row now r) = None"
  by (rule live_key_terminal) (simp add: row_simps)

lemma idem_unique_update:
  assumes "idem_unique rows"
    and "\<And>r. r \<in> set rows \<Longrightarrow> p r \<Longrightarrow> live_key (f r) = None \<or> live_key (f r) = live_key r"
    and "\<And>r. jID (f r) = jID r"
  shows "idem_unique (update_where p f rows)"
  unfolding idem_unique_iff
proof (intro ballI impI)
  fix r s
  assume r: "r \<in> set (update_where p f rows)" and s: "s \<in> set (update_where p f rows)"
    and live: "live_key r \<noteq> None" and eq: "live_key s = live_key r"
  from r live assms(2,3) obtain r0 where r0: "r0 \<in> set rows" "jID r = jID r0" "live_key r = live_key r0"
    by (elim in_update_whereE) force+
  from s eq live assms(2,3) obtain s0 where s0: "s0 \<in> set rows" "jID s = jID s0" "live_key s = live_key s0"
    by (elim in_update_whereE) force+
  from assms(1) r0(1,3) s0(1,3) live eq have "jID s0 = jID r0"
    unfolding idem_unique_iff by metis
  with r0(2) s0(2) show "jID s = jID r" by simp
qed

lemma jobs_wf_update:
  assumes wf: "jobs_wf s" and key: "\<And>r. jID (f r) = jID r"
    and live: "\<And>r. r \<in> set (tJobs s) \<Longrightarrow> p r \<Longrightarrow> live_key (f r) = None \<or> live_key (f r) = live_key r"
  shows "jobs_wf (s\<lparr>tJobs := update_where p f (tJobs s)\<rparr>)"
proof -
  have upd: "keyed_update jID f" using key by unfold_locales
  have "idem_unique (update_where p f (tJobs s))"
    using wf key live by (intro idem_unique_update) (auto simp: jobs_wf_def)
  then show ?thesis
    using wf by (auto simp: jobs_wf_def keyed_update.distinct_update [OF upd] set_update_where key)
qed

end
