(* ===== verification/Job_Invariants.thy ===== *)
theory Job_Invariants
  imports Job_Store
begin

text \<open>
  Every job statement keeps the table well formed, whatever the server answers: distinct
  ids below the sequence, and at most one live job for an idempotency key. Their
  interleavings are in \<open>Job_Idempotency\<close>.
\<close>

section \<open>One statement\<close>

lemma claim_wf:
  assumes "jobs_wf s" and "\<And>r. r \<in> set (tJobs s) \<Longrightarrow> p r \<Longrightarrow> jState r = JobStateAvailable"
  shows "jobs_wf (s\<lparr>tJobs := update_where p (claim now w) (tJobs s)\<rparr>)"
  using assms by (intro jobs_wf_update) (auto simp: claim_upd.key_kept live_key_claim)

lemma insert_stmt_wf: "jobs_wf s \<Longrightarrow> jobs_wf (snd (insert_stmt now p s))"
proof -
  assume wf: "jobs_wf s"
  let ?r = "new_job now (seqJobs s) p"
  have id: "jID ?r = seqJobs s" by (simp add: new_job_def)
  have fresh: "seqJobs s \<notin> jID ` set (tJobs s)" using wf by (auto simp: jobs_wf_def)
  have bound: "\<forall>r \<in> set (tJobs s). jID r < seqJobs s + 1" using wf by (auto simp: jobs_wf_def)
  have uniq: "idem_unique (tJobs s @ [?r])" if "\<not> idem_clash ?r (tJobs s)"
  proof -
    have old: "idem_unique (tJobs s)" using wf by (simp add: jobs_wf_def)
    have new: "live_key ?r \<noteq> None \<Longrightarrow> t \<in> set (tJobs s) \<Longrightarrow> live_key t \<noteq> live_key ?r" for t
      using that fresh id unfolding idem_clash_iff by (metis imageI)
    show ?thesis
      unfolding idem_unique_iff
    proof (intro ballI impI)
      fix r t
      assume "r \<in> set (tJobs s @ [?r])" "t \<in> set (tJobs s @ [?r])"
        and "live_key r \<noteq> None" "live_key t = live_key r"
      then show "jID t = jID r" using old new unfolding idem_unique_iff by (auto 4 3)
    qed
  qed
  show ?thesis
  proof (cases "seqJobs s > seq_max")
    case True then show ?thesis using wf by (simp add: insert_stmt_def)
  next
    case False
    show ?thesis
    proof (cases "idem_clash ?r (tJobs s)")
      case True
      then show ?thesis using False wf bound by (simp add: insert_stmt_def jobs_wf_def Let_def)
    next
      case free: False
      have "distinct (map jID (tJobs s @ [?r]))" using wf fresh id by (auto simp: jobs_wf_def)
      then show ?thesis
        using False free uniq bound id by (simp add: insert_stmt_def jobs_wf_def Let_def)
    qed
  qed
qed

lemma insert_new_state: "snd (insert_new e p s) = snd (run_stmt e (insert_stmt (pgNow e) p) s)"
  by (simp add: insert_new_def split: prod.split sum.split)

lemma insert_new_wf: "jobs_wf s \<Longrightarrow> jobs_wf (snd (insert_new e p s))"
  unfolding insert_new_state by (rule run_stmt_keeps) (auto intro: insert_stmt_wf)

lemma find_stmt_state [simp]: "snd (run_stmt e (\<lambda>s. (a s, s)) s) = s"
  using run_stmt_state [of e "\<lambda>s. (a s, s)" s] by auto

text \<open>The lookup writes nothing, so an InsertJob ends in the state of its INSERT, if it sends one.\<close>

lemma InsertJob_state:
  "snd (InsertJob e1 e2 p s) = s \<or> snd (InsertJob e1 e2 p s) = snd (insert_new e2 p s)"
  by (auto simp: InsertJob_def run_stmt_def split: option.split prod.split sum.split outcome.split)

lemma InsertJob_wf: "jobs_wf s \<Longrightarrow> jobs_wf (snd (InsertJob e1 e2 p s))"
  using InsertJob_state [of e1 e2 p s] insert_new_wf [of s e2 p] by auto

text \<open>Selected rows are rows of the table that satisfy the WHERE clause.\<close>

lemma next_jobs_sub:
  "r \<in> set (next_jobs e ns qs n rows) \<Longrightarrow>
    r \<in> set rows \<and> fetchable (pgNow e) ns qs r \<and> jID r \<notin> set (pgLocked e)"
  using set_top_by unfolding next_jobs_def by fastforce

lemma chosen_by_id:
  "distinct (map jID rows) \<Longrightarrow> r \<in> set rows \<Longrightarrow>
    jID r \<in> jID ` set (next_jobs e ns qs n rows) \<longleftrightarrow> r \<in> set (next_jobs e ns qs n rows)"
  using distinct_key_eq [of jID rows r] by (auto dest: next_jobs_sub)

lemma fetch_stmt_wf: "jobs_wf s \<Longrightarrow> jobs_wf (snd (fetch_stmt ord e ns qs limit w s))"
proof -
  assume wf: "jobs_wf s"
  have "jobs_wf (s\<lparr>tJobs := update_where
      (\<lambda>r. jID r \<in> jID ` set (next_jobs e ns qs (nat limit) (tJobs s))) (claim (pgNow e) w) (tJobs s)\<rparr>)"
    using wf by (intro claim_wf)
      (auto simp: jobs_wf_def chosen_by_id fetchable_def dest!: next_jobs_sub)
  then show ?thesis using wf by (simp add: fetch_stmt_def Let_def)
qed

lemma FetchJobs_state:
  "snd (FetchJobs ord e ns qs limit w s) = s \<or>
   snd (FetchJobs ord e ns qs limit w s) = snd (fetch_stmt ord e ns qs limit w s)"
  by (simp add: FetchJobs_def run_stmt_def split: outcome.split)

lemma FetchJobs_wf: "jobs_wf s \<Longrightarrow> jobs_wf (snd (FetchJobs ord e ns qs limit w s))"
  using FetchJobs_state [of ord e ns qs limit w s] fetch_stmt_wf [of s ord e ns qs limit w] by auto

lemma CompleteJob_wf: "jobs_wf s \<Longrightarrow> jobs_wf (snd (CompleteJob e i s))"
  unfolding CompleteJob_def
  by (rule run_stmt_keeps, assumption)
    (simp, rule jobs_wf_update, simp_all add: complete_upd.key_kept live_key_complete)

lemma CancelJob_wf: "jobs_wf s \<Longrightarrow> jobs_wf (snd (CancelJob e i s))"
  unfolding CancelJob_def
  by (rule run_stmt_keeps, assumption)
    (simp, rule jobs_wf_update, simp_all add: cancel_upd.key_kept live_key_cancel)

lemma Promote_wf: "jobs_wf s \<Longrightarrow> jobs_wf (snd (PromoteScheduledJobs e ns s))"
  unfolding PromoteScheduledJobs_def
  by (rule run_stmt_keeps, assumption)
    (simp, rule jobs_wf_update, simp_all add: promote_upd.key_kept live_key_promote)

text \<open>The index check of FailJob is what keeps a revived job from colliding.\<close>

lemma idem_unique_revive:
  assumes dist: "distinct (map jID rows)" and uniq: "idem_unique rows"
    and key: "\<And>r. jID (f r) = jID r"
    and free: "\<And>r. r \<in> set rows \<Longrightarrow> jID r = i \<Longrightarrow> \<not> idem_clash (f r) rows"
  shows "idem_unique (update_where (\<lambda>r. jID r = i) f rows)"
proof -
  have one: "jID t = i" if "r \<in> set rows" "jID r = i" "t \<in> set rows"
    "live_key (f r) \<noteq> None" "live_key t = live_key (f r)" for r t
    using free [OF that(1,2)] that key unfolding idem_clash_iff by metis
  show ?thesis
    unfolding idem_unique_iff
  proof (intro ballI impI)
    fix r t
    assume "r \<in> set (update_where (\<lambda>r. jID r = i) f rows)"
      and t: "t \<in> set (update_where (\<lambda>r. jID r = i) f rows)"
      and live: "live_key r \<noteq> None" and eq: "live_key t = live_key r"
    from this(1) show "jID t = jID r"
    proof (cases rule: in_update_whereE)
      case r: kept
      from t show ?thesis
      proof (cases rule: in_update_whereE)
        case kept
        with r live eq uniq show ?thesis unfolding idem_unique_iff by metis
      next
        case (changed t0)
        with r live eq one [of t0 r] show ?thesis by metis
      qed
    next
      case r: (changed r0)
      from t show ?thesis
      proof (cases rule: in_update_whereE)
        case kept
        with r live eq one [of r0 t] key show ?thesis by metis
      next
        case (changed t0)
        with r key show ?thesis by metis
      qed
    qed
  qed
qed

lemma FailJob_wf: "jobs_wf s \<Longrightarrow> jobs_wf (snd (FailJob e i msg at s))"
proof -
  let ?f = "fail_row (pgNow e) msg at"
  let ?rows = "update_where (\<lambda>r. jID r = i) ?f (tJobs s)"
  assume wf: "jobs_wf s"
  have dist: "distinct (map jID ?rows)"
    using wf by (simp add: jobs_wf_def fail_upd.distinct_update)
  have ids: "\<forall>r \<in> set ?rows. jID r < seqJobs s"
    using wf by (auto simp: jobs_wf_def set_update_where fail_upd.key_kept)
  have "jobs_wf (s\<lparr>tJobs := ?rows\<rparr>)"
    if "\<not> list_ex (\<lambda>r. jID r = i \<and> idem_clash (?f r) (tJobs s)) (tJobs s)"
  proof -
    have free: "\<not> idem_clash (?f r) (tJobs s)" if "r \<in> set (tJobs s)" "jID r = i" for r
      using \<open>\<not> list_ex _ _\<close> that unfolding list_ex_iff by blast
    have "idem_unique ?rows"
      using wf free fail_upd.key_kept by (intro idem_unique_revive) (simp_all add: jobs_wf_def)
    then show ?thesis using dist ids by (simp add: jobs_wf_def)
  qed
  then show ?thesis
    unfolding FailJob_def Let_def using wf
    by (intro run_stmt_keeps [where P = jobs_wf]) (auto split: if_split)
qed

end
