(* ===== verification/Samples.thy ===== *)
theory Samples
  imports Job_Invariants
begin

text \<open>
  A small database on which the properties are evaluated: job 1 is running for a worker and
  holds an idempotency key, job 2 is available, job 3 is available with a higher priority,
  job 4 is scheduled.
\<close>

definition sample_params :: InsertJobParams where
  "sample_params =
    \<lparr>ipKind = ''mail'', ipQueue = ''default'', ipNamespace = ''ns'', ipPriority = 0,
     ipState = JobStateAvailable, ipPayload = JObj [], ipMetadata = JObj [], ipScheduledAt = 10,
     ipMaxAttempts = 25, ipIdempotencyKey = '''', ipWorkflowRunID = None, ipStepID = ''''\<rparr>"

definition sample_job :: "int \<Rightarrow> JobRow" where
  "sample_job i = new_job 10 i sample_params"

definition sample_rows :: "JobRow list" where
  "sample_rows =
    [claim 20 ''w1'' (sample_job 1)\<lparr>jIdempotencyKey := Some ''k''\<rparr>, sample_job 2,
     (sample_job 3)\<lparr>jPriority := 5\<rparr>, (sample_job 4)\<lparr>jState := JobStateScheduled, jScheduledAt := 90\<rparr>]"

definition sample_db :: db where
  "sample_db = empty_db\<lparr>tJobs := sample_rows, seqJobs := 5\<rparr>"

lemmas sample_defs =
  sample_db_def sample_rows_def sample_job_def sample_params_def new_job_def claim_def empty_db_def
  nonempty_def

lemma sample_wf: "jobs_wf sample_db"
  by (simp add: jobs_wf_def idem_unique_def idem_clash_def live_key_def sample_defs)

lemma rev_rearranges: "\<forall>xs :: 'a list. mset (rev xs) = mset xs"
  by simp

end
