(* ===== verification/Job_Spec.thy ===== *)
theory Job_Spec
  imports Samples
begin

text \<open>
  What the job statements promise: the lookup equations of every statement, which jobs a
  fetch returns, and its exact effect.
\<close>

section \<open>Lookup equations\<close>

definition job_lookup :: "int \<Rightarrow> db \<Rightarrow> JobRow option" where
  "job_lookup i s = find_row jID i (tJobs s)"

lemma lookup_CompleteJob:
  "pgOutcome e = Done \<Longrightarrow> job_lookup j (snd (CompleteJob e i s)) =
    (if j = i then map_option (complete_row (pgNow e)) (job_lookup i s) else job_lookup j s)"
  by (simp add: stmt_simps run_stmt_def job_lookup_def complete_upd.find_update_key)

lemma lookup_CancelJob:
  "pgOutcome e = Done \<Longrightarrow> job_lookup j (snd (CancelJob e i s)) =
    (if j = i then map_option (\<lambda>r. if terminal (jState r) then r else cancel_row (pgNow e) r)
       (job_lookup i s) else job_lookup j s)"
  by (auto simp: stmt_simps run_stmt_def job_lookup_def cancel_upd.find_update
      split: option.split dest: find_row_SomeD)

lemma lookup_Promote:
  "pgOutcome e = Done \<Longrightarrow> job_lookup j (snd (PromoteScheduledJobs e ns s)) =
    map_option (\<lambda>r. if due (pgNow e) ns r then promote_row (pgNow e) r else r) (job_lookup j s)"
  by (simp add: stmt_simps run_stmt_def job_lookup_def promote_upd.find_update split: option.split)

lemma lookup_FailJob:
  assumes "pgOutcome e = Done" and "fst (FailJob e i msg at s) = Inr ()"
  shows "job_lookup j (snd (FailJob e i msg at s)) =
    (if j = i then map_option (fail_row (pgNow e) msg at) (job_lookup i s) else job_lookup j s)"
  using assms
  by (simp add: FailJob_def Let_def run_stmt_def job_lookup_def fail_upd.find_update_key split: if_splits)

lemma lookup_SomeD: "job_lookup i s = Some r \<Longrightarrow> r \<in> set (tJobs s) \<and> jID r = i"
  unfolding job_lookup_def by (rule find_row_SomeD)

lemma lookup_iff:
  "jobs_wf s \<Longrightarrow> job_lookup i s = Some r \<longleftrightarrow> r \<in> set (tJobs s) \<and> jID r = i"
  by (simp add: job_lookup_def jobs_wf_def find_row_iff)

text \<open>Without an idempotency key, or when discarding, FailJob cannot collide.\<close>

lemma FailJob_no_clash:
  assumes "pgOutcome e = Done"
    and "\<And>r. r \<in> set (tJobs s) \<Longrightarrow> jID r = i \<Longrightarrow> at = None \<or> jIdempotencyKey r = None"
  shows "fst (FailJob e i msg at s) = Inr ()"
proof -
  have "\<not> idem_clash (fail_row (pgNow e) msg at r) (tJobs s)"
    if "r \<in> set (tJobs s)" "jID r = i" for r
    using assms(2) [OF that] by (auto simp: idem_clash_def live_key_def row_simps split: option.split)
  then show ?thesis
    using assms(1) by (auto simp: FailJob_def Let_def run_stmt_def list_ex_iff)
qed

section \<open>Fetching\<close>

definition candidates :: "pg \<Rightarrow> string \<Rightarrow> string list \<Rightarrow> db \<Rightarrow> JobRow list" where
  "candidates e ns qs s =
    filter (\<lambda>r. fetchable (pgNow e) ns qs r \<and> jID r \<notin> set (pgLocked e)) (tJobs s)"

lemma next_jobs_candidates: "next_jobs e ns qs n (tJobs s) = top_by fetch_key n (candidates e ns qs s)"
  by (simp add: next_jobs_def candidates_def)

lemma fetch_key_claim [simp]: "fetch_key (claim now w r) = fetch_key r"
  by (simp add: fetch_key_def row_simps)

lemma claim_id [simp]: "jID (claim now w r) = jID r"
  by (rule claim_upd.key_kept)

text \<open>A fetch that answers has run its statement.\<close>

lemma FetchJobs_InrD:
  assumes "FetchJobs ord e ns qs limit w s = (Inr got, s')"
  defines "chosen \<equiv> next_jobs e ns qs (nat limit) (tJobs s)"
  shows "0 \<le> limit" and "\<forall>r \<in> set chosen. sint (jAttempt r) \<noteq> 32767"
    and "s' = s\<lparr>tJobs := update_where (\<lambda>r. jID r \<in> jID ` set chosen) (claim (pgNow e) w) (tJobs s)\<rparr>"
    and "got = ord (filter (\<lambda>r. jID r \<in> jID ` set chosen) (tJobs s'))"
  using assms
  by (auto simp: FetchJobs_def run_stmt_def fetch_stmt_def Let_def list_ex_iff
      split: outcome.splits if_splits)

lemma filter_update_ids:
  "filter (\<lambda>r. jID r \<in> A) (update_where (\<lambda>r. jID r \<in> A) (claim now w) rows) =
    map (claim now w) (filter (\<lambda>r. jID r \<in> A) rows)"
  by (induction rows) auto

lemma filter_chosen:
  assumes "distinct (map jID rows)"
  shows "mset (filter (\<lambda>r. jID r \<in> jID ` set (next_jobs e ns qs n rows)) rows) =
    mset (next_jobs e ns qs n rows)"
proof -
  have dist: "distinct rows" using assms distinct_map by blast
  have "filter (\<lambda>r. jID r \<in> jID ` set (next_jobs e ns qs n rows)) rows =
      filter (\<lambda>r. r \<in> set (next_jobs e ns qs n rows)) rows"
    using chosen_by_id [OF assms] by (intro filter_cong) simp_all
  moreover have "distinct (next_jobs e ns qs n rows)"
    unfolding next_jobs_def by (rule distinct_top_by) (simp add: dist)
  moreover have "set (filter (\<lambda>r. r \<in> set (next_jobs e ns qs n rows)) rows) = set (next_jobs e ns qs n rows)"
    using next_jobs_sub by fastforce
  ultimately show ?thesis
    using dist by (metis distinct_filter set_eq_iff_mset_eq_distinct)
qed

text \<open>What a fetch returns, as a multiset: the chosen rows, claimed.\<close>

lemma FetchJobs_returns:
  assumes wf: "jobs_wf s" and run: "FetchJobs ord e ns qs limit w s = (Inr got, s')"
    and ord: "\<forall>xs. mset (ord xs) = mset xs"
  shows "mset got = mset (map (claim (pgNow e) w) (next_jobs e ns qs (nat limit) (tJobs s)))"
proof -
  have "distinct (map jID (tJobs s))" using wf by (simp add: jobs_wf_def)
  note m = filter_chosen [OF this, of e ns qs "nat limit"]
  have "mset got = mset (map (claim (pgNow e) w)
      (filter (\<lambda>r. jID r \<in> jID ` set (next_jobs e ns qs (nat limit) (tJobs s))) (tJobs s)))"
    using FetchJobs_InrD(3,4) [OF run] ord by (simp add: filter_update_ids)
  then show ?thesis unfolding mset_map m .
qed

text \<open>C6 A fetch takes the right jobs: as many as the limit and the candidates allow, each a
  candidate (of the namespace and queues, available, due, not locked by another
  transaction) marked running with one more attempt, and no candidate left behind comes
  before one that was taken in the order priority descending, scheduled time, id.\<close>

theorem fetch_takes_the_best:
  assumes "jobs_wf s" and "FetchJobs ord e ns qs limit w s = (Inr got, s')"
    and "\<forall>xs. mset (ord xs) = mset xs"
  shows "length got = min (nat limit) (length (candidates e ns qs s)) \<and>
    (\<forall>g \<in> set got. \<exists>r \<in> set (candidates e ns qs s). g = claim (pgNow e) w r) \<and>
    (\<forall>g \<in> set got. \<forall>r \<in> set (candidates e ns qs s).
      jID r \<notin> jID ` set got \<longrightarrow> fetch_key g \<le> fetch_key r)"
proof (intro conjI)
  let ?top = "top_by fetch_key (nat limit) (candidates e ns qs s)"
  have m: "mset got = mset (map (claim (pgNow e) w) ?top)"
    using FetchJobs_returns [OF assms] by (simp add: next_jobs_candidates)
  have set_got: "set got = claim (pgNow e) w ` set ?top"
    using mset_eq_setD [OF m] by simp
  show "length got = min (nat limit) (length (candidates e ns qs s))"
    using mset_eq_length [OF m] by (simp add: length_top_by)
  show "\<forall>g \<in> set got. \<exists>r \<in> set (candidates e ns qs s). g = claim (pgNow e) w r"
    using set_got set_top_by [of fetch_key "nat limit"] by auto
  show "\<forall>g \<in> set got. \<forall>r \<in> set (candidates e ns qs s).
      jID r \<notin> jID ` set got \<longrightarrow> fetch_key g \<le> fetch_key r"
  proof (intro ballI impI)
    fix g r
    assume "g \<in> set got" and r: "r \<in> set (candidates e ns qs s)" and out: "jID r \<notin> jID ` set got"
    then obtain t where t: "t \<in> set ?top" "g = claim (pgNow e) w t" using set_got by auto
    have "r \<notin> set ?top" using out set_got by (auto simp: image_iff)
    with t r show "fetch_key g \<le> fetch_key r" by (simp add: top_by_best)
  qed
qed

text \<open>C37 A fetch changes exactly the jobs it returns: looked up afterwards, a returned job is the
  returned row, and every other job is as it was.\<close>

theorem fetch_exact_effect:
  assumes "jobs_wf s" and "FetchJobs ord e ns qs limit w s = (Inr got, s')"
    and "\<forall>xs. mset (ord xs) = mset xs"
  shows "job_lookup i s' =
    (if i \<in> jID ` set got then find (\<lambda>g. jID g = i) got else job_lookup i s)"
proof -
  let ?ids = "jID ` set (next_jobs e ns qs (nat limit) (tJobs s))"
  have m: "mset got = mset (map (claim (pgNow e) w) (next_jobs e ns qs (nat limit) (tJobs s)))"
    by (rule FetchJobs_returns [OF assms])
  have ids: "jID ` set got = ?ids" using mset_eq_setD [OF m] by (simp add: image_image)
  have s': "s' = s\<lparr>tJobs := update_where (\<lambda>r. jID r \<in> ?ids) (claim (pgNow e) w) (tJobs s)\<rparr>"
    by (rule FetchJobs_InrD(3) [OF assms(2)])
  have wf': "jobs_wf s'" using FetchJobs_wf [OF assms(1), of ord e ns qs limit w] assms(2) by simp
  have got: "mset got = mset (filter (\<lambda>r. jID r \<in> ?ids) (tJobs s'))"
    using FetchJobs_InrD(4) [OF assms(2)] assms(3) by simp
  have dist: "distinct (map jID got)"
  proof -
    have "distinct (map jID (filter (\<lambda>r. jID r \<in> ?ids) (tJobs s')))"
      using wf' by (simp add: jobs_wf_def distinct_map_filter)
    moreover have "mset (map jID got) = mset (map jID (filter (\<lambda>r. jID r \<in> ?ids) (tJobs s')))"
      using got by (metis mset_map)
    ultimately show ?thesis by (metis mset_eq_imp_distinct_iff)
  qed
  show ?thesis
  proof (cases "i \<in> ?ids")
    case True
    then have "i \<in> jID ` set got" using ids by simp
    then obtain g where g: "g \<in> set got" "jID g = i" by auto
    then have "g \<in> set (tJobs s')" using mset_eq_setD [OF got] by auto
    then have "job_lookup i s' = Some g" using g wf' by (simp add: lookup_iff)
    moreover have "find (\<lambda>g. jID g = i) got = Some g"
      using find_row_distinct [OF dist g(1)] g(2) by (simp add: find_row_def)
    ultimately show ?thesis using True ids by simp
  next
    case False
    then have "job_lookup i s' = job_lookup i s"
      unfolding s' job_lookup_def
      by (auto simp: claim_upd.find_update split: option.split dest: find_row_SomeD)
    then show ?thesis using False ids by simp
  qed
qed

definition sample_fetch :: "(error + JobRow list) \<times> db" where
  "sample_fetch = FetchJobs rev (pg_at 50) ''ns'' [''default''] 1 ''w2'' sample_db"

definition sample_got :: "JobRow list" where
  "sample_got = [claim 50 ''w2'' ((sample_job 3)\<lparr>jPriority := 5\<rparr>)]"

lemma sample_fetch_got: "sample_fetch = (Inr sample_got, snd sample_fetch)"
proof -
  have "fst sample_fetch = Inr sample_got" by code_simp
  then show ?thesis by (metis prod.collapse)
qed

lemmas sample_fetched = sample_wf sample_fetch_got [unfolded sample_fetch_def] rev_rearranges

theorem fetch_takes_the_best_witness:
  "fst sample_fetch = Inr sample_got \<and>
   length sample_got = min 1 (length (candidates (pg_at 50) ''ns'' [''default''] sample_db)) \<and>
   fetch_key (hd sample_got) \<le> fetch_key (sample_job 2)"
proof -
  have "fst sample_fetch = Inr sample_got" "jID ` set sample_got = {3}" "hd sample_got \<in> set sample_got"
    using sample_fetch_got by (metis fst_conv, simp_all add: sample_got_def sample_defs)
  moreover have "sample_job 2 \<in> set (candidates (pg_at 50) ''ns'' [''default''] sample_db)" by code_simp
  moreover have "jID (sample_job 2) = 2" by (simp add: sample_job_def new_job_def)
  ultimately show ?thesis using fetch_takes_the_best [OF sample_fetched] by simp
qed

theorem fetch_exact_effect_witness:
  "job_lookup 3 (snd sample_fetch) = Some (hd sample_got) \<and>
   job_lookup 2 (snd sample_fetch) = Some (sample_job 2)"
proof -
  have "job_lookup 2 sample_db = Some (sample_job 2)" by code_simp
  moreover have "jID ` set sample_got = {3}" "find (\<lambda>g. jID g = 3) sample_got = Some (hd sample_got)"
    by (simp_all add: sample_got_def sample_job_def claim_def new_job_def)
  ultimately show ?thesis
    using fetch_exact_effect [OF sample_fetched, of 3] fetch_exact_effect [OF sample_fetched, of 2]
    by (simp add: sample_fetch_def [symmetric])
qed

end
