(* ===== verification/Job_Idempotency.thy ===== *)
theory Job_Idempotency
  imports Job_Spec
begin

text \<open>
  Idempotent insertion: a second insert with a live key returns the job of the first, and
  at most one live job exists for a key after any interleaving of the statements of any
  number of clients.
\<close>

section \<open>Finding the live job of a key\<close>

lemma live_key_eq:
  "live_key r = Some (ns, kind, k) \<longleftrightarrow>
    jNamespace r = ns \<and> jKind r = kind \<and> jIdempotencyKey r = Some k \<and> \<not> terminal (jState r)"
  by (auto simp: live_key_def split: option.split)

lemma find_live_SomeD:
  "find_live ns kind k rows = Some r \<Longrightarrow> r \<in> set rows \<and> live_key r = Some (ns, kind, k)"
  unfolding find_live_def by (auto simp: find_Some_iff live_key_eq)

lemma find_live_None_iff:
  "find_live ns kind k rows = None \<longleftrightarrow> (\<forall>r \<in> set rows. live_key r \<noteq> Some (ns, kind, k))"
  by (auto simp: find_live_def find_None_iff live_key_eq)

lemma jobs_wf_live_unique:
  "jobs_wf s \<Longrightarrow> r \<in> set (tJobs s) \<Longrightarrow> t \<in> set (tJobs s) \<Longrightarrow>
    live_key r = Some key \<Longrightarrow> live_key t = Some key \<Longrightarrow> r = t"
  unfolding jobs_wf_def idem_unique_iff using distinct_key_eq [of jID] by (metis option.distinct(1))

lemma find_live_wf:
  assumes "jobs_wf s" and "r \<in> set (tJobs s)" and "live_key r = Some (ns, kind, k)"
  shows "find_live ns kind k (tJobs s) = Some r"
proof (cases "find_live ns kind k (tJobs s)")
  case None
  then show ?thesis using assms(2,3) unfolding find_live_None_iff by blast
next
  case (Some t)
  then show ?thesis
    using find_live_SomeD [OF Some] assms jobs_wf_live_unique [of s r t] by simp
qed

section \<open>Inserting\<close>

lemma insert_new_InrD:
  assumes "insert_new e p s = (Inr (r, d), s')"
  shows "\<not> d \<and> r = new_job (pgNow e) (seqJobs s) p \<and> \<not> idem_clash r (tJobs s) \<and>
    s' = s\<lparr>seqJobs := seqJobs s + 1, tJobs := tJobs s @ [r]\<rparr>"
  using assms
  by (auto simp: insert_new_def run_stmt_def insert_stmt_def Let_def
      split: prod.splits sum.splits outcome.splits if_splits)

text \<open>An InsertJob with a key that answers leaves the job it returns stored.\<close>

lemma InsertJob_stored:
  assumes "jobs_wf s" and "InsertJob e1 e2 p s = (Inr (r, d), s')"
    and "nonempty (ipIdempotencyKey p) = Some k" and "\<not> terminal (ipState p)"
  shows "r \<in> set (tJobs s') \<and> live_key r = Some (ipNamespace p, ipKind p, k)"
proof -
  have ran: "pgOutcome e1 = Done"
    using assms(2,3) by (cases "pgOutcome e1") (simp_all add: InsertJob_def run_stmt_def)
  have "(case find_live (ipNamespace p) (ipKind p) k (tJobs s) of
      Some x \<Rightarrow> (Inr (x, True), s) | None \<Rightarrow> insert_new e2 p s) = (Inr (r, d), s')"
    using assms(2,3) ran by (simp add: InsertJob_def run_stmt_def split: option.splits)
  then consider (dup) "find_live (ipNamespace p) (ipKind p) k (tJobs s) = Some r" "s' = s"
    | (new) "insert_new e2 p s = (Inr (r, d), s')"
    by (cases "find_live (ipNamespace p) (ipKind p) k (tJobs s)") simp_all
  then show ?thesis
  proof cases
    case dup
    then show ?thesis using find_live_SomeD by metis
  next
    case new
    from insert_new_InrD [OF new] assms(3,4) show ?thesis
      by (auto simp: new_job_def live_key_eq)
  qed
qed

lemma insert_idempotent_row:
  assumes "jobs_wf s" and "InsertJob e1 e2 p s = (Inr (r, d), s')"
    and "ipIdempotencyKey p \<noteq> ''''" and "\<not> terminal (ipState p)"
    and "ipNamespace q = ipNamespace p" and "ipKind q = ipKind p"
    and "ipIdempotencyKey q = ipIdempotencyKey p" and "pgOutcome e3 = Done"
  shows "InsertJob e3 e4 q s' = (Inr (r, True), s')"
proof -
  have key: "nonempty (ipIdempotencyKey p) = Some (ipIdempotencyKey p)"
    using assms(3) by (simp add: nonempty_def)
  have wf': "jobs_wf s'" using InsertJob_wf [OF assms(1), of e1 e2 p] assms(2) by simp
  have "find_live (ipNamespace p) (ipKind p) (ipIdempotencyKey p) (tJobs s') = Some r"
    using InsertJob_stored [OF assms(1,2) key assms(4)] wf' by (intro find_live_wf) simp_all
  then show ?thesis
    using assms(5-8) key by (simp add: InsertJob_def run_stmt_def)
qed

lemma InsertJob_new:
  assumes "InsertJob e1 e2 p s = (Inr (r, d), s')" and "\<not> d"
  shows "insert_new e2 p s = (Inr (r, False), s')"
  using assms
  by (auto simp: InsertJob_def run_stmt_def dest: insert_new_InrD
      split: option.splits outcome.splits)

section \<open>Any interleaving of statements\<close>

text \<open>
  The statements of all clients, in the order in which the server runs them. The two
  statements of an InsertJob are not one transaction: the lookup writes nothing, and the
  INSERT may come after statements of other clients, so it is an event of its own.
\<close>

datatype job_event =
    Ev_Insert pg InsertJobParams
  | Ev_Fetch "JobRow list \<Rightarrow> JobRow list" pg string "string list" int string
  | Ev_Complete pg int
  | Ev_Fail pg int string "instant option"
  | Ev_Cancel pg int
  | Ev_Promote pg string

fun job_step :: "db \<Rightarrow> job_event \<Rightarrow> db" where
  "job_step s (Ev_Insert e p) = snd (insert_new e p s)"
| "job_step s (Ev_Fetch ord e ns qs limit w) = snd (FetchJobs ord e ns qs limit w s)"
| "job_step s (Ev_Complete e i) = snd (CompleteJob e i s)"
| "job_step s (Ev_Fail e i msg at) = snd (FailJob e i msg at s)"
| "job_step s (Ev_Cancel e i) = snd (CancelJob e i s)"
| "job_step s (Ev_Promote e ns) = snd (PromoteScheduledJobs e ns s)"

lemma job_step_wf: "jobs_wf s \<Longrightarrow> jobs_wf (job_step s ev)"
  by (cases ev) (simp_all add: insert_new_wf FetchJobs_wf CompleteJob_wf FailJob_wf CancelJob_wf Promote_wf)

interpretation job_runs: reach_inv job_step jobs_wf
  by unfold_locales (rule job_step_wf)

lemma empty_db_wf: "jobs_wf empty_db"
  by (simp add: jobs_wf_def empty_db_def idem_unique_def)

text \<open>C12 At most one live job per idempotency key: whatever statements any number of clients
  send, in whatever order they run and however they end, two stored jobs that are not in
  a final state and share namespace, kind and key are the same job.\<close>

theorem one_live_job_per_key:
  assumes "r \<in> set (tJobs (foldl job_step empty_db evs))"
    and "t \<in> set (tJobs (foldl job_step empty_db evs))"
    and "live_key r = Some key" and "live_key t = Some key"
  shows "r = t"
proof -
  have "jobs_wf (foldl job_step empty_db evs)" by (rule job_runs.run_inv [OF empty_db_wf])
  then show ?thesis using assms by (rule jobs_wf_live_unique)
qed

text \<open>
  The columns no statement rewrites, and the fact that rows are never deleted: a job once
  stored stays, with the same identity.
\<close>

definition job_identity ::
  "JobRow \<Rightarrow> string \<times> string \<times> string \<times> json \<times> int16 \<times> int16 \<times> string option \<times> int option" where
  "job_identity r = (jKind r, jQueue r, jNamespace r, jPayload r, jPriority r, jMaxAttempts r,
    jIdempotencyKey r, jWorkflowRunID r)"

lemma identity_row [simp]:
  "job_identity (claim now w r) = job_identity r"
  "job_identity (complete_row now r) = job_identity r"
  "job_identity (fail_row now msg at r) = job_identity r"
  "job_identity (cancel_row now r) = job_identity r"
  "job_identity (promote_row now r) = job_identity r"
  by (simp_all add: job_identity_def row_simps)

definition same_identity :: "int \<Rightarrow> JobRow \<Rightarrow> db \<Rightarrow> bool" where
  "same_identity i r0 s \<longleftrightarrow>
    (case job_lookup i s of None \<Rightarrow> False | Some r \<Rightarrow> job_identity r = job_identity r0)"

lemma same_identity_update:
  assumes "\<And>r. jID (f r) = jID r" and "\<And>r. job_identity (f r) = job_identity r"
  shows "same_identity i r0 (s\<lparr>tJobs := update_where p f (tJobs s)\<rparr>) = same_identity i r0 s"
proof -
  have "keyed_update jID f" using assms(1) by unfold_locales
  from keyed_update.find_update_prop [OF this, of "\<lambda>r. job_identity r = job_identity r0"] assms(2)
  show ?thesis by (simp add: same_identity_def job_lookup_def)
qed

lemma same_identity_insert: "same_identity i r0 s \<Longrightarrow> same_identity i r0 (snd (insert_stmt now p s))"
  by (auto simp: same_identity_def job_lookup_def insert_stmt_def Let_def split: option.splits)

lemma same_identity_step: "same_identity i r0 s \<Longrightarrow> same_identity i r0 (job_step s ev)"
proof (cases ev)
  case (Ev_Insert e p)
  assume "same_identity i r0 s"
  then show ?thesis unfolding Ev_Insert job_step.simps insert_new_state
    by (intro run_stmt_keeps [where P = "same_identity i r0"]) (auto intro: same_identity_insert)
next
  case (Ev_Fetch ord e ns qs limit w)
  assume *: "same_identity i r0 s"
  then have "same_identity i r0 (snd (fetch_stmt ord e ns qs limit w s))"
    by (simp add: fetch_stmt_def Let_def same_identity_update)
  with * show ?thesis unfolding Ev_Fetch job_step.simps
    using FetchJobs_state [of ord e ns qs limit w s] by auto
next
  case (Ev_Complete e i')
  assume "same_identity i r0 s"
  then show ?thesis unfolding Ev_Complete job_step.simps CompleteJob_def
    by (intro run_stmt_keeps [where P = "same_identity i r0"])
      (auto simp: same_identity_update complete_upd.key_kept)
next
  case (Ev_Fail e i' msg at)
  assume "same_identity i r0 s"
  then show ?thesis unfolding Ev_Fail job_step.simps FailJob_def Let_def
    by (intro run_stmt_keeps [where P = "same_identity i r0"])
      (auto simp: same_identity_update fail_upd.key_kept)
next
  case (Ev_Cancel e i')
  assume "same_identity i r0 s"
  then show ?thesis unfolding Ev_Cancel job_step.simps CancelJob_def
    by (intro run_stmt_keeps [where P = "same_identity i r0"])
      (auto simp: same_identity_update cancel_upd.key_kept)
next
  case (Ev_Promote e ns)
  assume "same_identity i r0 s"
  then show ?thesis unfolding Ev_Promote job_step.simps PromoteScheduledJobs_def
    by (intro run_stmt_keeps [where P = "same_identity i r0"])
      (auto simp: same_identity_update promote_upd.key_kept)
qed

interpretation identity_runs: reach_inv job_step "same_identity i r0" for i r0
  by unfold_locales (rule same_identity_step)

text \<open>A stored job is durable: whatever statements any number of clients send afterwards, the
  job is still stored, with the kind, queue, namespace, payload, priority, attempt limit,
  idempotency key and workflow it was inserted with.\<close>

theorem job_is_durable:
  assumes "job_lookup i s = Some r"
  shows "\<exists>r'. job_lookup i (foldl job_step s evs) = Some r' \<and> job_identity r' = job_identity r"
proof -
  have "same_identity i r s" using assms by (simp add: same_identity_def)
  then have "same_identity i r (foldl job_step s evs)" by (rule identity_runs.run_inv)
  then show ?thesis by (simp add: same_identity_def split: option.splits)
qed

text \<open>Two clients insert with one key after their lookups both found nothing.\<close>

definition sample_race :: "job_event list" where
  "sample_race =
    (let p = sample_params\<lparr>ipIdempotencyKey := ''k''\<rparr> in
     [Ev_Insert (pg_at 10) p, Ev_Insert (pg_at 11) p, Ev_Promote (pg_at 12) ''ns''])"

theorem one_live_job_per_key_witness:
  "live_key (hd (tJobs (foldl job_step empty_db sample_race))) = Some (''ns'', ''mail'', ''k'') \<and>
   last (tJobs (foldl job_step empty_db sample_race)) = hd (tJobs (foldl job_step empty_db sample_race))"
proof -
  let ?rows = "tJobs (foldl job_step empty_db sample_race)"
  have "?rows \<noteq> []" and k: "live_key (hd ?rows) = Some (''ns'', ''mail'', ''k'')"
    "live_key (last ?rows) = Some (''ns'', ''mail'', ''k'')" by code_simp+
  then have "hd ?rows \<in> set ?rows" "last ?rows \<in> set ?rows" by simp_all
  with k show ?thesis using one_live_job_per_key [of "last ?rows" sample_race "hd ?rows"] by metis
qed

theorem job_is_durable_witness:
  "\<exists>r'. job_lookup 3 (foldl job_step sample_db [Ev_Cancel (pg_at 60) 3, Ev_Complete (pg_at 61) 3]) = Some r' \<and>
    job_identity r' = job_identity ((sample_job 3)\<lparr>jPriority := 5\<rparr>)"
proof -
  have "job_lookup 3 sample_db = Some ((sample_job 3)\<lparr>jPriority := 5\<rparr>)" by code_simp
  then show ?thesis by (rule job_is_durable)
qed

end
