(* ===== verification/Enqueue.thy ===== *)
theory Enqueue
  imports Job_Idempotency
begin

text \<open>
  The public job API: the type \<open>Job\<close> of \<^verbatim>\<open>job.go\<close>, its conversion from a row
  (\<^verbatim>\<open>client.go\<close>, \<open>jobFromRow\<close>), and enqueuing (\<^verbatim>\<open>enqueue.go\<close>).
  \<^verbatim>\<open>time.Now()\<close> is called up to twice in one enqueue; the answers are arguments.
\<close>

section \<open>Jobs as the handlers see them\<close>

record Job =
  ID :: int
  Kind :: string
  Queue :: string
  Namespace :: string
  Priority :: int16
  State :: JobState
  Payload :: json
  Metadata :: "json option"
  ScheduledAt :: instant
  Attempt :: int16
  MaxAttempts :: int16
  AttemptedAt :: "instant option"
  AttemptedBy :: string
  CompletedAt :: "instant option"
  CancelledAt :: "instant option"
  DiscardedAt :: "instant option"
  Errors :: "AttemptError list"
  IdempotencyKey :: string
  WorkflowRunID :: "int option"
  StepID :: string
  CreatedAt :: instant
  UpdatedAt :: instant

fun IsTerminal :: "Job \<Rightarrow> bool" where
  "IsTerminal j =
    (case State j of
      JobStateCompleted \<Rightarrow> True
    | JobStateCancelled \<Rightarrow> True
    | JobStateDiscarded \<Rightarrow> True
    | _ \<Rightarrow> False)"

text \<open>
  \<open>jobFromRow\<close> sets every field but \<^verbatim>\<open>Metadata\<close> and \<^verbatim>\<open>Errors\<close>, which keep
  their zero values; a null text column becomes the empty string.
\<close>

definition text_or_empty :: "string option \<Rightarrow> string" where
  "text_or_empty x = (case x of None \<Rightarrow> '''' | Some s \<Rightarrow> s)"

definition jobFromRow :: "JobRow \<Rightarrow> Job" where
  "jobFromRow r =
    \<lparr>ID = jID r, Kind = jKind r, Queue = jQueue r, Namespace = jNamespace r,
     Priority = jPriority r, State = jState r, Payload = jPayload r, Metadata = None,
     ScheduledAt = jScheduledAt r, Attempt = jAttempt r, MaxAttempts = jMaxAttempts r,
     AttemptedAt = jAttemptedAt r, AttemptedBy = text_or_empty (jAttemptedBy r),
     CompletedAt = jCompletedAt r, CancelledAt = jCancelledAt r, DiscardedAt = jDiscardedAt r,
     Errors = [], IdempotencyKey = text_or_empty (jIdempotencyKey r),
     WorkflowRunID = jWorkflowRunID r, StepID = text_or_empty (jStepID r),
     CreatedAt = jCreatedAt r, UpdatedAt = jUpdatedAt r\<rparr>"

lemma IsTerminal_row [simp]: "IsTerminal (jobFromRow r) = terminal (jState r)"
  by (cases "jState r") (simp_all add: jobFromRow_def)

section \<open>Enqueuing\<close>

definition ErrInvalidJobKind :: error where
  "ErrInvalidJobKind = Sentinel 2 ''job kind is required''"

text \<open>A nil payload or metadata map is \<open>None\<close>.\<close>

record EnqueueParams =
  eqKind :: string
  eqPayload :: "go_value option"
  eqQueue :: string
  eqPriority :: int16
  eqScheduleAt :: instant
  eqIdempotencyKey :: string
  eqMetadata :: "go_value option"
  eqMaxAttempts :: int16
  eqWorkflowRunID :: "int option"
  eqStepID :: string

record EnqueueResult =
  erJob :: Job
  erDuplicate :: bool

text \<open>What one enqueue gets from outside: two readings of the clock and two statements.\<close>

record enqueue_env =
  evNow1 :: instant
  evNow2 :: instant
  evFind :: pg
  evInsert :: pg

definition insert_params ::
  "string \<Rightarrow> enqueue_env \<Rightarrow> EnqueueParams \<Rightarrow> json \<Rightarrow> json \<Rightarrow> InsertJobParams" where
  "insert_params ns ev p payload metadata =
    (let queue = (if eqQueue p = '''' then ''default'' else eqQueue p);
         scheduledAt = (if eqScheduleAt p = 0 then evNow1 ev else eqScheduleAt p);
         st = (if scheduledAt > evNow2 ev then JobStateScheduled else JobStateAvailable);
         maxAttempts = (if eqMaxAttempts p = 0 then 25 else eqMaxAttempts p)
     in \<lparr>ipKind = eqKind p, ipQueue = queue, ipNamespace = ns, ipPriority = eqPriority p,
         ipState = st, ipPayload = payload, ipMetadata = metadata, ipScheduledAt = scheduledAt,
         ipMaxAttempts = maxAttempts, ipIdempotencyKey = eqIdempotencyKey p,
         ipWorkflowRunID = eqWorkflowRunID p, ipStepID = eqStepID p\<rparr>)"

definition enqueueJob ::
  "string \<Rightarrow> enqueue_env \<Rightarrow> EnqueueParams \<Rightarrow> db \<Rightarrow> (error + EnqueueResult) \<times> db" where
  "enqueueJob ns ev p s =
    (if eqKind p = '''' then (Inl ErrInvalidJobKind, s)
     else case (case eqPayload p of None \<Rightarrow> Inr (JObj []) | Some v \<Rightarrow> v) of
       Inl err \<Rightarrow> (Inl err, s)
     | Inr payload \<Rightarrow>
       (case (case eqMetadata p of None \<Rightarrow> Inr (JObj []) | Some v \<Rightarrow> v) of
         Inl err \<Rightarrow> (Inl err, s)
       | Inr metadata \<Rightarrow>
         (case InsertJob (evFind ev) (evInsert ev) (insert_params ns ev p payload metadata) s of
           (Inl err, s') \<Rightarrow> (Inl err, s')
         | (Inr (row, duplicate), s') \<Rightarrow>
             (Inr \<lparr>erJob = jobFromRow row, erDuplicate = duplicate\<rparr>, s'))))"

text \<open>\<open>Enqueue\<close> and \<open>EnqueueTx\<close> differ in the querier, that is in the state \<open>s\<close>.\<close>

definition Enqueue ::
  "string \<Rightarrow> enqueue_env \<Rightarrow> EnqueueParams \<Rightarrow> db \<Rightarrow> (error + EnqueueResult) \<times> db" where
  "Enqueue ns ev p s = enqueueJob ns ev p s"

definition EnqueueTx ::
  "string \<Rightarrow> enqueue_env \<Rightarrow> EnqueueParams \<Rightarrow> db \<Rightarrow> (error + EnqueueResult) \<times> db" where
  "EnqueueTx ns ev p tx = enqueueJob ns ev p tx"

text \<open>The first error ends the loop; the results collected so far are dropped.\<close>

fun EnqueueMany ::
  "string \<Rightarrow> (enqueue_env \<times> EnqueueParams) list \<Rightarrow> db \<Rightarrow> (error + EnqueueResult list) \<times> db" where
  "EnqueueMany ns [] s = (Inr [], s)"
| "EnqueueMany ns ((ev, p) # ps) s =
    (case Enqueue ns ev p s of
      (Inl err, s') \<Rightarrow> (Inl err, s')
    | (Inr res, s') \<Rightarrow>
        (case EnqueueMany ns ps s' of
          (Inl err, s'') \<Rightarrow> (Inl err, s'')
        | (Inr rs, s'') \<Rightarrow> (Inr (res # rs), s'')))"

section \<open>Properties of enqueuing\<close>

lemma insert_params_simps [simp]:
  "ipKind (insert_params ns ev p pl md) = eqKind p"
  "ipNamespace (insert_params ns ev p pl md) = ns"
  "ipIdempotencyKey (insert_params ns ev p pl md) = eqIdempotencyKey p"
  "\<not> terminal (ipState (insert_params ns ev p pl md))"
  by (simp_all add: insert_params_def Let_def)

lemma InsertJob_wfD: "jobs_wf s \<Longrightarrow> InsertJob e1 e2 p s = (x, s') \<Longrightarrow> jobs_wf s'"
  using InsertJob_wf [of s e1 e2 p] by simp

lemma Enqueue_wf: "jobs_wf s \<Longrightarrow> jobs_wf (snd (Enqueue ns ev p s))"
  by (auto simp: Enqueue_def enqueueJob_def split: sum.split prod.split dest: InsertJob_wfD)

lemma Enqueue_InrE:
  assumes "Enqueue ns ev p s = (Inr res, s')"
  obtains pl md row where
    "InsertJob (evFind ev) (evInsert ev) (insert_params ns ev p pl md) s = (Inr (row, erDuplicate res), s')"
    "erJob res = jobFromRow row" "eqKind p \<noteq> ''''"
    "(case eqPayload p of None \<Rightarrow> Inr (JObj []) | Some v \<Rightarrow> v) = Inr pl"
    "(case eqMetadata p of None \<Rightarrow> Inr (JObj []) | Some v \<Rightarrow> v) = Inr md"
  using assms that
  by (auto simp: Enqueue_def enqueueJob_def split: if_splits sum.splits prod.splits)

text \<open>C40 Enqueue is idempotent through the public API: after a successful enqueue with an
  idempotency key, every further enqueue of the same kind and key in the namespace, whatever
  its other parameters, returns the same job as a duplicate and stores nothing.\<close>

theorem enqueue_idempotent:
  assumes "jobs_wf s" and "Enqueue ns ev p s = (Inr res, s')" and "eqIdempotencyKey p \<noteq> ''''"
    and "eqKind q = eqKind p" and "eqIdempotencyKey q = eqIdempotencyKey p"
    and "eqPayload q = None \<or> (\<exists>v. eqPayload q = Some (Inr v))"
    and "eqMetadata q = None \<or> (\<exists>v. eqMetadata q = Some (Inr v))"
    and "pgOutcome (evFind ev') = Done"
  shows "Enqueue ns ev' q s' = (Inr \<lparr>erJob = erJob res, erDuplicate = True\<rparr>, s')"
proof -
  from assms(2) obtain pl md row where
    ins: "InsertJob (evFind ev) (evInsert ev) (insert_params ns ev p pl md) s = (Inr (row, erDuplicate res), s')"
    and job: "erJob res = jobFromRow row" and kind: "eqKind p \<noteq> ''''"
    by (rule Enqueue_InrE)
  have "InsertJob (evFind ev') (evInsert ev') (insert_params ns ev' q pl' md') s'
      = (Inr (row, True), s')" for pl' md'
    using assms(3-5,8) by (intro insert_idempotent_row [OF assms(1) ins]) simp_all
  then show ?thesis
    using assms(4,6,7) kind job by (auto simp: Enqueue_def enqueueJob_def)
qed

definition sample_enqueue :: EnqueueParams where
  "sample_enqueue =
    \<lparr>eqKind = ''mail'', eqPayload = None, eqQueue = '''', eqPriority = 9, eqScheduleAt = 0,
     eqIdempotencyKey = ''order-1'', eqMetadata = None, eqMaxAttempts = 0, eqWorkflowRunID = None,
     eqStepID = ''''\<rparr>"

definition sample_env :: "instant \<Rightarrow> enqueue_env" where
  "sample_env t = \<lparr>evNow1 = t, evNow2 = t, evFind = pg_at t, evInsert = pg_at t\<rparr>"

definition sample_result :: EnqueueResult where
  "sample_result =
    (case fst (Enqueue ''ns'' (sample_env 60) sample_enqueue sample_db) of
      Inr r \<Rightarrow> r | Inl _ \<Rightarrow> \<lparr>erJob = jobFromRow (sample_job 0), erDuplicate = True\<rparr>)"

lemma sample_enqueued:
  "Enqueue ''ns'' (sample_env 60) sample_enqueue sample_db =
    (Inr sample_result, snd (Enqueue ''ns'' (sample_env 60) sample_enqueue sample_db))"
proof -
  have "fst (Enqueue ''ns'' (sample_env 60) sample_enqueue sample_db) = Inr sample_result"
    by code_simp
  then show ?thesis by (metis prod.collapse)
qed

theorem enqueue_idempotent_witness:
  "\<exists>s'. Enqueue ''ns'' (sample_env 60) sample_enqueue sample_db = (Inr sample_result, s') \<and>
    Enqueue ''ns'' (sample_env 70) (sample_enqueue\<lparr>eqPriority := 0\<rparr>) s' =
      (Inr \<lparr>erJob = erJob sample_result, erDuplicate = True\<rparr>, s')"
proof -
  have "Enqueue ''ns'' (sample_env 70) (sample_enqueue\<lparr>eqPriority := 0\<rparr>)
      (snd (Enqueue ''ns'' (sample_env 60) sample_enqueue sample_db)) =
    (Inr \<lparr>erJob = erJob sample_result, erDuplicate = True\<rparr>,
     snd (Enqueue ''ns'' (sample_env 60) sample_enqueue sample_db))"
    by (rule enqueue_idempotent [OF sample_wf sample_enqueued])
      (simp_all add: sample_enqueue_def sample_env_def)
  then show ?thesis using sample_enqueued by metis
qed

lemma fetch_all_candidates:
  assumes "jobs_wf s" and "FetchJobs ord e ns qs limit w s = (Inr got, s')"
    and "\<forall>xs. mset (ord xs) = mset xs" and "length (candidates e ns qs s) \<le> nat limit"
  shows "set got = claim (pgNow e) w ` set (candidates e ns qs s)"
  using mset_eq_setD [OF FetchJobs_returns [OF assms(1-3)]] top_by_all [OF assms(4), of fetch_key]
  by (simp add: next_jobs_candidates)

lemma enqueued_job_shown:
  assumes "Enqueue ns ev p s = (Inr res, s')" and "\<not> erDuplicate res"
  shows "Kind (erJob res) = eqKind p" and "Queue (erJob res) = (if eqQueue p = '''' then ''default'' else eqQueue p)"
proof -
  from assms(1) obtain pl md row where
    ins: "InsertJob (evFind ev) (evInsert ev) (insert_params ns ev p pl md) s = (Inr (row, erDuplicate res), s')"
    and job: "erJob res = jobFromRow row" by (rule Enqueue_InrE)
  have "row = new_job (pgNow (evInsert ev)) (seqJobs s) (insert_params ns ev p pl md)"
    using insert_new_InrD [OF InsertJob_new [OF ins assms(2)]] by simp
  then show "Kind (erJob res) = eqKind p" and "Queue (erJob res) = (if eqQueue p = '''' then ''default'' else eqQueue p)"
    by (simp_all add: job jobFromRow_def new_job_def insert_params_def Let_def)
qed

text \<open>An enqueued job gets run: a new job enqueued without a future schedule is handed out, as
  running and on its first attempt, by the next fetch of a worker that serves its namespace
  and queue, if the fetch is large enough for all candidates and no transaction locks the
  job.\<close>

lemma enqueued_job_is_fetched:
  assumes "jobs_wf s" and "Enqueue ns ev p s = (Inr res, s')" and "\<not> erDuplicate res"
    and "eqScheduleAt p \<le> evNow2 ev" and "evNow1 ev \<le> evNow2 ev" and "evNow2 ev \<le> pgNow e"
    and "FetchJobs ord e ns qs limit w s' = (Inr got, s'')" and "\<forall>xs. mset (ord xs) = mset xs"
    and "Queue (erJob res) \<in> set qs" and "ID (erJob res) \<notin> set (pgLocked e)"
    and "length (candidates e ns qs s') \<le> nat limit"
  shows "\<exists>g \<in> set got. jID g = ID (erJob res) \<and> jKind g = eqKind p \<and>
    (case eqPayload p of None \<Rightarrow> Inr (JObj []) | Some v \<Rightarrow> v) = Inr (jPayload g) \<and>
    jState g = JobStateRunning \<and> jAttempt g = 1"
proof -
  from assms(2) obtain pl md row where
    ins: "InsertJob (evFind ev) (evInsert ev) (insert_params ns ev p pl md) s = (Inr (row, erDuplicate res), s')"
    and job: "erJob res = jobFromRow row"
    and pl: "(case eqPayload p of None \<Rightarrow> Inr (JObj []) | Some v \<Rightarrow> v) = Inr pl"
    by (rule Enqueue_InrE)
  let ?p = "insert_params ns ev p pl md"
  have new: "insert_new (evInsert ev) ?p s = (Inr (row, False), s')"
    using ins assms(3) by (rule InsertJob_new)
  from insert_new_InrD [OF new]
  have row: "row = new_job (pgNow (evInsert ev)) (seqJobs s) ?p" and mem: "row \<in> set (tJobs s')"
    by simp_all
  have cand: "row \<in> set (candidates e ns qs s')"
    using mem assms(4-6,9,10) row job
    by (auto simp: candidates_def fetchable_def new_job_def insert_params_def Let_def jobFromRow_def)
  have "jobs_wf s'" using InsertJob_wfD [OF assms(1) ins] .
  note got = fetch_all_candidates [OF this assms(7,8,11)]
  show ?thesis
  proof (rule bexI [of _ "claim (pgNow e) w row"])
    show "claim (pgNow e) w row \<in> set got" using cand got by simp
  qed (use pl in \<open>simp add: job row claim_def jobFromRow_def new_job_def insert_params_def Let_def\<close>)
qed

text \<open>EnqueueMany is not atomic: when it fails, it failed at one enqueue, and the jobs of all
  the enqueues before that one are stored.\<close>

theorem enqueue_many_keeps_prefix:
  assumes "EnqueueMany ns ps s = (Inl err, s')"
  shows "\<exists>n rs s1. n < length ps \<and> EnqueueMany ns (take n ps) s = (Inr rs, s1) \<and>
    length rs = n \<and> Enqueue ns (fst (ps ! n)) (snd (ps ! n)) s1 = (Inl err, s')"
  using assms
proof (induction ns ps s rule: EnqueueMany.induct)
  case (1 ns s)
  then show ?case by simp
next
  case (2 ns ev p ps s)
  obtain x s1 where first: "Enqueue ns ev p s = (x, s1)" by fastforce
  show ?case
  proof (cases x)
    case (Inl e)
    then show ?thesis using 2(2) first by (intro exI [of _ 0] exI [of _ "[]"] exI [of _ s]) simp
  next
    case (Inr r)
    then have rest: "EnqueueMany ns ps s1 = (Inl err, s')"
      using 2(2) first by (simp split: prod.splits sum.splits)
    from 2(1) [OF first [symmetric] Inr rest] obtain n rs s2 where "n < length ps"
      "EnqueueMany ns (take n ps) s1 = (Inr rs, s2)" "length rs = n"
      "Enqueue ns (fst (ps ! n)) (snd (ps ! n)) s2 = (Inl err, s')"
      by blast
    then show ?thesis using first Inr
      by (intro exI [of _ "Suc n"] exI [of _ "r # rs"] exI [of _ s2]) simp
  qed
qed

definition sample_many :: "(enqueue_env \<times> EnqueueParams) list" where
  "sample_many = [(sample_env 60, sample_enqueue), (sample_env 61, sample_enqueue\<lparr>eqKind := ''''\<rparr>),
    (sample_env 62, sample_enqueue)]"

theorem enqueue_many_keeps_prefix_witness:
  "\<exists>n rs s1 s'. n < 3 \<and> EnqueueMany ''ns'' (take n sample_many) sample_db = (Inr rs, s1) \<and>
    length rs = n \<and>
    Enqueue ''ns'' (fst (sample_many ! n)) (snd (sample_many ! n)) s1 = (Inl ErrInvalidJobKind, s')"
proof -
  have "fst (EnqueueMany ''ns'' sample_many sample_db) = Inl ErrInvalidJobKind" by code_simp
  then have "EnqueueMany ''ns'' sample_many sample_db =
      (Inl ErrInvalidJobKind, snd (EnqueueMany ''ns'' sample_many sample_db))"
    by (metis prod.collapse)
  from enqueue_many_keeps_prefix [OF this] show ?thesis by (force simp: sample_many_def)
qed

text \<open>A handler never sees the metadata or the recorded errors of its job.\<close>

lemma job_from_row_drops_metadata:
  "Metadata (jobFromRow (r\<lparr>jMetadata := md, jErrors := es\<rparr>)) = None \<and>
   Errors (jobFromRow (r\<lparr>jMetadata := md, jErrors := es\<rparr>)) = []"
  by (simp add: jobFromRow_def)

end
