(* ===== verification/Go_Float.thy ===== *)
theory Go_Float
  imports Go_Base "HOL-Library.Log_Nat"
begin

text \<open>
  The part of Go's \<^verbatim>\<open>float64\<close> that the backoff code uses: conversion of a 64-bit
  integer, multiplication, and conversion back. A float is its integer significand and
  binary exponent, and every operation rounds to 53 bits, to nearest and ties to even, as
  IEEE 754 does. The exponent is unbounded: a product that would overflow or be subnormal
  in Go is far outside, or rounds to zero in, the 64-bit integers it is converted to, where
  the model answers the same. A conversion whose value does not fit is
  implementation-specific in Go; its result is the argument \<open>oor\<close>.
\<close>

type_synonym float64 = "int \<times> int"

definition round53 :: "float64 \<Rightarrow> float64" where
  "round53 x =
    (let m = fst x; b = floorlog 2 (nat \<bar>m\<bar>) in
     if b \<le> 53 then x
     else let k = b - 53; q = \<bar>m\<bar> div 2 ^ k; r = \<bar>m\<bar> mod 2 ^ k; h = 2 ^ (k - 1);
              q' = (if r > h \<or> r = h \<and> odd q then q + 1 else q)
       in (sgn m * q', snd x + int k))"

definition float_of_int64 :: "int64 \<Rightarrow> float64" where
  "float_of_int64 d = round53 (sint d, 0)"

definition float_mul :: "float64 \<Rightarrow> float64 \<Rightarrow> float64" where
  "float_mul x y = round53 (fst x * fst y, snd x + snd y)"

definition float_trunc :: "float64 \<Rightarrow> int" where
  "float_trunc x =
    (if 0 \<le> snd x then fst x * 2 ^ nat (snd x)
     else sgn (fst x) * (\<bar>fst x\<bar> div 2 ^ nat (- snd x)))"

definition int64_of_float :: "int64 \<Rightarrow> float64 \<Rightarrow> int64" where
  "int64_of_float oor x =
    (let t = float_trunc x in
     if - 9223372036854775808 \<le> t \<and> t \<le> 9223372036854775807 then word_of_int t else oor)"

section \<open>Small values are exact\<close>

lemma round53_exact: "\<bar>m\<bar> < 2 ^ 53 \<Longrightarrow> round53 (m, e) = (m, e)"
proof -
  assume "\<bar>m\<bar> < 2 ^ 53"
  then have "nat \<bar>m\<bar> < 2 ^ 53" by simp
  then have "floorlog 2 (nat \<bar>m\<bar>) \<le> 53" by (rule floorlog_leI) simp_all
  then show ?thesis by (simp add: round53_def Let_def)
qed

lemma float_of_int64_exact: "\<bar>sint d\<bar> < 2 ^ 53 \<Longrightarrow> float_of_int64 d = (sint d, 0)"
  by (simp add: float_of_int64_def round53_exact)

lemma int64_of_float_fits:
  assumes "float_trunc x = t" "- 9223372036854775808 \<le> t" "t \<le> 9223372036854775807"
  shows "sint (int64_of_float oor x) = t"
  using assms by (simp add: int64_of_float_def Let_def sint64_of_int)

section \<open>The rounding error\<close>

text \<open>
  Rounding a nonnegative significand gives a nonnegative one, an exponent that is not
  smaller, and a value at most one part in \<open>2 ^ 53\<close> above.
\<close>

lemma round53_bound:
  assumes "0 \<le> m" and "round53 (m, e) = (q, e')"
  shows "0 \<le> q" and "e \<le> e'" and "q * 2 ^ nat (e' - e) * 2 ^ 53 \<le> m * (2 ^ 53 + 1)"
proof -
  let ?b = "floorlog 2 (nat m)"
  have "0 \<le> q \<and> e \<le> e' \<and> q * 2 ^ nat (e' - e) * 2 ^ 53 \<le> m * (2 ^ 53 + 1)"
  proof (cases "?b \<le> 53")
    case True
    then have "q = m" "e' = e" using assms by (simp_all add: round53_def Let_def)
    then show ?thesis using assms(1) by simp
  next
    case False
    let ?k = "?b - 53"
    let ?q = "m div 2 ^ ?k" let ?r = "m mod 2 ^ ?k"
    have k: "0 < ?k" and b: "?b = ?k + 53" using False by simp_all
    have mpos: "0 < m" using False assms(1) by (cases "m = 0") (simp_all add: floorlog_def)
    have e': "e' = e + int ?k"
      and q: "q = (if ?r > 2 ^ (?k - 1) \<or> ?r = 2 ^ (?k - 1) \<and> odd ?q then ?q + 1 else ?q)"
      using assms False mpos by (simp_all add: round53_def Let_def split: if_splits)
    have "2 ^ (?b - 1) \<le> nat m" using floorlog_bounds [of "nat m" 2] mpos by simp
    then have "2 ^ (?b - 1) \<le> m" using mpos by (simp add: le_nat_iff)
    moreover have "?b - 1 = (?k - 1) + 53" using k b by simp
    ultimately have half: "2 ^ (?k - 1) * 2 ^ 53 \<le> m" by (metis power_add)
    have split: "m = ?q * 2 ^ ?k + ?r" by (rule div_mult_mod_eq [symmetric])
    have "0 \<le> ?q" using assms(1) by (simp add: pos_imp_zdiv_nonneg_iff)
    then have "0 \<le> q" using q by (simp split: if_splits)
    moreover have up: "q * 2 ^ ?k \<le> m + 2 ^ (?k - 1)"
    proof (cases "q = ?q")
      case True
      have "0 \<le> ?r" "(0::int) \<le> 2 ^ (?k - 1)" by simp_all
      then show ?thesis unfolding True using split by linarith
    next
      case False
      then have "q = ?q + 1" and r: "2 ^ (?k - 1) \<le> ?r" using q by (auto split: if_splits)
      have "?k = Suc (?k - 1)" using k by simp
      then have "(2 ^ ?k :: int) = 2 * 2 ^ (?k - 1)" by (metis power_Suc)
      with \<open>q = ?q + 1\<close> have "q * 2 ^ ?k = ?q * 2 ^ ?k + 2 * 2 ^ (?k - 1)"
        by (simp add: distrib_right)
      then show ?thesis using split r by linarith
    qed
    moreover have "(m + 2 ^ (?k - 1)) * 2 ^ 53 \<le> m * (2 ^ 53 + 1)"
      using half by (simp add: distrib_left distrib_right)
    moreover have "q * 2 ^ ?k * 2 ^ 53 \<le> (m + 2 ^ (?k - 1)) * 2 ^ 53"
      using up by (rule mult_right_mono) simp
    moreover have "nat (e' - e) = ?k" "e \<le> e'" using e' by simp_all
    ultimately show ?thesis by auto
  qed
  then show "0 \<le> q" "e \<le> e'" "q * 2 ^ nat (e' - e) * 2 ^ 53 \<le> m * (2 ^ 53 + 1)" by simp_all
qed

lemma float_mul_bound:
  assumes "0 \<le> fst x * fst y" and "float_mul x y = (q, e')"
  shows "0 \<le> q" and "snd x + snd y \<le> e'"
    and "q * 2 ^ nat (e' - (snd x + snd y)) * 2 ^ 53 \<le> fst x * fst y * (2 ^ 53 + 1)"
  using round53_bound [OF assms(1), of "snd x + snd y" q e'] assms(2)
  by (simp_all add: float_mul_def)

lemma float_trunc_nonneg: "0 \<le> fst x \<Longrightarrow> 0 \<le> float_trunc x"
  by (auto simp: float_trunc_def sgn_if pos_imp_zdiv_nonneg_iff)

text \<open>Truncation goes down: scaled back to a smaller exponent it stays below the value.\<close>

lemma float_trunc_le:
  assumes "0 \<le> q" and "- int n \<le> e"
  shows "float_trunc (q, e) * 2 ^ n \<le> q * 2 ^ nat (e + int n)"
proof (cases "0 \<le> e")
  case True
  then have "nat (e + int n) = nat e + n" by (simp add: nat_add_distrib)
  then show ?thesis using True by (simp add: float_trunc_def power_add)
next
  case False
  let ?d = "nat (- e)"
  have n: "n = ?d + nat (e + int n)" using False assms(2) by simp
  have "q div 2 ^ ?d * 2 ^ ?d \<le> q" by (simp add: minus_mod_eq_div_mult [symmetric])
  then have "q div 2 ^ ?d * 2 ^ ?d * 2 ^ nat (e + int n) \<le> q * 2 ^ nat (e + int n)"
    by (rule mult_right_mono) simp
  moreover have "2 ^ n = (2 ^ ?d * 2 ^ nat (e + int n) :: int)"
    using n by (metis power_add)
  ultimately show ?thesis
    using False assms(1) by (cases "q = 0") (simp_all add: float_trunc_def mult.assoc)
qed

end
