(* ===== verification/Retry.thy ===== *)
theory Retry
  imports Go_Float
begin

text \<open>
  Retry decisions and backoff: the retry policy of the completer
  (\<^verbatim>\<open>internal/executor/completer.go\<close>), the policy of the package
  \<^verbatim>\<open>internal/retry\<close>, and the public backoff functions of \<^verbatim>\<open>handler.go\<close>.
  \<open>u\<close> is the answer of \<^verbatim>\<open>rand.Float64()\<close>, \<open>now\<close> that of \<^verbatim>\<open>time.Now()\<close>, \<open>oor\<close>
  the implementation's answer to an out-of-range float conversion.
\<close>

section \<open>The policy of the completer\<close>

record RetryPolicy =
  MaxAttempts :: int
  InitialBackoff :: duration
  MaxBackoff :: duration
  BackoffExponent :: float64
  Jitter :: bool
  RetryableErrors :: "error list"
  DiscardErrors :: "error list"

definition DefaultRetryPolicy :: RetryPolicy where
  "DefaultRetryPolicy =
    \<lparr>MaxAttempts = 25, InitialBackoff = time_Second, MaxBackoff = 24 * time_Hour,
     BackoffExponent = (2, 0), Jitter = True, RetryableErrors = [], DiscardErrors = []\<rparr>"

text \<open>The constant 0.3 as the nearest \<^verbatim>\<open>float64\<close>.\<close>

definition float_0_3 :: float64 where "float_0_3 = (5404319552844595, - 54)"

text \<open>The loop \<^verbatim>\<open>for i := 1; i < attempt; i++\<close>, with its early exit at the cap.\<close>

fun backoff_loop :: "int64 \<Rightarrow> float64 \<Rightarrow> duration \<Rightarrow> nat \<Rightarrow> duration \<Rightarrow> duration" where
  "backoff_loop oor factor cap 0 delay = delay"
| "backoff_loop oor factor cap (Suc n) delay =
    (let delay' = int64_of_float oor (float_mul (float_of_int64 delay) factor) in
     if sint delay' > sint cap then cap else backoff_loop oor factor cap n delay')"

definition base_backoff :: "int64 \<Rightarrow> RetryPolicy \<Rightarrow> int \<Rightarrow> duration" where
  "base_backoff oor p attempt =
    backoff_loop oor (BackoffExponent p) (MaxBackoff p) (nat (attempt - 1)) (InitialBackoff p)"

definition jitter_of :: "int64 \<Rightarrow> float64 \<Rightarrow> duration \<Rightarrow> duration" where
  "jitter_of oor u delay =
    int64_of_float oor (float_mul (float_mul u float_0_3) (float_of_int64 delay))"

definition calculateBackoff :: "int64 \<Rightarrow> float64 \<Rightarrow> RetryPolicy \<Rightarrow> int \<Rightarrow> duration" where
  "calculateBackoff oor u p attempt =
    (let delay = base_backoff oor p attempt in
     if Jitter p then delay + jitter_of oor u delay else delay)"

definition shouldRetry ::
  "int64 \<Rightarrow> float64 \<Rightarrow> instant \<Rightarrow> RetryPolicy \<Rightarrow> int16 \<Rightarrow> error \<Rightarrow> instant option" where
  "shouldRetry oor u now p attempt err =
    (if list_ex (errors_Is err) (DiscardErrors p) then None
     else if sint attempt \<ge> MaxAttempts p then None
     else if RetryableErrors p \<noteq> [] \<and> \<not> list_ex (errors_Is err) (RetryableErrors p) then None
     else Some (time_Add now (calculateBackoff oor u p (sint attempt))))"

section \<open>The policy of the package retry\<close>

text \<open>
  The same fields; the multiplier is called \<^verbatim>\<open>BackoffMultiplier\<close> there. Jitter is
  added to positive delays only, and the decision comes as a pair of an instant and a flag
  with the zero instant when there is no retry.
\<close>

record Policy =
  pMaxAttempts :: int
  pInitialBackoff :: duration
  pMaxBackoff :: duration
  pBackoffMultiplier :: float64
  pJitter :: bool
  pRetryableErrors :: "error list"
  pDiscardErrors :: "error list"

definition DefaultPolicy :: Policy where
  "DefaultPolicy =
    \<lparr>pMaxAttempts = 25, pInitialBackoff = time_Second, pMaxBackoff = 24 * time_Hour,
     pBackoffMultiplier = (2, 0), pJitter = True, pRetryableErrors = [], pDiscardErrors = []\<rparr>"

definition policy_calculateBackoff :: "int64 \<Rightarrow> float64 \<Rightarrow> Policy \<Rightarrow> int \<Rightarrow> duration" where
  "policy_calculateBackoff oor u p attempt =
    (let delay = backoff_loop oor (pBackoffMultiplier p) (pMaxBackoff p) (nat (attempt - 1))
           (pInitialBackoff p) in
     if pJitter p \<and> sint delay > 0 then delay + jitter_of oor u delay else delay)"

definition NextRetryAt ::
  "int64 \<Rightarrow> float64 \<Rightarrow> instant \<Rightarrow> Policy \<Rightarrow> int \<Rightarrow> error \<Rightarrow> instant \<times> bool" where
  "NextRetryAt oor u now p attempt err =
    (if list_ex (errors_Is err) (pDiscardErrors p) then (0, False)
     else if attempt \<ge> pMaxAttempts p then (0, False)
     else if pRetryableErrors p \<noteq> [] \<and> \<not> list_ex (errors_Is err) (pRetryableErrors p) then (0, False)
     else (time_Add now (policy_calculateBackoff oor u p attempt), True))"

definition ShouldRetry :: "int64 \<Rightarrow> float64 \<Rightarrow> instant \<Rightarrow> Policy \<Rightarrow> int \<Rightarrow> error \<Rightarrow> bool" where
  "ShouldRetry oor u now p attempt err = snd (NextRetryAt oor u now p attempt err)"

section \<open>The public backoff functions\<close>

definition FixedBackoff :: "duration \<Rightarrow> int \<Rightarrow> duration" where
  "FixedBackoff d attempt = d"

text \<open>The delay doubles in 64-bit arithmetic, and the loop returns the cap when it is passed.\<close>

fun double_loop :: "duration \<Rightarrow> nat \<Rightarrow> duration \<Rightarrow> duration" where
  "double_loop cap 0 delay = delay"
| "double_loop cap (Suc n) delay =
    (let delay' = delay * 2 in
     if sint delay' > sint cap then cap else double_loop cap n delay')"

definition ExponentialBackoff :: "duration \<Rightarrow> duration \<Rightarrow> int \<Rightarrow> duration" where
  "ExponentialBackoff initial cap attempt = double_loop cap (nat (attempt - 1)) initial"

definition LinearBackoff :: "duration \<Rightarrow> duration \<Rightarrow> int \<Rightarrow> duration" where
  "LinearBackoff initial increment attempt = initial + word_of_int (attempt - 1) * increment"

section \<open>Closed forms\<close>

lemma time_units [simp]: "sint time_Second = 1000000000" "sint (24 * time_Hour) = 86400000000000"
  by (simp_all add: time_Second_def time_Hour_def)

text \<open>Scaling by 2.0 is exact below \<open>2 ^ 53\<close>.\<close>

lemma scale_two:
  assumes "0 \<le> sint d" and "2 * sint d < 2 ^ 53"
  shows "sint (int64_of_float oor (float_mul (float_of_int64 d) (2, 0))) = 2 * sint d"
proof (rule int64_of_float_fits)
  show "float_trunc (float_mul (float_of_int64 d) (2, 0)) = 2 * sint d"
    using assms by (simp add: float_of_int64_exact float_mul_def round53_exact float_trunc_def)
qed (use assms in simp_all)

lemma backoff_loop_two:
  assumes "0 \<le> sint d" "sint d \<le> sint cap" "2 * sint cap < 2 ^ 53"
  shows "sint (backoff_loop oor (2, 0) cap n d) = min (sint cap) (sint d * 2 ^ n)"
  using assms
proof (induction n arbitrary: d)
  case 0
  then show ?case by simp
next
  case (Suc n)
  let ?d = "int64_of_float oor (float_mul (float_of_int64 d) (2, 0))"
  have d: "sint ?d = 2 * sint d" using Suc.prems by (intro scale_two) simp_all
  show ?case
  proof (cases "sint ?d > sint cap")
    case True
    have "sint cap < sint d * 2 ^ Suc n"
    proof -
      have "2 * sint d * 1 \<le> 2 * sint d * 2 ^ n"
        using Suc.prems by (intro mult_left_mono one_le_power) simp_all
      then show ?thesis using True d by (simp add: mult.assoc mult.left_commute)
    qed
    then show ?thesis using True by (simp add: Let_def min_def)
  next
    case False
    then have "sint (backoff_loop oor (2, 0) cap n ?d) = min (sint cap) (sint ?d * 2 ^ n)"
      using Suc.prems d by (intro Suc.IH) simp_all
    then show ?thesis using False d by (simp add: Let_def mult.commute mult.left_commute)
  qed
qed

text \<open>The default retry schedule before jitter is exactly one second doubled with each attempt
  and capped at 24 hours, although the code computes it in floating point.\<close>

theorem default_backoff_doubles:
  "sint (base_backoff oor DefaultRetryPolicy attempt) =
    min 86400000000000 (1000000000 * 2 ^ nat (attempt - 1))"
  unfolding base_backoff_def DefaultRetryPolicy_def RetryPolicy.simps
  by (subst backoff_loop_two) simp_all

lemma double_loop_closed:
  assumes "0 \<le> sint d" "2 * sint d \<le> 9223372036854775807"
    and "0 \<le> sint cap" "2 * sint cap \<le> 9223372036854775807"
  shows "sint (double_loop cap (Suc n) d) = min (sint cap) (sint d * 2 ^ Suc n)"
  using assms
proof (induction n arbitrary: d)
  case 0
  have "sint (d * 2) = sint d * 2" using "0.prems" by (subst sint64_mult) simp_all
  then show ?case by (simp add: Let_def)
next
  case (Suc n)
  have d: "sint (d * 2) = sint d * 2" using Suc.prems by (subst sint64_mult) simp_all
  show ?case
  proof (cases "sint (d * 2) > sint cap")
    case True
    have "sint d * 2 * 1 \<le> sint d * 2 * 2 ^ Suc n"
      using Suc.prems by (intro mult_left_mono one_le_power) simp_all
    then show ?thesis using True d by (simp add: Let_def min_def)
  next
    case False
    then have "sint (double_loop cap (Suc n) (d * 2)) = min (sint cap) (sint (d * 2) * 2 ^ Suc n)"
      using Suc.prems d by (intro Suc.IH) simp_all
    then show ?thesis using False d by (simp add: Let_def mult.assoc)
  qed
qed

text \<open>ExponentialBackoff doubles the initial delay up to the maximum for every attempt after the
  first, as long as neither is above half the largest duration; the first attempt waits the
  initial delay even where that is above the maximum.\<close>

theorem exponential_backoff_closed_form:
  assumes "0 \<le> sint initial" "2 * sint initial \<le> 9223372036854775807"
    and "0 \<le> sint cap" "2 * sint cap \<le> 9223372036854775807"
  shows "sint (ExponentialBackoff initial cap attempt) =
    (if attempt \<le> 1 then sint initial
     else min (sint cap) (sint initial * 2 ^ nat (attempt - 1)))"
proof (cases "attempt \<le> 1")
  case True
  then show ?thesis by (simp add: ExponentialBackoff_def)
next
  case False
  then obtain n where "nat (attempt - 1) = Suc n" by (cases "nat (attempt - 1)") simp_all
  then show ?thesis using False double_loop_closed [OF assms, of n]
    by (simp add: ExponentialBackoff_def)
qed

theorem exponential_backoff_closed_form_witness:
  "sint (ExponentialBackoff 1000000000 60000000000 9) = 60000000000 \<and>
   sint (ExponentialBackoff 1000000000 60000000000 4) = 8000000000"
  using exponential_backoff_closed_form [of 1000000000 60000000000 9]
    exponential_backoff_closed_form [of 1000000000 60000000000 4]
  by simp

lemma linear_backoff_closed:
  assumes "0 \<le> sint initial" "0 \<le> sint increment" "1 \<le> attempt"
    and "sint initial + (attempt - 1) * sint increment \<le> 9223372036854775807"
    and "attempt \<le> 9223372036854775807"
  shows "sint (LinearBackoff initial increment attempt) = sint initial + (attempt - 1) * sint increment"
proof -
  have k: "sint (word_of_int (attempt - 1) :: int64) = attempt - 1"
    using assms(3,5) by (intro sint64_of_int) simp_all
  have nn: "0 \<le> (attempt - 1) * sint increment" using assms(2,3) by simp
  have "sint (word_of_int (attempt - 1) * increment) = (attempt - 1) * sint increment"
    using assms(1,4) nn k by (subst sint64_mult) simp_all
  then show ?thesis
    unfolding LinearBackoff_def using assms(1,4) nn by (subst sint64_add) simp_all
qed

end
