(* ===== verification/Retry_Spec.thy ===== *)
theory Retry_Spec
  imports Retry
begin

text \<open>
  What the retry code promises: the jitter is between nothing and 30 percent, the two
  implementations of the policy agree, and the contract \<open>retry_schedule\<close> that the
  executor relies on: no retry once the attempts are used up, and a bounded wait.
\<close>

section \<open>Jitter\<close>

text \<open>\<^verbatim>\<open>rand.Float64()\<close> answers a multiple of \<open>2 ^ -53\<close> in \<open>[0, 1)\<close>.\<close>

definition unit_float :: "float64 \<Rightarrow> bool" where
  "unit_float u \<longleftrightarrow> snd u = - 53 \<and> 0 \<le> fst u \<and> fst u < 2 ^ 53"

lemma jitter_trunc:
  assumes "unit_float u" and "0 \<le> sint d" and "sint d \<le> 86400000000000"
  shows "0 \<le> float_trunc (float_mul (float_mul u float_0_3) (float_of_int64 d)) \<and>
    10 * float_trunc (float_mul (float_mul u float_0_3) (float_of_int64 d)) \<le> 3 * sint d"
proof -
  let ?c = "5404319552844595 :: int"
  obtain q1 e1 where r1: "float_mul u float_0_3 = (q1, e1)" by fastforce
  have d: "float_of_int64 d = (sint d, 0)" using assms by (simp add: float_of_int64_exact)
  obtain q2 e2 where r2: "float_mul (q1, e1) (sint d, 0) = (q2, e2)" by fastforce
  let ?J = "float_trunc (q2, e2)"
  have b1: "0 \<le> q1" "- 107 \<le> e1" "q1 * 2 ^ nat (e1 + 107) * 2 ^ 53 \<le> fst u * ?c * (2 ^ 53 + 1)"
    using float_mul_bound [OF _ r1] assms(1) by (simp_all add: unit_float_def float_0_3_def)
  have b2: "0 \<le> q2" "e1 \<le> e2" "q2 * 2 ^ nat (e2 - e1) * 2 ^ 53 \<le> q1 * sint d * (2 ^ 53 + 1)"
    using float_mul_bound [OF _ r2] b1(1) assms(2) by simp_all
  have "nat (e2 + 107) = nat (e2 - e1) + nat (e1 + 107)"
    using b1(2) b2(2) by (simp flip: nat_add_distrib)
  then have pow: "(2 ^ nat (e2 + 107) :: int) = 2 ^ nat (e2 - e1) * 2 ^ nat (e1 + 107)"
    by (simp add: power_add)
  have "?J * 2 ^ 107 \<le> q2 * 2 ^ nat (e2 + 107)"
    using float_trunc_le [of q2 107 e2] b1(2) b2(1,2) by simp
  then have "?J * 2 ^ 107 * 2 ^ 53 * 2 ^ 53 \<le> q2 * 2 ^ nat (e2 - e1) * 2 ^ 53 * (2 ^ nat (e1 + 107) * 2 ^ 53)"
    unfolding pow by (simp add: mult.assoc mult.left_commute)
  also have "\<dots> \<le> q1 * sint d * (2 ^ 53 + 1) * (2 ^ nat (e1 + 107) * 2 ^ 53)"
    using b2(3) by (rule mult_right_mono) simp
  also have "\<dots> = q1 * 2 ^ nat (e1 + 107) * 2 ^ 53 * (sint d * (2 ^ 53 + 1))"
    by (simp add: mult.assoc mult.left_commute)
  also have "\<dots> \<le> fst u * ?c * (2 ^ 53 + 1) * (sint d * (2 ^ 53 + 1))"
    using b1(3) assms(2) by (intro mult_right_mono) simp_all
  also have "\<dots> = fst u * (?c * (2 ^ 53 + 1) * (sint d * (2 ^ 53 + 1)))"
    by (simp add: mult.assoc)
  also have "\<dots> \<le> (2 ^ 53 - 1) * (?c * (2 ^ 53 + 1) * (sint d * (2 ^ 53 + 1)))"
    using assms(1,2) by (intro mult_right_mono) (simp_all add: unit_float_def)
  finally have "?J * 2 ^ 213 \<le> (2 ^ 53 - 1) * ?c * (2 ^ 53 + 1) * (2 ^ 53 + 1) * sint d"
    by (simp add: mult.assoc mult.left_commute)
  then have "10 * ?J \<le> 3 * sint d" using assms(3) by simp
  moreover have "0 \<le> ?J" using b2(1) by (simp add: float_trunc_nonneg)
  ultimately show ?thesis by (simp add: r1 r2 d)
qed

lemma jitter_bound:
  assumes "unit_float u" "0 \<le> sint d" "sint d \<le> 86400000000000"
  shows "0 \<le> sint (jitter_of oor u d)" "10 * sint (jitter_of oor u d) \<le> 3 * sint d"
proof -
  let ?t = "float_trunc (float_mul (float_mul u float_0_3) (float_of_int64 d))"
  have t: "0 \<le> ?t" "10 * ?t \<le> 3 * sint d" using jitter_trunc [OF assms] by simp_all
  have "sint (jitter_of oor u d) = ?t"
    unfolding jitter_of_def using t assms(3) by (intro int64_of_float_fits) simp_all
  then show "0 \<le> sint (jitter_of oor u d)" "10 * sint (jitter_of oor u d) \<le> 3 * sint d"
    using t by simp_all
qed

text \<open>The default retry delay is the doubled and capped delay plus at most 30 percent of it, for
  every answer of the random generator.\<close>

theorem default_backoff_jitter:
  assumes "unit_float u"
  shows "sint (base_backoff oor DefaultRetryPolicy a)
      \<le> sint (calculateBackoff oor u DefaultRetryPolicy a) \<and>
    10 * (sint (calculateBackoff oor u DefaultRetryPolicy a) - sint (base_backoff oor DefaultRetryPolicy a))
      \<le> 3 * sint (base_backoff oor DefaultRetryPolicy a)"
proof -
  let ?d = "base_backoff oor DefaultRetryPolicy a"
  have d: "sint ?d = min 86400000000000 (1000000000 * 2 ^ nat (a - 1))"
    unfolding base_backoff_def DefaultRetryPolicy_def RetryPolicy.simps
    by (subst backoff_loop_two) simp_all
  then have "0 \<le> sint ?d" "sint ?d \<le> 86400000000000" by simp_all
  note j = jitter_bound [OF assms this, of oor]
  have "sint (?d + jitter_of oor u ?d) = sint ?d + sint (jitter_of oor u ?d)"
    using j \<open>0 \<le> sint ?d\<close> \<open>sint ?d \<le> _\<close> by (intro sint64_add) simp_all
  moreover have "calculateBackoff oor u DefaultRetryPolicy a = ?d + jitter_of oor u ?d"
    by (simp add: calculateBackoff_def Let_def DefaultRetryPolicy_def)
  ultimately show ?thesis using j by simp
qed

theorem default_backoff_jitter_witness:
  "unit_float (4503599627370496, - 53) \<and>
   sint (base_backoff 0 DefaultRetryPolicy 3) \<le> sint (calculateBackoff 0 (4503599627370496, - 53) DefaultRetryPolicy 3)"
proof -
  have "unit_float (4503599627370496, - 53)" by (simp add: unit_float_def)
  then show ?thesis using default_backoff_jitter [of "(4503599627370496, - 53)" 0 3] by simp
qed

section \<open>The two implementations agree\<close>

definition policy_of :: "RetryPolicy \<Rightarrow> Policy" where
  "policy_of p =
    \<lparr>pMaxAttempts = MaxAttempts p, pInitialBackoff = InitialBackoff p, pMaxBackoff = MaxBackoff p,
     pBackoffMultiplier = BackoffExponent p, pJitter = Jitter p,
     pRetryableErrors = RetryableErrors p, pDiscardErrors = DiscardErrors p\<rparr>"

lemma policy_of_default: "policy_of DefaultRetryPolicy = DefaultPolicy"
  by (simp add: policy_of_def DefaultRetryPolicy_def DefaultPolicy_def)

lemma jitter_of_zero: "sint d = 0 \<Longrightarrow> jitter_of oor u d = 0"
proof -
  assume "sint d = 0"
  then have "float_of_int64 d = (0, 0)" by (simp add: float_of_int64_exact)
  then have "float_mul (float_mul u float_0_3) (float_of_int64 d) = (0, snd (float_mul u float_0_3))"
    by (simp only: float_mul_def [of "float_mul u float_0_3"]) (simp add: round53_exact)
  then show ?thesis by (simp add: jitter_of_def int64_of_float_def float_trunc_def)
qed

lemma policy_agrees:
  "ShouldRetry oor u now (policy_of p) (sint a) err = (shouldRetry oor u now p a err \<noteq> None) \<and>
   (0 \<le> sint (base_backoff oor p (sint a)) \<longrightarrow> shouldRetry oor u now p a err \<noteq> None \<longrightarrow>
      shouldRetry oor u now p a err = Some (fst (NextRetryAt oor u now (policy_of p) (sint a) err)))"
proof -
  let ?d = "base_backoff oor p (sint a)"
  have "policy_calculateBackoff oor u (policy_of p) (sint a) = calculateBackoff oor u p (sint a)"
    if nonneg: "0 \<le> sint ?d"
  proof (cases "sint ?d = 0")
    case True
    then have "jitter_of oor u ?d = 0" by (rule jitter_of_zero)
    with True show ?thesis
      by (simp add: policy_calculateBackoff_def calculateBackoff_def Let_def policy_of_def
          base_backoff_def [symmetric])
  next
    case False
    then have "0 < sint ?d" using nonneg by simp
    then show ?thesis
      by (simp add: policy_calculateBackoff_def calculateBackoff_def Let_def policy_of_def
          base_backoff_def [symmetric])
  qed
  then show ?thesis
    by (simp add: ShouldRetry_def NextRetryAt_def shouldRetry_def policy_of_def)
qed

text \<open>The completer and the package retry decide alike: with the same settings they retry in the
  same cases, and at the same instant whenever the delay before jitter is not negative.\<close>

theorem retry_implementations_agree:
  "ShouldRetry oor u now (policy_of p) (sint a) err = (shouldRetry oor u now p a err \<noteq> None) \<and>
   (0 \<le> sint (base_backoff oor p (sint a)) \<longrightarrow> shouldRetry oor u now p a err \<noteq> None \<longrightarrow>
      shouldRetry oor u now p a err = Some (fst (NextRetryAt oor u now (policy_of p) (sint a) err)))"
  by (rule policy_agrees)

theorem retry_implementations_agree_witness:
  "shouldRetry 0 (4503599627370496, - 53) 100 DefaultRetryPolicy 1 (Errorf ''boom'') =
   Some (fst (NextRetryAt 0 (4503599627370496, - 53) 100 (policy_of DefaultRetryPolicy) 1 (Errorf ''boom'')))"
proof -
  have "0 \<le> sint (base_backoff 0 DefaultRetryPolicy (sint (1 :: int16)))"
    unfolding base_backoff_def DefaultRetryPolicy_def RetryPolicy.simps
    by (subst backoff_loop_two) simp_all
  moreover have "shouldRetry 0 (4503599627370496, - 53) 100 DefaultRetryPolicy 1 (Errorf ''boom'') \<noteq> None"
    by (simp add: shouldRetry_def DefaultRetryPolicy_def)
  ultimately show ?thesis
    using retry_implementations_agree [of 0 "(4503599627370496, - 53)" 100 DefaultRetryPolicy 1 "Errorf ''boom''"] by simp
qed

section \<open>The contract of a retry schedule\<close>

text \<open>
  What a consumer of retry decisions may rely on: a decision function of the current time,
  the attempt and the error that gives up after \<open>limit\<close> attempts and otherwise names an
  instant between now and \<open>horizon\<close> later.
\<close>

locale retry_schedule =
  fixes decide :: "instant \<Rightarrow> int16 \<Rightarrow> error \<Rightarrow> instant option"
    and limit :: int and horizon :: int
  assumes gives_up: "limit \<le> sint a \<Longrightarrow> decide now a err = None"
    and not_before: "decide now a err = Some t \<Longrightarrow> now \<le> t"
    and within: "decide now a err = Some t \<Longrightarrow> t \<le> now + horizon"
begin

lemma retried_below: "decide now a err = Some t \<Longrightarrow> sint a < limit"
  using gives_up [of a now err] by fastforce

lemma due_by: "decide now a err = Some t \<Longrightarrow> now + horizon \<le> later \<Longrightarrow> t \<le> later"
  using within by fastforce

text \<open>The attempt that follows a retry is within the limit.\<close>

lemma next_attempt:
  assumes "decide now a err = Some t" and "limit \<le> 32767"
  shows "sint (a + 1) \<le> limit"
  using retried_below [OF assms(1)] sint16_inc [of a] assms(2) by simp

end

text \<open>
  The default policy of the completer is such a schedule, with 25 attempts and a horizon of
  24 hours and 30 percent, for every random answer.
\<close>

definition rand_float :: "nat \<Rightarrow> float64" where
  "rand_float k = (int (k mod 2 ^ 53), - 53)"

lemma unit_rand_float [simp]: "unit_float (rand_float k)"
proof -
  have "k mod 2 ^ 53 < 2 ^ 53" by simp
  then have "int (k mod 2 ^ 53) < int (2 ^ 53)" by (simp only: of_nat_less_iff)
  then show ?thesis by (simp add: unit_float_def rand_float_def)
qed

lemma default_wait:
  assumes "unit_float u"
  shows "0 \<le> sint (calculateBackoff oor u DefaultRetryPolicy a)"
    and "sint (calculateBackoff oor u DefaultRetryPolicy a) \<le> 112320000000000"
proof -
  have "sint (base_backoff oor DefaultRetryPolicy a) = min 86400000000000 (1000000000 * 2 ^ nat (a - 1))"
    unfolding base_backoff_def DefaultRetryPolicy_def RetryPolicy.simps
    by (subst backoff_loop_two) simp_all
  then have b: "0 \<le> sint (base_backoff oor DefaultRetryPolicy a)"
    "sint (base_backoff oor DefaultRetryPolicy a) \<le> 86400000000000" by simp_all
  have "calculateBackoff oor u DefaultRetryPolicy a =
      base_backoff oor DefaultRetryPolicy a + jitter_of oor u (base_backoff oor DefaultRetryPolicy a)"
    by (simp add: calculateBackoff_def Let_def DefaultRetryPolicy_def)
  moreover note j = jitter_bound [OF assms b, of oor]
  ultimately have "sint (calculateBackoff oor u DefaultRetryPolicy a) =
      sint (base_backoff oor DefaultRetryPolicy a) +
      sint (jitter_of oor u (base_backoff oor DefaultRetryPolicy a))"
    using j b by (simp add: sint64_add)
  then show "0 \<le> sint (calculateBackoff oor u DefaultRetryPolicy a)"
    "sint (calculateBackoff oor u DefaultRetryPolicy a) \<le> 112320000000000"
    using j b by simp_all
qed


text \<open>
  \<open>completer_decide\<close> is the decision of a completer built by \<^verbatim>\<open>Client.Start\<close>, which
  always passes \<^verbatim>\<open>executor.DefaultRetryPolicy()\<close>; \<open>k\<close> is the draw of the random
  source.
\<close>

definition completer_decide :: "int64 \<Rightarrow> nat \<Rightarrow> instant \<Rightarrow> int16 \<Rightarrow> error \<Rightarrow> instant option" where
  "completer_decide oor k now a err = shouldRetry oor (rand_float k) now DefaultRetryPolicy a err"

interpretation completer_schedule: retry_schedule "completer_decide oor k" 25 112320000000000
  for oor k
proof
  fix a :: int16 and now err
  show "completer_decide oor k now a err = None" if "25 \<le> sint a"
    using that by (simp add: completer_decide_def shouldRetry_def DefaultRetryPolicy_def)
next
  fix now :: instant and a :: int16 and err t
  assume "completer_decide oor k now a err = Some t"
  then have t: "t = time_Add now (calculateBackoff oor (rand_float k) DefaultRetryPolicy (sint a))"
    by (simp add: completer_decide_def shouldRetry_def split: if_splits)
  show "now \<le> t" and "t \<le> now + 112320000000000"
    unfolding t time_Add_def using default_wait [OF unit_rand_float, of oor k "sint a"] by simp_all
qed

text \<open>The default policy of the package retry keeps the same contract, by the agreement of the two.\<close>

definition policy_decide :: "int64 \<Rightarrow> nat \<Rightarrow> instant \<Rightarrow> int16 \<Rightarrow> error \<Rightarrow> instant option" where
  "policy_decide oor k now a err =
    (case NextRetryAt oor (rand_float k) now DefaultPolicy (sint a) err of
      (t, retry) \<Rightarrow> if retry then Some t else None)"

lemma policy_decide_default: "policy_decide oor k = completer_decide oor k"
proof (intro ext)
  fix now :: instant and a :: int16 and err
  have "0 \<le> sint (base_backoff oor DefaultRetryPolicy (sint a))"
    unfolding base_backoff_def DefaultRetryPolicy_def RetryPolicy.simps
    by (subst backoff_loop_two) simp_all
  then show "policy_decide oor k now a err = completer_decide oor k now a err"
    using policy_agrees [of oor "rand_float k" now DefaultRetryPolicy a err]
    by (auto simp: policy_decide_def completer_decide_def ShouldRetry_def policy_of_default
        split: prod.split)
qed

interpretation policy_schedule: retry_schedule "policy_decide oor k" 25 112320000000000
  for oor k
  unfolding policy_decide_default by (rule completer_schedule.retry_schedule_axioms)

end
