(* ===== verification/Exec_Logs.thy ===== *)
theory Exec_Logs
  imports Schema
begin

text \<open>
  The execution logs of \<^verbatim>\<open>internal/db/db.go\<close>: one log per execution of a job or
  of a workflow step, inserted as \<^verbatim>\<open>running\<close> and closed as \<^verbatim>\<open>completed\<close> or
  \<^verbatim>\<open>failed\<close>. The constraints of migrations 006 and 007 are part of the statements:
  the foreign keys, and the column \<^verbatim>\<open>logs\<close> that must not be null.
\<close>

section \<open>The duration column\<close>

text \<open>
  \<^verbatim>\<open>EXTRACT(MILLISECONDS FROM NOW() - started_at)::INTEGER\<close>: the field MILLISECONDS of
  an interval is its seconds within the minute, with the fraction, times 1000; the cast
  rounds half away from zero.
\<close>

definition duration_ms :: "instant \<Rightarrow> instant \<Rightarrow> int" where
  "duration_ms started now =
    (let d = now - started; r = \<bar>d\<bar> mod 60000000000 in sgn d * ((r + 500000) div 1000000))"

section \<open>Job logs\<close>

definition CreateJobLog ::
  "pg \<Rightarrow> int \<Rightarrow> int16 \<Rightarrow> string \<Rightarrow> json option \<Rightarrow> db \<Rightarrow> (error + int) \<times> db" where
  "CreateJobLog e jobID attempt workerID input =
    run_stmt e (\<lambda>s.
      if seqJobLogs s > seq_max then (Inl seq_error, s)
      else let i = seqJobLogs s; s' = s\<lparr>seqJobLogs := i + 1\<rparr> in
        if find_row jID jobID (tJobs s) = None then (Inl fk_error, s')
        else (Inr i, s'\<lparr>tJobLogs := tJobLogs s @
          [\<lparr>lID = i, lJobID = jobID, lAttempt = attempt, lWorkerID = workerID,
            lStartedAt = pgNow e, lCompletedAt = None, lDurationMs = None, lInput = input,
            lOutput = None, lStatus = ''running'', lError = None, lErrorStack = None,
            lLogs = JArr [], lCreatedAt = pgNow e\<rparr>]\<rparr>))"

definition complete_log :: "instant \<Rightarrow> json option \<Rightarrow> json \<Rightarrow> JobLog \<Rightarrow> JobLog" where
  "complete_log now output logs l =
    l\<lparr>lStatus := ''completed'', lCompletedAt := Some now,
      lDurationMs := Some (duration_ms (lStartedAt l) now), lOutput := output, lLogs := logs\<rparr>"

definition fail_log :: "instant \<Rightarrow> string \<Rightarrow> string \<Rightarrow> json \<Rightarrow> JobLog \<Rightarrow> JobLog" where
  "fail_log now msg stack logs l =
    l\<lparr>lStatus := ''failed'', lCompletedAt := Some now,
      lDurationMs := Some (duration_ms (lStartedAt l) now), lError := Some msg,
      lErrorStack := Some stack, lLogs := logs\<rparr>"

text \<open>A nil \<^verbatim>\<open>logs\<close> is sent as NULL, which the column refuses if a row matches.\<close>

definition CompleteJobLog ::
  "pg \<Rightarrow> int \<Rightarrow> json option \<Rightarrow> json option \<Rightarrow> db \<Rightarrow> (error + unit) \<times> db" where
  "CompleteJobLog e logID output logs =
    run_stmt e (\<lambda>s. case logs of
      None \<Rightarrow> (if find_row lID logID (tJobLogs s) = None then Inr () else Inl not_null_error, s)
    | Some lg \<Rightarrow> (Inr (), s\<lparr>tJobLogs :=
        update_where (\<lambda>l. lID l = logID) (complete_log (pgNow e) output lg) (tJobLogs s)\<rparr>))"

definition FailJobLog ::
  "pg \<Rightarrow> int \<Rightarrow> string \<Rightarrow> string \<Rightarrow> json option \<Rightarrow> db \<Rightarrow> (error + unit) \<times> db" where
  "FailJobLog e logID msg stack logs =
    run_stmt e (\<lambda>s. case logs of
      None \<Rightarrow> (if find_row lID logID (tJobLogs s) = None then Inr () else Inl not_null_error, s)
    | Some lg \<Rightarrow> (Inr (), s\<lparr>tJobLogs :=
        update_where (\<lambda>l. lID l = logID) (fail_log (pgNow e) msg stack lg) (tJobLogs s)\<rparr>))"

text \<open>\<^verbatim>\<open>ORDER BY attempt DESC\<close>; the null texts read as empty.\<close>

definition coalesce :: "string option \<Rightarrow> string option" where
  "coalesce x = (case x of None \<Rightarrow> Some '''' | Some t \<Rightarrow> Some t)"

definition GetJobLogs ::
  "(JobLog list \<Rightarrow> JobLog list) \<Rightarrow> pg \<Rightarrow> int \<Rightarrow> db \<Rightarrow> (error + JobLog list) \<times> db" where
  "GetJobLogs ord e jobID =
    run_stmt e (\<lambda>s. (Inr (map (\<lambda>l. l\<lparr>lError := coalesce (lError l), lErrorStack := coalesce (lErrorStack l)\<rparr>)
      (sort_key (\<lambda>l. - sint (lAttempt l)) (filter (\<lambda>l. lJobID l = jobID) (ord (tJobLogs s))))), s))"

section \<open>Workflow step logs\<close>

definition CreateWorkflowStepLog ::
  "pg \<Rightarrow> int \<Rightarrow> string \<Rightarrow> int \<Rightarrow> string \<Rightarrow> json \<Rightarrow> db \<Rightarrow> (error + int) \<times> db" where
  "CreateWorkflowStepLog e runID stepID attempt workerID input =
    run_stmt e (\<lambda>s.
      if seqStepLogs s > seq_max then (Inl seq_error, s)
      else let i = seqStepLogs s; s' = s\<lparr>seqStepLogs := i + 1\<rparr> in
        if find_row rID runID (tRuns s) = None then (Inl fk_error, s')
        else (Inr i, s'\<lparr>tStepLogs := tStepLogs s @
          [\<lparr>sID = i, sWorkflowRunID = runID, sStepID = stepID, sAttempt = attempt,
            sWorkerID = workerID, sStartedAt = pgNow e, sCompletedAt = None, sDurationMs = None,
            sInput = input, sOutput = None, sStatus = ''running'', sError = None,
            sErrorStack = None, sLogs = JArr [], sCreatedAt = pgNow e\<rparr>]\<rparr>))"

definition complete_step_log :: "instant \<Rightarrow> json option \<Rightarrow> json \<Rightarrow> WorkflowStepLog \<Rightarrow> WorkflowStepLog" where
  "complete_step_log now output logs l =
    l\<lparr>sStatus := ''completed'', sCompletedAt := Some now,
      sDurationMs := Some (duration_ms (sStartedAt l) now), sOutput := output, sLogs := logs\<rparr>"

definition fail_step_log :: "instant \<Rightarrow> string \<Rightarrow> string \<Rightarrow> json \<Rightarrow> WorkflowStepLog \<Rightarrow> WorkflowStepLog" where
  "fail_step_log now msg stack logs l =
    l\<lparr>sStatus := ''failed'', sCompletedAt := Some now,
      sDurationMs := Some (duration_ms (sStartedAt l) now), sError := Some msg,
      sErrorStack := Some stack, sLogs := logs\<rparr>"

definition CompleteWorkflowStepLog ::
  "pg \<Rightarrow> int \<Rightarrow> json option \<Rightarrow> json option \<Rightarrow> db \<Rightarrow> (error + unit) \<times> db" where
  "CompleteWorkflowStepLog e logID output logs =
    run_stmt e (\<lambda>s. case logs of
      None \<Rightarrow> (if find_row sID logID (tStepLogs s) = None then Inr () else Inl not_null_error, s)
    | Some lg \<Rightarrow> (Inr (), s\<lparr>tStepLogs :=
        update_where (\<lambda>l. sID l = logID) (complete_step_log (pgNow e) output lg) (tStepLogs s)\<rparr>))"

definition FailWorkflowStepLog ::
  "pg \<Rightarrow> int \<Rightarrow> string \<Rightarrow> string \<Rightarrow> json option \<Rightarrow> db \<Rightarrow> (error + unit) \<times> db" where
  "FailWorkflowStepLog e logID msg stack logs =
    run_stmt e (\<lambda>s. case logs of
      None \<Rightarrow> (if find_row sID logID (tStepLogs s) = None then Inr () else Inl not_null_error, s)
    | Some lg \<Rightarrow> (Inr (), s\<lparr>tStepLogs :=
        update_where (\<lambda>l. sID l = logID) (fail_step_log (pgNow e) msg stack lg) (tStepLogs s)\<rparr>))"

definition coalesce_step_log :: "WorkflowStepLog \<Rightarrow> WorkflowStepLog" where
  "coalesce_step_log l = l\<lparr>sError := coalesce (sError l), sErrorStack := coalesce (sErrorStack l)\<rparr>"

definition GetWorkflowStepLogs ::
  "(WorkflowStepLog list \<Rightarrow> WorkflowStepLog list) \<Rightarrow> pg \<Rightarrow> int \<Rightarrow> db
    \<Rightarrow> (error + WorkflowStepLog list) \<times> db" where
  "GetWorkflowStepLogs ord e runID =
    run_stmt e (\<lambda>s. (Inr (map coalesce_step_log
      (sort_key (\<lambda>l. - sStartedAt l) (filter (\<lambda>l. sWorkflowRunID l = runID) (ord (tStepLogs s))))), s))"

definition GetWorkflowStepLogsByStep ::
  "(WorkflowStepLog list \<Rightarrow> WorkflowStepLog list) \<Rightarrow> pg \<Rightarrow> int \<Rightarrow> string \<Rightarrow> db
    \<Rightarrow> (error + WorkflowStepLog list) \<times> db" where
  "GetWorkflowStepLogsByStep ord e runID stepID =
    run_stmt e (\<lambda>s. (Inr (map coalesce_step_log
      (sort_key (\<lambda>l. - sAttempt l)
        (filter (\<lambda>l. sWorkflowRunID l = runID \<and> sStepID l = stepID) (ord (tStepLogs s))))), s))"

section \<open>Frames\<close>

interpretation complete_log_upd: keyed_update lID "complete_log now out lg" for now out lg
  by unfold_locales (simp add: complete_log_def)

interpretation fail_log_upd: keyed_update lID "fail_log now msg st lg" for now msg st lg
  by unfold_locales (simp add: fail_log_def)

interpretation complete_step_log_upd: keyed_update sID "complete_step_log now out lg" for now out lg
  by unfold_locales (simp add: complete_step_log_def)

interpretation fail_step_log_upd: keyed_update sID "fail_step_log now msg st lg" for now msg st lg
  by unfold_locales (simp add: fail_step_log_def)

text \<open>The log statements leave the jobs alone.\<close>

lemma job_log_frame [simp]:
  "tJobs (snd (CreateJobLog e i a w inp s)) = tJobs s"
  "tJobs (snd (CompleteJobLog e l out lg s)) = tJobs s"
  "tJobs (snd (FailJobLog e l msg st lg s)) = tJobs s"
  "seqJobs (snd (CreateJobLog e i a w inp s)) = seqJobs s"
  "seqJobs (snd (CompleteJobLog e l out lg s)) = seqJobs s"
  "seqJobs (snd (FailJobLog e l msg st lg s)) = seqJobs s"
  by (simp_all add: CreateJobLog_def CompleteJobLog_def FailJobLog_def run_stmt_def Let_def
      split: outcome.split option.split)

text \<open>The step log statements leave the runs alone.\<close>

lemma step_log_frame [simp]:
  "tRuns (snd (CreateWorkflowStepLog e i st a w inp s)) = tRuns s"
  "tRuns (snd (CompleteWorkflowStepLog e l out lg s)) = tRuns s"
  "tRuns (snd (FailWorkflowStepLog e l msg sk lg s)) = tRuns s"
  "tDefs (snd (CreateWorkflowStepLog e i st a w inp s)) = tDefs s"
  "tDefs (snd (CompleteWorkflowStepLog e l out lg s)) = tDefs s"
  "tDefs (snd (FailWorkflowStepLog e l msg sk lg s)) = tDefs s"
  by (simp_all add: CreateWorkflowStepLog_def CompleteWorkflowStepLog_def FailWorkflowStepLog_def
      run_stmt_def Let_def split: outcome.split option.split)

text \<open>The duration a log reports is the seconds within the last minute only: it is never above
  60000 milliseconds, and an execution that takes a whole number of minutes longer reports
  the same duration.\<close>

theorem log_duration_wraps:
  assumes "started \<le> now" and "0 \<le> k"
  shows "0 \<le> duration_ms started now \<and> duration_ms started now \<le> 60000 \<and>
    (started < now \<longrightarrow> duration_ms started (now + k * 60000000000) = duration_ms started now)"
proof -
  let ?d = "now - started"
  have r: "0 \<le> ?d mod 60000000000" "?d mod 60000000000 < 60000000000" by simp_all
  have b: "duration_ms started now = sgn ?d * ((?d mod 60000000000 + 500000) div 1000000)"
    using assms(1) by (simp add: duration_ms_def Let_def)
  have "(?d mod 60000000000 + 500000) div 1000000 \<le> 60000" using r by linarith
  then have "0 \<le> duration_ms started now \<and> duration_ms started now \<le> 60000"
    unfolding b using assms(1) r(1) by (cases "?d = 0") (simp_all add: pos_imp_zdiv_nonneg_iff)
  moreover have "duration_ms started (now + k * 60000000000) = duration_ms started now" if "started < now"
  proof -
    have eq: "now + k * 60000000000 - started = ?d + k * 60000000000" by simp
    have "(now + k * 60000000000 - started) mod 60000000000 = ?d mod 60000000000"
      unfolding eq by (rule mod_mult_self1)
    moreover have "0 < ?d + k * 60000000000" using that assms(2) by (simp add: add_pos_nonneg)
    moreover have "0 < ?d" using that by simp
    ultimately show ?thesis by (simp add: duration_ms_def Let_def)
  qed
  ultimately show ?thesis by simp
qed

theorem log_duration_wraps_witness:
  "duration_ms 0 (5000000000 + 3 * 60000000000) = 5000"
proof -
  have "duration_ms 0 5000000000 = 5000" by (simp add: duration_ms_def)
  then show ?thesis using log_duration_wraps [of 0 5000000000 3] by simp
qed

end
