(* ===== verification/Executor.thy ===== *)
theory Executor
  imports Enqueue Retry_Spec Exec_Logs
begin

text \<open>
  The execution pipeline of one worker process (\<^verbatim>\<open>internal/executor\<close> and the parts
  of \<^verbatim>\<open>client.go\<close> that drive it): the producer polls the database and fills the jobs
  channel, the workers of the executor run the handlers, the completer writes the outcomes
  back. A channel is the list of its buffered elements with its capacity. The choices Go
  leaves open, which ready branch a \<^verbatim>\<open>select\<close> takes and which goroutine moves next,
  are the events of the system in \<open>Executor_System\<close>.
\<close>

section \<open>Handlers\<close>

text \<open>\<^verbatim>\<open>handler.go\<close>: the public retry policy of a handler, and its options.\<close>

record HandlerRetryPolicy =
  hrMaxAttempts :: int
  hrBackoff :: "(int \<Rightarrow> duration) option"
  hrJitter :: bool
  hrRetryableErrors :: "error list"
  hrDiscardErrors :: "error list"

record HandlerOptions =
  hoQueue :: string
  hoRetry :: HandlerRetryPolicy
  hoTimeout :: duration
  hoConcurrency :: int

definition zero_options :: HandlerOptions where
  "zero_options =
    \<lparr>hoQueue = '''',
     hoRetry = \<lparr>hrMaxAttempts = 0, hrBackoff = None, hrJitter = False, hrRetryableErrors = [],
       hrDiscardErrors = []\<rparr>,
     hoTimeout = 0, hoConcurrency = 0\<rparr>"

record registeredHandler =
  hKind :: string
  hQueue :: string
  hOptions :: HandlerOptions

type_synonym handlers = "string \<rightharpoonup> registeredHandler"

definition RegisterHandler :: "string \<Rightarrow> HandlerOptions list \<Rightarrow> handlers \<Rightarrow> handlers" where
  "RegisterHandler kind opts hs =
    (let options = (case opts of [] \<Rightarrow> zero_options | opt # _ \<Rightarrow> opt);
         queue = (if hoQueue options = '''' then kind else hoQueue options)
     in hs(kind \<mapsto> \<lparr>hKind = kind, hQueue = queue, hOptions = options\<rparr>))"

definition ErrHandlerNotFound :: error where
  "ErrHandlerNotFound = Sentinel 3 ''handler not found for job kind''"

text \<open>
  What the user's handler does when it is called: it returns, with the log entries it wrote
  as JSON, or it panics (the text is that of the panic and the stack).
\<close>

datatype handler_call =
    Returns "error option" json
  | Panics string

datatype call_result =
    Result "error option"
  | Panic string

text \<open>
  \<open>handleJob\<close> logs the execution around the call. It does not recover, so a panic leaves
  the log as it was opened.
\<close>

definition handleJob ::
  "handlers \<Rightarrow> string \<Rightarrow> pg \<Rightarrow> pg \<Rightarrow> handler_call \<Rightarrow> JobRow \<Rightarrow> db \<Rightarrow> call_result \<times> db" where
  "handleJob hs workerID e1 e2 call jobRow s =
    (case hs (jKind jobRow) of
      None \<Rightarrow> (Result (Some (Wrapped '''' ErrHandlerNotFound ('': '' @ jKind jobRow))), s)
    | Some handler \<Rightarrow>
      (let job = jobFromRow jobRow;
           (logged, s1) = CreateJobLog e1 (ID job) (Attempt job) workerID (Some (Payload job)) s;
           logID = (case logged of Inr i \<Rightarrow> i | Inl _ \<Rightarrow> 0)
       in case call of
         Panics msg \<Rightarrow> (Panic msg, s1)
       | Returns (Some err) logs \<Rightarrow>
           (Result (Some err), snd (FailJobLog e2 logID (err_msg err) '''' (Some logs) s1))
       | Returns None logs \<Rightarrow> (Result None, snd (CompleteJobLog e2 logID None (Some logs) s1))))"

section \<open>The executor\<close>

record JobResult =
  rJob :: JobRow
  rError :: "error option"

text \<open>\<open>executeJob\<close> recovers: a panic becomes an error result.\<close>

definition executeJob ::
  "handlers \<Rightarrow> string \<Rightarrow> pg \<Rightarrow> pg \<Rightarrow> handler_call \<Rightarrow> JobRow \<Rightarrow> db \<Rightarrow> JobResult \<times> db" where
  "executeJob hs workerID e1 e2 call job s =
    (case handleJob hs workerID e1 e2 call job s of
      (Result err, s') \<Rightarrow> (\<lparr>rJob = job, rError = err\<rparr>, s')
    | (Panic msg, s') \<Rightarrow> (\<lparr>rJob = job, rError = Some (Errorf (''panic: '' @ msg))\<rparr>, s'))"

text \<open>
  \<open>exWorkers\<close> counts the worker goroutines that have not returned, \<open>exBusy\<close> the jobs
  taken and not finished, \<open>exReady\<close> the results whose worker is about to send them.
  \<open>exStopped\<close> says that the shutdown channel is closed or the context done.
\<close>

record Executor =
  exWorkers :: nat
  exBusy :: "JobRow list"
  exReady :: "JobResult list"
  exResults :: "JobResult list"
  exResultsCap :: nat
  exStopped :: bool

definition NewExecutor :: "nat \<Rightarrow> Executor" where
  "NewExecutor cfgWorkers =
    (let workers = (if cfgWorkers = 0 then 10 else cfgWorkers) in
     \<lparr>exWorkers = workers, exBusy = [], exReady = [], exResults = [],
      exResultsCap = workers * 2, exStopped = False\<rparr>)"

definition idle_worker :: "Executor \<Rightarrow> bool" where
  "idle_worker ex \<longleftrightarrow> length (exBusy ex) + length (exReady ex) < exWorkers ex"

section \<open>The producer\<close>

text \<open>
  \<open>pdDone\<close> says that \<open>run\<close> has returned and closed the jobs channel.
\<close>

record Producer =
  pdNamespace :: string
  pdQueues :: "string list"
  pdWorkerID :: string
  pdBatchSize :: nat
  pdJobs :: "JobRow list"
  pdJobsCap :: nat
  pdStopped :: bool
  pdDone :: bool

definition NewProducer :: "string \<Rightarrow> string list \<Rightarrow> string \<Rightarrow> nat \<Rightarrow> nat \<Rightarrow> Producer" where
  "NewProducer ns queues workerID cfgBatch cfgBuffer =
    \<lparr>pdNamespace = ns, pdQueues = (if queues = [] then [''default''] else queues),
     pdWorkerID = workerID, pdBatchSize = (if cfgBatch = 0 then 100 else cfgBatch),
     pdJobs = [], pdJobsCap = (if cfgBuffer = 0 then 1000 else cfgBuffer),
     pdStopped = False, pdDone = False\<rparr>"

text \<open>
  The free space of the channel bounds the fetch, and nobody else sends, so every send has
  room. Once the producer is told to stop, each send may lose the race against the closed
  channel: \<open>sent\<close> jobs get through and the rest of the batch is dropped.
\<close>

definition fetchAndSend ::
  "(JobRow list \<Rightarrow> JobRow list) \<Rightarrow> pg \<Rightarrow> nat \<Rightarrow> Producer \<Rightarrow> db \<Rightarrow> Producer \<times> db" where
  "fetchAndSend ord e sent p s =
    (let available = int (pdJobsCap p) - int (length (pdJobs p)) in
     if available \<le> 0 then (p, s)
     else let limit = (if available < int (pdBatchSize p) then available else int (pdBatchSize p)) in
       case FetchJobs ord e (pdNamespace p) (pdQueues p) limit (pdWorkerID p) s of
         (Inl err, s') \<Rightarrow> (p, s')
       | (Inr jobs, s') \<Rightarrow>
           (p\<lparr>pdJobs := pdJobs p @ (if pdStopped p then take sent jobs else jobs)\<rparr>, s'))"

section \<open>The completer\<close>

record Completer =
  cpPolicy :: RetryPolicy
  cpStopped :: bool
  cpDone :: bool

definition NewCompleter :: "RetryPolicy \<Rightarrow> Completer" where
  "NewCompleter policy =
    \<lparr>cpPolicy = (if RetryPolicy.MaxAttempts policy = 0 then DefaultRetryPolicy else policy),
     cpStopped = False, cpDone = False\<rparr>"

definition handleResult ::
  "int64 \<Rightarrow> nat \<Rightarrow> instant \<Rightarrow> pg \<Rightarrow> Completer \<Rightarrow> JobResult \<Rightarrow> db \<Rightarrow> db" where
  "handleResult oor k now e c result s =
    (case rError result of
      None \<Rightarrow> snd (CompleteJob e (jID (rJob result)) s)
    | Some err \<Rightarrow>
        (let retryAt = shouldRetry oor (rand_float k) now (cpPolicy c) (jAttempt (rJob result)) err
         in snd (FailJob e (jID (rJob result)) (err_msg err) retryAt s)))"

end
