(* ===== verification/Executor_System.thy ===== *)
theory Executor_System
  imports Executor
begin

text \<open>
  Any number of worker processes over one database, as a transition system. An event is one
  move of one goroutine, or one statement of an API client; an event whose guard does not
  hold changes nothing. The invariant \<open>sys_inv\<close> says who holds which job: no job is held
  twice, every held job is recorded as running (or was cancelled meanwhile) with the attempt
  the holder knows, and no job is attempted more than 25 times.
\<close>

record pipeline =
  plProducer :: Producer
  plExecutor :: Executor
  plCompleter :: Completer

record sys =
  sDB :: db
  sPipes :: "nat \<Rightarrow> pipeline"

text \<open>The jobs a process holds: buffered, being executed, or waiting to be written back.\<close>

definition held :: "pipeline \<Rightarrow> JobRow list" where
  "held p = pdJobs (plProducer p) @ exBusy (plExecutor p) @
    map rJob (exReady (plExecutor p)) @ map rJob (exResults (plExecutor p))"

section \<open>Steps\<close>

datatype sys_event =
    Producer_Fetch nat "JobRow list \<Rightarrow> JobRow list" pg nat
  | Producer_Exit nat
  | Worker_Take nat
  | Worker_Execute nat nat handlers pg pg handler_call
  | Worker_Send nat nat
  | Worker_Drop nat nat
  | Worker_Exit nat
  | Completer_Handle nat int64 nat instant pg
  | Completer_Exit nat
  | Stop_Producer nat
  | Stop_Executor nat
  | Stop_Completer nat
  | Context_Done nat
  | Process_Dies nat
  | Scheduler_Tick pg string
  | Api_Insert pg string enqueue_env EnqueueParams json json
  | Api_Cancel pg int

definition remove_at :: "nat \<Rightarrow> 'a list \<Rightarrow> 'a list" where
  "remove_at j xs = take j xs @ drop (Suc j) xs"

text \<open>The producer: a tick of \<open>run\<close>, and its return, which closes the jobs channel.\<close>

definition producer_fetch ::
  "(JobRow list \<Rightarrow> JobRow list) \<Rightarrow> pg \<Rightarrow> nat \<Rightarrow> pipeline \<Rightarrow> db \<Rightarrow> pipeline \<times> db" where
  "producer_fetch ord e sent p s =
    (if pdDone (plProducer p) then (p, s)
     else case fetchAndSend ord e sent (plProducer p) s of (pd, s') \<Rightarrow> (p\<lparr>plProducer := pd\<rparr>, s'))"

definition producer_exit :: "pipeline \<Rightarrow> pipeline" where
  "producer_exit p =
    (if pdStopped (plProducer p) then p\<lparr>plProducer := (plProducer p)\<lparr>pdDone := True\<rparr>\<rparr> else p)"

text \<open>A worker: receive a job, execute it, send the result, or return.\<close>

definition worker_take :: "pipeline \<Rightarrow> pipeline" where
  "worker_take p =
    (case pdJobs (plProducer p) of
      [] \<Rightarrow> p
    | job # rest \<Rightarrow>
        if idle_worker (plExecutor p)
        then p\<lparr>plProducer := (plProducer p)\<lparr>pdJobs := rest\<rparr>,
               plExecutor := (plExecutor p)\<lparr>exBusy := exBusy (plExecutor p) @ [job]\<rparr>\<rparr>
        else p)"

definition worker_execute ::
  "nat \<Rightarrow> handlers \<Rightarrow> pg \<Rightarrow> pg \<Rightarrow> handler_call \<Rightarrow> pipeline \<Rightarrow> db \<Rightarrow> pipeline \<times> db" where
  "worker_execute j hs e1 e2 call p s =
    (let ex = plExecutor p in
     if j < length (exBusy ex)
     then case executeJob hs (pdWorkerID (plProducer p)) e1 e2 call (exBusy ex ! j) s of
       (result, s') \<Rightarrow>
         (p\<lparr>plExecutor := ex\<lparr>exBusy := remove_at j (exBusy ex), exReady := exReady ex @ [result]\<rparr>\<rparr>, s')
     else (p, s))"

definition worker_send :: "nat \<Rightarrow> pipeline \<Rightarrow> pipeline" where
  "worker_send j p =
    (let ex = plExecutor p in
     if j < length (exReady ex) \<and> length (exResults ex) < exResultsCap ex
     then p\<lparr>plExecutor := ex\<lparr>exReady := remove_at j (exReady ex),
            exResults := exResults ex @ [exReady ex ! j]\<rparr>\<rparr>
     else p)"

text \<open>Told to stop, a worker may return with the result it holds unsent.\<close>

definition worker_drop :: "nat \<Rightarrow> pipeline \<Rightarrow> pipeline" where
  "worker_drop j p =
    (let ex = plExecutor p in
     if exStopped ex \<and> j < length (exReady ex)
     then p\<lparr>plExecutor := ex\<lparr>exReady := remove_at j (exReady ex), exWorkers := exWorkers ex - 1\<rparr>\<rparr>
     else p)"

definition worker_exit :: "pipeline \<Rightarrow> pipeline" where
  "worker_exit p =
    (let ex = plExecutor p in
     if idle_worker ex \<and>
        (exStopped ex \<or> pdDone (plProducer p) \<and> pdJobs (plProducer p) = [])
     then p\<lparr>plExecutor := ex\<lparr>exWorkers := exWorkers ex - 1\<rparr>\<rparr>
     else p)"

text \<open>The completer: receive a result and write it back, or return.\<close>

definition completer_handle ::
  "int64 \<Rightarrow> nat \<Rightarrow> instant \<Rightarrow> pg \<Rightarrow> pipeline \<Rightarrow> db \<Rightarrow> pipeline \<times> db" where
  "completer_handle oor k now e p s =
    (case exResults (plExecutor p) of
      [] \<Rightarrow> (p, s)
    | result # rest \<Rightarrow>
        if cpDone (plCompleter p) then (p, s)
        else (p\<lparr>plExecutor := (plExecutor p)\<lparr>exResults := rest\<rparr>\<rparr>,
              handleResult oor k now e (plCompleter p) result s))"

definition completer_exit :: "pipeline \<Rightarrow> pipeline" where
  "completer_exit p =
    (if cpStopped (plCompleter p) \<or> exWorkers (plExecutor p) = 0 \<and> exResults (plExecutor p) = []
     then p\<lparr>plCompleter := (plCompleter p)\<lparr>cpDone := True\<rparr>\<rparr> else p)"

text \<open>
  The goroutine of \<^verbatim>\<open>Client.Start\<close> that waits for the shutdown stops the components
  in order, each after the one before has finished.
\<close>

definition stop_producer :: "pipeline \<Rightarrow> pipeline" where
  "stop_producer p = p\<lparr>plProducer := (plProducer p)\<lparr>pdStopped := True\<rparr>\<rparr>"

definition stop_executor :: "pipeline \<Rightarrow> pipeline" where
  "stop_executor p =
    (if pdDone (plProducer p) then p\<lparr>plExecutor := (plExecutor p)\<lparr>exStopped := True\<rparr>\<rparr> else p)"

definition stop_completer :: "pipeline \<Rightarrow> pipeline" where
  "stop_completer p =
    (if exStopped (plExecutor p) \<and> exWorkers (plExecutor p) = 0
     then p\<lparr>plCompleter := (plCompleter p)\<lparr>cpStopped := True\<rparr>\<rparr> else p)"

definition context_done :: "pipeline \<Rightarrow> pipeline" where
  "context_done p =
    p\<lparr>plProducer := (plProducer p)\<lparr>pdStopped := True\<rparr>,
      plExecutor := (plExecutor p)\<lparr>exStopped := True\<rparr>,
      plCompleter := (plCompleter p)\<lparr>cpStopped := True\<rparr>\<rparr>"

text \<open>The end of the process, in whatever state: what it holds is gone.\<close>

definition process_dies :: "pipeline \<Rightarrow> pipeline" where
  "process_dies p =
    p\<lparr>plProducer := (plProducer p)\<lparr>pdJobs := [], pdStopped := True, pdDone := True\<rparr>,
      plExecutor := (plExecutor p)\<lparr>exWorkers := 0, exBusy := [], exReady := [], exResults := [],
        exStopped := True\<rparr>,
      plCompleter := (plCompleter p)\<lparr>cpStopped := True, cpDone := True\<rparr>\<rparr>"

definition on_pipe :: "nat \<Rightarrow> (pipeline \<Rightarrow> pipeline) \<Rightarrow> sys \<Rightarrow> sys" where
  "on_pipe i f s = s\<lparr>sPipes := (sPipes s)(i := f (sPipes s i))\<rparr>"

definition on_both :: "nat \<Rightarrow> (pipeline \<Rightarrow> db \<Rightarrow> pipeline \<times> db) \<Rightarrow> sys \<Rightarrow> sys" where
  "on_both i f s =
    (case f (sPipes s i) (sDB s) of (p, d) \<Rightarrow> \<lparr>sDB = d, sPipes = (sPipes s)(i := p)\<rparr>)"

fun sys_step :: "sys \<Rightarrow> sys_event \<Rightarrow> sys" where
  "sys_step s (Producer_Fetch i ord e sent) = on_both i (producer_fetch ord e sent) s"
| "sys_step s (Producer_Exit i) = on_pipe i producer_exit s"
| "sys_step s (Worker_Take i) = on_pipe i worker_take s"
| "sys_step s (Worker_Execute i j hs e1 e2 call) = on_both i (worker_execute j hs e1 e2 call) s"
| "sys_step s (Worker_Send i j) = on_pipe i (worker_send j) s"
| "sys_step s (Worker_Drop i j) = on_pipe i (worker_drop j) s"
| "sys_step s (Worker_Exit i) = on_pipe i worker_exit s"
| "sys_step s (Completer_Handle i oor k now e) = on_both i (completer_handle oor k now e) s"
| "sys_step s (Completer_Exit i) = on_pipe i completer_exit s"
| "sys_step s (Stop_Producer i) = on_pipe i stop_producer s"
| "sys_step s (Stop_Executor i) = on_pipe i stop_executor s"
| "sys_step s (Stop_Completer i) = on_pipe i stop_completer s"
| "sys_step s (Context_Done i) = on_pipe i context_done s"
| "sys_step s (Process_Dies i) = on_pipe i process_dies s"
| "sys_step s (Scheduler_Tick e ns) = s\<lparr>sDB := snd (PromoteScheduledJobs e ns (sDB s))\<rparr>"
| "sys_step s (Api_Insert e ns ev p pl md) =
    s\<lparr>sDB := snd (insert_new e (insert_params ns ev p pl md) (sDB s))\<rparr>"
| "sys_step s (Api_Cancel e i) = s\<lparr>sDB := snd (CancelJob e i (sDB s))\<rparr>"

section \<open>The invariant\<close>

text \<open>A fetch is proper when the server's order is a rearrangement of the rows.\<close>

fun proper :: "sys_event \<Rightarrow> bool" where
  "proper (Producer_Fetch i ord e sent) = (\<forall>xs. mset (ord xs) = mset xs)"
| "proper _ = True"

definition backed :: "db \<Rightarrow> JobRow \<Rightarrow> bool" where
  "backed d w \<longleftrightarrow>
    (case job_lookup (jID w) d of
      None \<Rightarrow> False
    | Some r \<Rightarrow> jState r \<in> {JobStateRunning, JobStateCancelled} \<and> jAttempt r = jAttempt w)"

definition attempt_ok :: "JobRow \<Rightarrow> bool" where
  "attempt_ok r \<longleftrightarrow> 0 \<le> sint (jAttempt r) \<and> sint (jAttempt r) \<le> 25 \<and>
    (jState r \<in> {JobStateAvailable, JobStateScheduled, JobStateRetryable} \<longrightarrow> sint (jAttempt r) < 25)"

definition sys_inv :: "sys \<Rightarrow> bool" where
  "sys_inv s \<longleftrightarrow>
    jobs_wf (sDB s) \<and> (\<forall>r \<in> set (tJobs (sDB s)). attempt_ok r) \<and>
    (\<forall>i. cpPolicy (plCompleter (sPipes s i)) = DefaultRetryPolicy) \<and>
    (\<forall>i. distinct (map jID (held (sPipes s i)))) \<and>
    (\<forall>i j. i \<noteq> j \<longrightarrow> jID ` set (held (sPipes s i)) \<inter> jID ` set (held (sPipes s j)) = {}) \<and>
    (\<forall>i. \<forall>w \<in> set (held (sPipes s i)). backed (sDB s) w)"

text \<open>The start: an empty database, and processes built by \<^verbatim>\<open>Client.Start\<close> with any settings.\<close>

definition new_pipeline :: "string \<Rightarrow> string list \<Rightarrow> string \<Rightarrow> nat \<Rightarrow> pipeline" where
  "new_pipeline ns queues workerID workers =
    \<lparr>plProducer = NewProducer ns queues workerID 100 (workers * 10),
     plExecutor = NewExecutor workers,
     plCompleter = NewCompleter DefaultRetryPolicy\<rparr>"

definition start_sys :: "(nat \<Rightarrow> string \<times> string list \<times> string \<times> nat) \<Rightarrow> sys" where
  "start_sys cfg =
    \<lparr>sDB = empty_db,
     sPipes = (\<lambda>i. case cfg i of (ns, qs, w, n) \<Rightarrow> new_pipeline ns qs w n)\<rparr>"

lemma held_new [simp]: "held (new_pipeline ns qs w n) = []"
  by (simp add: held_def new_pipeline_def NewProducer_def NewExecutor_def Let_def)

lemma policy_new [simp]: "cpPolicy (plCompleter (new_pipeline ns qs w n)) = DefaultRetryPolicy"
  by (simp add: new_pipeline_def NewCompleter_def DefaultRetryPolicy_def)

lemma start_inv: "sys_inv (start_sys cfg)"
proof -
  have "tJobs empty_db = []" by (simp add: empty_db_def)
  then show ?thesis
    by (auto simp: sys_inv_def start_sys_def empty_db_wf split: prod.split)
qed

end
