(* ===== verification/Executor_Inv.thy ===== *)
theory Executor_Inv
  imports Executor_System
begin

text \<open>
  Every step of the worker processes and of the API clients keeps \<open>sys_inv\<close>: first the
  steps inside a process, which move or lose held jobs, then the statements on the job
  table, then the fetch and the completer, which do both.
\<close>

section \<open>Steps inside a process\<close>

lemma sys_update: "s\<lparr>sPipes := ps\<rparr> = \<lparr>sDB = sDB s, sPipes = ps\<rparr>"
  by (cases s) simp

lemma sys_self [simp]: "\<lparr>sDB = sDB s, sPipes = sPipes s\<rparr> = s"
  by (cases s) simp

lemma sys_inv_shrink:
  assumes inv: "sys_inv s" and sub: "mset (held p) \<subseteq># mset (held (sPipes s i))"
    and pol: "cpPolicy (plCompleter p) = cpPolicy (plCompleter (sPipes s i))"
    and db: "tJobs d = tJobs (sDB s)" "seqJobs d = seqJobs (sDB s)"
  shows "sys_inv \<lparr>sDB = d, sPipes = (sPipes s)(i := p)\<rparr>"
proof -
  have sets: "set (held p) \<subseteq> set (held (sPipes s i))" using set_mset_mono [OF sub] by simp
  have "mset (map jID (held p)) \<subseteq># mset (map jID (held (sPipes s i)))"
    unfolding mset_map using sub by (rule image_mset_subseteq_mono)
  moreover have "distinct (map jID (held (sPipes s i)))" using inv unfolding sys_inv_def by blast
  ultimately have dist: "distinct (map jID (held p))" by (rule distinct_mset_sub)
  have wf: "jobs_wf d = jobs_wf (sDB s)" by (simp add: jobs_wf_def db)
  have bk: "backed d w = backed (sDB s) w" for w by (simp add: backed_def job_lookup_def db)
  have apart: "jID ` set (held (((sPipes s)(i := p)) j)) \<inter> jID ` set (held (((sPipes s)(i := p)) k)) = {}"
    if "j \<noteq> k" for j k
  proof -
    have "set (held (((sPipes s)(i := p)) m)) \<subseteq> set (held (sPipes s m))" for m using sets by simp
    then have "jID ` set (held (((sPipes s)(i := p)) m)) \<subseteq> jID ` set (held (sPipes s m))" for m
      by (intro image_mono)
    moreover have "jID ` set (held (sPipes s j)) \<inter> jID ` set (held (sPipes s k)) = {}"
      using inv that unfolding sys_inv_def by blast
    ultimately show ?thesis by blast
  qed
  have backs: "\<forall>w \<in> set (held (((sPipes s)(i := p)) j)). backed (sDB s) w" for j
    using inv sets unfolding sys_inv_def by (cases "j = i") auto
  have dists: "distinct (map jID (held (((sPipes s)(i := p)) j)))"
    and pols: "cpPolicy (plCompleter (((sPipes s)(i := p)) j)) = DefaultRetryPolicy" for j
    using inv dist pol unfolding sys_inv_def by simp_all
  have "jobs_wf (sDB s)" and "\<forall>r \<in> set (tJobs (sDB s)). attempt_ok r"
    using inv unfolding sys_inv_def by blast+
  then show ?thesis
    unfolding sys_inv_def sys.simps wf bk db using apart backs dists pols by blast
qed

lemma sys_inv_on_pipe:
  assumes "sys_inv s" and "mset (held (f (sPipes s i))) \<subseteq># mset (held (sPipes s i))"
    and "cpPolicy (plCompleter (f (sPipes s i))) = cpPolicy (plCompleter (sPipes s i))"
  shows "sys_inv (on_pipe i f s)"
  unfolding on_pipe_def sys_update using assms by (intro sys_inv_shrink) simp_all

lemma mset_remove_at: "j < length xs \<Longrightarrow> add_mset (xs ! j) (mset (remove_at j xs)) = mset xs"
proof -
  assume j: "j < length xs"
  have "mset xs = mset (take j xs @ xs ! j # drop (Suc j) xs)" using id_take_nth_drop [OF j] by simp
  then show ?thesis by (simp add: remove_at_def)
qed

lemma image_remove_at:
  "j < length xs \<Longrightarrow> add_mset (f (xs ! j)) (image_mset f (mset (remove_at j xs))) = image_mset f (mset xs)"
  by (metis mset_remove_at image_mset_add_mset)

lemma held_worker_take: "mset (held (worker_take p)) = mset (held p)"
  by (simp add: worker_take_def held_def split: list.split)

lemma held_worker_send: "mset (held (worker_send j p)) = mset (held p)"
proof (cases "j < length (exReady (plExecutor p))")
  case True
  then show ?thesis
    using image_remove_at [of j "exReady (plExecutor p)" rJob]
    by (simp add: worker_send_def held_def Let_def)
qed (simp add: worker_send_def)

lemma held_worker_drop: "mset (held (worker_drop j p)) \<subseteq># mset (held p)"
proof (cases "j < length (exReady (plExecutor p))")
  case True
  then have "image_mset rJob (mset (remove_at j (exReady (plExecutor p))))
      \<subseteq># image_mset rJob (mset (exReady (plExecutor p)))"
    by (simp flip: image_remove_at [of j _ rJob])
  then show ?thesis
    by (simp add: worker_drop_def held_def Let_def subset_mset.add_mono)
qed (simp add: worker_drop_def)

lemma executeJob_job: "rJob (fst (executeJob hs w e1 e2 call job s)) = job"
  by (simp add: executeJob_def split: prod.split call_result.split)

lemma handleJob_frame:
  "tJobs (snd (handleJob hs w e1 e2 call job s)) = tJobs s"
  "seqJobs (snd (handleJob hs w e1 e2 call job s)) = seqJobs s"
proof -
  obtain x s1 where c: "CreateJobLog e1 (ID (jobFromRow job)) (Attempt (jobFromRow job)) w
      (Some (Payload (jobFromRow job))) s = (x, s1)" by fastforce
  then have "tJobs s1 = tJobs s" "seqJobs s1 = seqJobs s" using job_log_frame by (metis snd_conv)+
  then show "tJobs (snd (handleJob hs w e1 e2 call job s)) = tJobs s"
    "seqJobs (snd (handleJob hs w e1 e2 call job s)) = seqJobs s"
    by (simp_all add: handleJob_def Let_def c split: option.split handler_call.split)
qed

lemma executeJob_frame:
  "tJobs (snd (executeJob hs w e1 e2 call job s)) = tJobs s"
  "seqJobs (snd (executeJob hs w e1 e2 call job s)) = seqJobs s"
  using handleJob_frame [of hs w e1 e2 call job s]
  by (auto simp: executeJob_def split: prod.split call_result.split)

lemma worker_execute_inv: "sys_inv s \<Longrightarrow> sys_inv (on_both i (worker_execute j hs e1 e2 call) s)"
proof (cases "j < length (exBusy (plExecutor (sPipes s i)))")
  case False
  assume "sys_inv s"
  with False show ?thesis by (simp add: on_both_def worker_execute_def Let_def)
next
  case True
  assume inv: "sys_inv s"
  let ?p = "sPipes s i" let ?ex = "plExecutor ?p"
  obtain res d where run:
    "executeJob hs (pdWorkerID (plProducer ?p)) e1 e2 call (exBusy ?ex ! j) (sDB s) = (res, d)"
    by fastforce
  have job: "rJob res = exBusy ?ex ! j" and db: "tJobs d = tJobs (sDB s)" "seqJobs d = seqJobs (sDB s)"
    using executeJob_job executeJob_frame run by (metis fst_conv snd_conv)+
  let ?q = "?p\<lparr>plExecutor := ?ex\<lparr>exBusy := remove_at j (exBusy ?ex), exReady := exReady ?ex @ [res]\<rparr>\<rparr>"
  have "mset (held ?q) = mset (held ?p)"
    using mset_remove_at [OF True] job by (simp add: held_def)
  then have "sys_inv \<lparr>sDB = d, sPipes = (sPipes s)(i := ?q)\<rparr>"
    using inv db by (intro sys_inv_shrink) simp_all
  then show ?thesis using True run by (simp add: on_both_def worker_execute_def Let_def)
qed

section \<open>Statements on the job table\<close>

abbreviation attempts_ok :: "db \<Rightarrow> bool" where
  "attempts_ok d \<equiv> \<forall>r \<in> set (tJobs d). attempt_ok r"

lemma sys_inv_db:
  assumes "sys_inv s" and "jobs_wf d" and "attempts_ok d"
    and "\<And>i w. w \<in> set (held (sPipes s i)) \<Longrightarrow> backed (sDB s) w \<Longrightarrow> backed d w"
  shows "sys_inv (s\<lparr>sDB := d\<rparr>)"
  using assms unfolding sys_inv_def by (auto 4 3)

lemma attempts_ok_update:
  assumes "attempts_ok d" and "\<And>r. r \<in> set (tJobs d) \<Longrightarrow> p r \<Longrightarrow> attempt_ok (f r)"
  shows "attempts_ok (d\<lparr>tJobs := update_where p f (tJobs d)\<rparr>)"
  using assms by (auto simp: set_update_where)

lemma attempt_ok_states:
  "attempt_ok r \<Longrightarrow> attempt_ok (complete_row now r)"
  "attempt_ok r \<Longrightarrow> attempt_ok (cancel_row now r)"
  "attempt_ok r \<Longrightarrow> attempt_ok (fail_row now msg None r)"
  "attempt_ok r \<Longrightarrow> sint (jAttempt r) < 25 \<Longrightarrow> attempt_ok (fail_row now msg (Some t) r)"
  "attempt_ok r \<Longrightarrow> due now' ns r \<Longrightarrow> attempt_ok (promote_row now r)"
  by (auto simp: attempt_ok_def row_simps due_def)

lemma attempt_ok_claim: "attempt_ok r \<Longrightarrow> jState r = JobStateAvailable \<Longrightarrow> attempt_ok (claim now w r)"
  using sint16_inc [of "jAttempt r"] by (auto simp: attempt_ok_def claim_def)

lemma insert_attempts_ok:
  "attempts_ok d \<Longrightarrow> attempts_ok (snd (insert_new e (insert_params ns ev p pl md) d))"
  unfolding insert_new_state
proof (rule run_stmt_keeps [where P = attempts_ok])
  assume ok: "attempts_ok d"
  have "attempt_ok (new_job now i (insert_params ns ev p pl md))" for now i
    by (simp add: attempt_ok_def new_job_def)
  then show "attempts_ok (snd (insert_stmt (pgNow e) (insert_params ns ev p pl md) d))"
    using ok by (simp add: insert_stmt_def Let_def)
qed

lemma backed_insert: "backed d w \<Longrightarrow> backed (snd (insert_new e p d)) w"
  unfolding insert_new_state
  by (rule run_stmt_keeps [where P = "\<lambda>d. backed d w"])
    (auto simp: backed_def job_lookup_def insert_stmt_def Let_def split: option.splits)

lemma backed_promote: "backed d w \<Longrightarrow> backed (snd (PromoteScheduledJobs e ns d)) w"
  unfolding PromoteScheduledJobs_def
  by (rule run_stmt_keeps [where P = "\<lambda>d. backed d w"])
    (auto simp: backed_def job_lookup_def promote_upd.find_update due_def split: option.splits)

lemma backed_cancel: "backed d w \<Longrightarrow> backed (snd (CancelJob e i d)) w"
  unfolding CancelJob_def
  by (rule run_stmt_keeps [where P = "\<lambda>d. backed d w"])
    (auto simp: backed_def job_lookup_def cancel_upd.find_update cancel_row_def split: option.splits)

lemma backed_other:
  assumes "backed d w" and "jID w \<noteq> i" and "\<And>r. jID (f r) = jID r"
  shows "backed (d\<lparr>tJobs := update_where (\<lambda>r. jID r = i) f (tJobs d)\<rparr>) w"
proof -
  have "keyed_update jID f" using assms(3) by unfold_locales
  from keyed_update.find_update_key [OF this] show ?thesis
    using assms(1,2) by (simp add: backed_def job_lookup_def)
qed

lemma promote_inv: "sys_inv s \<Longrightarrow> sys_inv (s\<lparr>sDB := snd (PromoteScheduledJobs e ns (sDB s))\<rparr>)"
proof (rule sys_inv_db)
  assume inv: "sys_inv s"
  then show "jobs_wf (snd (PromoteScheduledJobs e ns (sDB s)))"
    by (simp add: sys_inv_def Promote_wf)
  have "attempts_ok (sDB s)" using inv by (simp add: sys_inv_def)
  then show "attempts_ok (snd (PromoteScheduledJobs e ns (sDB s)))"
    unfolding PromoteScheduledJobs_def
    by (rule run_stmt_keeps [where P = attempts_ok])
      (simp only: snd_conv, rule attempts_ok_update, simp, simp add: attempt_ok_states)
qed (auto intro: backed_promote)

lemma cancel_inv: "sys_inv s \<Longrightarrow> sys_inv (s\<lparr>sDB := snd (CancelJob e i (sDB s))\<rparr>)"
proof (rule sys_inv_db)
  assume inv: "sys_inv s"
  then show "jobs_wf (snd (CancelJob e i (sDB s)))" by (simp add: sys_inv_def CancelJob_wf)
  have "attempts_ok (sDB s)" using inv by (simp add: sys_inv_def)
  then show "attempts_ok (snd (CancelJob e i (sDB s)))"
    unfolding CancelJob_def
    by (rule run_stmt_keeps [where P = attempts_ok])
      (simp only: snd_conv, rule attempts_ok_update, simp, simp add: attempt_ok_states)
qed (auto intro: backed_cancel)

lemma insert_inv:
  "sys_inv s \<Longrightarrow> sys_inv (s\<lparr>sDB := snd (insert_new e (insert_params ns ev p pl md) (sDB s))\<rparr>)"
proof (rule sys_inv_db)
  assume inv: "sys_inv s"
  then show "jobs_wf (snd (insert_new e (insert_params ns ev p pl md) (sDB s)))"
    by (simp add: sys_inv_def insert_new_wf)
  have "attempts_ok (sDB s)" using inv by (simp add: sys_inv_def)
  then show "attempts_ok (snd (insert_new e (insert_params ns ev p pl md) (sDB s)))"
    by (rule insert_attempts_ok)
qed (auto intro: backed_insert)

section \<open>Fetching\<close>

lemma sys_invD:
  assumes "sys_inv s"
  shows "jobs_wf (sDB s)" and "attempts_ok (sDB s)"
    and "cpPolicy (plCompleter (sPipes s i)) = DefaultRetryPolicy"
    and "distinct (map jID (held (sPipes s i)))"
    and "i \<noteq> j \<Longrightarrow> jID ` set (held (sPipes s i)) \<inter> jID ` set (held (sPipes s j)) = {}"
    and "w \<in> set (held (sPipes s i)) \<Longrightarrow> backed (sDB s) w"
  using assms unfolding sys_inv_def by blast+

text \<open>A process gains jobs nobody holds, which the table records as its own.\<close>

lemma sys_inv_gain:
  assumes inv: "sys_inv s" and sub: "mset (held p) \<subseteq># mset (held (sPipes s i)) + mset js"
    and pol: "cpPolicy (plCompleter p) = cpPolicy (plCompleter (sPipes s i))"
    and dist: "distinct (map jID js)" and bk: "\<forall>w \<in> set js. backed (sDB s) w"
    and fresh: "\<And>k. jID ` set (held (sPipes s k)) \<inter> jID ` set js = {}"
  shows "sys_inv (s\<lparr>sPipes := (sPipes s)(i := p)\<rparr>)"
proof -
  let ?ps = "(sPipes s)(i := p)"
  have sets: "set (held p) \<subseteq> set (held (sPipes s i)) \<union> set js" using set_mset_mono [OF sub] by simp
  have "mset (map jID (held p)) \<subseteq># mset (map jID (held (sPipes s i) @ js))"
    unfolding mset_map using sub by (intro image_mset_subseteq_mono) simp
  moreover have "distinct (map jID (held (sPipes s i) @ js))"
    using sys_invD(4) [OF inv] dist fresh [of i] by simp
  ultimately have own: "distinct (map jID (held p))" by (rule distinct_mset_sub)
  have ids: "jID ` set (held p) \<subseteq> jID ` set (held (sPipes s i)) \<union> jID ` set js" using sets by blast
  have foreign: "jID ` set (held p) \<inter> jID ` set (held (sPipes s m)) = {}" if "m \<noteq> i" for m
    using ids fresh [of m] sys_invD(5) [OF inv that] by blast
  have apart: "jID ` set (held (?ps j)) \<inter> jID ` set (held (?ps k)) = {}" if "j \<noteq> k" for j k
    using that foreign [of j] foreign [of k] sys_invD(5) [OF inv that]
    by (cases "j = i"; cases "k = i") (simp_all add: Int_commute)
  have dists: "distinct (map jID (held (?ps j)))"
    and pols: "cpPolicy (plCompleter (?ps j)) = DefaultRetryPolicy" for j
    using own pol sys_invD(3,4) [OF inv] by simp_all
  have backs: "backed (sDB s) w" if "w \<in> set (held (?ps j))" for j w
    using that sets bk sys_invD(6) [OF inv] by (cases "j = i") auto
  show ?thesis
    unfolding sys_inv_def using sys_invD(1,2) [OF inv] apart dists pols backs by simp
qed

text \<open>The rows a fetch selects are available, so no process holds them.\<close>

lemma backed_not_chosen:
  assumes "jobs_wf d" and "backed d w"
  shows "jID w \<notin> jID ` set (next_jobs e ns qs n (tJobs d))"
proof
  assume "jID w \<in> jID ` set (next_jobs e ns qs n (tJobs d))"
  then obtain r where r: "r \<in> set (next_jobs e ns qs n (tJobs d))" "jID r = jID w" by auto
  then have "job_lookup (jID w) d = Some r" and "jState r = JobStateAvailable"
    using assms(1) next_jobs_sub [OF r(1)] by (simp_all add: lookup_iff fetchable_def)
  then show False using assms(2) by (simp add: backed_def)
qed

lemma FetchJobs_effect:
  "snd (FetchJobs ord e ns qs limit w s) \<in> {s, s\<lparr>tJobs := update_where
    (\<lambda>r. jID r \<in> jID ` set (next_jobs e ns qs (nat limit) (tJobs s))) (claim (pgNow e) w) (tJobs s)\<rparr>}"
  using FetchJobs_state [of ord e ns qs limit w s] by (auto simp: fetch_stmt_def Let_def)

lemma fetch_backed:
  assumes "jobs_wf d" and "backed d w"
  shows "backed (snd (FetchJobs ord e ns qs limit wid d)) w"
proof -
  have "jID w \<notin> jID ` set (next_jobs e ns qs (nat limit) (tJobs d))"
    by (rule backed_not_chosen [OF assms])
  then have "backed (d\<lparr>tJobs := update_where (\<lambda>r. jID r \<in> jID ` set (next_jobs e ns qs (nat limit) (tJobs d)))
      (claim (pgNow e) wid) (tJobs d)\<rparr>) w"
    using assms(2)
    by (auto simp: backed_def job_lookup_def claim_upd.find_update split: option.splits
        dest: find_row_SomeD)
  then show ?thesis using FetchJobs_effect [of ord e ns qs limit wid d] assms(2) by auto
qed

lemma fetch_attempts:
  assumes "jobs_wf d" and "attempts_ok d"
  shows "attempts_ok (snd (FetchJobs ord e ns qs limit wid d))"
proof -
  have "attempts_ok (d\<lparr>tJobs := update_where (\<lambda>r. jID r \<in> jID ` set (next_jobs e ns qs (nat limit) (tJobs d)))
      (claim (pgNow e) wid) (tJobs d)\<rparr>)"
  proof (rule attempts_ok_update [OF assms(2)])
    fix r
    assume r: "r \<in> set (tJobs d)" "jID r \<in> jID ` set (next_jobs e ns qs (nat limit) (tJobs d))"
    then have "r \<in> set (next_jobs e ns qs (nat limit) (tJobs d))"
      using assms(1) by (simp add: jobs_wf_def chosen_by_id)
    then have "jState r = JobStateAvailable" by (auto dest: next_jobs_sub simp: fetchable_def)
    then show "attempt_ok (claim (pgNow e) wid r)" using assms(2) r(1) by (simp add: attempt_ok_claim)
  qed
  then show ?thesis using FetchJobs_effect [of ord e ns qs limit wid d] assms(2) by auto
qed

lemma fetch_db_inv:
  assumes inv: "sys_inv s"
  shows "sys_inv (s\<lparr>sDB := snd (FetchJobs ord e ns qs limit w (sDB s))\<rparr>)"
proof (rule sys_inv_db [OF inv])
  show "jobs_wf (snd (FetchJobs ord e ns qs limit w (sDB s)))"
    by (rule FetchJobs_wf [OF sys_invD(1) [OF inv]])
  show "attempts_ok (snd (FetchJobs ord e ns qs limit w (sDB s)))"
    by (rule fetch_attempts [OF sys_invD(1,2) [OF inv]])
qed (rule fetch_backed [OF sys_invD(1) [OF inv]])

text \<open>What a fetch returns: distinct jobs that were available and are recorded as running.\<close>

lemma fetched_rows:
  assumes wf: "jobs_wf d" and run: "FetchJobs ord e ns qs limit w d = (Inr got, d')"
    and ord: "\<forall>xs. mset (ord xs) = mset xs"
  shows "jID ` set got = jID ` set (next_jobs e ns qs (nat limit) (tJobs d))"
    and "distinct (map jID got)" and "\<forall>g \<in> set got. backed d' g"
proof -
  let ?chosen = "next_jobs e ns qs (nat limit) (tJobs d)"
  have m: "mset got = mset (map (claim (pgNow e) w) ?chosen)" by (rule FetchJobs_returns [OF assms])
  show "jID ` set got = jID ` set ?chosen" using mset_eq_setD [OF m] by (simp add: image_image)
  have wf': "jobs_wf d'" using FetchJobs_wf [OF wf, of ord e ns qs limit w] run by simp
  have sub: "mset got \<subseteq># mset (tJobs d')" using FetchJobs_InrD(4) [OF run] ord by simp
  have "mset (map jID got) \<subseteq># mset (map jID (tJobs d'))"
    unfolding mset_map by (rule image_mset_subseteq_mono [OF sub])
  moreover have "distinct (map jID (tJobs d'))" using wf' by (simp add: jobs_wf_def)
  ultimately show "distinct (map jID got)" by (rule distinct_mset_sub)
  show "\<forall>g \<in> set got. backed d' g"
  proof
    fix g assume g: "g \<in> set got"
    then have "g \<in> set (tJobs d')" using set_mset_mono [OF sub] by auto
    then have "job_lookup (jID g) d' = Some g" using wf' by (simp add: lookup_iff)
    moreover have "jState g = JobStateRunning" using g mset_eq_setD [OF m] by (auto simp: claim_def)
    ultimately show "backed d' g" by (simp add: backed_def)
  qed
qed

lemma sys_put: "\<lparr>sDB = d, sPipes = ps\<rparr> = (s\<lparr>sDB := d\<rparr>)\<lparr>sPipes := ps\<rparr>"
  by simp

lemma producer_fetch_inv:
  assumes inv: "sys_inv s" and ord: "\<forall>xs. mset (ord xs) = mset xs"
  shows "sys_inv (on_both i (producer_fetch ord e sent) s)"
proof -
  let ?p = "sPipes s i" let ?pd = "plProducer ?p"
  let ?avail = "int (pdJobsCap ?pd) - int (length (pdJobs ?pd))"
  let ?limit = "if ?avail < int (pdBatchSize ?pd) then ?avail else int (pdBatchSize ?pd)"
  show ?thesis
  proof (cases "pdDone ?pd \<or> ?avail \<le> 0")
    case True
    then show ?thesis using inv by (auto simp: on_both_def producer_fetch_def fetchAndSend_def)
  next
    case False
    obtain ans d where run: "FetchJobs ord e (pdNamespace ?pd) (pdQueues ?pd) ?limit (pdWorkerID ?pd)
        (sDB s) = (ans, d)" by fastforce
    have inv': "sys_inv (s\<lparr>sDB := d\<rparr>)"
      using fetch_db_inv [OF inv, of ord e "pdNamespace ?pd" "pdQueues ?pd" ?limit "pdWorkerID ?pd"]
      by (simp only: run snd_conv)
    show ?thesis
    proof (cases ans)
      case (Inl err)
      then have "on_both i (producer_fetch ord e sent) s = s\<lparr>sDB := d\<rparr>"
        using False run by (simp add: on_both_def producer_fetch_def fetchAndSend_def Let_def)
      then show ?thesis using inv' by simp
    next
      case (Inr got)
      note rows = fetched_rows [OF sys_invD(1) [OF inv] run [unfolded Inr] ord]
      let ?q = "?p\<lparr>plProducer := ?pd\<lparr>pdJobs := pdJobs ?pd @ (if pdStopped ?pd then take sent got else got)\<rparr>\<rparr>"
      have step: "on_both i (producer_fetch ord e sent) s =
          (s\<lparr>sDB := d\<rparr>)\<lparr>sPipes := (sPipes s)(i := ?q)\<rparr>"
        using False run Inr by (simp add: on_both_def producer_fetch_def fetchAndSend_def Let_def)
      have "mset (take sent got) \<subseteq># mset got"
        by (metis append_take_drop_id mset_append mset_subset_eq_add_left)
      then have sub: "mset (held ?q) \<subseteq># mset (held ?p) + mset got"
        by (auto simp: held_def)
      have fresh: "jID ` set (held (sPipes s k)) \<inter> jID ` set got = {}" for k
        using rows(1) backed_not_chosen [OF sys_invD(1) [OF inv] sys_invD(6) [OF inv]] by blast
      show ?thesis
        unfolding step
        using sys_inv_gain [OF inv', of ?q i got] sub rows(2,3) fresh by simp
    qed
  qed
qed

section \<open>Writing a result back\<close>

lemma handleResult_other:
  assumes "backed d w" and "jID w \<noteq> jID (rJob res)"
  shows "backed (handleResult oor k now e c res d) w"
proof -
  have "backed (snd (CompleteJob e (jID (rJob res)) d)) w"
    unfolding CompleteJob_def using assms
    by (intro run_stmt_keeps [where P = "\<lambda>d. backed d w"])
      (simp_all add: backed_other complete_upd.key_kept)
  moreover have "backed (snd (FailJob e (jID (rJob res)) msg t d)) w" for msg t
    unfolding FailJob_def Let_def using assms
    by (intro run_stmt_keeps [where P = "\<lambda>d. backed d w"])
      (simp_all add: backed_other fail_upd.key_kept)
  ultimately show ?thesis by (simp add: handleResult_def Let_def split: option.split)
qed

lemma handleResult_wf: "jobs_wf d \<Longrightarrow> jobs_wf (handleResult oor k now e c res d)"
  by (simp add: handleResult_def Let_def CompleteJob_wf FailJob_wf split: option.split)

lemma FailJob_effect:
  "snd (FailJob e i msg t d) \<in>
    {d, d\<lparr>tJobs := update_where (\<lambda>r. jID r = i) (fail_row (pgNow e) msg t) (tJobs d)\<rparr>}"
  by (simp add: FailJob_def Let_def run_stmt_def split: outcome.split)

text \<open>A failed job is retried only below the limit of the schedule.\<close>

lemma handleResult_attempts:
  assumes ok: "attempts_ok d" and wf: "jobs_wf d" and pol: "cpPolicy c = DefaultRetryPolicy"
    and bk: "backed d (rJob res)"
  shows "attempts_ok (handleResult oor k now e c res d)"
proof (cases "rError res")
  case None
  have "attempts_ok (snd (CompleteJob e (jID (rJob res)) d))"
    unfolding CompleteJob_def using ok
    by (intro run_stmt_keeps [where P = attempts_ok])
      (simp_all only: snd_conv, rule attempts_ok_update, simp_all add: attempt_ok_states)
  then show ?thesis using None by (simp add: handleResult_def)
next
  case (Some err)
  let ?at = "completer_decide oor k now (jAttempt (rJob res)) err"
  have row: "attempt_ok (fail_row t msg ?at r)" if "r \<in> set (tJobs d)" "jID r = jID (rJob res)" for r t msg
  proof (cases ?at)
    case None
    then show ?thesis using ok that by (simp add: attempt_ok_states)
  next
    case (Some t')
    have "job_lookup (jID (rJob res)) d = Some r" using that wf by (simp add: lookup_iff)
    then have "jAttempt r = jAttempt (rJob res)" using bk by (simp add: backed_def)
    then have "sint (jAttempt r) < 25" using completer_schedule.retried_below [OF Some] by simp
    then show ?thesis using Some ok that by (simp add: attempt_ok_states)
  qed
  have "attempts_ok (d\<lparr>tJobs := update_where (\<lambda>r. jID r = jID (rJob res))
      (fail_row (pgNow e) (err_msg err) ?at) (tJobs d)\<rparr>)"
    by (rule attempts_ok_update [OF ok]) (rule row)
  then have "attempts_ok (snd (FailJob e (jID (rJob res)) (err_msg err) ?at d))"
    using FailJob_effect [of e "jID (rJob res)" "err_msg err" ?at d] ok by (elim insertE) simp_all
  then show ?thesis
    using Some pol by (simp add: handleResult_def Let_def completer_decide_def)
qed

lemma completer_handle_inv: "sys_inv s \<Longrightarrow> sys_inv (on_both i (completer_handle oor k now e) s)"
proof (cases "exResults (plExecutor (sPipes s i)) = [] \<or> cpDone (plCompleter (sPipes s i))")
  case True
  assume "sys_inv s"
  with True show ?thesis by (auto simp: on_both_def completer_handle_def split: list.split)
next
  case False
  assume inv: "sys_inv s"
  let ?p = "sPipes s i"
  from False obtain res rest where rs: "exResults (plExecutor ?p) = res # rest"
    by (cases "exResults (plExecutor ?p)") simp_all
  let ?q = "?p\<lparr>plExecutor := (plExecutor ?p)\<lparr>exResults := rest\<rparr>\<rparr>"
  let ?d = "handleResult oor k now e (plCompleter ?p) res (sDB s)"
  let ?s = "\<lparr>sDB = sDB s, sPipes = (sPipes s)(i := ?q)\<rparr>"
  have held: "mset (held ?p) = add_mset (rJob res) (mset (held ?q))" by (simp add: held_def rs)
  then have mem: "rJob res \<in> set (held ?p)"
    by (metis set_mset_mset set_mset_add_mset_insert insertI1)
  have inv': "sys_inv ?s" using inv held by (intro sys_inv_shrink) simp_all
  have own: "jID w \<noteq> jID (rJob res)" if "w \<in> set (held ?q)" for w
  proof -
    have "mset (map jID (held ?p)) = mset (jID (rJob res) # map jID (held ?q))"
      using held by (simp add: mset_map)
    then have "distinct (jID (rJob res) # map jID (held ?q))"
      using sys_invD(4) [OF inv, of i] mset_eq_imp_distinct_iff by metis
    then show ?thesis using that unfolding distinct.simps(2) list.set_map by (metis imageI)
  qed
  have other: "jID w \<noteq> jID (rJob res)" if "w \<in> set (held (sPipes ?s j))" for w j
    using that own sys_invD(5) [OF inv, of j i] mem by (cases "j = i") auto
  have "sys_inv (?s\<lparr>sDB := ?d\<rparr>)"
  proof (rule sys_inv_db [OF inv'])
    show "jobs_wf ?d" by (rule handleResult_wf [OF sys_invD(1) [OF inv]])
    show "attempts_ok ?d"
      by (rule handleResult_attempts [OF sys_invD(2,1,3) [OF inv] sys_invD(6) [OF inv mem]])
  qed (use other in \<open>simp add: handleResult_other\<close>)
  then show ?thesis using False rs by (simp add: on_both_def completer_handle_def)
qed

section \<open>All steps\<close>

lemma pipe_steps_held:
  "mset (held (producer_exit p)) = mset (held p)" "mset (held (worker_exit p)) = mset (held p)"
  "mset (held (completer_exit p)) = mset (held p)" "mset (held (stop_producer p)) = mset (held p)"
  "mset (held (stop_executor p)) = mset (held p)" "mset (held (stop_completer p)) = mset (held p)"
  "mset (held (context_done p)) = mset (held p)" "held (process_dies p) = []"
  by (simp_all add: held_def producer_exit_def worker_exit_def completer_exit_def stop_producer_def
      stop_executor_def stop_completer_def context_done_def process_dies_def Let_def)

lemma pipe_steps_policy:
  "plCompleter (worker_take p) = plCompleter p" "plCompleter (worker_send j p) = plCompleter p"
  "plCompleter (worker_drop j p) = plCompleter p" "plCompleter (worker_exit p) = plCompleter p"
  "plCompleter (producer_exit p) = plCompleter p" "plCompleter (stop_producer p) = plCompleter p"
  "plCompleter (stop_executor p) = plCompleter p"
  "cpPolicy (plCompleter (completer_exit p)) = cpPolicy (plCompleter p)"
  "cpPolicy (plCompleter (stop_completer p)) = cpPolicy (plCompleter p)"
  "cpPolicy (plCompleter (context_done p)) = cpPolicy (plCompleter p)"
  "cpPolicy (plCompleter (process_dies p)) = cpPolicy (plCompleter p)"
  by (simp_all add: producer_exit_def worker_take_def worker_send_def worker_drop_def
      worker_exit_def completer_exit_def stop_producer_def stop_executor_def stop_completer_def
      context_done_def process_dies_def Let_def split: list.split)

lemma sys_step_inv:
  assumes inv: "sys_inv s" and ok: "proper ev"
  shows "sys_inv (sys_step s ev)"
proof -
  note held = pipe_steps_held held_worker_take held_worker_send held_worker_drop
  note pipe = sys_inv_on_pipe [OF inv]
  show ?thesis
    using ok
    by (cases ev)
      (simp_all add: pipe held pipe_steps_policy inv producer_fetch_inv worker_execute_inv
        completer_handle_inv promote_inv cancel_inv insert_inv)
qed

end
