(* ===== verification/Executor_Properties.thy ===== *)
theory Executor_Properties
  imports Executor_Inv
begin

text \<open>
  What the system of worker processes guarantees in every reachable state: exclusive
  ownership of jobs, their record in the table, the bound on attempts and the capacities of
  the channels.
\<close>

section \<open>Reachable states\<close>

inductive sys_reach :: "(nat \<Rightarrow> string \<times> string list \<times> string \<times> nat) \<Rightarrow> sys \<Rightarrow> bool"
  for cfg where
  reach_start: "sys_reach cfg (start_sys cfg)"
| reach_step: "sys_reach cfg s \<Longrightarrow> proper ev \<Longrightarrow> sys_reach cfg (sys_step s ev)"

lemma reach_sys_inv: "sys_reach cfg s \<Longrightarrow> sys_inv s"
  by (induction rule: sys_reach.induct) (auto intro: start_inv sys_step_inv)

lemma reach_run: "sys_reach cfg s \<Longrightarrow> list_all proper evs \<Longrightarrow> sys_reach cfg (foldl sys_step s evs)"
  by (induction evs arbitrary: s) (auto intro: reach_step)

text \<open>A run to look at: one job is enqueued and fetched, executed, and written back.\<close>

definition sample_cfg :: "nat \<Rightarrow> string \<times> string list \<times> string \<times> nat" where
  "sample_cfg i = (''ns'', [''default''], ''w1'', 1)"

definition sample_fetched_run :: "sys_event list" where
  "sample_fetched_run =
    [Api_Insert (pg_at 10) ''ns'' (sample_env 10) sample_enqueue (JObj []) (JObj []),
     Producer_Fetch 0 rev (pg_at 20) 0]"

definition sample_handlers :: handlers where
  "sample_handlers = RegisterHandler ''mail'' [] Map.empty"

definition sample_done_run :: "sys_event list" where
  "sample_done_run = sample_fetched_run @
    [Worker_Take 0, Worker_Execute 0 0 sample_handlers (pg_at 30) (pg_at 40) (Returns None (JArr [])),
     Worker_Send 0 0, Completer_Handle 0 0 0 50 (pg_at 50)]"

definition sample_fetched_sys :: sys where
  "sample_fetched_sys = foldl sys_step (start_sys sample_cfg) sample_fetched_run"

lemma sample_proper: "list_all proper sample_fetched_run" "list_all proper sample_done_run"
  by (simp_all add: sample_fetched_run_def sample_done_run_def)

lemma sample_reach:
  "sys_reach sample_cfg sample_fetched_sys"
  "sys_reach sample_cfg (foldl sys_step (start_sys sample_cfg) sample_done_run)"
  unfolding sample_fetched_sys_def by (rule reach_run [OF reach_start] sample_proper)+

lemma sample_held: "map jID (held (sPipes sample_fetched_sys 0)) = [1]"
  by code_simp

text \<open>C1 No job is held twice: in every reachable state of any number of worker processes on one
  database, whatever fails, no process holds a job twice and no two processes hold the same
  job.\<close>

theorem no_job_held_twice:
  assumes "sys_reach cfg s"
  shows "distinct (map jID (held (sPipes s i))) \<and>
    (i \<noteq> j \<longrightarrow> jID ` set (held (sPipes s i)) \<inter> jID ` set (held (sPipes s j)) = {})"
  using sys_invD(4,5) [OF reach_sys_inv [OF assms]] by blast

theorem no_job_held_twice_witness:
  "map jID (held (sPipes sample_fetched_sys 0)) = [1] \<and> 1 \<notin> jID ` set (held (sPipes sample_fetched_sys 7))"
proof -
  have "1 \<in> jID ` set (held (sPipes sample_fetched_sys 0))"
    using sample_held by (metis list.set_intros(1) list.set_map)
  then show ?thesis using sample_held no_job_held_twice [OF sample_reach(1), of 0 7] by auto
qed

text \<open>A held job is recorded as held: whatever a process has buffered, executes or waits to
  write back is stored as running, or was cancelled meanwhile, with the attempt number the
  process knows.\<close>

theorem held_job_is_recorded:
  assumes "sys_reach cfg s" and "w \<in> set (held (sPipes s i))"
  shows "\<exists>r. job_lookup (jID w) (sDB s) = Some r \<and> jAttempt r = jAttempt w \<and>
    (jState r = JobStateRunning \<or> jState r = JobStateCancelled)"
  using sys_invD(6) [OF reach_sys_inv [OF assms(1)] assms(2)]
  by (auto simp: backed_def split: option.splits)

theorem held_job_is_recorded_witness:
  "\<exists>w r. w \<in> set (held (sPipes sample_fetched_sys 0)) \<and> jID w = 1 \<and>
    job_lookup 1 (sDB sample_fetched_sys) = Some r \<and> jAttempt r = jAttempt w"
proof -
  obtain w where w: "w \<in> set (held (sPipes sample_fetched_sys 0))" "jID w = 1"
    using sample_held by (metis imageE list.set_intros(1) list.set_map)
  then show ?thesis using held_job_is_recorded [OF sample_reach(1) w(1)] by auto
qed

text \<open>C25 No job is attempted more than 25 times, whatever attempt limit it was enqueued with, and the
  smallint counter of attempts never overflows.\<close>

theorem at_most_25_attempts:
  assumes "sys_reach cfg s" and "r \<in> set (tJobs (sDB s))"
  shows "0 \<le> sint (jAttempt r) \<and> sint (jAttempt r) \<le> 25"
  using sys_invD(2) [OF reach_sys_inv [OF assms(1)]] assms(2) by (simp add: attempt_ok_def)

theorem at_most_25_attempts_witness:
  "\<exists>r \<in> set (tJobs (sDB sample_fetched_sys)). jID r = 1 \<and> sint (jAttempt r) \<le> 25"
proof -
  have "list_ex (\<lambda>r. jID r = 1) (tJobs (sDB sample_fetched_sys))" by code_simp
  then obtain r where r: "r \<in> set (tJobs (sDB sample_fetched_sys))" "jID r = 1"
    unfolding list_ex_iff by blast
  then show ?thesis using at_most_25_attempts [OF sample_reach(1) r(1)] by blast
qed

section \<open>Capacities\<close>

definition pipe_ok :: "pipeline \<Rightarrow> bool" where
  "pipe_ok p \<longleftrightarrow> length (pdJobs (plProducer p)) \<le> pdJobsCap (plProducer p) \<and>
    length (exBusy (plExecutor p)) + length (exReady (plExecutor p)) \<le> exWorkers (plExecutor p) \<and>
    length (exResults (plExecutor p)) \<le> exResultsCap (plExecutor p)"

lemma length_remove_at: "j < length xs \<Longrightarrow> length (remove_at j xs) = length xs - 1"
  by (simp add: remove_at_def)

lemmas pipe_step_defs =
  producer_exit_def worker_take_def worker_send_def worker_drop_def worker_exit_def
  completer_exit_def stop_producer_def stop_executor_def stop_completer_def context_done_def
  process_dies_def

lemma pipe_ok_pure:
  assumes "pipe_ok p"
  shows "pipe_ok (producer_exit p)" "pipe_ok (worker_take p)" "pipe_ok (worker_send j p)"
    "pipe_ok (worker_drop j p)" "pipe_ok (worker_exit p)" "pipe_ok (completer_exit p)"
    "pipe_ok (stop_producer p)" "pipe_ok (stop_executor p)" "pipe_ok (stop_completer p)"
    "pipe_ok (context_done p)" "pipe_ok (process_dies p)"
  using assms
  by (auto simp: pipe_ok_def pipe_step_defs Let_def idle_worker_def length_remove_at split: list.split)

lemma pipe_ok_fetch:
  assumes "pipe_ok p" and "jobs_wf d" and "\<forall>xs. mset (ord xs) = mset xs"
  shows "pipe_ok (fst (producer_fetch ord e sent p d))"
proof -
  let ?pd = "plProducer p"
  let ?avail = "int (pdJobsCap ?pd) - int (length (pdJobs ?pd))"
  let ?limit = "if ?avail < int (pdBatchSize ?pd) then ?avail else int (pdBatchSize ?pd)"
  have len: "length got \<le> nat ?limit"
    if "FetchJobs ord e (pdNamespace ?pd) (pdQueues ?pd) ?limit (pdWorkerID ?pd) d = (Inr got, d')" for got d'
    using mset_eq_length [OF FetchJobs_returns [OF assms(2) that assms(3)]]
    by (simp add: next_jobs_candidates length_top_by)
  obtain ans d' where run: "FetchJobs ord e (pdNamespace ?pd) (pdQueues ?pd) ?limit (pdWorkerID ?pd) d
      = (ans, d')" by fastforce
  show ?thesis
  proof (cases "pdDone ?pd \<or> ?avail \<le> 0")
    case True
    then show ?thesis using assms(1) by (auto simp: producer_fetch_def fetchAndSend_def)
  next
    case False
    show ?thesis
    proof (cases ans)
      case (Inl err)
      then show ?thesis
        using False run assms(1) by (simp add: producer_fetch_def fetchAndSend_def Let_def)
    next
      case (Inr got)
      have "length (if pdStopped ?pd then take sent got else got) \<le> length got" by simp
      also note len [OF run [unfolded Inr]]
      finally have "length (pdJobs ?pd @ (if pdStopped ?pd then take sent got else got)) \<le> pdJobsCap ?pd"
        using False by (auto split: if_splits)
      then show ?thesis
        using False run Inr assms(1)
        by (simp add: producer_fetch_def fetchAndSend_def Let_def pipe_ok_def)
    qed
  qed
qed

lemma pipe_ok_execute: "pipe_ok p \<Longrightarrow> pipe_ok (fst (worker_execute j hs e1 e2 call p d))"
  by (auto simp: pipe_ok_def worker_execute_def Let_def length_remove_at split: prod.split)

lemma pipe_ok_handle: "pipe_ok p \<Longrightarrow> pipe_ok (fst (completer_handle oor k now e p d))"
  by (auto simp: pipe_ok_def completer_handle_def split: list.split)

lemma sPipes_on_pipe: "sPipes (on_pipe i f s) j = (if j = i then f (sPipes s i) else sPipes s j)"
  by (simp add: on_pipe_def)

lemma sPipes_on_both:
  "sPipes (on_both i f s) j = (if j = i then fst (f (sPipes s i) (sDB s)) else sPipes s j)"
  by (simp add: on_both_def split: prod.split)

lemma sDB_on_both: "sDB (on_both i f s) = snd (f (sPipes s i) (sDB s))"
  by (simp add: on_both_def split: prod.split)

lemma sDB_on_pipe [simp]: "sDB (on_pipe i f s) = sDB s"
  by (simp add: on_pipe_def)

lemma reach_pipe_ok: "sys_reach cfg s \<Longrightarrow> \<forall>i. pipe_ok (sPipes s i)"
proof (induction rule: sys_reach.induct)
  case reach_start
  show ?case
    by (simp add: start_sys_def new_pipeline_def NewProducer_def NewExecutor_def pipe_ok_def Let_def
        split: prod.split)
next
  case (reach_step s ev)
  have "jobs_wf (sDB s)" using sys_invD(1) [OF reach_sys_inv [OF reach_step(1)]] .
  then show ?case
    using reach_step(2,3)
    by (cases ev)
      (simp_all add: sPipes_on_pipe sPipes_on_both pipe_ok_pure pipe_ok_fetch pipe_ok_execute pipe_ok_handle)
qed

text \<open>C29 Nothing overflows: the jobs channel never holds more than its capacity (so no send of the
  producer can block), no more jobs are executed or waiting to be sent than there are
  workers, and the results channel never holds more than its capacity.\<close>

theorem capacities_respected:
  assumes "sys_reach cfg s"
  shows "length (pdJobs (plProducer (sPipes s i))) \<le> pdJobsCap (plProducer (sPipes s i)) \<and>
    length (exBusy (plExecutor (sPipes s i))) + length (exReady (plExecutor (sPipes s i)))
      \<le> exWorkers (plExecutor (sPipes s i)) \<and>
    length (exResults (plExecutor (sPipes s i))) \<le> exResultsCap (plExecutor (sPipes s i))"
  using reach_pipe_ok [OF assms] unfolding pipe_ok_def by blast

theorem capacities_respected_witness:
  "pdJobsCap (plProducer (sPipes sample_fetched_sys 0)) = 10 \<and>
   length (pdJobs (plProducer (sPipes sample_fetched_sys 0))) \<le> 10"
proof -
  have "pdJobsCap (plProducer (sPipes sample_fetched_sys 0)) = 10" by code_simp
  then show ?thesis using capacities_respected [OF sample_reach(1), of 0] by simp
qed

end
