(* ===== verification/Executor_Lifecycle.thy ===== *)
theory Executor_Lifecycle
  imports Executor_Properties
begin

text \<open>
  The life of a stored job in the running system. \<open>row_move\<close> is the abstract machine: the
  moves a row can make in one step. Its first argument says whether some process holds the
  job, the second whether the step is a cancellation of it. Every step of the system is such
  a move of every row; what can happen to a job then follows from the moves alone.
\<close>

definition held_by :: "sys \<Rightarrow> int \<Rightarrow> bool" where
  "held_by s i \<longleftrightarrow> (\<exists>k. i \<in> jID ` set (held (sPipes s k)))"

fun cancels :: "sys_event \<Rightarrow> int \<Rightarrow> bool" where
  "cancels (Api_Cancel e i) k = (i = k)"
| "cancels _ k = False"

inductive row_move :: "bool \<Rightarrow> bool \<Rightarrow> JobRow \<Rightarrow> JobRow \<Rightarrow> bool" where
  row_stays: "row_move h c r r"
| row_claimed: "jState r = JobStateAvailable \<Longrightarrow> row_move h c r (claim now w r)"
| row_promoted: "due now ns r \<Longrightarrow> row_move h c r (promote_row now r)"
| row_cancelled: "\<not> terminal (jState r) \<Longrightarrow> row_move h True r (cancel_row now r)"
| row_completed: "row_move True c r (complete_row now r)"
| row_failed: "row_move True c r (fail_row now msg t r)"

inductive_cases row_move_unheldE: "row_move False False r r'"

section \<open>Every step is a move of every row\<close>

lemma move_update:
  assumes "job_lookup i d = Some r" and "\<And>r. jID (f r) = jID r"
    and "p r \<Longrightarrow> row_move h c r (f r)"
  shows "\<exists>r'. job_lookup i (d\<lparr>tJobs := update_where p f (tJobs d)\<rparr>) = Some r' \<and> row_move h c r r'"
proof -
  have "keyed_update jID f" using assms(2) by unfold_locales
  from keyed_update.find_update [OF this] show ?thesis
    using assms(1,3) by (auto simp: job_lookup_def intro: row_stays)
qed

lemma move_fetch:
  assumes wf: "jobs_wf d" and look: "job_lookup i d = Some r"
  shows "\<exists>r'. job_lookup i (snd (FetchJobs ord e ns qs limit w d)) = Some r' \<and> row_move h c r r'"
proof -
  have "jState r = JobStateAvailable"
    if "jID r \<in> jID ` set (next_jobs e ns qs (nat limit) (tJobs d))"
  proof -
    have r: "r \<in> set (tJobs d)" "distinct (map jID (tJobs d))"
      using wf lookup_SomeD [OF look] by (simp_all add: jobs_wf_def)
    have "r \<in> set (next_jobs e ns qs (nat limit) (tJobs d))"
      using that chosen_by_id [OF r(2,1)] by blast
    then show ?thesis by (auto dest: next_jobs_sub simp: fetchable_def)
  qed
  then have "\<exists>r'. job_lookup i (d\<lparr>tJobs := update_where
      (\<lambda>r. jID r \<in> jID ` set (next_jobs e ns qs (nat limit) (tJobs d))) (claim (pgNow e) w) (tJobs d)\<rparr>)
      = Some r' \<and> row_move h c r r'"
    by (intro move_update [OF look]) (simp_all add: row_claimed)
  then show ?thesis
    using FetchJobs_effect [of ord e ns qs limit w d] look row_stays by (elim insertE) auto
qed

lemma move_handle:
  assumes look: "job_lookup i d = Some r" and h: "i = jID (rJob res) \<Longrightarrow> h"
  shows "\<exists>r'. job_lookup i (handleResult oor k now e c res d) = Some r' \<and> row_move h x r r'"
proof -
  have i: "jID r = i" using lookup_SomeD [OF look] by simp
  have move: "\<exists>r'. job_lookup i (d\<lparr>tJobs := update_where (\<lambda>r. jID r = jID (rJob res)) f (tJobs d)\<rparr>)
      = Some r' \<and> row_move h x r r'"
    if "\<And>r. jID (f r) = jID r" "row_move True x r (f r)" for f
    using that h i by (intro move_update [OF look]) auto
  have "snd (CompleteJob e (jID (rJob res)) d) \<in>
      {d, d\<lparr>tJobs := update_where (\<lambda>r. jID r = jID (rJob res)) (complete_row (pgNow e)) (tJobs d)\<rparr>}"
    by (simp add: CompleteJob_def run_stmt_def split: outcome.split)
  then have "\<exists>r'. job_lookup i (snd (CompleteJob e (jID (rJob res)) d)) = Some r' \<and> row_move h x r r'"
    using look row_stays [of h x r] move [of "complete_row (pgNow e)", OF complete_upd.key_kept row_completed]
    by (elim insertE) auto
  moreover have "\<exists>r'. job_lookup i (snd (FailJob e (jID (rJob res)) msg t d)) = Some r' \<and> row_move h x r r'"
    for msg t
    using FailJob_effect [of e "jID (rJob res)" msg t d] look row_stays [of h x r]
      move [of "fail_row (pgNow e) msg t", OF fail_upd.key_kept row_failed]
    by (elim insertE) auto
  ultimately show ?thesis by (simp add: handleResult_def Let_def split: option.split)
qed

lemma move_insert:
  "job_lookup i d = Some r \<Longrightarrow> job_lookup i (snd (insert_new e p d)) = Some r"
  unfolding insert_new_state
  by (rule run_stmt_keeps [where P = "\<lambda>d. job_lookup i d = Some r"])
    (auto simp: job_lookup_def insert_stmt_def Let_def)

lemma move_promote:
  assumes "job_lookup i d = Some r"
  shows "\<exists>r'. job_lookup i (snd (PromoteScheduledJobs e ns d)) = Some r' \<and> row_move h c r r'"
  unfolding PromoteScheduledJobs_def
proof (rule run_stmt_keeps [where P = "\<lambda>d. \<exists>r'. job_lookup i d = Some r' \<and> row_move h c r r'"])
  show "\<exists>r'. job_lookup i d = Some r' \<and> row_move h c r r'" using assms row_stays by blast
qed (simp, rule move_update [OF assms], simp_all add: row_promoted promote_upd.key_kept)

lemma move_cancel:
  assumes "job_lookup i d = Some r"
  shows "\<exists>r'. job_lookup i (snd (CancelJob e k d)) = Some r' \<and> row_move h (k = i) r r'"
  unfolding CancelJob_def
proof (rule run_stmt_keeps [where P = "\<lambda>d. \<exists>r'. job_lookup i d = Some r' \<and> row_move h (k = i) r r'"])
  show "\<exists>r'. job_lookup i d = Some r' \<and> row_move h (k = i) r r'" using assms row_stays by blast
qed (simp, rule move_update [OF assms],
    use lookup_SomeD [OF assms] in \<open>auto simp: row_cancelled cancel_upd.key_kept\<close>)

lemma lookup_frame: "tJobs d' = tJobs d \<Longrightarrow> job_lookup i d' = job_lookup i d"
  by (simp add: job_lookup_def)

lemma move_execute:
  "job_lookup i (snd (worker_execute j hs e1 e2 call p d)) = job_lookup i d"
  by (rule lookup_frame)
    (auto simp: worker_execute_def Let_def split: prod.split, metis executeJob_frame(1) snd_conv)

text \<open>A job is written back by its holder.\<close>

lemma handled_is_held:
  "exResults (plExecutor (sPipes s k)) = res # rest \<Longrightarrow> held_by s (jID (rJob res))"
  unfolding held_by_def held_def by (intro exI [of _ k]) simp

lemma step_row:
  assumes inv: "sys_inv s" and ok: "proper ev" and look: "job_lookup i (sDB s) = Some r"
  shows "\<exists>r'. job_lookup i (sDB (sys_step s ev)) = Some r' \<and>
    row_move (held_by s i) (cancels ev i) r r'"
proof -
  have same: ?thesis if "job_lookup i (sDB (sys_step s ev)) = job_lookup i (sDB s)"
    using that look row_stays by auto
  show ?thesis
  proof (cases ev)
    case (Producer_Fetch k ord e sent)
    then show ?thesis
      using look move_fetch [OF sys_invD(1) [OF inv] look] row_stays
      by (auto simp: sDB_on_both producer_fetch_def fetchAndSend_def Let_def
          split: prod.split sum.split) (metis snd_conv)+
  next
    case (Completer_Handle k oor n now e)
    then show ?thesis
      using look row_stays handled_is_held [of s k]
      by (auto simp: sDB_on_both completer_handle_def split: list.split intro!: move_handle)
  next
    case (Scheduler_Tick e ns)
    then show ?thesis using move_promote [OF look] by simp
  next
    case (Api_Insert e ns ev p pl md)
    then show ?thesis using move_insert [OF look] same by (simp add: look)
  next
    case (Api_Cancel e k)
    then show ?thesis using move_cancel [OF look] by simp
  qed (rule same, simp add: sDB_on_both move_execute)+
qed

section \<open>What follows for a job\<close>

text \<open>C16 The system moves jobs only along their life cycle: in one step of any process or client a
  stored job stays as it is, is claimed when available, promoted when due, cancelled when
  not final (by a cancellation of that job), or written back as completed or failed, and the
  last only by a process that holds it. It is never deleted.\<close>

theorem job_rows_move:
  assumes "sys_reach cfg s" and "proper ev" and "job_lookup i (sDB s) = Some r"
  shows "\<exists>r'. job_lookup i (sDB (sys_step s ev)) = Some r' \<and>
    row_move (held_by s i) (cancels ev i) r r'"
  using step_row [OF reach_sys_inv [OF assms(1)] assms(2,3)] .

theorem job_rows_move_witness:
  "\<exists>r r'. job_lookup 1 (sDB sample_fetched_sys) = Some r \<and>
    job_lookup 1 (sDB (sys_step sample_fetched_sys (Api_Cancel (pg_at 30) 1))) = Some r' \<and>
    row_move (held_by sample_fetched_sys 1) True r r'"
proof -
  have "job_lookup 1 (sDB sample_fetched_sys) \<noteq> None" by code_simp
  then obtain r where r: "job_lookup 1 (sDB sample_fetched_sys) = Some r" by blast
  show ?thesis using job_rows_move [OF sample_reach(1) _ r, of "Api_Cancel (pg_at 30) 1"] r by simp
qed

lemma held_state:
  assumes "sys_inv s" and "held_by s i" and "job_lookup i (sDB s) = Some r"
  shows "jState r \<in> {JobStateRunning, JobStateCancelled}"
proof -
  from assms(2) obtain k w where w: "w \<in> set (held (sPipes s k))" "jID w = i"
    by (auto simp: held_by_def)
  show ?thesis using sys_invD(6) [OF assms(1) w(1)] assms(3) w(2) by (simp add: backed_def)
qed

lemma finished_row:
  assumes "row_move h c r r'" and "jState r \<in> {JobStateCompleted, JobStateDiscarded}" and "\<not> h"
  shows "r' = r"
  using assms by (cases rule: row_move.cases) (auto simp: due_def)

lemma finished_step:
  assumes inv: "sys_inv s" and ok: "proper ev" and look: "job_lookup i (sDB s) = Some r"
    and fin: "jState r \<in> {JobStateCompleted, JobStateDiscarded}"
  shows "job_lookup i (sDB (sys_step s ev)) = Some r"
proof -
  have "\<not> held_by s i" using held_state [OF inv _ look] fin by auto
  then show ?thesis using step_row [OF inv ok look] finished_row [OF _ fin] by metis
qed

text \<open>C22 Completed and discarded jobs are final: once a job is stored as completed or discarded, no
  sequence of steps of any processes and clients changes any column of it.\<close>

theorem finished_jobs_stay:
  assumes "sys_reach cfg s" and "job_lookup i (sDB s) = Some r"
    and "jState r = JobStateCompleted \<or> jState r = JobStateDiscarded" and "list_all proper evs"
  shows "job_lookup i (sDB (foldl sys_step s evs)) = Some r"
  using assms
proof (induction evs arbitrary: s)
  case Nil
  then show ?case by simp
next
  case (Cons ev evs)
  then show ?case
    using finished_step [OF reach_sys_inv [OF Cons.prems(1)], of ev i r] by (auto intro: reach_step)
qed

theorem finished_jobs_stay_witness:
  "\<exists>r. jState r = JobStateCompleted \<and>
    job_lookup 1 (sDB (foldl sys_step (start_sys sample_cfg) sample_done_run)) = Some r \<and>
    job_lookup 1 (sDB (foldl sys_step (foldl sys_step (start_sys sample_cfg) sample_done_run)
      [Api_Cancel (pg_at 60) 1, Producer_Fetch 0 rev (pg_at 70) 0])) = Some r"
proof -
  let ?s = "foldl sys_step (start_sys sample_cfg) sample_done_run"
  have "map_option jState (job_lookup 1 (sDB ?s)) = Some JobStateCompleted" by code_simp
  then obtain r where r: "job_lookup 1 (sDB ?s) = Some r" "jState r = JobStateCompleted" by auto
  have "job_lookup 1 (sDB (foldl sys_step ?s [Api_Cancel (pg_at 60) 1, Producer_Fetch 0 rev (pg_at 70) 0]))
      = Some r"
    by (rule finished_jobs_stay [OF sample_reach(2) r(1) disjI1 [OF r(2)]]) simp
  then show ?thesis using r by blast
qed

text \<open>New holders come from a fetch, and a fetch takes available jobs only.\<close>

lemma held_fetch:
  assumes inv: "sys_inv s" and ord: "\<forall>xs. mset (ord xs) = mset xs"
    and h: "i \<in> jID ` set (held (fst (producer_fetch ord e sent (sPipes s k) (sDB s))))"
  shows "i \<in> jID ` set (held (sPipes s k)) \<or>
    (\<exists>r. job_lookup i (sDB s) = Some r \<and> jState r = JobStateAvailable)"
proof -
  let ?p = "sPipes s k" let ?pd = "plProducer ?p"
  let ?avail = "int (pdJobsCap ?pd) - int (length (pdJobs ?pd))"
  let ?limit = "if ?avail < int (pdBatchSize ?pd) then ?avail else int (pdBatchSize ?pd)"
  obtain ans d where run: "FetchJobs ord e (pdNamespace ?pd) (pdQueues ?pd) ?limit (pdWorkerID ?pd)
      (sDB s) = (ans, d)" by fastforce
  show ?thesis
  proof (cases "pdDone ?pd \<or> ?avail \<le> 0 \<or> isl ans")
    case True
    then show ?thesis
      using h run by (auto simp: producer_fetch_def fetchAndSend_def Let_def split: if_splits sum.splits)
  next
    case False
    then obtain got where got: "ans = Inr got" by (cases ans) simp_all
    note rows = fetched_rows [OF sys_invD(1) [OF inv] run [unfolded got] ord]
    have "i \<in> jID ` set (held ?p) \<or> i \<in> jID ` set got"
      using h False run got
      by (auto simp: producer_fetch_def fetchAndSend_def Let_def held_def split: if_splits
          dest: in_set_takeD)
    moreover have "\<exists>r. job_lookup i (sDB s) = Some r \<and> jState r = JobStateAvailable"
      if "i \<in> jID ` set got"
    proof -
      from that rows(1) obtain r where r: "jID r = i"
        "r \<in> set (next_jobs e (pdNamespace ?pd) (pdQueues ?pd) (nat ?limit) (tJobs (sDB s)))" by auto
      then show ?thesis
        using next_jobs_sub [OF r(2)] sys_invD(1) [OF inv] by (auto simp: lookup_iff fetchable_def)
    qed
    ultimately show ?thesis by blast
  qed
qed

lemma held_same_sub: "mset (held p) \<subseteq># mset (held q) \<Longrightarrow> jID ` set (held p) \<subseteq> jID ` set (held q)"
  by (metis image_mono set_mset_mono set_mset_mset)

lemma held_execute: "mset (held (fst (worker_execute j hs e1 e2 call p d))) = mset (held p)"
proof (cases "j < length (exBusy (plExecutor p))")
  case True
  then show ?thesis
    using mset_remove_at [OF True] executeJob_job
      [of hs "pdWorkerID (plProducer p)" e1 e2 call "exBusy (plExecutor p) ! j" d]
    by (auto simp: worker_execute_def Let_def held_def split: prod.split)
qed (simp add: worker_execute_def Let_def)

lemma held_handle: "mset (held (fst (completer_handle oor k now e p d))) \<subseteq># mset (held p)"
  by (simp add: completer_handle_def held_def split: list.split)

lemma held_other_steps:
  assumes "\<And>k ord e sent. ev \<noteq> Producer_Fetch k ord e sent"
  shows "mset (held (sPipes (sys_step s ev) k)) \<subseteq># mset (held (sPipes s k))"
proof (cases ev)
  case (Producer_Fetch k ord e sent)
  with assms show ?thesis by blast
qed (simp_all add: sPipes_on_pipe sPipes_on_both pipe_steps_held held_worker_take
      held_worker_send held_worker_drop held_execute held_handle)

lemma held_after:
  assumes inv: "sys_inv s" and ok: "proper ev" and h: "held_by (sys_step s ev) i"
  shows "held_by s i \<or> (\<exists>r. job_lookup i (sDB s) = Some r \<and> jState r = JobStateAvailable)"
proof (cases "\<exists>k ord e sent. ev = Producer_Fetch k ord e sent")
  case True
  then obtain k ord e sent where ev: "ev = Producer_Fetch k ord e sent" by blast
  from h obtain m where "i \<in> jID ` set (held (sPipes (sys_step s ev) m))" by (auto simp: held_by_def)
  then show ?thesis
    using ok held_fetch [OF inv, of ord i e sent k] unfolding ev held_by_def
    by (cases "m = k") (auto simp: sPipes_on_both)
next
  case False
  then have "jID ` set (held (sPipes (sys_step s ev) k)) \<subseteq> jID ` set (held (sPipes s k))" for k
    using held_other_steps [of ev s k] by (intro held_same_sub) blast
  then show ?thesis using h unfolding held_by_def by blast
qed

end
