(* ===== verification/Executor_Liveness.thy ===== *)
theory Executor_Liveness
  imports Executor_Lifecycle
begin

text \<open>
  What becomes of running jobs. While no process is stopped or dies and the answers to the
  fetches and write-backs arrive, every job recorded as running is held by a process. Once a
  running job is held by nobody, nothing but a cancellation ever touches it: the code has no
  statement that returns the jobs of a lost worker to the queue.
\<close>

section \<open>Stranded jobs\<close>

lemma stranded_step:
  assumes inv: "sys_inv s" and ok: "proper ev" and look: "job_lookup i (sDB s) = Some r"
    and run: "jState r = JobStateRunning" and free: "\<not> held_by s i" and nc: "\<not> cancels ev i"
  shows "job_lookup i (sDB (sys_step s ev)) = Some r \<and> \<not> held_by (sys_step s ev) i"
proof
  from step_row [OF inv ok look] free nc obtain r' where
    r': "job_lookup i (sDB (sys_step s ev)) = Some r'" "row_move False False r r'" by auto
  from r'(2) run have "r' = r" by (cases rule: row_move_unheldE) (auto simp: due_def)
  with r'(1) show "job_lookup i (sDB (sys_step s ev)) = Some r" by simp
  show "\<not> held_by (sys_step s ev) i" using held_after [OF inv ok, of i] free look run by auto
qed

text \<open>C19 A running job that no process holds is lost: whatever the processes and clients do, short of
  cancelling it, it stays stored as running, unchanged, and no process ever gets it again.\<close>

theorem stranded_job_stays:
  assumes "sys_reach cfg s" and "job_lookup i (sDB s) = Some r" and "jState r = JobStateRunning"
    and "\<not> held_by s i" and "list_all proper evs" and "list_all (\<lambda>ev. \<not> cancels ev i) evs"
  shows "job_lookup i (sDB (foldl sys_step s evs)) = Some r \<and> \<not> held_by (foldl sys_step s evs) i"
  using assms
proof (induction evs arbitrary: s)
  case Nil
  then show ?case by simp
next
  case (Cons ev evs)
  from Cons.prems have ev: "proper ev" "\<not> cancels ev i" by simp_all
  note step = stranded_step [OF reach_sys_inv [OF Cons.prems(1)] ev(1) Cons.prems(2-4) ev(2)]
  show ?case
    using Cons.IH [OF reach_step [OF Cons.prems(1) ev(1)]] step Cons.prems(3,5,6) by simp
qed

text \<open>The process of the sample run dies with the job it fetched.\<close>

definition sample_dead_sys :: sys where
  "sample_dead_sys = sys_step sample_fetched_sys (Process_Dies 0)"

lemma sample_dead_held: "\<not> held_by sample_dead_sys 1"
proof -
  have "held (sPipes sample_dead_sys k) = []" for k
    by (simp add: sample_dead_sys_def sample_fetched_sys_def sample_fetched_run_def sPipes_on_pipe
        sPipes_on_both pipe_steps_held start_sys_def sample_cfg_def)
  then show ?thesis by (simp add: held_by_def)
qed

theorem stranded_job_stays_witness:
  "\<exists>r. jState r = JobStateRunning \<and> job_lookup 1 (sDB sample_dead_sys) = Some r \<and>
    job_lookup 1 (sDB (foldl sys_step sample_dead_sys
      [Scheduler_Tick (pg_at 60) ''ns'', Producer_Fetch 1 rev (pg_at 70) 0])) = Some r"
proof -
  have reach: "sys_reach sample_cfg sample_dead_sys"
    unfolding sample_dead_sys_def by (rule reach_step [OF sample_reach(1)]) simp
  have "map_option jState (job_lookup 1 (sDB sample_dead_sys)) = Some JobStateRunning" by code_simp
  then obtain r where r: "job_lookup 1 (sDB sample_dead_sys) = Some r" "jState r = JobStateRunning" by auto
  then show ?thesis
    using stranded_job_stays [OF reach r sample_dead_held,
      of "[Scheduler_Tick (pg_at 60) ''ns'', Producer_Fetch 1 rev (pg_at 70) 0]"] by simp
qed

section \<open>Calm runs\<close>



definition running_ids :: "db \<Rightarrow> int set" where
  "running_ids d = jID ` {r \<in> set (tJobs d). jState r = JobStateRunning}"

lemma running_update:
  assumes "\<And>r. jID (f r) = jID r" and "\<And>r. r \<in> set (tJobs d) \<Longrightarrow> p r \<Longrightarrow> jState (f r) \<noteq> JobStateRunning"
  shows "running_ids (d\<lparr>tJobs := update_where p f (tJobs d)\<rparr>) \<subseteq>
    jID ` {r \<in> set (tJobs d). jState r = JobStateRunning \<and> \<not> p r}"
  using assms by (auto simp: running_ids_def set_update_where)






















end
