(* ===== verification/Completer_Spec.thy ===== *)
theory Completer_Spec
  imports Executor_Liveness
begin









end
