(* ===== verification/Job_Types.thy ===== *)
theory Job_Types
  imports Executor_Lifecycle
begin

text \<open>
  What a stored job looks like: the columns that go with its state, its attempt and its
  identifier. A row is well typed when it could be the row of a job in that state; every
  move of a row keeps that, so every row of a reachable system is well typed.
\<close>

definition row_typed :: "JobRow \<Rightarrow> bool" where
  "row_typed r \<longleftrightarrow>
    (jCompletedAt r \<noteq> None \<longleftrightarrow> jState r = JobStateCompleted) \<and>
    (jDiscardedAt r \<noteq> None \<longleftrightarrow> jState r = JobStateDiscarded) \<and>
    (jState r = JobStateCancelled \<longrightarrow> jCancelledAt r \<noteq> None) \<and>
    (jAttemptedAt r = None \<longleftrightarrow> jAttempt r = 0) \<and>
    (jAttemptedBy r = None \<longleftrightarrow> jAttempt r = 0) \<and>
    (jState r = JobStateRunning \<longrightarrow> jAttempt r \<noteq> 0) \<and>
    (jState r = JobStateScheduled \<longrightarrow> jAttempt r = 0) \<and>
    (jState r \<in> {JobStateRetryable, JobStateDiscarded} \<longrightarrow> jErrors r \<noteq> [])"

text \<open>A new job is well typed, and so is what a move of a well-typed row leaves, if a row is written
  back only while it is running or was cancelled, and claimed below the limit of the attempts.\<close>

lemma new_job_typed: "row_typed (new_job now i (insert_params ns ev p pl md))"
  by (simp add: row_typed_def new_job_def insert_params_def Let_def)

lemma next_attempt_nonzero: "0 \<le> sint (a :: int16) \<Longrightarrow> sint a \<le> 25 \<Longrightarrow> a + 1 \<noteq> 0"
  using sint16_inc [of a] by fastforce

lemma row_move_typed:
  assumes "row_move h c r r'" and "row_typed r" and "attempt_ok r"
    and "h \<Longrightarrow> jState r \<in> {JobStateRunning, JobStateCancelled}"
  shows "row_typed r'"
  using assms(1)
proof cases
  case (row_claimed now w)
  then show ?thesis
    using assms(2,3) next_attempt_nonzero [of "jAttempt r"] by (simp add: row_typed_def claim_def attempt_ok_def)
next
  case (row_promoted now ns)
  then show ?thesis using assms(2) by (auto simp: row_typed_def promote_row_def due_def)
next
  case (row_cancelled now)
  then show ?thesis using assms(2) by (auto simp: row_typed_def cancel_row_def)
next
  case (row_completed now)
  then show ?thesis using assms(2,4) by (auto simp: row_typed_def complete_row_def)
next
  case (row_failed now msg t)
  then show ?thesis using assms(2,4) by (auto simp: row_typed_def fail_row_def Let_def split: option.split)
qed (use assms(2) in simp)

section \<open>The table of jobs\<close>

definition jobs_typed :: "db \<Rightarrow> bool" where
  "jobs_typed d \<longleftrightarrow> 1 \<le> seqJobs d \<and> seqJobs d \<le> seq_max + 1 \<and>
    (\<forall>r \<in> set (tJobs d). row_typed r \<and> 1 \<le> jID r \<and> jID r < seqJobs d)"

text \<open>Only an insertion makes rows or draws numbers.\<close>

fun inserts :: "sys_event \<Rightarrow> bool" where
  "inserts (Api_Insert e ns ev p pl md) = True"
| "inserts _ = False"

definition same_keys :: "db \<Rightarrow> db \<Rightarrow> bool" where
  "same_keys d d' \<longleftrightarrow> map jID (tJobs d') = map jID (tJobs d) \<and> seqJobs d' = seqJobs d"

lemma same_keys_refl [simp]: "same_keys d d"
  by (simp add: same_keys_def)

lemma same_keys_update:
  "(\<And>r. jID (f r) = jID r) \<Longrightarrow> same_keys d (d\<lparr>tJobs := update_where p f (tJobs d)\<rparr>)"
  using keyed_update.keys_update [of jID f, OF keyed_update.intro] by (simp add: same_keys_def)

lemmas same_keys_rows =
  same_keys_update [OF claim_upd.key_kept] same_keys_update [OF complete_upd.key_kept]
  same_keys_update [OF fail_upd.key_kept] same_keys_update [OF cancel_upd.key_kept]
  same_keys_update [OF promote_upd.key_kept]

lemma same_keys_stmts:
  "same_keys d (snd (FetchJobs ord e ns qs limit w d))"
  "same_keys d (snd (CompleteJob e i d))"
  "same_keys d (snd (FailJob e i msg t d))"
  "same_keys d (snd (CancelJob e i d))"
  "same_keys d (snd (PromoteScheduledJobs e ns d))"
proof -
  show "same_keys d (snd (FetchJobs ord e ns qs limit w d))"
    using FetchJobs_effect [of ord e ns qs limit w d] same_keys_rows(1) by (elim insertE) auto
  show "same_keys d (snd (FailJob e i msg t d))"
    using FailJob_effect [of e i msg t d] same_keys_rows(3) by (elim insertE) auto
qed (simp_all add: CompleteJob_def CancelJob_def PromoteScheduledJobs_def run_stmt_def same_keys_rows
    split: outcome.split)

lemma same_keys_step: "\<not> inserts ev \<Longrightarrow> same_keys (sDB s) (sDB (sys_step s ev))"
proof (cases ev)
  case (Producer_Fetch k ord e sent)
  then show ?thesis
    by (auto simp: sDB_on_both producer_fetch_def fetchAndSend_def Let_def split: prod.split sum.split)
      (metis same_keys_stmts(1) snd_conv)+
next
  case (Worker_Execute k j hs e1 e2 call)
  then show ?thesis
    using executeJob_frame by (auto simp: sDB_on_both worker_execute_def Let_def same_keys_def split: prod.split)
      (metis snd_conv)+
next
  case (Completer_Handle k oor n now e)
  then show ?thesis
    by (auto simp: sDB_on_both completer_handle_def handleResult_def Let_def same_keys_stmts
        split: list.split option.split)
qed (simp_all add: same_keys_stmts)

text \<open>An insertion appends a well-typed row, draws a number only, or changes nothing.\<close>

lemma insert_typed:
  assumes "jobs_typed d"
  shows "jobs_typed (snd (insert_new e (insert_params ns ev p pl md) d))"
  unfolding insert_new_state
proof (rule run_stmt_keeps [where P = jobs_typed])
  show "jobs_typed (snd (insert_stmt (pgNow e) (insert_params ns ev p pl md) d))"
    using assms new_job_typed
    by (auto simp: jobs_typed_def insert_stmt_def Let_def new_job_def)
qed (rule assms)

lemma step_typed:
  assumes inv: "sys_inv s" and ok: "proper ev" and typed: "jobs_typed (sDB s)"
  shows "jobs_typed (sDB (sys_step s ev))"
proof (cases "inserts ev")
  case True
  then obtain e ns en p pl md where "ev = Api_Insert e ns en p pl md" by (cases ev) simp_all
  then show ?thesis using insert_typed [OF typed] by simp
next
  case False
  note keys = same_keys_step [OF False, of s]
  have "row_typed r' \<and> 1 \<le> jID r' \<and> jID r' < seqJobs (sDB s)"
    if r': "r' \<in> set (tJobs (sDB (sys_step s ev)))" for r'
  proof -
    have wf: "jobs_wf (sDB s)" "jobs_wf (sDB (sys_step s ev))"
      using sys_invD(1) inv sys_step_inv [OF inv ok] by blast+
    have "jID r' \<in> jID ` set (tJobs (sDB s))"
      using r' keys by (metis image_eqI list.set_map same_keys_def)
    then obtain r where r: "r \<in> set (tJobs (sDB s))" "jID r = jID r'" by auto
    have look: "job_lookup (jID r') (sDB s) = Some r" "job_lookup (jID r') (sDB (sys_step s ev)) = Some r'"
      using wf r r' by (simp_all add: lookup_iff)
    have move: "row_move (held_by s (jID r')) (cancels ev (jID r')) r r'"
      using step_row [OF inv ok look(1)] look(2) by auto
    have "row_typed r'"
      using row_move_typed [OF move] held_state [OF inv _ look(1)] typed r(1) sys_invD(2) [OF inv]
      by (auto simp: jobs_typed_def)
    then show ?thesis using typed r by (force simp: jobs_typed_def)
  qed
  then show ?thesis using typed keys by (simp add: jobs_typed_def same_keys_def)
qed

lemma reach_typed: "sys_reach cfg s \<Longrightarrow> jobs_typed (sDB s)"
proof (induction rule: sys_reach.induct)
  case reach_start
  show ?case by (simp add: start_sys_def jobs_typed_def empty_db_def seq_max_def)
next
  case (reach_step s ev)
  then show ?case using step_typed reach_sys_inv by blast
qed

text \<open>C10 Stored jobs are well typed: in every reachable state of any number of processes and clients, a
  row has a completion time exactly when it is completed and a discard time exactly when it is
  discarded, a cancelled row its time of cancellation, a running one its worker, its start and a
  positive attempt, a scheduled one no attempt, a retryable or discarded one its errors; and its
  identifier is a positive 64-bit number.\<close>

theorem stored_jobs_are_well_typed:
  assumes "sys_reach cfg s" and "r \<in> set (tJobs (sDB s))"
  shows "row_typed r \<and> 1 \<le> jID r \<and> jID r \<le> seq_max"
  using reach_typed [OF assms(1)] assms(2) by (force simp: jobs_typed_def)

theorem stored_jobs_are_well_typed_witness:
  "\<exists>r \<in> set (tJobs (sDB (foldl sys_step (start_sys sample_cfg) sample_done_run))).
    jState r = JobStateCompleted \<and> jCompletedAt r \<noteq> None"
proof -
  let ?rows = "tJobs (sDB (foldl sys_step (start_sys sample_cfg) sample_done_run))"
  have "list_ex (\<lambda>r. jState r = JobStateCompleted) ?rows" by code_simp
  then obtain r where r: "r \<in> set ?rows" "jState r = JobStateCompleted" by (auto simp: list_ex_iff)
  then show ?thesis
    using stored_jobs_are_well_typed [OF sample_reach(2) r(1)] by (auto simp: row_typed_def)
qed

end
