(* ===== verification/Queue_Admin.thy ===== *)
theory Queue_Admin
  imports Job_Spec
begin

text \<open>
  The statements on queues and workers (\<^verbatim>\<open>internal/db/db.go\<close>, tables of migration
  006): worker registration, heartbeat and clean-up, queue configuration, and the statistics
  view. Where the order of the answer depends on the collation of the server, or on the
  order in which it visits rows, that order is an argument.
\<close>

definition int4_ok :: "int \<Rightarrow> bool" where
  "int4_ok n \<longleftrightarrow> - 2147483648 \<le> n \<and> n \<le> 2147483647"

definition int8_ok :: "int \<Rightarrow> bool" where
  "int8_ok n \<longleftrightarrow> - 9223372036854775808 \<le> n \<and> n \<le> 9223372036854775807"

definition int4_error :: error where
  "int4_error = Errorf ''integer out of range''"

definition int8_error :: error where
  "int8_error = Errorf ''bigint out of range''"

section \<open>Workers\<close>

text \<open>A worker that registers again keeps its row, but for the status and the heartbeat.\<close>

definition RegisterWorker :: "pg \<Rightarrow> Worker \<Rightarrow> db \<Rightarrow> (error + unit) \<times> db" where
  "RegisterWorker e w =
    run_stmt e (\<lambda>s.
      if \<not> int4_ok (wConcurrency w) then (Inl int4_error, s)
      else if find_row wID (wID w) (tWorkers s) = None
      then (Inr (), s\<lparr>tWorkers := tWorkers s @
        [\<lparr>wID = wID w, wNamespace = wNamespace w, wQueues = wQueues w,
          wConcurrency = wConcurrency w, wStatus = ''active'', wStartedAt = wStartedAt w,
          wLastHeartbeat = wStartedAt w, wJobsProcessed = 0, wJobsFailed = 0\<rparr>]\<rparr>)
      else (Inr (), s\<lparr>tWorkers := update_where (\<lambda>x. wID x = wID w)
        (\<lambda>x. x\<lparr>wStatus := ''active'', wLastHeartbeat := pgNow e\<rparr>) (tWorkers s)\<rparr>))"

definition WorkerHeartbeat :: "pg \<Rightarrow> string \<Rightarrow> db \<Rightarrow> (error + unit) \<times> db" where
  "WorkerHeartbeat e i =
    run_stmt e (\<lambda>s. (Inr (), s\<lparr>tWorkers :=
      update_where (\<lambda>x. wID x = i) (\<lambda>x. x\<lparr>wLastHeartbeat := pgNow e\<rparr>) (tWorkers s)\<rparr>))"

definition DeregisterWorker :: "pg \<Rightarrow> string \<Rightarrow> db \<Rightarrow> (error + unit) \<times> db" where
  "DeregisterWorker e i =
    run_stmt e (\<lambda>s. (Inr (), s\<lparr>tWorkers :=
      update_where (\<lambda>x. wID x = i) (\<lambda>x. x\<lparr>wStatus := ''stopped''\<rparr>) (tWorkers s)\<rparr>))"

definition GetWorkers ::
  "(Worker list \<Rightarrow> Worker list) \<Rightarrow> pg \<Rightarrow> string \<Rightarrow> db \<Rightarrow> (error + Worker list) \<times> db" where
  "GetWorkers ord e ns =
    run_stmt e (\<lambda>s. (Inr (sort_key wStartedAt
      (filter (\<lambda>w. wNamespace w = ns \<and> wStatus w = ''active'' \<and> wLastHeartbeat w > pgNow e - 30000000000)
        (ord (tWorkers s)))), s))"

definition IncrementWorkerStats :: "pg \<Rightarrow> string \<Rightarrow> int64 \<Rightarrow> int64 \<Rightarrow> db \<Rightarrow> (error + unit) \<times> db" where
  "IncrementWorkerStats e i processed failed =
    run_stmt e (\<lambda>s.
      let f = (\<lambda>x. x\<lparr>wJobsProcessed := wJobsProcessed x + sint processed,
                   wJobsFailed := wJobsFailed x + sint failed, wLastHeartbeat := pgNow e\<rparr>) in
      if list_ex (\<lambda>x. wID x = i \<and> \<not> (int8_ok (wJobsProcessed (f x)) \<and> int8_ok (wJobsFailed (f x)))) (tWorkers s)
      then (Inl int8_error, s)
      else (Inr (), s\<lparr>tWorkers := update_where (\<lambda>x. wID x = i) f (tWorkers s)\<rparr>))"

record WorkerHealth =
  whID :: string
  whStatus :: string
  whIsHealthy :: bool
  whLastHeartbeat :: instant
  whHeartbeatAge :: int
  whJobsProcessed :: int
  whJobsFailed :: int

definition GetWorkerHealth ::
  "(Worker list \<Rightarrow> Worker list) \<Rightarrow> pg \<Rightarrow> string \<Rightarrow> db \<Rightarrow> (error + WorkerHealth list) \<times> db" where
  "GetWorkerHealth ord e ns =
    run_stmt e (\<lambda>s. (Inr (map (\<lambda>w.
        \<lparr>whID = wID w, whStatus = wStatus w, whIsHealthy = wLastHeartbeat w > pgNow e - 30000000000,
         whLastHeartbeat = wLastHeartbeat w, whHeartbeatAge = pgNow e - wLastHeartbeat w,
         whJobsProcessed = wJobsProcessed w, whJobsFailed = wJobsFailed w\<rparr>)
      (sort_key wStartedAt
        (filter (\<lambda>w. wNamespace w = ns \<and> wLastHeartbeat w > pgNow e - 300000000000)
          (ord (tWorkers s))))), s))"

text \<open>\<open>interval\<close> is what the server reads in the text \<^verbatim>\<open>threshold.String()\<close>.\<close>

definition stale :: "instant \<Rightarrow> int \<Rightarrow> Worker \<Rightarrow> bool" where
  "stale now interval w \<longleftrightarrow> wStatus w = ''active'' \<and> wLastHeartbeat w < now - interval"

definition CleanupStaleWorkers :: "pg \<Rightarrow> error + int \<Rightarrow> db \<Rightarrow> (error + int) \<times> db" where
  "CleanupStaleWorkers e interval =
    run_stmt e (\<lambda>s.
      case interval of
        Inl err \<Rightarrow> (Inl err, s)
      | Inr iv \<Rightarrow> (Inr (int (count_where (stale (pgNow e) iv) (tWorkers s))),
          s\<lparr>tWorkers := update_where (stale (pgNow e) iv) (\<lambda>x. x\<lparr>wStatus := ''stopped''\<rparr>) (tWorkers s)\<rparr>))"

section \<open>Queues\<close>

definition queue_key :: "QueueConfig \<Rightarrow> string \<times> string" where
  "queue_key q = (qNamespace q, qName q)"

definition NewQueueConfig :: "string \<Rightarrow> string \<Rightarrow> int \<Rightarrow> bool \<Rightarrow> int \<Rightarrow> QueueConfig" where
  "NewQueueConfig name ns concurrency paused priority =
    \<lparr>qName = name, qNamespace = ns, qConcurrency = concurrency, qPaused = paused,
     qPriority = priority, qCreatedAt = 0, qUpdatedAt = 0\<rparr>"

definition GetQueues ::
  "(QueueConfig list \<Rightarrow> QueueConfig list) \<Rightarrow> pg \<Rightarrow> string \<Rightarrow> db \<Rightarrow> (error + QueueConfig list) \<times> db" where
  "GetQueues by_name e ns =
    run_stmt e (\<lambda>s. (Inr (sort_key (\<lambda>q. - qPriority q)
      (by_name (filter (\<lambda>q. qNamespace q = ns) (tQueues s)))), s))"

definition UpsertQueue :: "pg \<Rightarrow> QueueConfig \<Rightarrow> db \<Rightarrow> (error + unit) \<times> db" where
  "UpsertQueue e q =
    run_stmt e (\<lambda>s.
      if \<not> int4_ok (qConcurrency q) \<or> \<not> int4_ok (qPriority q) then (Inl int4_error, s)
      else if find_row queue_key (queue_key q) (tQueues s) = None
      then (Inr (), s\<lparr>tQueues := tQueues s @ [q\<lparr>qCreatedAt := pgNow e, qUpdatedAt := pgNow e\<rparr>]\<rparr>)
      else (Inr (), s\<lparr>tQueues := update_where (\<lambda>x. queue_key x = queue_key q)
        (\<lambda>x. x\<lparr>qConcurrency := qConcurrency q, qPaused := qPaused q, qPriority := qPriority q,
          qUpdatedAt := pgNow e\<rparr>) (tQueues s)\<rparr>))"

definition UpdateQueueConcurrency :: "pg \<Rightarrow> string \<Rightarrow> string \<Rightarrow> int \<Rightarrow> db \<Rightarrow> (error + unit) \<times> db" where
  "UpdateQueueConcurrency e ns name concurrency =
    run_stmt e (\<lambda>s.
      if \<not> int4_ok concurrency then (Inl int4_error, s)
      else (Inr (), s\<lparr>tQueues := update_where (\<lambda>x. queue_key x = (ns, name))
        (\<lambda>x. x\<lparr>qConcurrency := concurrency, qUpdatedAt := pgNow e\<rparr>) (tQueues s)\<rparr>))"

definition PauseQueue :: "pg \<Rightarrow> string \<Rightarrow> string \<Rightarrow> bool \<Rightarrow> db \<Rightarrow> (error + unit) \<times> db" where
  "PauseQueue e ns name paused =
    run_stmt e (\<lambda>s. (Inr (), s\<lparr>tQueues := update_where (\<lambda>x. queue_key x = (ns, name))
      (\<lambda>x. x\<lparr>qPaused := paused, qUpdatedAt := pgNow e\<rparr>) (tQueues s)\<rparr>))"

definition GetQueueConcurrency :: "pg \<Rightarrow> string \<Rightarrow> string \<Rightarrow> db \<Rightarrow> (error + int \<times> bool) \<times> db" where
  "GetQueueConcurrency e ns name =
    run_stmt e (\<lambda>s. (Inr (case find_row queue_key (ns, name) (tQueues s) of
      None \<Rightarrow> (10, False) | Some q \<Rightarrow> (qConcurrency q, qPaused q)), s))"

section \<open>Statistics\<close>

record QueueStats =
  qsNamespace :: string
  qsQueue :: string
  qsAvailable :: nat
  qsRunning :: nat
  qsCompleted :: nat
  qsRetryable :: nat
  qsFailed :: nat
  qsTotal :: nat

text \<open>One row of the view \<^verbatim>\<open>rivo_queue_stats\<close>.\<close>

definition queue_stats :: "JobRow list \<Rightarrow> string \<Rightarrow> string \<Rightarrow> QueueStats" where
  "queue_stats rows ns queue =
    (let jobs = filter (\<lambda>r. jNamespace r = ns \<and> jQueue r = queue) rows;
         n = (\<lambda>st. count_where (\<lambda>r. jState r = st) jobs)
     in \<lparr>qsNamespace = ns, qsQueue = queue, qsAvailable = n JobStateAvailable,
         qsRunning = n JobStateRunning, qsCompleted = n JobStateCompleted,
         qsRetryable = n JobStateRetryable, qsFailed = n JobStateDiscarded, qsTotal = length jobs\<rparr>)"

definition GetQueueStats ::
  "(string list \<Rightarrow> string list) \<Rightarrow> pg \<Rightarrow> string \<Rightarrow> db \<Rightarrow> (error + QueueStats list) \<times> db" where
  "GetQueueStats by_name e ns =
    run_stmt e (\<lambda>s. (Inr (map (queue_stats (tJobs s) ns)
      (by_name (remdups (map jQueue (filter (\<lambda>r. jNamespace r = ns) (tJobs s)))))), s))"

section \<open>Properties\<close>

interpretation upsert_upd: keyed_update queue_key
  "\<lambda>x. x\<lparr>qConcurrency := c, qPaused := p, qPriority := r, qUpdatedAt := t\<rparr>" for c p r t
  by unfold_locales (simp add: queue_key_def)

interpretation pause_upd: keyed_update queue_key "\<lambda>x. x\<lparr>qPaused := p, qUpdatedAt := t\<rparr>" for p t
  by unfold_locales (simp add: queue_key_def)

interpretation stop_upd: keyed_update wID "\<lambda>x. x\<lparr>wStatus := st\<rparr>" for st
  by unfold_locales simp

text \<open>The rows found after an upsert.\<close>

lemma find_upsert:
  assumes "UpsertQueue e q s = (Inr (), s')"
  shows "find_row queue_key k (tQueues s') =
    (if k = queue_key q
     then Some (case find_row queue_key k (tQueues s) of
         None \<Rightarrow> q\<lparr>qCreatedAt := pgNow e, qUpdatedAt := pgNow e\<rparr>
       | Some x \<Rightarrow> x\<lparr>qConcurrency := qConcurrency q, qPaused := qPaused q, qPriority := qPriority q,
           qUpdatedAt := pgNow e\<rparr>)
     else find_row queue_key k (tQueues s))"
proof (cases "find_row queue_key (queue_key q) (tQueues s)")
  case None
  then have "s' = s\<lparr>tQueues := tQueues s @ [q\<lparr>qCreatedAt := pgNow e, qUpdatedAt := pgNow e\<rparr>]\<rparr>"
    using assms by (auto simp: UpsertQueue_def run_stmt_def split: outcome.splits if_splits)
  moreover have "queue_key (q\<lparr>qCreatedAt := pgNow e, qUpdatedAt := pgNow e\<rparr>) = queue_key q"
    by (simp add: queue_key_def)
  ultimately show ?thesis using None by (auto split: option.split)
next
  case (Some x)
  then have "s' = s\<lparr>tQueues := update_where (\<lambda>x. queue_key x = queue_key q)
      (\<lambda>x. x\<lparr>qConcurrency := qConcurrency q, qPaused := qPaused q, qPriority := qPriority q,
        qUpdatedAt := pgNow e\<rparr>) (tQueues s)\<rparr>"
    using assms by (auto simp: UpsertQueue_def run_stmt_def split: outcome.splits if_splits)
  then show ?thesis using Some by (simp add: upsert_upd.find_update_key)
qed

text \<open>Queue settings survive a round trip: after a successful UpsertQueue, reading the concurrency
  and the pause flag of that queue gives what was stored, and of any other queue what it
  gave before.\<close>

theorem queue_settings_roundtrip:
  assumes "UpsertQueue e q s = (Inr (), s')" and "pgOutcome e' = Done"
  shows "fst (GetQueueConcurrency e' ns name s') =
    (if (ns, name) = (qNamespace q, qName q) then Inr (qConcurrency q, qPaused q)
     else fst (GetQueueConcurrency e' ns name s))"
  using find_upsert [OF assms(1), of "(ns, name)"] assms(2)
  by (simp add: GetQueueConcurrency_def run_stmt_def queue_key_def split: option.split)

definition sample_queue :: QueueConfig where
  "sample_queue = NewQueueConfig ''default'' ''ns'' 3 True 0"

theorem queue_settings_roundtrip_witness:
  "fst (GetQueueConcurrency (pg_at 9) ''ns'' ''default'' (snd (UpsertQueue (pg_at 8) sample_queue sample_db))) =
     Inr (3, True) \<and>
   fst (GetQueueConcurrency (pg_at 9) ''ns'' ''mail'' (snd (UpsertQueue (pg_at 8) sample_queue sample_db))) =
     Inr (10, False)"
proof -
  have "fst (UpsertQueue (pg_at 8) sample_queue sample_db) = Inr ()"
    and "fst (GetQueueConcurrency (pg_at 9) ''ns'' ''mail'' sample_db) = Inr (10, False)" by code_simp+
  then have up: "UpsertQueue (pg_at 8) sample_queue sample_db =
      (Inr (), snd (UpsertQueue (pg_at 8) sample_queue sample_db))" by (metis prod.collapse)
  have "pgOutcome (pg_at 9) = Done" by simp
  from queue_settings_roundtrip [OF up this, of "''ns''" "''default''"]
    queue_settings_roundtrip [OF up this, of "''ns''" "''mail''"]
  show ?thesis
    using \<open>fst (GetQueueConcurrency (pg_at 9) ''ns'' ''mail'' sample_db) = Inr (10, False)\<close>
    by (simp add: sample_queue_def NewQueueConfig_def)
qed

text \<open>A fetch reads and writes no queue settings.\<close>

lemma fetch_frame:
  "fst (FetchJobs ord e ns qs limit w (s\<lparr>tQueues := x\<rparr>)) = fst (FetchJobs ord e ns qs limit w s) \<and>
   tJobs (snd (FetchJobs ord e ns qs limit w (s\<lparr>tQueues := x\<rparr>))) = tJobs (snd (FetchJobs ord e ns qs limit w s))"
  by (simp add: FetchJobs_def run_stmt_def fetch_stmt_def Let_def split: outcome.split)

lemma queue_stmts_frame:
  "\<exists>x. snd (PauseQueue e ns name p s) = s\<lparr>tQueues := x\<rparr>"
  "\<exists>x. snd (UpdateQueueConcurrency e ns name c s) = s\<lparr>tQueues := x\<rparr>"
proof -
  have id: "s = s\<lparr>tQueues := tQueues s\<rparr>" by simp
  show "\<exists>x. snd (PauseQueue e ns name p s) = s\<lparr>tQueues := x\<rparr>"
    unfolding PauseQueue_def by (rule run_stmt_keeps [where P = "\<lambda>d. \<exists>x. d = s\<lparr>tQueues := x\<rparr>"]) (use id in blast, simp, blast)
  show "\<exists>x. snd (UpdateQueueConcurrency e ns name c s) = s\<lparr>tQueues := x\<rparr>"
    unfolding UpdateQueueConcurrency_def
    by (rule run_stmt_keeps [where P = "\<lambda>d. \<exists>x. d = s\<lparr>tQueues := x\<rparr>"]) (use id in blast, simp, use id in blast)
qed

text \<open>Pausing a queue does not stop it: a fetch after any PauseQueue and UpdateQueueConcurrency hands
  out exactly the jobs it would have handed out without, and leaves the same jobs stored.\<close>

theorem pausing_does_not_stop_fetching:
  "fst (FetchJobs ord e ns qs limit w (snd (UpdateQueueConcurrency e2 ns q c (snd (PauseQueue e1 ns q True s))))) =
     fst (FetchJobs ord e ns qs limit w s) \<and>
   tJobs (snd (FetchJobs ord e ns qs limit w (snd (UpdateQueueConcurrency e2 ns q c (snd (PauseQueue e1 ns q True s)))))) =
     tJobs (snd (FetchJobs ord e ns qs limit w s))"
proof -
  obtain x where x: "snd (PauseQueue e1 ns q True s) = s\<lparr>tQueues := x\<rparr>" using queue_stmts_frame(1) by blast
  obtain y where y: "snd (UpdateQueueConcurrency e2 ns q c (s\<lparr>tQueues := x\<rparr>)) = s\<lparr>tQueues := x, tQueues := y\<rparr>"
    using queue_stmts_frame(2) by blast
  show ?thesis unfolding x y using fetch_frame [where s = s and x = y] by simp
qed

text \<open>The statistics of a queue account for all of its jobs: the five counts shown and the
  scheduled and cancelled jobs, which are not shown, add up to the total.\<close>

theorem queue_stats_account:
  "qsAvailable (queue_stats rows ns q) + qsRunning (queue_stats rows ns q) +
   qsCompleted (queue_stats rows ns q) + qsRetryable (queue_stats rows ns q) +
   qsFailed (queue_stats rows ns q) +
   count_where (\<lambda>r. jNamespace r = ns \<and> jQueue r = q \<and> jState r \<in> {JobStateScheduled, JobStateCancelled}) rows =
   qsTotal (queue_stats rows ns q)"
proof (induction rows)
  case Nil
  show ?case by (simp add: queue_stats_def count_where_def Let_def)
next
  case (Cons r rows)
  then show ?case
    by (cases "jState r") (auto simp: queue_stats_def count_where_def Let_def)
qed

text \<open>Cleaning up stops exactly the stale workers: afterwards no worker is active with a heartbeat
  older than the threshold, every worker that was not stale is as it was, and the answer is
  the number of workers stopped.\<close>

theorem cleanup_stops_stale_workers:
  assumes "CleanupStaleWorkers e (Inr iv) s = (Inr n, s')" and "find_row wID i (tWorkers s) = Some w"
  shows "find_row wID i (tWorkers s') =
      Some (if stale (pgNow e) iv w then w\<lparr>wStatus := ''stopped''\<rparr> else w) \<and>
    filter (stale (pgNow e) iv) (tWorkers s') = [] \<and>
    n = int (length (filter (stale (pgNow e) iv) (tWorkers s)))"
proof -
  have s': "s' = s\<lparr>tWorkers := update_where (stale (pgNow e) iv) (\<lambda>x. x\<lparr>wStatus := ''stopped''\<rparr>) (tWorkers s)\<rparr>"
    and n: "n = int (count_where (stale (pgNow e) iv) (tWorkers s))"
    using assms(1) by (auto simp: CleanupStaleWorkers_def run_stmt_def split: outcome.splits)
  have none: "filter (stale t iv) (update_where (stale t iv) (\<lambda>x. x\<lparr>wStatus := ''stopped''\<rparr>) xs) = []" for t xs
    by (induction xs) (simp_all add: stale_def)
  show ?thesis using assms(2) by (simp add: s' n none stop_upd.find_update count_where_def)
qed

definition sample_workers_db :: db where
  "sample_workers_db =
    (let w = (\<lambda>i t. \<lparr>wID = i, wNamespace = ''ns'', wQueues = [], wConcurrency = 1, wStatus = ''active'',
        wStartedAt = 0, wLastHeartbeat = t, wJobsProcessed = 0, wJobsFailed = 0\<rparr>)
     in empty_db\<lparr>tWorkers := [w ''w1'' 10, w ''w2'' 90]\<rparr>)"

theorem cleanup_stops_stale_workers_witness:
  "\<exists>s'. CleanupStaleWorkers (pg_at 100) (Inr 50) sample_workers_db = (Inr 1, s') \<and>
    map_option wStatus (find_row wID ''w1'' (tWorkers s')) = Some ''stopped'' \<and>
    find_row wID ''w2'' (tWorkers s') = find_row wID ''w2'' (tWorkers sample_workers_db)"
proof -
  let ?r = "CleanupStaleWorkers (pg_at 100) (Inr 50) sample_workers_db"
  have "fst ?r = Inr 1" by code_simp
  then have run: "?r = (Inr 1, snd ?r)" by (metis prod.collapse)
  obtain w1 w2 where w: "find_row wID ''w1'' (tWorkers sample_workers_db) = Some w1"
      "find_row wID ''w2'' (tWorkers sample_workers_db) = Some w2"
      "stale 100 50 w1" "\<not> stale 100 50 w2"
    by (simp add: sample_workers_db_def Let_def find_row_def stale_def)
  show ?thesis
    using run cleanup_stops_stale_workers [OF run w(1)] cleanup_stops_stale_workers [OF run w(2)] w by auto
qed

end
