(* ===== verification/Run_Store.thy ===== *)
theory Run_Store
  imports Job_Spec Exec_Logs
begin

text \<open>
  The statements on workflow definitions and runs (\<^verbatim>\<open>internal/db/db.go\<close>, tables
  of migration 003). Every definition is stored as version 1, the default of the column, so
  the upsert on namespace, name and version replaces the definition in place.
\<close>

section \<open>Definitions\<close>

definition def_key :: "WorkflowDefinitionRow \<Rightarrow> string \<times> string \<times> int" where
  "def_key d = (dNamespace d, dName d, dVersion d)"

text \<open>The sequence is advanced also when the row exists.\<close>

definition InsertWorkflowDefinition ::
  "pg \<Rightarrow> string \<Rightarrow> string \<Rightarrow> json \<Rightarrow> db \<Rightarrow> (error + WorkflowDefinitionRow) \<times> db" where
  "InsertWorkflowDefinition e name ns def s =
    (case run_stmt e (\<lambda>s.
        if seqDefs s > seq_max then (Inl seq_error, s)
        else let s' = s\<lparr>seqDefs := seqDefs s + 1\<rparr> in
          case find_row def_key (ns, name, 1) (tDefs s) of
            None \<Rightarrow>
              (let d = \<lparr>dID = seqDefs s, dName = name, dVersion = 1, dNamespace = ns,
                        dDefinition = def, dCreatedAt = pgNow e\<rparr>
               in (Inr d, s'\<lparr>tDefs := tDefs s @ [d]\<rparr>))
          | Some d \<Rightarrow>
              (Inr (d\<lparr>dDefinition := def\<rparr>),
               s'\<lparr>tDefs := update_where (\<lambda>x. def_key x = (ns, name, 1)) (\<lambda>x. x\<lparr>dDefinition := def\<rparr>) (tDefs s)\<rparr>)) s of
      (Inl err, s') \<Rightarrow> (Inl (Wrapped ''inserting workflow definition: '' err ''''), s')
    | (Inr d, s') \<Rightarrow> (Inr d, s'))"

definition GetWorkflowDefinition ::
  "pg \<Rightarrow> string \<Rightarrow> string \<Rightarrow> db \<Rightarrow> (error + WorkflowDefinitionRow option) \<times> db" where
  "GetWorkflowDefinition e ns name s =
    (case run_stmt e (\<lambda>s. (Inr (top_by (\<lambda>d. - dVersion d) 1
        (filter (\<lambda>d. dNamespace d = ns \<and> dName d = name) (tDefs s))), s)) s of
      (Inl err, s') \<Rightarrow> (Inl (Wrapped ''getting workflow definition: '' err ''''), s')
    | (Inr [], s') \<Rightarrow> (Inr None, s')
    | (Inr (d # _), s') \<Rightarrow> (Inr (Some d), s'))"

definition GetWorkflowDefinitionByID ::
  "pg \<Rightarrow> int \<Rightarrow> db \<Rightarrow> (error + WorkflowDefinitionRow option) \<times> db" where
  "GetWorkflowDefinitionByID e i s =
    (case run_stmt e (\<lambda>s. (Inr (find_row dID i (tDefs s)), s)) s of
      (Inl err, s') \<Rightarrow> (Inl (Wrapped ''getting workflow definition by ID: '' err ''''), s')
    | (Inr d, s') \<Rightarrow> (Inr d, s'))"

section \<open>Runs\<close>

fun workflow_state_text :: "WorkflowState \<Rightarrow> string" where
  "workflow_state_text WorkflowStatePending = ''pending''"
| "workflow_state_text WorkflowStateRunning = ''running''"
| "workflow_state_text WorkflowStateCompleted = ''completed''"
| "workflow_state_text WorkflowStateFailed = ''failed''"
| "workflow_state_text WorkflowStateCancelled = ''cancelled''"

definition CreateWorkflowRun ::
  "pg \<Rightarrow> int \<Rightarrow> string \<Rightarrow> json \<Rightarrow> step_states \<Rightarrow> db \<Rightarrow> (error + WorkflowRunRow) \<times> db" where
  "CreateWorkflowRun e definitionID ns input states s =
    (case run_stmt e (\<lambda>s.
        if seqRuns s > seq_max then (Inl seq_error, s)
        else let s' = s\<lparr>seqRuns := seqRuns s + 1\<rparr> in
          if find_row dID definitionID (tDefs s) = None then (Inl fk_error, s')
          else let r = \<lparr>rID = seqRuns s, rDefinitionID = definitionID, rNamespace = ns,
                        rState = WorkflowStatePending, rInput = input, rOutput = None,
                        rStepStates = states, rError = None, rStartedAt = None,
                        rCompletedAt = None, rCreatedAt = pgNow e, rUpdatedAt = pgNow e\<rparr>
            in (Inr r, s'\<lparr>tRuns := tRuns s @ [r]\<rparr>)) s of
      (Inl err, s') \<Rightarrow> (Inl (Wrapped ''creating workflow run: '' err ''''), s')
    | (Inr r, s') \<Rightarrow> (Inr r, s'))"

definition run_ended :: "WorkflowState \<Rightarrow> bool" where
  "run_ended st \<longleftrightarrow> st \<in> {WorkflowStateCompleted, WorkflowStateFailed, WorkflowStateCancelled}"

text \<open>The argument \<^verbatim>\<open>currentStep\<close> is not used by the statement.\<close>

definition state_row :: "instant \<Rightarrow> WorkflowState \<Rightarrow> string \<Rightarrow> WorkflowRunRow \<Rightarrow> WorkflowRunRow" where
  "state_row now st msg r =
    r\<lparr>rState := st,
      rStartedAt := (if st = WorkflowStateRunning \<and> rStartedAt r = None then Some now else rStartedAt r),
      rCompletedAt := (if run_ended st then Some now else rCompletedAt r),
      rError := (case nonempty msg of Some m \<Rightarrow> Some m | None \<Rightarrow> rError r),
      rUpdatedAt := now\<rparr>"

definition UpdateWorkflowRunState ::
  "pg \<Rightarrow> int \<Rightarrow> WorkflowState \<Rightarrow> string \<Rightarrow> string \<Rightarrow> db \<Rightarrow> (error + unit) \<times> db" where
  "UpdateWorkflowRunState e i st currentStep msg =
    run_stmt e (\<lambda>s. (Inr (),
      s\<lparr>tRuns := update_where (\<lambda>r. rID r = i) (state_row (pgNow e) st msg) (tRuns s)\<rparr>))"

definition states_row :: "instant \<Rightarrow> step_states \<Rightarrow> WorkflowRunRow \<Rightarrow> WorkflowRunRow" where
  "states_row now states r = r\<lparr>rStepStates := states, rUpdatedAt := now\<rparr>"

definition UpdateWorkflowRunStepStates :: "pg \<Rightarrow> int \<Rightarrow> step_states \<Rightarrow> db \<Rightarrow> (error + unit) \<times> db" where
  "UpdateWorkflowRunStepStates e i states =
    run_stmt e (\<lambda>s. (Inr (),
      s\<lparr>tRuns := update_where (\<lambda>r. rID r = i) (states_row (pgNow e) states) (tRuns s)\<rparr>))"

definition output_row :: "instant \<Rightarrow> json option \<Rightarrow> WorkflowRunRow \<Rightarrow> WorkflowRunRow" where
  "output_row now out r = r\<lparr>rOutput := out, rUpdatedAt := now\<rparr>"

definition UpdateWorkflowRunOutput :: "pg \<Rightarrow> int \<Rightarrow> json option \<Rightarrow> db \<Rightarrow> (error + unit) \<times> db" where
  "UpdateWorkflowRunOutput e i out =
    run_stmt e (\<lambda>s. (Inr (),
      s\<lparr>tRuns := update_where (\<lambda>r. rID r = i) (output_row (pgNow e) out) (tRuns s)\<rparr>))"

definition reset_row :: "instant \<Rightarrow> step_states \<Rightarrow> WorkflowRunRow \<Rightarrow> WorkflowRunRow" where
  "reset_row now states r =
    r\<lparr>rStepStates := states, rState := WorkflowStateRunning, rCompletedAt := None,
      rError := Some '''', rUpdatedAt := now\<rparr>"

definition ResetWorkflowStepForRerun :: "pg \<Rightarrow> int \<Rightarrow> step_states \<Rightarrow> db \<Rightarrow> (error + unit) \<times> db" where
  "ResetWorkflowStepForRerun e i states =
    run_stmt e (\<lambda>s. (Inr (),
      s\<lparr>tRuns := update_where (\<lambda>r. rID r = i) (reset_row (pgNow e) states) (tRuns s)\<rparr>))"

text \<open>Reading a run gives the empty string for a null error.\<close>

definition run_view :: "WorkflowRunRow \<Rightarrow> WorkflowRunRow" where
  "run_view r = r\<lparr>rError := (case rError r of None \<Rightarrow> Some '''' | Some m \<Rightarrow> Some m)\<rparr>"

definition GetWorkflowRun :: "pg \<Rightarrow> int \<Rightarrow> db \<Rightarrow> (error + WorkflowRunRow option) \<times> db" where
  "GetWorkflowRun e i s =
    (case run_stmt e (\<lambda>s. (Inr (map_option run_view (find_row rID i (tRuns s))), s)) s of
      (Inl err, s') \<Rightarrow> (Inl (Wrapped ''getting workflow run: '' err ''''), s')
    | (Inr r, s') \<Rightarrow> (Inr r, s'))"

definition ListWorkflowRuns ::
  "(WorkflowRunRow list \<Rightarrow> WorkflowRunRow list) \<Rightarrow> pg \<Rightarrow> string \<Rightarrow> string \<Rightarrow> int \<Rightarrow> db
    \<Rightarrow> (error + WorkflowRunRow list) \<times> db" where
  "ListWorkflowRuns ord e ns st limit =
    run_stmt e (\<lambda>s.
      if limit < 0 then (Inl (Errorf ''LIMIT must not be negative''), s)
      else (Inr (map run_view (top_by (\<lambda>r. - rCreatedAt r) (nat limit)
        (filter (\<lambda>r. rNamespace r = ns \<and> (st = '''' \<or> workflow_state_text (rState r) = st))
          (ord (tRuns s))))), s))"

section \<open>Lookups\<close>

interpretation state_upd: keyed_update rID "state_row now st msg" for now st msg
  by unfold_locales (simp add: state_row_def)

interpretation states_upd: keyed_update rID "states_row now states" for now states
  by unfold_locales (simp add: states_row_def)

interpretation output_upd: keyed_update rID "output_row now out" for now out
  by unfold_locales (simp add: output_row_def)

interpretation reset_upd: keyed_update rID "reset_row now states" for now states
  by unfold_locales (simp add: reset_row_def)

interpretation def_upd: keyed_update def_key "\<lambda>x. x\<lparr>dDefinition := def\<rparr>" for def
  by unfold_locales (simp add: def_key_def)

interpretation def_id_upd: keyed_update dID "\<lambda>x. x\<lparr>dDefinition := def\<rparr>" for def
  by unfold_locales simp

definition run_lookup :: "int \<Rightarrow> db \<Rightarrow> WorkflowRunRow option" where
  "run_lookup i s = find_row rID i (tRuns s)"

lemma run_lookup_stmts:
  assumes "pgOutcome e = Done"
  shows "run_lookup j (snd (UpdateWorkflowRunState e i st cs msg s)) =
      (if j = i then map_option (state_row (pgNow e) st msg) (run_lookup i s) else run_lookup j s)"
    and "run_lookup j (snd (UpdateWorkflowRunStepStates e i states s)) =
      (if j = i then map_option (states_row (pgNow e) states) (run_lookup i s) else run_lookup j s)"
    and "run_lookup j (snd (UpdateWorkflowRunOutput e i out s)) =
      (if j = i then map_option (output_row (pgNow e) out) (run_lookup i s) else run_lookup j s)"
    and "run_lookup j (snd (ResetWorkflowStepForRerun e i states s)) =
      (if j = i then map_option (reset_row (pgNow e) states) (run_lookup i s) else run_lookup j s)"
  using assms
  by (simp_all add: UpdateWorkflowRunState_def UpdateWorkflowRunStepStates_def UpdateWorkflowRunOutput_def
      ResetWorkflowStepForRerun_def run_stmt_def run_lookup_def state_upd.find_update_key
      states_upd.find_update_key output_upd.find_update_key reset_upd.find_update_key)

lemma run_lookup_other:
  assumes "j \<noteq> i"
  shows "run_lookup j (snd (UpdateWorkflowRunState e i st cs msg s)) = run_lookup j s"
    and "run_lookup j (snd (UpdateWorkflowRunStepStates e i states s)) = run_lookup j s"
  unfolding UpdateWorkflowRunState_def UpdateWorkflowRunStepStates_def
  by (rule run_stmt_keeps [where P = "\<lambda>d. run_lookup j d = run_lookup j s"];
      simp add: assms run_lookup_def state_upd.find_update_key states_upd.find_update_key)+

section \<open>Definitions are replaced in place\<close>

lemma distinct_single: "distinct xs \<Longrightarrow> set xs = {a} \<Longrightarrow> xs = [a]"
  by (cases xs) (auto simp: subset_singleton_iff)

definition defs_wf :: "db \<Rightarrow> bool" where
  "defs_wf s \<longleftrightarrow> distinct (map dID (tDefs s)) \<and> distinct (map def_key (tDefs s)) \<and>
    (\<forall>d \<in> set (tDefs s). dID d < seqDefs s \<and> dVersion d = 1)"

lemma insert_definition_InrD:
  assumes "InsertWorkflowDefinition e name ns def s = (Inr d, s')"
  shows "case find_row def_key (ns, name, 1) (tDefs s) of
      None \<Rightarrow> d = \<lparr>dID = seqDefs s, dName = name, dVersion = 1, dNamespace = ns,
               dDefinition = def, dCreatedAt = pgNow e\<rparr> \<and>
             s' = s\<lparr>seqDefs := seqDefs s + 1, tDefs := tDefs s @ [d]\<rparr>
    | Some d0 \<Rightarrow> d = d0\<lparr>dDefinition := def\<rparr> \<and>
        s' = s\<lparr>seqDefs := seqDefs s + 1,
          tDefs := update_where (\<lambda>x. def_key x = (ns, name, 1)) (\<lambda>x. x\<lparr>dDefinition := def\<rparr>) (tDefs s)\<rparr>"
  using assms
  by (auto simp: InsertWorkflowDefinition_def run_stmt_def Let_def
      split: outcome.splits if_splits prod.splits sum.splits option.splits)

lemma insert_definition_wf:
  assumes "defs_wf s" and "InsertWorkflowDefinition e name ns def s = (Inr d, s')"
  shows "defs_wf s'" and "d \<in> set (tDefs s')" and "def_key d = (ns, name, 1)" and "dDefinition d = def"
proof -
  let ?f = "find_row def_key (ns, name, 1) (tDefs s)"
  note D = insert_definition_InrD [OF assms(2)]
  have wf: "distinct (map dID (tDefs s))" "distinct (map def_key (tDefs s))"
    "\<forall>d \<in> set (tDefs s). dID d < seqDefs s \<and> dVersion d = 1" using assms(1) by (simp_all add: defs_wf_def)
  show "def_key d = (ns, name, 1)" "dDefinition d = def"
    using D find_row_SomeD [of def_key "(ns, name, 1)" "tDefs s"] by (auto simp: def_key_def split: option.splits)
  show "d \<in> set (tDefs s')"
    using D find_row_SomeD [of def_key "(ns, name, 1)" "tDefs s"]
    by (auto simp: set_update_where split: option.splits)
  show "defs_wf s'"
  proof (cases ?f)
    case None
    then have "(ns, name, 1) \<notin> def_key ` set (tDefs s)" by (simp add: find_row_None_iff)
    then show ?thesis using D None wf by (auto simp: defs_wf_def def_key_def)
  next
    case (Some d0)
    then show ?thesis
      using D wf by (auto simp: defs_wf_def def_upd.distinct_update def_id_upd.distinct_update set_update_where)
  qed
qed

text \<open>Starting a workflow again with a changed definition changes the definition of its earlier runs:
  the second insertion of a name keeps the id of the first, so that what is read under the id
  that the earlier runs refer to is the new definition, as it is when read by name.\<close>

theorem redefinition_changes_old_runs:
  assumes "defs_wf s" and "InsertWorkflowDefinition e1 name ns def1 s = (Inr d1, s1)"
    and "InsertWorkflowDefinition e2 name ns def2 s1 = (Inr d2, s2)" and "pgOutcome e3 = Done"
  shows "dID d2 = dID d1 \<and> dDefinition d2 = def2 \<and>
    fst (GetWorkflowDefinitionByID e3 (dID d1) s2) = Inr (Some d2) \<and>
    fst (GetWorkflowDefinition e3 ns name s2) = Inr (Some d2)"
proof -
  note one = insert_definition_wf [OF assms(1,2)]
  note two = insert_definition_wf [OF one(1) assms(3)]
  have "find_row def_key (ns, name, 1) (tDefs s1) = Some d1"
    using one find_row_distinct [of def_key "tDefs s1" d1] by (simp add: defs_wf_def)
  then have id: "dID d2 = dID d1" using insert_definition_InrD [OF assms(3)] by simp
  have "find_row dID (dID d2) (tDefs s2) = Some d2"
    using two(1,2) find_row_distinct [of dID "tDefs s2" d2] by (simp add: defs_wf_def)
  moreover have "filter (\<lambda>d. dNamespace d = ns \<and> dName d = name) (tDefs s2) = [d2]"
  proof -
    have same: "x = d2" if "x \<in> set (tDefs s2)" "dNamespace x = ns" "dName x = name" for x
    proof -
      have "def_key x = def_key d2" using that two(1,3) by (simp add: defs_wf_def def_key_def)
      then show ?thesis using distinct_key_eq [of def_key "tDefs s2" x d2] two(1,2) that(1) by (simp add: defs_wf_def)
    qed
    have "distinct (tDefs s2)" using two(1) by (simp add: defs_wf_def distinct_map)
    then have "distinct (filter (\<lambda>d. dNamespace d = ns \<and> dName d = name) (tDefs s2))" by simp
    moreover have "dNamespace d2 = ns" "dName d2 = name" using two(3) by (simp_all add: def_key_def)
    then have "set (filter (\<lambda>d. dNamespace d = ns \<and> dName d = name) (tDefs s2)) = {d2}"
      unfolding set_filter using two(2) same by blast
    ultimately have "filter (\<lambda>d. dNamespace d = ns \<and> dName d = name) (tDefs s2) = [d2]"
      by (rule distinct_single)
    then show ?thesis .
  qed
  ultimately show ?thesis
    using id two(4) assms(4)
    by (simp add: GetWorkflowDefinitionByID_def GetWorkflowDefinition_def run_stmt_def top_by_def)
qed

theorem redefinition_changes_old_runs_witness:
  "\<exists>d1 d2 s1 s2. InsertWorkflowDefinition (pg_at 1) ''wf'' ''ns'' (JNum 1) empty_db = (Inr d1, s1) \<and>
    InsertWorkflowDefinition (pg_at 2) ''wf'' ''ns'' (JNum 2) s1 = (Inr d2, s2) \<and>
    fst (GetWorkflowDefinitionByID (pg_at 3) (dID d1) s2) = Inr (Some d2) \<and> dDefinition d2 = JNum 2"
proof -
  have wf: "defs_wf empty_db" by (simp add: defs_wf_def empty_db_def)
  let ?r = "InsertWorkflowDefinition (pg_at 1) ''wf'' ''ns'' (JNum 1) empty_db"
  have "\<not> isl (fst ?r)" "\<not> isl (fst (InsertWorkflowDefinition (pg_at 2) ''wf'' ''ns'' (JNum 2) (snd ?r)))"
    by code_simp+
  then obtain d1 s1 d2 s2 where r: "?r = (Inr d1, s1)"
    "InsertWorkflowDefinition (pg_at 2) ''wf'' ''ns'' (JNum 2) s1 = (Inr d2, s2)"
    by (metis prod.collapse sum.collapse(2) snd_conv)
  then show ?thesis using redefinition_changes_old_runs [OF wf r, of "pg_at 3"] by auto
qed

end
