(* ===== verification/Workflow_Def.thy ===== *)
theory Workflow_Def
  imports Executor Run_Store
begin

text \<open>
  Building a workflow (\<^verbatim>\<open>workflow.go\<close>), writing its definition as JSON
  (\<^verbatim>\<open>client.go\<close>, \<open>serializeWorkflowDefinition\<close>), and reading it back in the
  engine (\<^verbatim>\<open>internal/workflow/engine.go\<close>). The user's functions are fields of a step;
  they act on a world of type \<open>'w\<close>, which stands for everything outside the tables of the
  engine.
\<close>

section \<open>Text of numbers and durations\<close>

function digits :: "int \<Rightarrow> string" where
  "digits n = (if n < 10 then [char_of (48 + n)] else digits (n div 10) @ [char_of (48 + n mod 10)])"

  by pat_completeness auto
termination by (relation "measure nat") auto

declare digits.simps [simp del]

text \<open>\<open>fmtFrac\<close> of the package time: the decimals of \<open>v / 10 ^ prec\<close>, trailing zeros omitted.\<close>

fun frac_loop :: "nat \<Rightarrow> int \<Rightarrow> string \<Rightarrow> bool \<Rightarrow> string \<times> bool \<times> int" where
  "frac_loop 0 v acc printed = (acc, printed, v)"
| "frac_loop (Suc n) v acc printed =
    (let d = v mod 10; printed' = (printed \<or> d \<noteq> 0)
     in frac_loop n (v div 10) (if printed' then char_of (48 + d) # acc else acc) printed')"

definition fmtFrac :: "int \<Rightarrow> nat \<Rightarrow> string \<times> int" where
  "fmtFrac v prec =
    (case frac_loop prec v '''' False of (acc, printed, v') \<Rightarrow> (if printed then CHR ''.'' # acc else acc, v'))"

definition duration_String :: "duration \<Rightarrow> string" where
  "duration_String d =
    (let u = \<bar>sint d\<bar>; sign = (if sint d < 0 then ''-'' else '''') in
     if u = 0 then ''0s''
     else if u < 1000000000 then
       (case (if u < 1000 then (0, ''ns'') else if u < 1000000 then (3, [char_of (194::nat), char_of (181::nat), CHR ''s''])
              else (6, ''ms'')) of
         (prec, unit) \<Rightarrow> (case fmtFrac u prec of (f, v) \<Rightarrow> sign @ digits v @ f @ unit))
     else (case fmtFrac u 9 of (f, v) \<Rightarrow>
       let secs = digits (v mod 60) @ f @ ''s''; mins = v div 60; hours = mins div 60 in
       sign @ (if mins = 0 then secs
               else if hours = 0 then digits (mins mod 60) @ ''m'' @ secs
               else digits hours @ ''h'' @ digits (mins mod 60) @ ''m'' @ secs)))"

section \<open>Workflows\<close>

datatype stepType =
    stepTypeSequential
  | stepTypeParallel
  | stepTypeConditional
  | stepTypeFanOut
  | stepTypeMap
  | stepTypeReduce
  | stepTypeHandler

text \<open>
  What a function of the user sees through its \<open>WorkflowContext\<close>. \<open>wcEngine\<close> is the
  state of the engine where the context carries the engine context, and \<open>None\<close> where it
  does not; \<open>wcState\<close> is the context's own map.
\<close>

record WorkflowContext =
  wcRunID :: int
  wcStepID :: string
  wcPreviousStepID :: string
  wcInput :: "json option"
  wcState :: "string \<rightharpoonup> json option"
  wcEngine :: "(string \<rightharpoonup> json option) option"

text \<open>
  Reading an output hands the text to \<^verbatim>\<open>json.Unmarshal\<close>, which fails on the empty
  text of a nil message.
\<close>

definition read_output :: "(string \<rightharpoonup> json option) \<Rightarrow> string \<Rightarrow> error + json" where
  "read_output st i =
    (case st i of
      None \<Rightarrow> Inl (Errorf (''step output not found: '' @ i))
    | Some None \<Rightarrow> Inl (Errorf ''unexpected end of JSON input'')
    | Some (Some v) \<Rightarrow> Inr v)"

definition GetStepOutput :: "WorkflowContext \<Rightarrow> string \<Rightarrow> error + json" where
  "GetStepOutput c i = (case wcEngine c of Some st \<Rightarrow> read_output st i | None \<Rightarrow> read_output (wcState c) i)"

definition GetPreviousOutput :: "WorkflowContext \<Rightarrow> error + json" where
  "GetPreviousOutput c =
    (if wcPreviousStepID c = '''' then Inl (Errorf ''no previous step'')
     else GetStepOutput c (wcPreviousStepID c))"

definition SetOutput :: "WorkflowContext \<Rightarrow> go_value \<Rightarrow> error option \<times> WorkflowContext" where
  "SetOutput c v =
    (case v of Inl err \<Rightarrow> (Some err, c)
     | Inr j \<Rightarrow> (None, c\<lparr>wcState := (wcState c)(wcStepID c \<mapsto> Some j)\<rparr>))"

text \<open>
  A step function may set its output: it returns its error and the output it set last. A
  condition returns its value. A map and a reduce function return an error, or a value, given
  as what \<^verbatim>\<open>json.Marshal\<close> makes of it; the items of a fan-out are values of the
  program. All may act on the world.
\<close>

type_synonym 'w wf_func = "WorkflowContext \<Rightarrow> 'w \<Rightarrow> (error option \<times> json option) \<times> 'w"
type_synonym 'w wf_condition = "WorkflowContext \<Rightarrow> 'w \<Rightarrow> bool \<times> 'w"
type_synonym 'w wf_value = "WorkflowContext \<Rightarrow> 'w \<Rightarrow> (error + go_value) \<times> 'w"

record 'w fanOutConfig =
  foItems :: "WorkflowContext \<Rightarrow> 'w \<Rightarrow> (error + json list) \<times> 'w"
  foMap :: "WorkflowContext \<Rightarrow> json \<Rightarrow> nat \<Rightarrow> 'w \<Rightarrow> (error + go_value) \<times> 'w"
  foMaxConcurrency :: int

record 'w reduceConfig =
  rcSourceStepID :: string
  rcReduce :: "'w wf_value"

datatype 'w workflowStep = WorkflowStep
  (wsId: string)
  (wsName: string)
  (wsType: stepType)
  (wsHandler: "'w wf_func option")
  (wsChildren: "'w workflowStep list")
  (wsCondition: "'w wf_condition option")
  (wsRetry: "HandlerRetryPolicy option")
  (wsTimeout: duration)
  (wsFanOut: "'w fanOutConfig option")
  (wsMap: "'w wf_value option")
  (wsReduce: "'w reduceConfig option")
  (wsHandlerID: string)

record 'w Workflow =
  wfName :: string
  wfDescription :: string
  wfSteps :: "'w workflowStep list"
  wfTimeout :: duration
  wfRetry :: "HandlerRetryPolicy option"

definition NewWorkflow :: "string \<Rightarrow> 'w Workflow" where
  "NewWorkflow name = \<lparr>wfName = name, wfDescription = '''', wfSteps = [], wfTimeout = 0, wfRetry = None\<rparr>"

definition Description :: "string \<Rightarrow> 'w Workflow \<Rightarrow> 'w Workflow" where
  "Description d w = w\<lparr>wfDescription := d\<rparr>"

definition Timeout :: "duration \<Rightarrow> 'w Workflow \<Rightarrow> 'w Workflow" where
  "Timeout d w = w\<lparr>wfTimeout := d\<rparr>"

definition Retry :: "HandlerRetryPolicy \<Rightarrow> 'w Workflow \<Rightarrow> 'w Workflow" where
  "Retry p w = w\<lparr>wfRetry := Some p\<rparr>"

text \<open>The options of a step, applied in order.\<close>

datatype StepOption =
    WithStepName string
  | WithStepRetry HandlerRetryPolicy
  | WithStepTimeout duration

fun apply_option :: "'w workflowStep \<Rightarrow> StepOption \<Rightarrow> 'w workflowStep" where
  "apply_option (WorkflowStep i n t h cs c r d fo m rc hid) (WithStepName name) =
    WorkflowStep i name t h cs c r d fo m rc hid"
| "apply_option (WorkflowStep i n t h cs c r d fo m rc hid) (WithStepRetry p) =
    WorkflowStep i n t h cs c (Some p) d fo m rc hid"
| "apply_option (WorkflowStep i n t h cs c r d fo m rc hid) (WithStepTimeout d') =
    WorkflowStep i n t h cs c r d' fo m rc hid"

definition add_step :: "'w workflowStep \<Rightarrow> 'w Workflow \<Rightarrow> 'w Workflow" where
  "add_step st w = w\<lparr>wfSteps := wfSteps w @ [st]\<rparr>"

definition Step :: "string \<Rightarrow> 'w wf_func \<Rightarrow> StepOption list \<Rightarrow> 'w Workflow \<Rightarrow> 'w Workflow" where
  "Step i fn opts =
    add_step (foldl apply_option
      (WorkflowStep i i stepTypeSequential (Some fn) [] None None 0 None None None '''') opts)"

record 'w ParallelStep =
  psID :: string
  psName :: string
  psHandler :: "'w wf_func"
  psRetry :: "HandlerRetryPolicy option"
  psTimeout :: duration

definition Parallel :: "'w ParallelStep list \<Rightarrow> 'w Workflow \<Rightarrow> 'w Workflow" where
  "Parallel steps w =
    add_step (WorkflowStep (''parallel_'' @ digits (int (length (wfSteps w)))) '''' stepTypeParallel None
      (map (\<lambda>p. WorkflowStep (psID p) (psName p) stepTypeSequential (Some (psHandler p)) [] None
        (psRetry p) (psTimeout p) None None None '''') steps)
      None None 0 None None None '''') w"

definition If_step :: "'w wf_condition \<Rightarrow> 'w wf_func \<Rightarrow> StepOption list \<Rightarrow> 'w Workflow \<Rightarrow> 'w Workflow" where
  "If_step cond fn opts w =
    add_step (foldl apply_option
      (WorkflowStep (''conditional_'' @ digits (int (length (wfSteps w)))) '''' stepTypeConditional (Some fn) []
        (Some cond) None 0 None None None '''') opts) w"

definition HandlerStep :: "string \<Rightarrow> string \<Rightarrow> StepOption list \<Rightarrow> 'w Workflow \<Rightarrow> 'w Workflow" where
  "HandlerStep handlerID stepID opts =
    add_step (foldl apply_option
      (WorkflowStep stepID stepID stepTypeHandler None [] None None 0 None None None handlerID) opts)"

definition Map_step :: "string \<Rightarrow> 'w wf_value \<Rightarrow> 'w Workflow \<Rightarrow> 'w Workflow" where
  "Map_step i fn = add_step (WorkflowStep i i stepTypeMap None [] None None 0 None (Some fn) None '''')"

definition Reduce :: "string \<Rightarrow> 'w wf_value \<Rightarrow> 'w Workflow \<Rightarrow> 'w Workflow" where
  "Reduce i fn w =
    (let prev = (if wfSteps w = [] then '''' else wsId (last (wfSteps w))) in
     add_step (WorkflowStep i i stepTypeReduce None [] None None 0 None None
       (Some \<lparr>rcSourceStepID = prev, rcReduce = fn\<rparr>) '''') w)"

fun step_names :: "'w workflowStep \<Rightarrow> string list" where
  "step_names st = (if wsType st = stepTypeParallel then map wsId (wsChildren st) else [wsId st])"

definition Steps :: "'w Workflow \<Rightarrow> string list" where
  "Steps w = concat (map step_names (wfSteps w))"

section \<open>Writing the definition\<close>

fun step_type_text :: "stepType \<Rightarrow> string" where
  "step_type_text stepTypeSequential = ''sequential''"
| "step_type_text stepTypeParallel = ''parallel''"
| "step_type_text stepTypeConditional = ''conditional''"
| "step_type_text stepTypeFanOut = ''fanout''"
| "step_type_text stepTypeMap = ''map''"
| "step_type_text stepTypeReduce = ''reduce''"
| "step_type_text stepTypeHandler = ''handler''"

datatype workflowStepDef = WorkflowStepDef
  (wdID: string)
  (wdName: string)
  (wdType: string)
  (wdChildren: "workflowStepDef list")
  (wdHasCondition: bool)
  (wdTimeout: string)
  (wdHandlerID: string)
  (wdSourceStepID: string)

definition timeout_text :: "duration \<Rightarrow> string" where
  "timeout_text d = (if sint d > 0 then duration_String d else '''')"

fun serializeStep :: "'w workflowStep \<Rightarrow> workflowStepDef" where
  "serializeStep (WorkflowStep i n t h cs c r d fo m rc hid) =
    WorkflowStepDef i n (step_type_text t)
      (if t = stepTypeParallel then map serializeStep cs else [])
      (c \<noteq> None) (timeout_text d)
      (if t = stepTypeHandler then hid else '''')
      (if t = stepTypeReduce then (case rc of Some x \<Rightarrow> rcSourceStepID x | None \<Rightarrow> '''') else '''')"

text \<open>\<^verbatim>\<open>json.Marshal\<close>: the fields in order, the empty ones left out where so tagged.\<close>

definition omit_empty :: "string \<Rightarrow> string \<Rightarrow> (string \<times> json) list" where
  "omit_empty k s = (if s = '''' then [] else [(k, JStr s)])"

fun step_json :: "workflowStepDef \<Rightarrow> json" where
  "step_json (WorkflowStepDef i n t cs c d h src) =
    JObj ([(''id'', JStr i), (''name'', JStr n), (''type'', JStr t)] @
      (if cs = [] then [] else [(''children'', JArr (map step_json cs))]) @
      (if c then [(''has_condition'', JBool True)] else []) @
      omit_empty ''timeout'' d @ omit_empty ''handler_id'' h @ omit_empty ''source_step_id'' src)"

definition serializeWorkflowDefinition :: "'w Workflow \<Rightarrow> json" where
  "serializeWorkflowDefinition w =
    JObj ([(''name'', JStr (wfName w))] @ omit_empty ''description'' (wfDescription w) @
      [(''steps'', JArr (map (\<lambda>s. step_json (serializeStep s)) (wfSteps w)))] @
      omit_empty ''timeout'' (timeout_text (wfTimeout w)))"

section \<open>Reading the definition\<close>

text \<open>
  The engine's types. A step type of a number outside the enumeration is executed and
  written as a sequential step, and is read here as one.
\<close>

datatype StepType =
    StepTypeSequential
  | StepTypeParallel
  | StepTypeConditional
  | StepTypeFanOut
  | StepTypeMap
  | StepTypeReduce
  | StepTypeHandler

datatype StepDefinition = StepDefinition
  (sdID: string)
  (sdName: string)
  (sdType: StepType)
  (sdChildren: "StepDefinition list")
  (sdHasCondition: bool)
  (sdTimeout: duration)
  (sdHandlerID: string)
  (sdSourceStepID: string)

record WorkflowDefinition =
  wdefName :: string
  wdefDescription :: string
  wdefSteps :: "StepDefinition list"
  wdefTimeout :: duration

text \<open>
  \<^verbatim>\<open>json.Unmarshal\<close> into a struct: a key selects a field without regard to case, the
  last occurrence counts, null leaves the zero value, and a value of the wrong type is an
  error of the whole call.
\<close>

definition lower_char :: "char \<Rightarrow> char" where
  "lower_char c = (let n = (of_char c :: nat) in if 65 \<le> n \<and> n \<le> 90 then char_of (n + 32) else c)"

definition lower :: "string \<Rightarrow> string" where
  "lower s = map lower_char s"

definition json_lookup :: "string \<Rightarrow> (string \<times> json) list \<Rightarrow> json option" where
  "json_lookup k kvs = map_of (rev (map (\<lambda>(a, v). (lower a, v)) kvs)) k"

definition json_field :: "string \<Rightarrow> (string \<times> json) list \<Rightarrow> json" where
  "json_field k kvs = (case json_lookup k kvs of Some v \<Rightarrow> v | None \<Rightarrow> JNull)"

definition type_error :: error where
  "type_error = Errorf ''json: cannot unmarshal value into Go value''"

fun parse_string :: "json \<Rightarrow> error + string" where
  "parse_string JNull = Inr ''''"
| "parse_string (JStr s) = Inr s"
| "parse_string _ = Inl type_error"

fun parse_bool :: "json \<Rightarrow> error + bool" where
  "parse_bool JNull = Inr False"
| "parse_bool (JBool b) = Inr b"
| "parse_bool _ = Inl type_error"

fun parse_int64 :: "json \<Rightarrow> error + int64" where
  "parse_int64 JNull = Inr 0"
| "parse_int64 (JNum n) =
    (if - 9223372036854775808 \<le> n \<and> n \<le> 9223372036854775807 then Inr (word_of_int n) else Inl type_error)"
| "parse_int64 _ = Inl type_error"

fun step_type_of_text :: "string \<Rightarrow> StepType" where
  "step_type_of_text s =
    (if s = ''sequential'' then StepTypeSequential
     else if s = ''parallel'' then StepTypeParallel
     else if s = ''conditional'' then StepTypeConditional
     else if s = ''fanout'' then StepTypeFanOut
     else if s = ''map'' then StepTypeMap
     else if s = ''reduce'' then StepTypeReduce
     else if s = ''handler'' then StepTypeHandler
     else StepTypeSequential)"

fun step_type_of_int :: "int \<Rightarrow> StepType" where
  "step_type_of_int i =
    (if i = 1 then StepTypeParallel
     else if i = 2 then StepTypeConditional
     else if i = 3 then StepTypeFanOut
     else if i = 4 then StepTypeMap
     else if i = 5 then StepTypeReduce
     else if i = 6 then StepTypeHandler
     else StepTypeSequential)"

definition parse_step_type :: "json \<Rightarrow> error + StepType" where
  "parse_step_type j =
    (case parse_string j of
      Inr s \<Rightarrow> Inr (step_type_of_text s)
    | Inl _ \<Rightarrow> (case parse_int64 j of Inr i \<Rightarrow> Inr (step_type_of_int (sint i)) | Inl err \<Rightarrow> Inl err))"

text \<open>The elements of an array, or the first error among them.\<close>

fun collect :: "(error + 'a) list \<Rightarrow> error + 'a list" where
  "collect [] = Inr []"
| "collect (Inl err # rest) = Inl err"
| "collect (Inr a # rest) = (case collect rest of Inl err \<Rightarrow> Inl err | Inr as \<Rightarrow> Inr (a # as))"

definition bind_sum :: "error + 'a \<Rightarrow> ('a \<Rightarrow> error + 'b) \<Rightarrow> error + 'b" where
  "bind_sum x f = (case x of Inl err \<Rightarrow> Inl err | Inr a \<Rightarrow> f a)"

lemma json_field_in: "json_field k kvs = v \<Longrightarrow> v \<noteq> JNull \<Longrightarrow> \<exists>a. (a, v) \<in> set kvs"
  by (auto simp: json_field_def json_lookup_def split: option.splits dest!: map_of_SomeD)

lemma size_in_object: "(a, v) \<in> set kvs \<Longrightarrow> size v < size (JObj kvs)"
  by (induction kvs) auto

lemma size_in_array: "v \<in> set js \<Longrightarrow> size v < size (JArr js)"
  by (induction js) auto

lemma json_field_size:
  "json_field k kvs = JArr js \<Longrightarrow> j \<in> set js \<Longrightarrow> size j < size (JObj kvs)"
  using json_field_in [of k kvs "JArr js"] size_in_object size_in_array
  by (metis json.distinct(9) order_less_trans)

function parse_step :: "json \<Rightarrow> error + StepDefinition" where
  "parse_step (JObj kvs) =
    bind_sum (parse_string (json_field ''id'' kvs)) (\<lambda>i.
    bind_sum (parse_string (json_field ''name'' kvs)) (\<lambda>n.
    bind_sum (parse_step_type (json_field ''type'' kvs)) (\<lambda>t.
    bind_sum (case json_field ''children'' kvs of
        JNull \<Rightarrow> Inr [] | JArr js \<Rightarrow> collect (map parse_step js) | _ \<Rightarrow> Inl type_error) (\<lambda>cs.
    bind_sum (parse_bool (json_field ''has_condition'' kvs)) (\<lambda>c.
    bind_sum (parse_int64 (json_field ''timeout'' kvs)) (\<lambda>d.
    bind_sum (parse_string (json_field ''handler_id'' kvs)) (\<lambda>h.
    bind_sum (parse_string (json_field ''source_step_id'' kvs)) (\<lambda>s.
      Inr (StepDefinition i n t cs c d h s)))))))))"
| "parse_step JNull = Inr (StepDefinition '''' '''' StepTypeSequential [] False 0 '''' '''')"
| "parse_step (JBool b) = Inl type_error"
| "parse_step (JNum n) = Inl type_error"
| "parse_step (JDec s) = Inl type_error"
| "parse_step (JStr s) = Inl type_error"
| "parse_step (JArr js) = Inl type_error"
  by pat_completeness auto
termination
  by (relation "measure size") (use json_field_size in \<open>simp_all del: json.size\<close>)

definition parse_definition :: "json \<Rightarrow> error + WorkflowDefinition" where
  "parse_definition j =
    (case j of
      JObj kvs \<Rightarrow>
        bind_sum (parse_string (json_field ''name'' kvs)) (\<lambda>n.
        bind_sum (parse_string (json_field ''description'' kvs)) (\<lambda>ds.
        bind_sum (case json_field ''steps'' kvs of
            JNull \<Rightarrow> Inr [] | JArr js \<Rightarrow> collect (map parse_step js) | _ \<Rightarrow> Inl type_error) (\<lambda>ss.
        bind_sum (parse_int64 (json_field ''timeout'' kvs)) (\<lambda>d.
          Inr \<lparr>wdefName = n, wdefDescription = ds, wdefSteps = ss, wdefTimeout = d\<rparr>))))
    | JNull \<Rightarrow> Inr \<lparr>wdefName = '''', wdefDescription = '''', wdefSteps = [], wdefTimeout = 0\<rparr>
    | _ \<Rightarrow> Inl type_error)"

section \<open>The round trip\<close>

text \<open>The definition a step stands for, and the steps that carry no timeout.\<close>

fun step_type_of :: "stepType \<Rightarrow> StepType" where
  "step_type_of stepTypeSequential = StepTypeSequential"
| "step_type_of stepTypeParallel = StepTypeParallel"
| "step_type_of stepTypeConditional = StepTypeConditional"
| "step_type_of stepTypeFanOut = StepTypeFanOut"
| "step_type_of stepTypeMap = StepTypeMap"
| "step_type_of stepTypeReduce = StepTypeReduce"
| "step_type_of stepTypeHandler = StepTypeHandler"

fun step_def :: "'w workflowStep \<Rightarrow> StepDefinition" where
  "step_def (WorkflowStep i n t h cs c r d fo m rc hid) =
    StepDefinition i n (step_type_of t) (if t = stepTypeParallel then map step_def cs else [])
      (c \<noteq> None) 0 (if t = stepTypeHandler then hid else '''')
      (if t = stepTypeReduce then (case rc of Some x \<Rightarrow> rcSourceStepID x | None \<Rightarrow> '''') else '''')"

definition workflow_def :: "'w Workflow \<Rightarrow> WorkflowDefinition" where
  "workflow_def w = \<lparr>wdefName = wfName w, wdefDescription = wfDescription w,
    wdefSteps = map step_def (wfSteps w), wdefTimeout = 0\<rparr>"

text \<open>A timeout is written where it is set: on a step, and on the children of a parallel step.\<close>

fun step_timed :: "'w workflowStep \<Rightarrow> bool" where
  "step_timed (WorkflowStep i n t h cs c r d fo m rc hid) =
    (sint d > 0 \<or> t = stepTypeParallel \<and> list_ex step_timed cs)"

definition workflow_timed :: "'w Workflow \<Rightarrow> bool" where
  "workflow_timed w \<longleftrightarrow> sint (wfTimeout w) > 0 \<or> list_ex step_timed (wfSteps w)"

lemma json_lookup_simps [simp]:
  "json_lookup k [] = None"
  "json_lookup k (xs @ ys) = (case json_lookup k ys of None \<Rightarrow> json_lookup k xs | Some v \<Rightarrow> Some v)"
  "json_lookup k ((a, v) # xs) = (case json_lookup k xs of Some w \<Rightarrow> Some w
    | None \<Rightarrow> if lower a = k then Some v else None)"
  "json_lookup k (if c then xs else ys) = (if c then json_lookup k xs else json_lookup k ys)"
  by (auto simp: json_lookup_def map_add_def split: option.split)

lemma json_lookup_omit [simp]:
  "json_lookup k (omit_empty a s) = (if s \<noteq> '''' \<and> lower a = k then Some (JStr s) else None)"
  by (simp add: omit_empty_def)

lemma lower_keys [simp]:
  "lower ''id'' = ''id''" "lower ''name'' = ''name''" "lower ''type'' = ''type''"
  "lower ''children'' = ''children''" "lower ''has_condition'' = ''has_condition''"
  "lower ''timeout'' = ''timeout''" "lower ''handler_id'' = ''handler_id''"
  "lower ''source_step_id'' = ''source_step_id''" "lower ''description'' = ''description''"
  "lower ''steps'' = ''steps''"
  by code_simp+

lemma digits_not_empty [simp]: "digits n \<noteq> ''''"
  by (subst digits.simps) simp

lemma duration_not_empty: "duration_String d \<noteq> ''''"
  by (simp add: duration_String_def Let_def split: prod.split)

lemma collect_map:
  "(\<And>x. x \<in> set xs \<Longrightarrow> f x = (if p x then Inl err else Inr (g x))) \<Longrightarrow>
    collect (map f xs) = (if list_ex p xs then Inl err else Inr (map g xs))"
  by (induction xs) auto

lemma parse_type_text [simp]: "parse_step_type (JStr (step_type_text t)) = Inr (step_type_of t)"
  by (cases t) (simp_all add: parse_step_type_def)

text \<open>The fields of the object that is written for a step.\<close>

definition step_fields :: "workflowStepDef \<Rightarrow> (string \<times> json) list" where
  "step_fields st = (case step_json st of JObj kvs \<Rightarrow> kvs | _ \<Rightarrow> [])"

lemma step_json_fields: "step_json st = JObj (step_fields st)"
  by (cases st) (simp add: step_fields_def)

lemma step_field:
  "json_field ''id'' (step_fields st) = JStr (wdID st)"
  "json_field ''name'' (step_fields st) = JStr (wdName st)"
  "json_field ''type'' (step_fields st) = JStr (wdType st)"
  "json_field ''children'' (step_fields st) =
    (if wdChildren st = [] then JNull else JArr (map step_json (wdChildren st)))"
  "json_field ''has_condition'' (step_fields st) = (if wdHasCondition st then JBool True else JNull)"
  "json_field ''timeout'' (step_fields st) = (if wdTimeout st = '''' then JNull else JStr (wdTimeout st))"
  "json_field ''handler_id'' (step_fields st) = (if wdHandlerID st = '''' then JNull else JStr (wdHandlerID st))"
  "json_field ''source_step_id'' (step_fields st) =
    (if wdSourceStepID st = '''' then JNull else JStr (wdSourceStepID st))"
  by (cases st, simp add: step_fields_def json_field_def)+

lemma parse_step_json:
  "parse_step (step_json (serializeStep st)) =
    (if step_timed st then Inl type_error else Inr (step_def st))"
proof (induction st)
  case (WorkflowStep i n t h cs c r d fo m rc hid)
  let ?d = "serializeStep (WorkflowStep i n t h cs c r d fo m rc hid)"
  have kids: "collect (map (\<lambda>x. parse_step (step_json (serializeStep x))) cs) =
      (if list_ex step_timed cs then Inl type_error else Inr (map step_def cs))"
    using WorkflowStep by (intro collect_map)
  have children: "(case json_field ''children'' (step_fields ?d) of
        JNull \<Rightarrow> Inr [] | JArr js \<Rightarrow> collect (map parse_step js) | _ \<Rightarrow> Inl type_error) =
      (if t = stepTypeParallel \<and> list_ex step_timed cs then Inl type_error
       else Inr (if t = stepTypeParallel then map step_def cs else []))"
    using kids by (auto simp: step_field comp_def)
  have timeout: "parse_int64 (json_field ''timeout'' (step_fields ?d)) =
      (if sint d > 0 then Inl type_error else Inr 0)"
    by (simp add: step_field timeout_text_def duration_not_empty)
  have opt: "parse_string (if s = '''' then JNull else JStr s) = Inr s" for s by simp
  have flag: "parse_bool (if b then JBool True else JNull) = Inr b" for b by simp
  show ?case
    unfolding step_json_fields parse_step.simps children timeout
    by (simp add: step_field bind_sum_def opt flag)
qed

lemma parse_serialized:
  "parse_definition (serializeWorkflowDefinition w) =
    (if workflow_timed w then Inl type_error else Inr (workflow_def w))"
proof -
  let ?kvs = "[(''name'', JStr (wfName w))] @ omit_empty ''description'' (wfDescription w) @
      [(''steps'', JArr (map (\<lambda>s. step_json (serializeStep s)) (wfSteps w)))] @
      omit_empty ''timeout'' (timeout_text (wfTimeout w))"
  have fields: "json_field ''name'' ?kvs = JStr (wfName w)"
    "json_field ''description'' ?kvs = (if wfDescription w = '''' then JNull else JStr (wfDescription w))"
    "json_field ''steps'' ?kvs = JArr (map (\<lambda>s. step_json (serializeStep s)) (wfSteps w))"
    "json_field ''timeout'' ?kvs = (if sint (wfTimeout w) > 0 then JStr (duration_String (wfTimeout w)) else JNull)"
    by (simp_all add: json_field_def timeout_text_def duration_not_empty)
  have steps: "collect (map (\<lambda>s. parse_step (step_json (serializeStep s))) (wfSteps w)) =
      (if list_ex step_timed (wfSteps w) then Inl type_error else Inr (map step_def (wfSteps w)))"
    by (rule collect_map) (rule parse_step_json)
  have opt: "parse_string (if s = '''' then JNull else JStr s) = Inr s" for s by simp
  show ?thesis
    unfolding serializeWorkflowDefinition_def parse_definition_def json.case fields
    using steps by (auto simp: bind_sum_def opt comp_def workflow_timed_def workflow_def_def)
qed

text \<open>C14 A definition survives the round trip: the engine reads in the JSON that the client writes
  for a workflow without timeouts exactly the workflow's name, description and steps, with
  their kinds, children, conditions, handlers and reduce sources.\<close>

theorem definition_roundtrip:
  assumes "\<not> workflow_timed w"
  shows "parse_definition (serializeWorkflowDefinition w) = Inr (workflow_def w)"
  using assms by (simp add: parse_serialized)

text \<open>A timeout makes a workflow unusable: as soon as the workflow, a step or a child of a parallel
  step has a timeout, the client writes it as text, which the engine cannot read as a
  duration, so that reading the definition fails.\<close>

theorem timeout_breaks_definition:
  assumes "sint (wfTimeout w) > 0 \<or> list_ex step_timed (wfSteps w)"
  shows "parse_definition (serializeWorkflowDefinition w) = Inl type_error"
  using assms by (simp add: parse_serialized workflow_timed_def)

definition sample_workflow :: "unit Workflow" where
  "sample_workflow =
    Reduce ''sum'' (\<lambda>c w. (map_sum id Inr (GetPreviousOutput c), w))
      (Map_step ''values'' (\<lambda>c w. (Inr (Inr (JArr [JNum 1, JNum 2])), w))
        (Parallel [\<lparr>psID = ''a'', psName = ''A'', psHandler = \<lambda>c w. ((None, Some (JNum 7)), w),
            psRetry = None, psTimeout = 0\<rparr>]
          (Step ''start'' (\<lambda>c w. ((None, Some (JStr ''ok'')), w)) [] (NewWorkflow ''demo''))))"

theorem definition_roundtrip_witness:
  "parse_definition (serializeWorkflowDefinition sample_workflow) = Inr (workflow_def sample_workflow) \<and>
   map sdSourceStepID (wdefSteps (workflow_def sample_workflow)) = ['''', '''', '''', ''values''] \<and>
   Steps sample_workflow = [''start'', ''a'', ''values'', ''sum'']"
proof -
  have "\<not> workflow_timed sample_workflow" by code_simp
  moreover have "map sdSourceStepID (wdefSteps (workflow_def sample_workflow)) = ['''', '''', '''', ''values'']"
    "Steps sample_workflow = [''start'', ''a'', ''values'', ''sum'']" by code_simp+
  ultimately show ?thesis using definition_roundtrip by blast
qed

theorem timeout_breaks_definition_witness:
  "parse_definition (serializeWorkflowDefinition (Timeout 1500000000 sample_workflow)) = Inl type_error"
proof -
  have t: "sint (wfTimeout (Timeout 1500000000 sample_workflow)) > 0" by (simp add: Timeout_def)
  show ?thesis by (rule timeout_breaks_definition [OF disjI1 [OF t]])
qed

end
