(* ===== verification/Engine.thy ===== *)
theory Engine
  imports Workflow_Def
begin

text \<open>
  The workflow engine (\<^verbatim>\<open>internal/workflow/engine.go\<close>) and its wiring to the client
  (\<^verbatim>\<open>client.go\<close>, \<open>registerWorkflowStep\<close>, \<open>NewClient\<close>). Registered functions
  are handlers over the engine's context. Each reading of the clock and each statement takes
  the next answer of \<open>env\<close>; the state of one run of the engine is a record.
\<close>

section \<open>Contexts and registries\<close>

record Context =
  cxRunID :: int
  cxStepID :: string
  cxPreviousStepID :: string
  cxInput :: json
  cxState :: "string \<rightharpoonup> json option"

text \<open>The accessors of the engine's context.\<close>

definition context_Input :: "Context \<Rightarrow> json" where
  "context_Input c = cxInput c"

definition context_GetStepOutput :: "Context \<Rightarrow> string \<Rightarrow> error + json" where
  "context_GetStepOutput c i = read_output (cxState c) i"

definition context_GetPreviousOutput :: "Context \<Rightarrow> error + json" where
  "context_GetPreviousOutput c =
    (if cxPreviousStepID c = '''' then Inl (Errorf ''no previous step'')
     else context_GetStepOutput c (cxPreviousStepID c))"

text \<open>
  A step handler may set the output of its step, an effect on the state map it shares with
  the engine; what it set last is in its result.
\<close>

type_synonym 'w StepHandler = "Context \<Rightarrow> 'w \<Rightarrow> (error option \<times> json option) \<times> 'w"
type_synonym 'w ConditionFunc = "Context \<Rightarrow> 'w \<Rightarrow> bool \<times> 'w"
type_synonym 'w ValueHandler = "Context \<Rightarrow> 'w \<Rightarrow> (error + go_value) \<times> 'w"

record 'w FanOutHandler =
  fhItems :: "Context \<Rightarrow> 'w \<Rightarrow> (error + json list) \<times> 'w"
  fhMap :: "Context \<Rightarrow> json \<Rightarrow> nat \<Rightarrow> 'w \<Rightarrow> (error + go_value) \<times> 'w"
  fhMaxConcurrency :: int

text \<open>The registries, from the names of the workflow and the step.\<close>

record 'w Engine =
  enNamespace :: string
  enWorkerID :: string
  enHandlers :: "string \<times> string \<rightharpoonup> 'w StepHandler"
  enConditions :: "string \<times> string \<rightharpoonup> 'w ConditionFunc"
  enFanOuts :: "string \<times> string \<rightharpoonup> 'w FanOutHandler"
  enMaps :: "string \<times> string \<rightharpoonup> 'w ValueHandler"
  enReduces :: "string \<times> string \<rightharpoonup> 'w ValueHandler"
  enExecutor :: "(string \<Rightarrow> json \<Rightarrow> 'w \<Rightarrow> (error + json option) \<times> 'w) option"

definition NewEngine :: "string \<Rightarrow> 'w Engine" where
  "NewEngine ns = \<lparr>enNamespace = ns, enWorkerID = '''', enHandlers = Map.empty,
    enConditions = Map.empty, enFanOuts = Map.empty, enMaps = Map.empty, enReduces = Map.empty,
    enExecutor = None\<rparr>"

definition SetWorkerID :: "string \<Rightarrow> 'w Engine \<Rightarrow> 'w Engine" where
  "SetWorkerID w E = E\<lparr>enWorkerID := w\<rparr>"

definition SetHandlerStepExecutor ::
  "(string \<Rightarrow> json \<Rightarrow> 'w \<Rightarrow> (error + json option) \<times> 'w) \<Rightarrow> 'w Engine \<Rightarrow> 'w Engine" where
  "SetHandlerStepExecutor ex E = E\<lparr>enExecutor := Some ex\<rparr>"

definition RegisterStep :: "string \<Rightarrow> string \<Rightarrow> 'w StepHandler \<Rightarrow> 'w Engine \<Rightarrow> 'w Engine" where
  "RegisterStep wfn i h E = E\<lparr>enHandlers := (enHandlers E)((wfn, i) \<mapsto> h)\<rparr>"

definition RegisterCondition :: "string \<Rightarrow> string \<Rightarrow> 'w ConditionFunc \<Rightarrow> 'w Engine \<Rightarrow> 'w Engine" where
  "RegisterCondition wfn i h E = E\<lparr>enConditions := (enConditions E)((wfn, i) \<mapsto> h)\<rparr>"

definition RegisterFanOut :: "string \<Rightarrow> string \<Rightarrow> 'w FanOutHandler \<Rightarrow> 'w Engine \<Rightarrow> 'w Engine" where
  "RegisterFanOut wfn i h E = E\<lparr>enFanOuts := (enFanOuts E)((wfn, i) \<mapsto> h)\<rparr>"

definition RegisterMap :: "string \<Rightarrow> string \<Rightarrow> 'w ValueHandler \<Rightarrow> 'w Engine \<Rightarrow> 'w Engine" where
  "RegisterMap wfn i h E = E\<lparr>enMaps := (enMaps E)((wfn, i) \<mapsto> h)\<rparr>"

definition RegisterReduce :: "string \<Rightarrow> string \<Rightarrow> 'w ValueHandler \<Rightarrow> 'w Engine \<Rightarrow> 'w Engine" where
  "RegisterReduce wfn i h E = E\<lparr>enReduces := (enReduces E)((wfn, i) \<mapsto> h)\<rparr>"

section \<open>The client's wrappers\<close>

text \<open>
  The output of a step function goes through a value of type \<^verbatim>\<open>any\<close> once more, where
  every number is a float64. Integers up to \<open>2 ^ 53\<close> come out as they were; \<open>num\<close> is
  what the package \<^verbatim>\<open>encoding/json\<close> makes of any other number.
\<close>

fun through_any :: "(json \<Rightarrow> json) \<Rightarrow> json \<Rightarrow> json" where
  "through_any num (JNum n) = (if \<bar>n\<bar> \<le> 9007199254740992 then JNum n else num (JNum n))"
| "through_any num (JDec s) = num (JDec s)"
| "through_any num (JArr js) = JArr (map (through_any num) js)"
| "through_any num (JObj kvs) = JObj (map (\<lambda>(k, v). (k, through_any num v)) kvs)"
| "through_any num j = j"

text \<open>The context of a step function has the input but not the engine's state.\<close>

definition step_context :: "Context \<Rightarrow> WorkflowContext" where
  "step_context c =
    \<lparr>wcRunID = cxRunID c, wcStepID = cxStepID c, wcPreviousStepID = '''', wcInput = Some (cxInput c),
     wcState = Map.empty, wcEngine = None\<rparr>"

text \<open>The context of a condition has neither.\<close>

definition condition_context :: "Context \<Rightarrow> WorkflowContext" where
  "condition_context c =
    \<lparr>wcRunID = cxRunID c, wcStepID = cxStepID c, wcPreviousStepID = '''', wcInput = None,
     wcState = Map.empty, wcEngine = None\<rparr>"

definition createWorkflowContext :: "Context \<Rightarrow> WorkflowContext" where
  "createWorkflowContext c =
    \<lparr>wcRunID = cxRunID c, wcStepID = cxStepID c, wcPreviousStepID = cxPreviousStepID c,
     wcInput = Some (cxInput c), wcState = Map.empty, wcEngine = Some (cxState c)\<rparr>"

definition wrap_step :: "(json \<Rightarrow> json) \<Rightarrow> 'w wf_func \<Rightarrow> 'w StepHandler" where
  "wrap_step num f c w =
    (case f (step_context c) w of
      ((Some err, out), w') \<Rightarrow> ((Some err, None), w')
    | ((None, out), w') \<Rightarrow> ((None, map_option (through_any num) out), w'))"

definition wrap_condition :: "'w wf_condition \<Rightarrow> 'w ConditionFunc" where
  "wrap_condition f c = f (condition_context c)"

definition wrap_value :: "'w wf_value \<Rightarrow> 'w ValueHandler" where
  "wrap_value f c = f (createWorkflowContext c)"

definition wrap_fan_out :: "'w fanOutConfig \<Rightarrow> 'w FanOutHandler" where
  "wrap_fan_out f =
    \<lparr>fhItems = (\<lambda>c. foItems f (createWorkflowContext c)),
     fhMap = (\<lambda>c. foMap f (createWorkflowContext c)), fhMaxConcurrency = foMaxConcurrency f\<rparr>"

definition register_if :: "'a option \<Rightarrow> ('a \<Rightarrow> 'w Engine \<Rightarrow> 'w Engine) \<Rightarrow> 'w Engine \<Rightarrow> 'w Engine" where
  "register_if x reg E = (case x of None \<Rightarrow> E | Some a \<Rightarrow> reg a E)"

fun registerWorkflowStep :: "(json \<Rightarrow> json) \<Rightarrow> string \<Rightarrow> 'w workflowStep \<Rightarrow> 'w Engine \<Rightarrow> 'w Engine" where
  "registerWorkflowStep num wfn (WorkflowStep i n t h cs c r d fo m rc hid) E =
    (if t = stepTypeParallel then foldl (\<lambda>E child. registerWorkflowStep num wfn child E) E cs
     else register_if rc (\<lambda>x. RegisterReduce wfn i (wrap_value (rcReduce x)))
       (register_if m (\<lambda>f. RegisterMap wfn i (wrap_value f))
         (register_if fo (\<lambda>f. RegisterFanOut wfn i (wrap_fan_out f))
           (register_if c (\<lambda>f. RegisterCondition wfn i (wrap_condition f))
             (register_if h (\<lambda>f. RegisterStep wfn i (wrap_step num f)) E)))))"

definition RegisterWorkflow ::
  "(json \<Rightarrow> json) \<Rightarrow> 'w Workflow \<Rightarrow> (string \<rightharpoonup> 'w Workflow) \<times> 'w Engine \<Rightarrow> (string \<rightharpoonup> 'w Workflow) \<times> 'w Engine" where
  "RegisterWorkflow num w c =
    (case c of (wfs, E) \<Rightarrow>
      (wfs(wfName w \<mapsto> w), foldl (\<lambda>E st. registerWorkflowStep num (wfName w) st E) E (wfSteps w)))"

text \<open>
  The executor of handler steps that \<open>NewClient\<close> installs: the handler gets a job made up
  from the step (the fields it sets; the others have their zero values), and the output of
  the step is nil whatever the handler did.
\<close>

record StepJob =
  sjKind :: string
  sjQueue :: string
  sjNamespace :: string
  sjPayload :: json
  sjAttempt :: int16
  sjMaxAttempts :: int16
  sjCreatedAt :: instant
  sjUpdatedAt :: instant

definition synthetic_job :: "string \<Rightarrow> instant \<times> instant \<Rightarrow> string \<Rightarrow> registeredHandler \<Rightarrow> json \<Rightarrow> StepJob" where
  "synthetic_job ns now handlerID h input =
    \<lparr>sjKind = handlerID, sjQueue = hQueue h, sjNamespace = ns, sjPayload = input, sjAttempt = 1,
     sjMaxAttempts = 1, sjCreatedAt = fst now, sjUpdatedAt = snd now\<rparr>"

definition handler_step_executor ::
  "string \<Rightarrow> handlers \<Rightarrow> ('w \<Rightarrow> instant \<times> instant) \<Rightarrow> (string \<Rightarrow> StepJob \<Rightarrow> 'w \<Rightarrow> error option \<times> 'w)
    \<Rightarrow> string \<Rightarrow> json \<Rightarrow> 'w \<Rightarrow> (error + json option) \<times> 'w" where
  "handler_step_executor ns hs clock run handlerID input w =
    (case hs handlerID of
      None \<Rightarrow> (Inl (Errorf (''handler not found: '' @ handlerID)), w)
    | Some h \<Rightarrow>
        (case run handlerID (synthetic_job ns (clock w) handlerID h input) w of
          (Some err, w') \<Rightarrow> (Inl err, w')
        | (None, w') \<Rightarrow> (Inr None, w')))"

end
