(* ===== verification/Engine_Steps.thy ===== *)
theory Engine_Steps
  imports Engine
begin

text \<open>
  Executing the steps of a run. \<open>run\<close> is what the engine holds while it executes: the
  database, the number of answers taken from the environment, the world of the user's
  functions, the output map and the step states. Every function returns the error of the
  code, or none, with the new state.
\<close>

record 'w run =
  rnDB :: db
  rnTick :: nat
  rnWorld :: 'w
  rnState :: "string \<rightharpoonup> json option"
  rnSteps :: step_states

text \<open>
  What the run gets from outside: the clock and the server's answer of each interaction, and
  where the scheduler has a choice, the moves of the children of a parallel step and the
  order in which the items of a fan-out are processed.
\<close>

record env =
  evAnswer :: "nat \<Rightarrow> pg"
  evMoves :: "nat \<Rightarrow> nat list"
  evOrder :: "nat \<Rightarrow> nat list \<Rightarrow> nat list"

text \<open>The next answer of the environment: a reading of the clock, or one statement.\<close>

definition clock :: "env \<Rightarrow> 'w run \<Rightarrow> instant \<times> 'w run" where
  "clock env r = (pgNow (evAnswer env (rnTick r)), r\<lparr>rnTick := Suc (rnTick r)\<rparr>)"

definition send :: "env \<Rightarrow> (pg \<Rightarrow> db \<Rightarrow> 'a \<times> db) \<Rightarrow> 'w run \<Rightarrow> 'a \<times> 'w run" where
  "send env st r =
    (case st (evAnswer env (rnTick r)) (rnDB r) of (a, d) \<Rightarrow> (a, r\<lparr>rnDB := d, rnTick := Suc (rnTick r)\<rparr>))"

definition set_step :: "string \<Rightarrow> StepRunState \<Rightarrow> 'w run \<Rightarrow> 'w run" where
  "set_step i x r = r\<lparr>rnSteps := (rnSteps r)(i \<mapsto> x)\<rparr>"

definition set_output :: "string \<Rightarrow> json option \<Rightarrow> 'w run \<Rightarrow> 'w run" where
  "set_output i out r = r\<lparr>rnState := (rnState r)(i \<mapsto> out)\<rparr>"

definition running_step :: "int \<Rightarrow> instant \<Rightarrow> StepRunState" where
  "running_step attempt now =
    \<lparr>ssState = StepStateRunning, ssOutput = None, ssError = '''', ssAttempt = attempt,
     ssStartedAt = Some now, ssCompletedAt = None\<rparr>"

definition failed_step :: "int \<Rightarrow> instant \<Rightarrow> instant \<Rightarrow> string \<Rightarrow> StepRunState" where
  "failed_step attempt started ended msg =
    \<lparr>ssState = StepStateFailed, ssOutput = None, ssError = msg, ssAttempt = attempt,
     ssStartedAt = Some started, ssCompletedAt = Some ended\<rparr>"

definition completed_step :: "int \<Rightarrow> instant \<Rightarrow> instant \<Rightarrow> json option \<Rightarrow> StepRunState" where
  "completed_step attempt started ended out =
    \<lparr>ssState = StepStateCompleted, ssOutput = out, ssError = '''', ssAttempt = attempt,
     ssStartedAt = Some started, ssCompletedAt = Some ended\<rparr>"

definition skipped_step :: StepRunState where
  "skipped_step =
    \<lparr>ssState = StepStateSkipped, ssOutput = None, ssError = '''', ssAttempt = 0,
     ssStartedAt = None, ssCompletedAt = None\<rparr>"

definition next_attempt :: "string \<Rightarrow> step_states \<Rightarrow> int" where
  "next_attempt i st = (case st i of None \<Rightarrow> 1 | Some x \<Rightarrow> ssAttempt x + 1)"

text \<open>Reading a missing key of the output map gives a nil message.\<close>

definition output_of :: "string \<Rightarrow> (string \<rightharpoonup> json option) \<Rightarrow> json option" where
  "output_of i st = (case st i of None \<Rightarrow> None | Some out \<Rightarrow> out)"

definition context_of :: "int \<Rightarrow> string \<Rightarrow> string \<Rightarrow> json \<Rightarrow> 'w run \<Rightarrow> Context" where
  "context_of runID i prev input r =
    \<lparr>cxRunID = runID, cxStepID = i, cxPreviousStepID = prev, cxInput = input, cxState = rnState r\<rparr>"

text \<open>Calling a function of the user, which acts on the world.\<close>

definition call :: "('w \<Rightarrow> 'a \<times> 'w) \<Rightarrow> 'w run \<Rightarrow> 'a \<times> 'w run" where
  "call f r = (case f (rnWorld r) of (a, w) \<Rightarrow> (a, r\<lparr>rnWorld := w\<rparr>))"

section \<open>Sequential and conditional steps\<close>

text \<open>The step begins: it is marked as running and a log is opened (id 0 if that fails).\<close>

definition begin_step ::
  "env \<Rightarrow> 'w Engine \<Rightarrow> int \<Rightarrow> string \<Rightarrow> json \<Rightarrow> 'w run \<Rightarrow> (int \<times> instant \<times> int) \<times> 'w run" where
  "begin_step env E runID i input r =
    (let attempt = next_attempt i (rnSteps r); (now, r1) = clock env r;
         r2 = set_step i (running_step attempt now) r1;
         (logged, r3) = send env (\<lambda>e. CreateWorkflowStepLog e runID i attempt (enWorkerID E) input) r2
     in ((attempt, now, case logged of Inr l \<Rightarrow> l | Inl _ \<Rightarrow> 0), r3))"

definition fail_step ::
  "env \<Rightarrow> string \<Rightarrow> int \<times> instant \<times> int \<Rightarrow> error \<Rightarrow> 'w run \<Rightarrow> 'w run" where
  "fail_step env i started err r =
    (case started of (attempt, now, logID) \<Rightarrow>
      let (ended, r1) = clock env r;
          r2 = set_step i (failed_step attempt now ended (err_msg err)) r1
      in snd (send env (\<lambda>e. FailWorkflowStepLog e logID (err_msg err) '''' None) r2))"

definition complete_step ::
  "env \<Rightarrow> string \<Rightarrow> int \<times> instant \<times> int \<Rightarrow> json option \<Rightarrow> 'w run \<Rightarrow> 'w run" where
  "complete_step env i started out r =
    (case started of (attempt, now, logID) \<Rightarrow>
      let (ended, r1) = clock env r;
          r2 = set_step i (completed_step attempt now ended out) r1
      in snd (send env (\<lambda>e. CompleteWorkflowStepLog e logID out None) r2))"

definition executeSequentialStep ::
  "env \<Rightarrow> 'w Engine \<Rightarrow> int \<Rightarrow> string \<Rightarrow> StepDefinition \<Rightarrow> json \<Rightarrow> 'w run \<Rightarrow> error option \<times> 'w run" where
  "executeSequentialStep env E runID wfn step input r =
    (let i = sdID step in
     case enHandlers E (wfn, i) of
       None \<Rightarrow> (Some (Errorf (''handler not found for step: '' @ i)), r)
     | Some h \<Rightarrow>
       (let (started, r1) = begin_step env E runID i input r;
            ((err, out), r2) = call (h (context_of runID i '''' input r1)) r1;
            r3 = (case out of None \<Rightarrow> r2 | Some v \<Rightarrow> set_output i (Some v) r2)
        in case err of
          Some e \<Rightarrow> (Some (Wrapped (''step '' @ i @ '' failed: '') e ''''), fail_step env i started e r3)
        | None \<Rightarrow> (None, complete_step env i started (output_of i (rnState r3)) r3)))"

definition executeConditionalStep ::
  "env \<Rightarrow> 'w Engine \<Rightarrow> int \<Rightarrow> string \<Rightarrow> StepDefinition \<Rightarrow> json \<Rightarrow> 'w run \<Rightarrow> error option \<times> 'w run" where
  "executeConditionalStep env E runID wfn step input r =
    (let i = sdID step in
     case enConditions E (wfn, i) of
       None \<Rightarrow> (None, set_step i skipped_step r)
     | Some c \<Rightarrow>
       (case call (c (context_of runID i '''' input r)) r of
         (False, r1) \<Rightarrow> (None, set_step i skipped_step r1)
       | (True, r1) \<Rightarrow> executeSequentialStep env E runID wfn step input r1))"

section \<open>Map, reduce and handler steps\<close>

text \<open>
  A step that computes a value: the error of the function fails the step, an error of
  \<^verbatim>\<open>json.Marshal\<close> leaves it marked as running. These steps are not logged, and their
  attempt is always 1.
\<close>

definition value_step ::
  "env \<Rightarrow> string \<Rightarrow> string \<Rightarrow> string \<Rightarrow> ('w run \<Rightarrow> (error + go_value) \<times> 'w run) \<Rightarrow> 'w run \<Rightarrow> error option \<times> 'w run" where
  "value_step env i failed marshal f r =
    (let (now, r1) = clock env r;
         r2 = set_step i (running_step 1 now) r1
     in case f r2 of
       (Inl err, r3) \<Rightarrow>
         (let (ended, r4) = clock env r3
          in (Some (Wrapped failed err ''''), set_step i (failed_step 1 now ended (err_msg err)) r4))
     | (Inr (Inl err), r3) \<Rightarrow> (Some (Wrapped marshal err ''''), r3)
     | (Inr (Inr v), r3) \<Rightarrow>
         (let (ended, r4) = clock env (set_output i (Some v) r3)
          in (None, set_step i (completed_step 1 now ended (Some v)) r4)))"

definition executeMapStep ::
  "env \<Rightarrow> 'w Engine \<Rightarrow> int \<Rightarrow> string \<Rightarrow> StepDefinition \<Rightarrow> json \<Rightarrow> 'w run \<Rightarrow> error option \<times> 'w run" where
  "executeMapStep env E runID wfn step input r =
    (let i = sdID step in
     case enMaps E (wfn, i) of
       None \<Rightarrow> (Some (Errorf (''map handler not found for step: '' @ i)), r)
     | Some h \<Rightarrow> value_step env i (''map step '' @ i @ '' failed: '') ''marshal map output: ''
         (\<lambda>r. call (h (context_of runID i '''' input r)) r) r)"

definition executeReduceStep ::
  "env \<Rightarrow> 'w Engine \<Rightarrow> int \<Rightarrow> string \<Rightarrow> StepDefinition \<Rightarrow> json \<Rightarrow> 'w run \<Rightarrow> error option \<times> 'w run" where
  "executeReduceStep env E runID wfn step input r =
    (let i = sdID step in
     case enReduces E (wfn, i) of
       None \<Rightarrow> (Some (Errorf (''reduce handler not found for step: '' @ i)), r)
     | Some h \<Rightarrow>
       if rnState r (sdSourceStepID step) = None
       then (Some (Errorf (''source step output not found: '' @ sdSourceStepID step)), r)
       else value_step env i (''reduce step '' @ i @ '' failed: '') ''marshal reduce output: ''
         (\<lambda>r. call (h (context_of runID i (sdSourceStepID step) input r)) r) r)"

definition executeHandlerStep ::
  "env \<Rightarrow> 'w Engine \<Rightarrow> int \<Rightarrow> string \<Rightarrow> StepDefinition \<Rightarrow> json \<Rightarrow> 'w run \<Rightarrow> error option \<times> 'w run" where
  "executeHandlerStep env E runID wfn step input r =
    (let i = sdID step in
     case enExecutor E of
       None \<Rightarrow> (Some (Errorf ''handler step executor not configured''), r)
     | Some ex \<Rightarrow>
       (let (started, r1) = begin_step env E runID i input r
        in case call (ex (sdHandlerID step) input) r1 of
          (Inl err, r2) \<Rightarrow>
            (Some (Wrapped (''handler step '' @ i @ '' failed: '') err ''''), fail_step env i started err r2)
        | (Inr out, r2) \<Rightarrow> (None, complete_step env i started out (set_output i out r2))))"

section \<open>Fan-out steps\<close>

text \<open>
  The items are processed by goroutines, in the order \<open>js\<close> in which they finish; all of
  them run, and the first error is the one reported.
\<close>

fun run_items ::
  "'w FanOutHandler \<Rightarrow> int \<Rightarrow> string \<Rightarrow> json \<Rightarrow> json list \<Rightarrow> nat list \<Rightarrow> 'w run
    \<Rightarrow> (error option \<times> (nat \<rightharpoonup> go_value)) \<times> 'w run" where
  "run_items h runID i input items [] r = ((None, Map.empty), r)"
| "run_items h runID i input items (j # js) r =
    (case call (fhMap h (context_of runID (i @ ''['' @ digits (int j) @ '']'') '''' input r) (items ! j) j) r of
      (a, r1) \<Rightarrow>
        (case run_items h runID i input items js r1 of
          ((err, res), r2) \<Rightarrow>
            (case a of
              Inl e \<Rightarrow> ((Some (Wrapped (''map['' @ digits (int j) @ ''] failed: '') e ''''), res), r2)
            | Inr v \<Rightarrow> ((err, res(j \<mapsto> v)), r2))))"

definition marshal_results :: "nat \<Rightarrow> (nat \<rightharpoonup> go_value) \<Rightarrow> go_value" where
  "marshal_results n res =
    map_sum id JArr (collect (map (\<lambda>j. case res j of Some v \<Rightarrow> v | None \<Rightarrow> Inr JNull) [0..<n]))"

definition executeFanOutStep ::
  "env \<Rightarrow> 'w Engine \<Rightarrow> int \<Rightarrow> string \<Rightarrow> StepDefinition \<Rightarrow> json \<Rightarrow> 'w run \<Rightarrow> error option \<times> 'w run" where
  "executeFanOutStep env E runID wfn step input r =
    (let i = sdID step in
     case enFanOuts E (wfn, i) of
       None \<Rightarrow> (Some (Errorf (''fan-out handler not found for step: '' @ i)), r)
     | Some h \<Rightarrow>
       (let (now, r1) = clock env r;
            r2 = set_step i (running_step 1 now) r1;
            fail = (\<lambda>err r. let (ended, r') = clock env r
                            in set_step i (failed_step 1 now ended (err_msg err)) r')
        in case call (fhItems h (context_of runID i '''' input r2)) r2 of
          (Inl err, r3) \<Rightarrow>
            (Some (Wrapped (''fan-out items func failed for step '' @ i @ '': '') err ''''), fail err r3)
        | (Inr items, r3) \<Rightarrow>
            (case run_items h runID i input items (evOrder env (rnTick r3) [0..<length items]) r3 of
              ((Some err, res), r4) \<Rightarrow> (Some err, fail err r4)
            | ((None, res), r4) \<Rightarrow>
                (case marshal_results (length items) res of
                  Inl err \<Rightarrow> (Some (Wrapped ''marshal fan-out output: '' err ''''), r4)
                | Inr v \<Rightarrow>
                    (let (ended, r5) = clock env (set_output i (Some v) r4)
                     in (None, set_step i (completed_step 1 now ended (Some v)) r5))))))"

section \<open>Parallel steps\<close>

text \<open>
  A goroutine per child: it copies the output map, executes the child on its copy, and
  merges the copy back. Its accesses to the step states are not synchronised; a move of a
  child is one of them, or a call of its handler, and \<open>evMoves\<close> interleaves the moves.
\<close>

datatype child =
    Fresh
  | Copied "string \<rightharpoonup> json option"
  | Begun "string \<rightharpoonup> json option" "int \<times> instant \<times> int"
  | Returned "string \<rightharpoonup> json option" "int \<times> instant \<times> int" "error option"
  | Settled "string \<rightharpoonup> json option"
  | Finished "error option"

fun child_move ::
  "env \<Rightarrow> 'w Engine \<Rightarrow> int \<Rightarrow> string \<Rightarrow> StepDefinition \<Rightarrow> json \<Rightarrow> child \<Rightarrow> 'w run \<Rightarrow> child \<times> 'w run" where
  "child_move env E runID wfn step input Fresh r = (Copied (rnState r), r)"
| "child_move env E runID wfn step input (Copied st) r =
    (case enHandlers E (wfn, sdID step) of
      None \<Rightarrow> (Finished (Some (Errorf (''handler not found for step: '' @ sdID step))), r)
    | Some h \<Rightarrow> (case begin_step env E runID (sdID step) input r of (started, r1) \<Rightarrow> (Begun st started, r1)))"
| "child_move env E runID wfn step input (Begun st started) r =
    (case enHandlers E (wfn, sdID step) of
      None \<Rightarrow> (Finished (Some (Errorf (''handler not found for step: '' @ sdID step))), r)
    | Some h \<Rightarrow>
        (case call (h \<lparr>cxRunID = runID, cxStepID = sdID step, cxPreviousStepID = '''', cxInput = input,
            cxState = st\<rparr>) r of
          ((err, out), r1) \<Rightarrow>
            (Returned (case out of None \<Rightarrow> st | Some v \<Rightarrow> st(sdID step \<mapsto> Some v)) started err, r1)))"
| "child_move env E runID wfn step input (Returned st started (Some err)) r =
    (Finished (Some (Wrapped (''step '' @ sdID step @ '' failed: '') err '''')),
     fail_step env (sdID step) started err r)"
| "child_move env E runID wfn step input (Returned st started None) r =
    (Settled st, complete_step env (sdID step) started (output_of (sdID step) st) r)"
| "child_move env E runID wfn step input (Settled st) r = (Finished None, r\<lparr>rnState := rnState r ++ st\<rparr>)"
| "child_move env E runID wfn step input (Finished err) r = (Finished err, r)"

definition par_move ::
  "env \<Rightarrow> 'w Engine \<Rightarrow> int \<Rightarrow> string \<Rightarrow> StepDefinition list \<Rightarrow> json
    \<Rightarrow> child list \<times> error list \<times> 'w run \<Rightarrow> nat \<Rightarrow> child list \<times> error list \<times> 'w run" where
  "par_move env E runID wfn steps input s j =
    (case s of (cs, errs, r) \<Rightarrow>
      if j < length cs
      then case child_move env E runID wfn (steps ! j) input (cs ! j) r of
        (c, r') \<Rightarrow>
          (cs[j := c],
           (case (cs ! j, c) of
             (Finished _, _) \<Rightarrow> errs
           | (_, Finished (Some err)) \<Rightarrow> errs @ [err]
           | _ \<Rightarrow> errs), r')
      else s)"

text \<open>
  The wait group: after the scheduler's moves every child still gets the five moves it may
  need, so that all have finished when the errors are looked at.
\<close>

definition par_schedule :: "env \<Rightarrow> nat \<Rightarrow> 'w run \<Rightarrow> nat list" where
  "par_schedule env n r = evMoves env (rnTick r) @ concat (replicate 5 [0..<n])"

definition executeParallelSteps ::
  "env \<Rightarrow> 'w Engine \<Rightarrow> int \<Rightarrow> string \<Rightarrow> StepDefinition list \<Rightarrow> json \<Rightarrow> 'w run \<Rightarrow> error option \<times> 'w run" where
  "executeParallelSteps env E runID wfn steps input r =
    (case foldl (par_move env E runID wfn steps input) (replicate (length steps) Fresh, [], r)
        (par_schedule env (length steps) r) of
      (cs, errs, r') \<Rightarrow> (case errs of [] \<Rightarrow> None | err # _ \<Rightarrow> Some err, r'))"

section \<open>A step, and a run\<close>

definition step_completed :: "string \<Rightarrow> step_states \<Rightarrow> bool" where
  "step_completed i st \<longleftrightarrow> (case st i of Some x \<Rightarrow> ssState x = StepStateCompleted | None \<Rightarrow> False)"

definition executeStep ::
  "env \<Rightarrow> 'w Engine \<Rightarrow> int \<Rightarrow> string \<Rightarrow> StepDefinition \<Rightarrow> json \<Rightarrow> 'w run \<Rightarrow> error option \<times> 'w run" where
  "executeStep env E runID wfn step input r =
    (if step_completed (sdID step) (rnSteps r) then (None, r)
     else case sdType step of
       StepTypeParallel \<Rightarrow> executeParallelSteps env E runID wfn (sdChildren step) input r
     | StepTypeConditional \<Rightarrow> executeConditionalStep env E runID wfn step input r
     | StepTypeFanOut \<Rightarrow> executeFanOutStep env E runID wfn step input r
     | StepTypeMap \<Rightarrow> executeMapStep env E runID wfn step input r
     | StepTypeReduce \<Rightarrow> executeReduceStep env E runID wfn step input r
     | StepTypeHandler \<Rightarrow> executeHandlerStep env E runID wfn step input r
     | StepTypeSequential \<Rightarrow> executeSequentialStep env E runID wfn step input r)"

text \<open>The loop of \<open>ExecuteRun\<close>: the states are stored after each step that succeeds.\<close>

fun execute_steps ::
  "env \<Rightarrow> 'w Engine \<Rightarrow> int \<Rightarrow> string \<Rightarrow> StepDefinition list \<Rightarrow> json \<Rightarrow> 'w run \<Rightarrow> error option \<times> 'w run" where
  "execute_steps env E runID wfn [] input r = (None, r)"
| "execute_steps env E runID wfn (step # steps) input r =
    (case executeStep env E runID wfn step input r of
      (Some err, r1) \<Rightarrow>
        (Some err, snd (send env (\<lambda>e. UpdateWorkflowRunState e runID WorkflowStateFailed (sdID step) (err_msg err)) r1))
    | (None, r1) \<Rightarrow>
        execute_steps env E runID wfn steps input
          (snd (send env (\<lambda>e. UpdateWorkflowRunStepStates e runID (rnSteps r1)) r1)))"

definition outputs_of :: "step_states \<Rightarrow> (string \<rightharpoonup> json option)" where
  "outputs_of st i = (case st i of None \<Rightarrow> None
    | Some x \<Rightarrow> (case ssOutput x of None \<Rightarrow> None | Some v \<Rightarrow> Some (Some v)))"

definition ExecuteRun :: "env \<Rightarrow> 'w Engine \<Rightarrow> int \<Rightarrow> 'w run \<Rightarrow> error option \<times> 'w run" where
  "ExecuteRun env E runID r =
    (case send env (\<lambda>e. GetWorkflowRun e runID) r of
      (Inl err, r1) \<Rightarrow> (Some (Wrapped ''getting workflow run: '' err ''''), r1)
    | (Inr None, r1) \<Rightarrow> (Some (Errorf ''workflow run not found''), r1)
    | (Inr (Some run), r1) \<Rightarrow>
      (case send env (\<lambda>e. GetWorkflowDefinitionByID e (rDefinitionID run)) r1 of
        (Inl err, r2) \<Rightarrow> (Some (Wrapped ''getting workflow definition: '' err ''''), r2)
      | (Inr None, r2) \<Rightarrow> (Some (Errorf ''workflow definition not found''), r2)
      | (Inr (Some d), r2) \<Rightarrow>
        (case parse_definition (dDefinition d) of
          Inl err \<Rightarrow> (Some (Wrapped ''parsing workflow definition: '' err ''''), r2)
        | Inr def \<Rightarrow>
          (let r3 = r2\<lparr>rnState := outputs_of (rStepStates run), rnSteps := rStepStates run\<rparr> in
           case send env (\<lambda>e. UpdateWorkflowRunState e runID WorkflowStateRunning '''' '''') r3 of
             (Inl err, r4) \<Rightarrow> (Some (Wrapped ''updating workflow run state: '' err ''''), r4)
           | (Inr _, r4) \<Rightarrow>
             (case execute_steps env E runID (dName d) (wdefSteps def) (rInput run) r4 of
               (Some err, r5) \<Rightarrow> (Some err, r5)
             | (None, r5) \<Rightarrow>
               (case send env (\<lambda>e. UpdateWorkflowRunState e runID WorkflowStateCompleted '''' '''') r5 of
                 (Inl err, r6) \<Rightarrow> (Some (Wrapped ''updating workflow run state: '' err ''''), r6)
               | (Inr _, r6) \<Rightarrow> (None, r6)))))))"

end
