(* ===== verification/Engine_Spec.thy ===== *)
theory Engine_Spec
  imports Engine_Steps
begin

text \<open>
  What the engine may rely on when it executes a step, as a locale, and the proof that each
  kind of step keeps it: a step writes no run row and no step state or output but its own,
  and if it reports no error it ends completed, or skipped where it is conditional.
\<close>

section \<open>What the pieces of a step do\<close>

lemma clock_simps [simp]:
  "rnDB (snd (clock env r)) = rnDB r" "rnWorld (snd (clock env r)) = rnWorld r"
  "rnState (snd (clock env r)) = rnState r" "rnSteps (snd (clock env r)) = rnSteps r"
  by (simp_all add: clock_def)

lemma clock_pairD:
  "clock env r = (t, r') \<Longrightarrow>
    rnDB r' = rnDB r \<and> rnWorld r' = rnWorld r \<and> rnState r' = rnState r \<and> rnSteps r' = rnSteps r"
  using clock_simps [of env r] by simp

lemma send_simps [simp]:
  "rnWorld (snd (send env st r)) = rnWorld r"
  "rnState (snd (send env st r)) = rnState r" "rnSteps (snd (send env st r)) = rnSteps r"
  "rnDB (snd (send env st r)) = snd (st (evAnswer env (rnTick r)) (rnDB r))"
  "fst (send env st r) = fst (st (evAnswer env (rnTick r)) (rnDB r))"
  by (simp_all add: send_def split: prod.split)

lemma set_simps [simp]:
  "rnDB (set_step i x r) = rnDB r" "rnWorld (set_step i x r) = rnWorld r"
  "rnState (set_step i x r) = rnState r" "rnSteps (set_step i x r) = (rnSteps r)(i \<mapsto> x)"
  "rnDB (set_output i out r) = rnDB r" "rnWorld (set_output i out r) = rnWorld r"
  "rnState (set_output i out r) = (rnState r)(i \<mapsto> out)" "rnSteps (set_output i out r) = rnSteps r"
  by (simp_all add: set_step_def set_output_def)

lemma call_simps [simp]:
  "rnDB (snd (call f r)) = rnDB r" "rnState (snd (call f r)) = rnState r"
  "rnSteps (snd (call f r)) = rnSteps r" "rnWorld (snd (call f r)) = snd (f (rnWorld r))"
  "fst (call f r) = fst (f (rnWorld r))"
  by (simp_all add: call_def split: prod.split)

lemma begin_step_simps [simp]:
  "tRuns (rnDB (snd (begin_step env E k i input r))) = tRuns (rnDB r)"
  "rnWorld (snd (begin_step env E k i input r)) = rnWorld r"
  "rnState (snd (begin_step env E k i input r)) = rnState r"
  "j \<noteq> i \<Longrightarrow> rnSteps (snd (begin_step env E k i input r)) j = rnSteps r j"
  "fst (fst (begin_step env E k i input r)) = next_attempt i (rnSteps r)"
  by (simp_all add: begin_step_def Let_def split_beta)

lemma fail_step_simps [simp]:
  "tRuns (rnDB (fail_step env i started err r)) = tRuns (rnDB r)"
  "rnWorld (fail_step env i started err r) = rnWorld r"
  "rnState (fail_step env i started err r) = rnState r"
  "j \<noteq> i \<Longrightarrow> rnSteps (fail_step env i started err r) j = rnSteps r j"
  by (cases started; simp add: fail_step_def Let_def split_beta)+

lemma complete_step_simps [simp]:
  "tRuns (rnDB (complete_step env i started out r)) = tRuns (rnDB r)"
  "rnWorld (complete_step env i started out r) = rnWorld r"
  "rnState (complete_step env i started out r) = rnState r"
  "j \<noteq> i \<Longrightarrow> rnSteps (complete_step env i started out r) j = rnSteps r j"
  by (cases started; simp add: complete_step_def Let_def split_beta)+

lemma complete_step_state:
  "\<exists>x. rnSteps (complete_step env i started out r) i = Some x \<and> ssState x = StepStateCompleted \<and>
    ssOutput x = out \<and> ssAttempt x = fst started"
  by (cases started; simp add: complete_step_def Let_def split_beta completed_step_def)

section \<open>The contract of a step\<close>

definition step_done :: "string \<Rightarrow> step_states \<Rightarrow> bool" where
  "step_done i st \<longleftrightarrow>
    (case st i of Some x \<Rightarrow> ssState x = StepStateCompleted \<or> ssState x = StepStateSkipped | None \<Rightarrow> False)"

locale step_writer =
  fixes exec :: "StepDefinition \<Rightarrow> 'w run \<Rightarrow> error option \<times> 'w run"
    and ids :: "StepDefinition \<Rightarrow> string set"
  assumes keeps_runs: "tRuns (rnDB (snd (exec step r))) = tRuns (rnDB r)"
    and other_steps: "j \<notin> ids step \<Longrightarrow> rnSteps (snd (exec step r)) j = rnSteps r j"
    and other_outputs: "j \<notin> ids step \<Longrightarrow> rnState (snd (exec step r)) j = rnState r j"
begin

lemma keeps_run: "run_lookup k (rnDB (snd (exec step r))) = run_lookup k (rnDB r)"
  by (simp add: run_lookup_def keeps_runs)

end

locale step_executor = step_writer +
  assumes succeeds: "fst (exec step r) = None \<Longrightarrow> j \<in> ids step \<Longrightarrow> step_done j (rnSteps (snd (exec step r)))"
begin

lemma keeps_done:
  assumes "fst (exec step r) = None" and "step_done j (rnSteps r)"
  shows "step_done j (rnSteps (snd (exec step r)))"
proof (cases "j \<in> ids step")
  case True
  then show ?thesis by (rule succeeds [OF assms(1)])
next
  case False
  then show ?thesis using assms(2) other_steps [OF False] by (simp add: step_done_def)
qed

end

definition own_id :: "StepDefinition \<Rightarrow> string set" where
  "own_id step = {sdID step}"

lemma own_id_simps [simp]: "j \<in> own_id step \<longleftrightarrow> j = sdID step"
  by (simp add: own_id_def)

lemma complete_step_done [simp]: "step_done i (rnSteps (complete_step env i started out r))"
  using complete_step_state [of env i started out r] by (auto simp: step_done_def)

lemma set_step_done [simp]:
  "step_done i (m(i \<mapsto> completed_step a t u out))" "step_done i (m(i \<mapsto> skipped_step))"
  by (simp_all add: step_done_def completed_step_def skipped_step_def)

section \<open>The kinds of steps with one id\<close>

interpretation seq_step: step_executor "\<lambda>step. executeSequentialStep env E k wfn step input" own_id
  for env :: env and E :: "'w Engine" and k wfn input
proof
  fix step j and r :: "'w run"
  let ?r = "snd (executeSequentialStep env E k wfn step input r)"
  show "tRuns (rnDB ?r) = tRuns (rnDB r)"
    by (auto simp: executeSequentialStep_def Let_def split_beta split: option.split)
  show "rnSteps ?r j = rnSteps r j" and "rnState ?r j = rnState r j" if "j \<notin> own_id step"
    using that by (auto simp: executeSequentialStep_def Let_def split_beta split: option.split)
  show "step_done j (rnSteps ?r)"
    if "fst (executeSequentialStep env E k wfn step input r) = None" "j \<in> own_id step"
    using that by (auto simp: executeSequentialStep_def Let_def split_beta split: option.splits)
qed

interpretation cond_step: step_executor "\<lambda>step. executeConditionalStep env E k wfn step input" own_id
  for env :: env and E :: "'w Engine" and k wfn input
proof
  fix step j and r :: "'w run"
  let ?x = "executeConditionalStep env E k wfn step input r"
  have cases: "?x = (None, set_step (sdID step) skipped_step r) \<or>
      (\<exists>f :: 'w \<Rightarrow> bool \<times> 'w. ?x = (None, set_step (sdID step) skipped_step (snd (call f r))) \<or>
        ?x = executeSequentialStep env E k wfn step input (snd (call f r)))"
    by (cases "enConditions E (wfn, sdID step)")
      (auto simp: executeConditionalStep_def Let_def split_beta split: bool.split)
  show "tRuns (rnDB (snd ?x)) = tRuns (rnDB r)"
    using cases by (elim disjE exE) (simp_all add: seq_step.keeps_runs)
  show "rnSteps (snd ?x) j = rnSteps r j" if "j \<notin> own_id step"
    using cases that by (elim disjE exE) (simp_all add: seq_step.other_steps)
  show "rnState (snd ?x) j = rnState r j" if "j \<notin> own_id step"
    using cases that by (elim disjE exE) (simp_all add: seq_step.other_outputs)
  show "step_done j (rnSteps (snd ?x))" if "fst ?x = None" "j \<in> own_id step"
    using cases that by (elim disjE exE) (simp_all add: seq_step.succeeds)
qed

text \<open>The steps that compute a value.\<close>

lemma value_step_frame:
  assumes "\<And>r. tRuns (rnDB (snd (f r))) = tRuns (rnDB r)" and "\<And>r. rnSteps (snd (f r)) = rnSteps r"
    and "\<And>r. rnState (snd (f r)) = rnState r"
  shows "tRuns (rnDB (snd (value_step env i failed marshal f r))) = tRuns (rnDB r)"
    and "j \<noteq> i \<Longrightarrow> rnSteps (snd (value_step env i failed marshal f r)) j = rnSteps r j"
    and "j \<noteq> i \<Longrightarrow> rnState (snd (value_step env i failed marshal f r)) j = rnState r j"
    and "fst (value_step env i failed marshal f r) = None \<Longrightarrow>
      step_done i (rnSteps (snd (value_step env i failed marshal f r)))"
proof -
  obtain now r1 where c: "clock env r = (now, r1)" by fastforce
  have r1: "rnDB r1 = rnDB r" "rnSteps r1 = rnSteps r" "rnState r1 = rnState r"
    using clock_simps [of env r] by (simp_all add: c)
  let ?r2 = "set_step i (running_step 1 now) r1"
  obtain x r3 where f: "f ?r2 = (x, r3)" by fastforce
  have r3: "tRuns (rnDB r3) = tRuns (rnDB r)" "rnSteps r3 = (rnSteps r)(i \<mapsto> running_step 1 now)"
    "rnState r3 = rnState r"
    using assms [of ?r2] by (simp_all add: f r1)
  show "tRuns (rnDB (snd (value_step env i failed marshal f r))) = tRuns (rnDB r)"
    "j \<noteq> i \<Longrightarrow> rnSteps (snd (value_step env i failed marshal f r)) j = rnSteps r j"
    "j \<noteq> i \<Longrightarrow> rnState (snd (value_step env i failed marshal f r)) j = rnState r j"
    "fst (value_step env i failed marshal f r) = None \<Longrightarrow>
      step_done i (rnSteps (snd (value_step env i failed marshal f r)))"
    by (auto simp: value_step_def c f r3 Let_def dest!: clock_pairD split: sum.splits prod.splits)
qed

interpretation map_step: step_executor "\<lambda>step. executeMapStep env E k wfn step input" own_id
  for env :: env and E :: "'w Engine" and k wfn input
  by unfold_locales
    (auto simp: executeMapStep_def Let_def value_step_frame split: option.splits)

interpretation reduce_step: step_executor "\<lambda>step. executeReduceStep env E k wfn step input" own_id
  for env :: env and E :: "'w Engine" and k wfn input
  by unfold_locales
    (auto simp: executeReduceStep_def Let_def value_step_frame split: option.splits if_splits)

interpretation handler_step: step_executor "\<lambda>step. executeHandlerStep env E k wfn step input" own_id
  for env :: env and E :: "'w Engine" and k wfn input
  by unfold_locales
    (auto simp: executeHandlerStep_def Let_def split_beta split: option.splits sum.splits)

end
