(* ===== verification/Engine_Parallel.thy ===== *)
theory Engine_Parallel
  imports Engine_Spec
begin

text \<open>
  Parallel steps and fan-out steps keep the contract of a step under every interleaving of
  their goroutines; every child finishes, and the results of a fan-out do not depend on the
  order in which its items are processed.
\<close>

section \<open>The phases of a child\<close>

fun child_rank :: "child \<Rightarrow> nat" where
  "child_rank Fresh = 5"
| "child_rank (Copied st) = 4"
| "child_rank (Begun st started) = 3"
| "child_rank (Returned st started err) = 2"
| "child_rank (Settled st) = 1"
| "child_rank (Finished err) = 0"

fun settled :: "child \<Rightarrow> bool" where
  "settled (Settled st) = True"
| "settled (Finished None) = True"
| "settled _ = False"

fun busy :: "child \<Rightarrow> bool" where
  "busy (Begun st started) = True"
| "busy (Returned st started err) = True"
| "busy (Finished (Some err)) = True"
| "busy _ = False"

fun child_agrees :: "string \<Rightarrow> json option option \<Rightarrow> child \<Rightarrow> bool" where
  "child_agrees j v (Copied st) \<longleftrightarrow> st j = v"
| "child_agrees j v (Begun st started) \<longleftrightarrow> st j = v"
| "child_agrees j v (Returned st started err) \<longleftrightarrow> st j = v"
| "child_agrees j v (Settled st) \<longleftrightarrow> st j = v"
| "child_agrees j v _ \<longleftrightarrow> True"

text \<open>One move of one child.\<close>

lemma child_move_effect:
  assumes "child_move env E k wfn step input c r = (c', r')"
  shows "child_rank c' \<le> child_rank c - 1"
    and "tRuns (rnDB r') = tRuns (rnDB r)"
    and "j \<noteq> sdID step \<Longrightarrow> rnSteps r' j = rnSteps r j"
    and "j \<noteq> sdID step \<Longrightarrow> rnState r j = v \<Longrightarrow> child_agrees j v c \<Longrightarrow>
      rnState r' j = v \<and> child_agrees j v c'"
    and "settled c \<Longrightarrow> settled c' \<and> rnSteps r' = rnSteps r"
    and "\<not> settled c \<Longrightarrow> settled c' \<Longrightarrow> step_done (sdID step) (rnSteps r')"
    and "\<not> settled c' \<Longrightarrow> \<not> busy c' \<Longrightarrow> rnSteps r' = rnSteps r \<and> \<not> busy c"
    and "(\<exists>err. c = Finished err) \<Longrightarrow> c' = c"
  using assms
  by (induction env E k wfn step input c r rule: child_move.induct;
      auto simp: split_beta Let_def map_add_def split: option.splits)+

section \<open>All children\<close>

definition par_inv ::
  "StepDefinition list \<Rightarrow> 'w run \<Rightarrow> child list \<times> error list \<times> 'w run \<Rightarrow> bool" where
  "par_inv steps r0 s \<longleftrightarrow>
    (case s of (cs, errs, r) \<Rightarrow>
      length cs = length steps \<and> tRuns (rnDB r) = tRuns (rnDB r0) \<and>
      (\<forall>j. j \<notin> sdID ` set steps \<longrightarrow> rnSteps r j = rnSteps r0 j \<and> rnState r j = rnState r0 j \<and>
        (\<forall>c \<in> set cs. child_agrees j (rnState r0 j) c)) \<and>
      (\<forall>err. Finished (Some err) \<in> set cs \<longrightarrow> errs \<noteq> []) \<and>
      (\<forall>i < length steps. settled (cs ! i) \<longrightarrow>
        step_done (sdID (steps ! i)) (rnSteps r) \<or>
        (\<exists>m < length steps. sdID (steps ! m) = sdID (steps ! i) \<and> busy (cs ! m))))"

lemma par_inv_start: "par_inv steps r (replicate (length steps) Fresh, [], r)"
  by (simp add: par_inv_def)

lemma par_inv_move:
  assumes inv: "par_inv steps r0 s"
  shows "par_inv steps r0 (par_move env E k wfn steps input s j)"
proof -
  obtain cs errs r where s: "s = (cs, errs, r)" by (cases s)
  show ?thesis
  proof (cases "j < length cs")
    case False
    then show ?thesis using inv by (simp add: par_move_def s)
  next
    case True
    obtain c' r' where mv: "child_move env E k wfn (steps ! j) input (cs ! j) r = (c', r')" by fastforce
    note eff = child_move_effect [OF mv]
    obtain errs' where errs': "errs' = (case (cs ! j, c') of (Finished _, _) \<Rightarrow> errs | (_, Finished (Some err)) \<Rightarrow> errs @ [err] | _ \<Rightarrow> errs)" by simp
    have step: "par_move env E k wfn steps input s j = (cs[j := c'], errs', r')"
      using True by (simp add: par_move_def s mv errs')
    have len: "length cs = length steps" and j: "j < length steps"
      using inv True by (simp_all add: par_inv_def s)
    have out: "rnSteps r' i = rnSteps r0 i \<and> rnState r' i = rnState r0 i \<and>
        (\<forall>c \<in> set (cs[j := c']). child_agrees i (rnState r0 i) c)" if "i \<notin> sdID ` set steps" for i
    proof -
      have ne: "i \<noteq> sdID (steps ! j)" using that j by auto
      have old: "rnSteps r i = rnSteps r0 i" "rnState r i = rnState r0 i"
        "\<forall>c \<in> set cs. child_agrees i (rnState r0 i) c" using inv that by (simp_all add: par_inv_def s)
      have "rnState r' i = rnState r0 i \<and> child_agrees i (rnState r0 i) c'"
        by (rule eff(4) [OF ne old(2)]) (use old(3) True in simp)
      then show ?thesis using eff(3) [OF ne] old set_update_subset_insert [of cs j c'] by auto
    qed
    have errors: "errs' \<noteq> []" if "Finished (Some err) \<in> set (cs[j := c'])" for err
    proof (cases "Finished (Some err) \<in> set cs")
      case True
      then have "errs \<noteq> []" using inv by (auto simp: par_inv_def s)
      then show ?thesis unfolding errs' by (auto split: child.split option.split)
    next
      case fresh: False
      then have c': "c' = Finished (Some err)" using that set_update_subset_insert [of cs j c'] by auto
      have "cs ! j \<noteq> Finished x" for x
        using eff(8) c' fresh nth_mem [OF True] by (cases "cs ! j = Finished x") auto
      then show ?thesis using c' unfolding errs' by (auto split: child.split)
    qed
    have fin: "step_done (sdID (steps ! i)) (rnSteps r') \<or>
        (\<exists>m < length steps. sdID (steps ! m) = sdID (steps ! i) \<and> busy (cs[j := c'] ! m))"
      if i: "i < length steps" "settled (cs[j := c'] ! i)" for i
    proof -
      have old: "settled (cs ! i) \<Longrightarrow> step_done (sdID (steps ! i)) (rnSteps r) \<or>
          (\<exists>m < length steps. sdID (steps ! m) = sdID (steps ! i) \<and> busy (cs ! m))"
        using inv i(1) by (simp add: par_inv_def s)
      have not_both: "settled c \<Longrightarrow> \<not> busy c" for c by (cases c rule: settled.cases) simp_all
      show ?thesis
      proof (cases "busy c'")
        case b: True
        show ?thesis
        proof (cases "sdID (steps ! i) = sdID (steps ! j)")
          case True
          then show ?thesis using b j len by (intro disjI2 exI [of _ j]) simp
        next
          case False
          then have "i \<noteq> j" by auto
          then have "settled (cs ! i)" using i by simp
          from old [OF this] show ?thesis
          proof (elim disjE exE conjE)
            assume "step_done (sdID (steps ! i)) (rnSteps r)"
            then show ?thesis using eff(3) [OF False] by (simp add: step_done_def)
          next
            fix m assume "m < length steps" "sdID (steps ! m) = sdID (steps ! i)" "busy (cs ! m)"
            then show ?thesis using b len by (intro disjI2 exI [of _ m]) (cases "m = j"; simp)
          qed
        qed
      next
        case nb: False
        show ?thesis
        proof (cases "i = j \<and> \<not> settled (cs ! j)")
          case True
          then show ?thesis using eff(6) i len j by (auto simp: nth_list_update)
        next
          case False
          then have "settled (cs ! i)" using i len by (cases "i = j") auto
          from old [OF this] show ?thesis
          proof (elim disjE exE conjE)
            assume d: "step_done (sdID (steps ! i)) (rnSteps r)"
            show ?thesis
            proof (cases "settled c' \<and> \<not> settled (cs ! j) \<and> sdID (steps ! i) = sdID (steps ! j)")
              case True
              then show ?thesis using eff(6) by simp
            next
              case False
              then have "rnSteps r' (sdID (steps ! i)) = rnSteps r (sdID (steps ! i))"
                using eff(3,5,7) nb by metis
              then show ?thesis using d by (simp add: step_done_def)
            qed
          next
            fix m assume m: "m < length steps" "sdID (steps ! m) = sdID (steps ! i)" "busy (cs ! m)"
            show ?thesis
            proof (cases "m = j")
              case True
              then have "\<not> settled (cs ! j)" "settled c'" using m not_both eff(7) nb by blast+
              then show ?thesis using eff(6) m True by simp
            next
              case False
              then show ?thesis using m len by (intro disjI2 exI [of _ m]) simp
            qed
          qed
        qed
      qed
    qed
    show ?thesis
      unfolding step par_inv_def prod.case
      by (intro conjI allI impI) (use len eff(2) inv out errors fin in \<open>auto simp: par_inv_def s\<close>)
  qed
qed

section \<open>All children finish\<close>

lemma par_inv_run: "par_inv steps r0 s \<Longrightarrow> par_inv steps r0 (foldl (par_move env E k wfn steps input) s js)"
  by (induction js arbitrary: s) (simp_all add: par_inv_move)

lemma par_move_rank:
  "length (fst (par_move env E k wfn steps input s j)) = length (fst s)"
  "i < length (fst s) \<Longrightarrow> child_rank (fst (par_move env E k wfn steps input s j) ! i)
    \<le> child_rank (fst s ! i) - (if j = i then 1 else 0)"
proof -
  obtain cs errs r where s: "s = (cs, errs, r)" by (cases s)
  obtain c' r' where mv: "child_move env E k wfn (steps ! j) input (cs ! j) r = (c', r')" by fastforce
  have moved: "fst (par_move env E k wfn steps input s j) = (if j < length cs then cs[j := c'] else cs)"
    by (simp add: par_move_def s mv)
  then show "length (fst (par_move env E k wfn steps input s j)) = length (fst s)" by (simp add: s)
  show "child_rank (fst (par_move env E k wfn steps input s j) ! i)
      \<le> child_rank (fst s ! i) - (if j = i then 1 else 0)" if "i < length (fst s)"
    using that child_move_effect(1) [OF mv] moved by (auto simp: s nth_list_update)
qed

lemma par_run_length [simp]: "length (fst (foldl (par_move env E k wfn steps input) s js)) = length (fst s)"
  by (induction js arbitrary: s) (simp_all add: par_move_rank(1))

lemma par_run_rank:
  "i < length (fst s) \<Longrightarrow> child_rank (fst (foldl (par_move env E k wfn steps input) s js) ! i)
    \<le> child_rank (fst s ! i) - count_list js i"
proof (induction js arbitrary: s)
  case Nil
  then show ?case by simp
next
  case (Cons j js)
  let ?s = "par_move env E k wfn steps input s j"
  have "child_rank (fst (foldl (par_move env E k wfn steps input) ?s js) ! i)
      \<le> child_rank (fst ?s ! i) - count_list js i"
    by (rule Cons.IH) (simp add: par_move_rank(1) Cons.prems)
  then show ?case using par_move_rank(2) [OF Cons.prems, of env E k wfn steps input j]
    by (auto split: if_splits)
qed

lemma count_upt: "count_list [0..<n] i = (if i < n then 1 else 0)"
  by (induction n) auto

lemma count_rounds: "i < n \<Longrightarrow> count_list (concat (replicate m [0..<n])) i = m"
  by (induction m) (simp_all add: count_upt)

lemma child_rank_le: "child_rank c \<le> 5"
  by (cases c) simp_all

lemma child_rank_0: "child_rank c = 0 \<longleftrightarrow> (\<exists>err. c = Finished err)"
  by (cases c) simp_all

lemma par_all_finish:
  assumes "foldl (par_move env E k wfn steps input) (replicate (length steps) Fresh, [], r)
      (par_schedule env (length steps) r) = (cs, errs, r')"
  shows "length cs = length steps" and "i < length steps \<Longrightarrow> child_rank (cs ! i) = 0"
proof -
  let ?s = "(replicate (length steps) Fresh, [] :: error list, r)"
  note len = par_run_length [of env E k wfn steps input ?s "par_schedule env (length steps) r"]
  show "length cs = length steps" using len by (simp add: assms)
  show "child_rank (cs ! i) = 0" if "i < length steps"
  proof -
    have "5 \<le> count_list (par_schedule env (length steps) r) i"
      using that by (simp add: par_schedule_def count_rounds)
    then show ?thesis
      using par_run_rank [of i ?s env E k wfn steps input "par_schedule env (length steps) r"] that
      by (simp add: assms)
  qed
qed


section \<open>The contract of parallel and fan-out steps\<close>

definition child_ids :: "StepDefinition \<Rightarrow> string set" where
  "child_ids step = sdID ` set (sdChildren step)"

interpretation par_step: step_executor
  "\<lambda>step. executeParallelSteps env E k wfn (sdChildren step) input" child_ids
  for env :: env and E :: "'w Engine" and k wfn input
proof
  fix step j and r :: "'w run"
  let ?steps = "sdChildren step" and ?x = "executeParallelSteps env E k wfn (sdChildren step) input r"
  obtain cs errs r' where s: "foldl (par_move env E k wfn ?steps input)
      (replicate (length ?steps) Fresh, [], r) (par_schedule env (length ?steps) r) = (cs, errs, r')"
    by (metis prod_cases3)
  have x: "?x = (case errs of [] \<Rightarrow> None | err # _ \<Rightarrow> Some err, r')"
    by (simp add: executeParallelSteps_def s)
  have inv: "par_inv ?steps r (cs, errs, r')"
    using par_inv_run [OF par_inv_start [of ?steps r], of env E k wfn input "par_schedule env (length ?steps) r"]
    by (simp add: s)
  show "tRuns (rnDB (snd ?x)) = tRuns (rnDB r)" using inv by (simp add: x par_inv_def)
  show "rnSteps (snd ?x) j = rnSteps r j" "rnState (snd ?x) j = rnState r j" if "j \<notin> child_ids step"
    using inv that by (simp_all add: x par_inv_def child_ids_def)
  show "step_done j (rnSteps (snd ?x))" if none: "fst ?x = None" and j: "j \<in> child_ids step"
  proof -
    have errs: "errs = []" using none by (simp add: x split: list.splits)
    have fin: "cs ! i = Finished None" if i: "i < length ?steps" for i
    proof -
      obtain err where e: "cs ! i = Finished err" using par_all_finish(2) [OF s i] by (auto simp: child_rank_0)
      have "Finished (Some m) \<notin> set cs" for m using inv errs by (auto simp: par_inv_def)
      moreover have "cs ! i \<in> set cs" using par_all_finish(1) [OF s] i by simp
      ultimately show ?thesis using e by (cases err) auto
    qed
    obtain i where "i < length ?steps" "j = sdID (?steps ! i)"
      using j by (auto simp: child_ids_def in_set_conv_nth)
    then show ?thesis using inv fin by (auto simp: x par_inv_def)
  qed
qed

lemma run_items_simps [simp]:
  "rnDB (snd (run_items h k i input items js r)) = rnDB r"
  "rnState (snd (run_items h k i input items js r)) = rnState r"
  "rnSteps (snd (run_items h k i input items js r)) = rnSteps r"
  by (induction js arbitrary: r; simp add: split_beta split: sum.split)+

interpretation fan_out_step: step_executor "\<lambda>step. executeFanOutStep env E k wfn step input" own_id
  for env :: env and E :: "'w Engine" and k wfn input
proof
  fix step j and r :: "'w run"
  let ?r = "snd (executeFanOutStep env E k wfn step input r)"
  show "tRuns (rnDB ?r) = tRuns (rnDB r)"
    by (auto simp: executeFanOutStep_def Let_def split_beta split: option.split sum.split)
  show "rnSteps ?r j = rnSteps r j" and "rnState ?r j = rnState r j" if "j \<notin> own_id step"
    using that by (auto simp: executeFanOutStep_def Let_def split_beta split: option.split sum.split)
  show "step_done j (rnSteps ?r)"
    if "fst (executeFanOutStep env E k wfn step input r) = None" "j \<in> own_id step"
    using that by (auto simp: executeFanOutStep_def Let_def split_beta split: option.splits sum.splits)
qed

end
