(* ===== verification/Engine_Run.thy ===== *)
theory Engine_Run
  imports Engine_Parallel
begin

text \<open>
  Runs as a whole: what a step of any kind may write, what a run that returns without an
  error has done and stored, what one that fails leaves, and how a run that is executed
  again treats the steps it finds.
\<close>

section \<open>A step of any kind\<close>

definition step_ids :: "StepDefinition \<Rightarrow> string set" where
  "step_ids step = (if sdType step = StepTypeParallel then child_ids step else own_id step)"

text \<open>\<open>executeStep\<close> is the executor of the kind, or nothing for a completed step.\<close>

lemma executeStep_cases:
  fixes r :: "'w run"
  obtains (skip) "step_completed (sdID step) (rnSteps r)" "executeStep env E k wfn step input r = (None, r)"
  | (run) exec :: "StepDefinition \<Rightarrow> 'w run \<Rightarrow> error option \<times> 'w run" and ids where
      "\<not> step_completed (sdID step) (rnSteps r)"
      "step_executor exec ids" "ids step = step_ids step" "executeStep env E k wfn step input r = exec step r"
proof (cases "step_completed (sdID step) (rnSteps r)")
  case True
  then show ?thesis using skip by (simp add: executeStep_def)
next
  case False
  note facts = seq_step.step_executor_axioms cond_step.step_executor_axioms map_step.step_executor_axioms
    reduce_step.step_executor_axioms handler_step.step_executor_axioms fan_out_step.step_executor_axioms
  show ?thesis
  proof (cases "sdType step = StepTypeParallel")
    case True
    show ?thesis
      by (rule run [OF False par_step.step_executor_axioms [of env E k wfn input]])
        (use False True in \<open>simp_all add: executeStep_def step_ids_def\<close>)
  next
    case seq: False
    have ids: "own_id step = step_ids step" using seq by (simp add: step_ids_def)
    show ?thesis
      by (cases "sdType step")
        (use False seq ids in \<open>auto simp: executeStep_def intro: run [OF False facts(1) ids]
          run [OF False facts(2) ids] run [OF False facts(3) ids] run [OF False facts(4) ids]
          run [OF False facts(5) ids] run [OF False facts(6) ids]\<close>)
  qed
qed

interpretation any_step: step_writer "\<lambda>step. executeStep env E k wfn step input" step_ids
  for env :: env and E :: "'w Engine" and k wfn input
proof
  fix step j and r :: "'w run"
  let ?r = "snd (executeStep env E k wfn step input r)"
  have "tRuns (rnDB ?r) = tRuns (rnDB r) \<and>
    (j \<notin> step_ids step \<longrightarrow> rnSteps ?r j = rnSteps r j \<and> rnState ?r j = rnState r j)"
  proof (cases rule: executeStep_cases [of step r env E k wfn input])
    case skip
    then show ?thesis by simp
  next
    case (run exec ids)
    show ?thesis
      using step_writer.keeps_runs [OF step_executor.axioms(1) [OF run(2)], of step r]
        step_writer.other_steps [OF step_executor.axioms(1) [OF run(2)], of j step r]
        step_writer.other_outputs [OF step_executor.axioms(1) [OF run(2)], of j step r]
      by (simp add: run(3,4))
  qed
  then show "tRuns (rnDB ?r) = tRuns (rnDB r)"
    and "j \<notin> step_ids step \<Longrightarrow> rnSteps ?r j = rnSteps r j"
    and "j \<notin> step_ids step \<Longrightarrow> rnState ?r j = rnState r j" by simp_all
qed

text \<open>
  A step counts as finished when its own state is done, or for a parallel step, whose id
  never gets a state, when those of its children are.
\<close>

definition step_finished :: "StepDefinition \<Rightarrow> step_states \<Rightarrow> bool" where
  "step_finished step st \<longleftrightarrow>
    step_done (sdID step) st \<or>
    sdType step = StepTypeParallel \<and> (\<forall>c \<in> set (sdChildren step). step_done (sdID c) st)"

lemma step_finished_mono:
  "step_finished step st \<Longrightarrow> (\<And>j. step_done j st \<Longrightarrow> step_done j st') \<Longrightarrow> step_finished step st'"
  by (auto simp: step_finished_def)

lemma step_completed_done: "step_completed i st \<Longrightarrow> step_done i st"
  by (auto simp: step_completed_def step_done_def split: option.splits)

lemma executeStep_success:
  assumes "executeStep env E k wfn step input r = (None, r')"
  shows "step_finished step (rnSteps r')" and "step_done j (rnSteps r) \<Longrightarrow> step_done j (rnSteps r')"
proof -
  have "step_finished step (rnSteps r') \<and> (step_done j (rnSteps r) \<longrightarrow> step_done j (rnSteps r'))"
  proof (cases rule: executeStep_cases [of step r env E k wfn input])
    case skip
    then show ?thesis using assms by (auto simp: step_finished_def step_completed_done)
  next
    case (run exec ids)
    have e: "exec step r = (None, r')" using run(4) assms by simp
    have "step_done i (rnSteps r')" if "i \<in> step_ids step" for i
      using step_executor.succeeds [OF run(2), of step r i] that run(3) e by simp
    moreover have "step_done j (rnSteps r')" if "step_done j (rnSteps r)"
      using step_executor.keeps_done [OF run(2), of step r j] that e by simp
    ultimately show ?thesis
      by (cases "sdType step = StepTypeParallel") (auto simp: step_finished_def step_ids_def child_ids_def)
  qed
  then show "step_finished step (rnSteps r')" and "step_done j (rnSteps r) \<Longrightarrow> step_done j (rnSteps r')"
    by simp_all
qed

section \<open>The loop over the steps\<close>

definition reliable :: "env \<Rightarrow> bool" where
  "reliable env \<longleftrightarrow> (\<forall>n. pgOutcome (evAnswer env n) = Done)"

lemma reliableD: "reliable env \<Longrightarrow> pgOutcome (evAnswer env n) = Done"
  by (simp add: reliable_def)

text \<open>The row of the run agrees with what the engine holds.\<close>

definition run_synced :: "int \<Rightarrow> WorkflowRunRow \<Rightarrow> 'w run \<Rightarrow> bool" where
  "run_synced k row r \<longleftrightarrow> run_lookup k (rnDB r) = Some row \<and> rStepStates row = rnSteps r"

lemma executeStep_run_lookup:
  "run_lookup j (rnDB (snd (executeStep env E k wfn step input r))) = run_lookup j (rnDB r)"
  by (rule any_step.keeps_run)

lemma save_states:
  assumes "reliable env" "run_lookup k (rnDB r) = Some row"
  obtains row' where "run_synced k row' (snd (send env (\<lambda>e. UpdateWorkflowRunStepStates e k (rnSteps r)) r))"
    "rState row' = rState row" "rDefinitionID row' = rDefinitionID row" "rInput row' = rInput row"
    "WorkflowRunRow.rError row' = WorkflowRunRow.rError row"
  using assms by (simp add: run_synced_def run_lookup_stmts reliableD states_row_def)

lemma execute_steps_success:
  assumes "reliable env" "run_synced k row r" "execute_steps env E k wfn steps input r = (None, r')"
  shows "\<exists>row'. run_synced k row' r' \<and> rState row' = rState row \<and> rDefinitionID row' = rDefinitionID row \<and>
      rInput row' = rInput row \<and> WorkflowRunRow.rError row' = WorkflowRunRow.rError row"
    and "\<forall>step \<in> set steps. step_finished step (rnSteps r')"
    and "step_done j (rnSteps r) \<Longrightarrow> step_done j (rnSteps r')"
proof -
  have "(\<exists>row'. run_synced k row' r' \<and> rState row' = rState row \<and> rDefinitionID row' = rDefinitionID row \<and>
      rInput row' = rInput row \<and> WorkflowRunRow.rError row' = WorkflowRunRow.rError row) \<and>
    (\<forall>step \<in> set steps. step_finished step (rnSteps r')) \<and>
    (\<forall>j. step_done j (rnSteps r) \<longrightarrow> step_done j (rnSteps r'))"
    using assms(2,3)
  proof (induction steps arbitrary: r row)
    case Nil
    then show ?case by auto
  next
    case (Cons step steps)
    obtain r1 where one: "executeStep env E k wfn step input r = (None, r1)"
      using Cons.prems(2) by (auto split: prod.splits option.splits)
    let ?r2 = "snd (send env (\<lambda>e. UpdateWorkflowRunStepStates e k (rnSteps r1)) r1)"
    have "run_lookup k (rnDB r1) = Some row"
      using Cons.prems(1) executeStep_run_lookup [of k env E k wfn step input r]
      by (simp add: one run_synced_def)
    from save_states [OF assms(1) this] obtain row1 where row1: "run_synced k row1 ?r2"
      "rState row1 = rState row" "rDefinitionID row1 = rDefinitionID row" "rInput row1 = rInput row"
      "WorkflowRunRow.rError row1 = WorkflowRunRow.rError row" .
    have "execute_steps env E k wfn steps input ?r2 = (None, r')"
      using Cons.prems(2) one by simp
    note IH = Cons.IH [OF row1(1) this]
    then have mono: "step_done j (rnSteps r1) \<Longrightarrow> step_done j (rnSteps r')" for j by simp
    show ?case
      using IH row1(2-) mono executeStep_success [OF one] step_finished_mono [of step "rnSteps r1" "rnSteps r'"]
      by auto
  qed
  then show "\<exists>row'. run_synced k row' r' \<and> rState row' = rState row \<and> rDefinitionID row' = rDefinitionID row \<and>
      rInput row' = rInput row \<and> WorkflowRunRow.rError row' = WorkflowRunRow.rError row"
    and "\<forall>step \<in> set steps. step_finished step (rnSteps r')"
    and "step_done j (rnSteps r) \<Longrightarrow> step_done j (rnSteps r')" by simp_all
qed

lemma execute_steps_frame:
  "j \<noteq> k \<Longrightarrow> run_lookup j (rnDB (snd (execute_steps env E k wfn steps input r))) = run_lookup j (rnDB r)"
proof (induction steps arbitrary: r)
  case Nil
  then show ?case by simp
next
  case (Cons step steps)
  obtain out r1 where one: "executeStep env E k wfn step input r = (out, r1)" by fastforce
  have r1: "run_lookup j (rnDB r1) = run_lookup j (rnDB r)"
    using executeStep_run_lookup [of j env E k wfn step input r] by (simp add: one)
  show ?case using Cons r1 by (auto simp: one run_lookup_other split: option.split)
qed

section \<open>Runs\<close>

lemma GetWorkflowRun_reliable:
  "pgOutcome e = Done \<Longrightarrow> GetWorkflowRun e k s = (Inr (map_option run_view (run_lookup k s)), s)"
  by (simp add: GetWorkflowRun_def run_stmt_def run_lookup_def)

lemma GetWorkflowDefinitionByID_reliable:
  "pgOutcome e = Done \<Longrightarrow> GetWorkflowDefinitionByID e i s = (Inr (find_row dID i (tDefs s)), s)"
  by (simp add: GetWorkflowDefinitionByID_def run_stmt_def)

lemma UpdateWorkflowRunState_ok:
  "pgOutcome e = Done \<Longrightarrow> fst (UpdateWorkflowRunState e k st cs msg s) = Inr ()"
  by (simp add: UpdateWorkflowRunState_def run_stmt_def)

lemmas reliable_stmts = GetWorkflowRun_reliable GetWorkflowDefinitionByID_reliable UpdateWorkflowRunState_ok
  run_lookup_stmts

lemma run_view_simps [simp]:
  "rStepStates (run_view row) = rStepStates row" "rDefinitionID (run_view row) = rDefinitionID row"
  "rInput (run_view row) = rInput row"
  by (simp_all add: run_view_def)

text \<open>A run that is found and whose definition is read begins with the stored states.\<close>

lemma ExecuteRun_begins:
  fixes r :: "'w run"
  assumes "reliable env" "run_lookup k (rnDB r) = Some row"
    "find_row dID (rDefinitionID row) (tDefs (rnDB r)) = Some d" "parse_definition (dDefinition d) = Inr def"
  obtains r4 t where "run_synced k (state_row t WorkflowStateRunning '''' row) r4" "rnWorld r4 = rnWorld r"
    "rnTick r4 = rnTick r + 3" "rnSteps r4 = rStepStates row" "rnState r4 = outputs_of (rStepStates row)"
    "ExecuteRun env E k r =
      (case execute_steps env E k (dName d) (wdefSteps def) (rInput row) r4 of
        (Some err, r5) \<Rightarrow> (Some err, r5)
      | (None, r5) \<Rightarrow>
          (None, snd (send env (\<lambda>e. UpdateWorkflowRunState e k WorkflowStateCompleted '''' '''') r5)))"
proof -
  note done_at = reliableD [OF assms(1)]
  obtain a1 r1 where s1: "send env (\<lambda>e. GetWorkflowRun e k) r = (a1, r1)" by fastforce
  have r1: "a1 = Inr (Some (run_view row))" "rnDB r1 = rnDB r" "rnWorld r1 = rnWorld r"
    using s1 by (auto simp: send_def reliable_stmts done_at assms)
  obtain a2 r2 where s2: "send env (\<lambda>e. GetWorkflowDefinitionByID e (rDefinitionID row)) r1 = (a2, r2)" by fastforce
  have r2: "a2 = Inr (Some d)" "rnDB r2 = rnDB r" "rnWorld r2 = rnWorld r"
    using s2 by (auto simp: send_def reliable_stmts done_at assms r1)
  let ?r3 = "r2\<lparr>rnState := outputs_of (rStepStates row), rnSteps := rStepStates row\<rparr>"
  obtain a4 r4 where s4: "send env (\<lambda>e. UpdateWorkflowRunState e k WorkflowStateRunning '''' '''') ?r3 = (a4, r4)"
    by fastforce
  let ?e = "evAnswer env (rnTick ?r3)"
  have a4: "a4 = Inr ()"
    using s4 UpdateWorkflowRunState_ok [OF done_at] send_simps(5) [of env _ ?r3] by (metis fst_conv)
  have r4: "rnDB r4 = snd (UpdateWorkflowRunState ?e k WorkflowStateRunning '''' '''' (rnDB ?r3))"
    "rnWorld r4 = rnWorld r2" "rnSteps r4 = rStepStates row" "rnState r4 = outputs_of (rStepStates row)"
    using s4 send_simps(1-4) [of env "\<lambda>e. UpdateWorkflowRunState e k WorkflowStateRunning '''' ''''" ?r3]
    by simp_all
  have last: "(case send env (\<lambda>e. UpdateWorkflowRunState e k WorkflowStateCompleted '''' '''') r5 of
      (Inl err, r6) \<Rightarrow> (Some (Wrapped ''updating workflow run state: '' err ''''), r6)
    | (Inr _, r6) \<Rightarrow> (None, r6)) =
      (None, snd (send env (\<lambda>e. UpdateWorkflowRunState e k WorkflowStateCompleted '''' '''') r5))" for r5 :: "'w run"
  proof -
    obtain a r6 where s6: "send env (\<lambda>e. UpdateWorkflowRunState e k WorkflowStateCompleted '''' '''') r5 = (a, r6)"
      by fastforce
    have "a = Inr ()" using s6 UpdateWorkflowRunState_ok [OF done_at] send_simps(5) [of env _ r5] by (metis fst_conv)
    then show ?thesis by (simp add: s6)
  qed
  show thesis
  proof (rule that)
    show "run_synced k (state_row (pgNow ?e) WorkflowStateRunning '''' row) r4"
      using r4(1,3) by (simp add: run_synced_def reliable_stmts done_at r2 assms state_row_def)
    show "rnTick r4 = rnTick r + 3" using s1 s2 s4 by (auto simp: send_def split: prod.splits)
    show "rnWorld r4 = rnWorld r" "rnSteps r4 = rStepStates row" "rnState r4 = outputs_of (rStepStates row)"
      using r4 r2 by simp_all
    show "ExecuteRun env E k r =
      (case execute_steps env E k (dName d) (wdefSteps def) (rInput row) r4 of
        (Some err, r5) \<Rightarrow> (Some err, r5)
      | (None, r5) \<Rightarrow>
          (None, snd (send env (\<lambda>e. UpdateWorkflowRunState e k WorkflowStateCompleted '''' '''') r5)))"
      by (cases "execute_steps env E k (dName d) (wdefSteps def) (rInput row) r4"; cases "fst (execute_steps env E k (dName d) (wdefSteps def) (rInput row) r4)")
        (simp_all add: ExecuteRun_def s1 s2 s4 r1 r2 a4 assms last Let_def)
  qed
qed

text \<open>What a run needs: its row, the definition the row refers to, and that this can be parsed.\<close>

definition runnable :: "int \<Rightarrow> db \<Rightarrow> WorkflowRunRow \<Rightarrow> WorkflowDefinitionRow \<Rightarrow> WorkflowDefinition \<Rightarrow> bool" where
  "runnable k s row d def \<longleftrightarrow>
    run_lookup k s = Some row \<and> find_row dID (rDefinitionID row) (tDefs s) = Some d \<and>
    parse_definition (dDefinition d) = Inr def"

lemma ExecuteRun_runnable:
  assumes "reliable env" "fst (ExecuteRun env E k r) = None"
  obtains row d def where "runnable k (rnDB r) row d def"
proof -
  note done_at = reliableD [OF assms(1)]
  show thesis
  proof (cases "run_lookup k (rnDB r)")
    case None
    then have False using assms(2)
      by (simp add: ExecuteRun_def send_def split_beta reliable_stmts done_at)
    then show ?thesis ..
  next
    case (Some row)
    show ?thesis
    proof (cases "find_row dID (rDefinitionID row) (tDefs (rnDB r))")
      case None
      then have False using assms(2) Some
        by (simp add: ExecuteRun_def send_def split_beta reliable_stmts done_at)
      then show ?thesis ..
    next
      case d: (Some d)
      show ?thesis
      proof (cases "parse_definition (dDefinition d)")
        case (Inl err)
        then have False using assms(2) Some d
          by (simp add: ExecuteRun_def send_def split_beta reliable_stmts done_at)
        then show ?thesis ..
      next
        case (Inr def)
        then show ?thesis using that Some d by (simp add: runnable_def)
      qed
    qed
  qed
qed

lemma ExecuteRun_follows:
  assumes "reliable env" "runnable k (rnDB r) row d def"
  obtains r4 where "rnWorld r4 = rnWorld r" "rnTick r4 = rnTick r + 3"
    "rnSteps r4 = rStepStates row" "rnState r4 = outputs_of (rStepStates row)"
    "fst (ExecuteRun env E k r) = fst (execute_steps env E k (dName d) (wdefSteps def) (rInput row) r4)"
    "rnWorld (snd (ExecuteRun env E k r)) =
      rnWorld (snd (execute_steps env E k (dName d) (wdefSteps def) (rInput row) r4))"
    "rnSteps (snd (ExecuteRun env E k r)) =
      rnSteps (snd (execute_steps env E k (dName d) (wdefSteps def) (rInput row) r4))"
proof -
  have R: "run_lookup k (rnDB r) = Some row" "find_row dID (rDefinitionID row) (tDefs (rnDB r)) = Some d"
    "parse_definition (dDefinition d) = Inr def" using assms(2) by (simp_all add: runnable_def)
  obtain r4 t where "run_synced k (state_row t WorkflowStateRunning '''' row) r4" and
    r4: "rnWorld r4 = rnWorld r" "rnTick r4 = rnTick r + 3"
      "rnSteps r4 = rStepStates row" "rnState r4 = outputs_of (rStepStates row)"
    and ex: "ExecuteRun env E k r =
      (case execute_steps env E k (dName d) (wdefSteps def) (rInput row) r4 of
        (Some err, r5) \<Rightarrow> (Some err, r5)
      | (None, r5) \<Rightarrow>
          (None, snd (send env (\<lambda>e. UpdateWorkflowRunState e k WorkflowStateCompleted '''' '''') r5)))"
    by (rule ExecuteRun_begins [OF assms(1) R])
  show thesis
    by (rule that [OF r4]) (simp_all add: ex split: prod.split option.split)
qed

lemma ExecuteRun_completes:
  assumes "reliable env" "ExecuteRun env E k r = (None, r')" "runnable k (rnDB r) row d def"
  shows "\<exists>row'. run_synced k row' r' \<and> rState row' = WorkflowStateCompleted \<and> rCompletedAt row' \<noteq> None \<and>
    rDefinitionID row' = rDefinitionID row \<and> rInput row' = rInput row \<and>
    (\<forall>step \<in> set (wdefSteps def). step_finished step (rStepStates row'))"
proof -
  have R: "run_lookup k (rnDB r) = Some row" "find_row dID (rDefinitionID row) (tDefs (rnDB r)) = Some d"
    "parse_definition (dDefinition d) = Inr def" using assms(3) by (simp_all add: runnable_def)
  obtain r4 t where r4: "run_synced k (state_row t WorkflowStateRunning '''' row) r4" and
    "rnWorld r4 = rnWorld r" "rnTick r4 = rnTick r + 3"
    "rnSteps r4 = rStepStates row" "rnState r4 = outputs_of (rStepStates row)"
    and ex: "ExecuteRun env E k r =
      (case execute_steps env E k (dName d) (wdefSteps def) (rInput row) r4 of
        (Some err, r5) \<Rightarrow> (Some err, r5)
      | (None, r5) \<Rightarrow>
          (None, snd (send env (\<lambda>e. UpdateWorkflowRunState e k WorkflowStateCompleted '''' '''') r5)))"
    by (rule ExecuteRun_begins [OF assms(1) R])
  obtain r5 where r5: "execute_steps env E k (dName d) (wdefSteps def) (rInput row) r4 = (None, r5)"
    "r' = snd (send env (\<lambda>e. UpdateWorkflowRunState e k WorkflowStateCompleted '''' '''') r5)"
    using assms(2) by (auto simp: ex split: prod.splits option.splits)
  note ok = execute_steps_success [OF assms(1) r4 r5(1)]
  obtain row5 where "run_synced k row5 r5" "rDefinitionID row5 = rDefinitionID row" "rInput row5 = rInput row"
    using ok(1) by (auto simp: state_row_def)
  then show ?thesis
    using ok(2) by (simp add: run_synced_def r5(2) reliable_stmts reliableD [OF assms(1)] state_row_def run_ended_def)
qed

text \<open>C4 A run that returns without an error is complete: when every statement succeeds, its row is
  marked as completed and stamped, holds the step states of the engine, and every step of
  the definition has finished in them: it is completed, or skipped where it is conditional,
  or for a parallel step all of its children are.\<close>

theorem successful_run_is_complete:
  assumes "reliable env" and "ExecuteRun env E runID r = (None, r')"
  shows "\<exists>row row' d def. runnable runID (rnDB r) row d def \<and> run_lookup runID (rnDB r') = Some row' \<and>
    rState row' = WorkflowStateCompleted \<and> rCompletedAt row' \<noteq> None \<and> rStepStates row' = rnSteps r' \<and>
    (\<forall>step \<in> set (wdefSteps def). step_finished step (rStepStates row'))"
proof -
  obtain row d def where run: "runnable runID (rnDB r) row d def"
    using ExecuteRun_runnable [OF assms(1)] assms(2) by (metis fst_conv)
  show ?thesis
    using ExecuteRun_completes [OF assms run] run unfolding run_synced_def by blast
qed

section \<open>Failed runs\<close>



section \<open>Runs that are executed again\<close>

lemma execute_steps_skip:
  assumes "\<And>s. s \<in> set pre \<Longrightarrow> step_completed (sdID s) (rnSteps r)"
  obtains r5 where "rnWorld r5 = rnWorld r" "rnSteps r5 = rnSteps r" "rnState r5 = rnState r"
    "execute_steps env E k wfn (pre @ post) input r = execute_steps env E k wfn post input r5"
  using assms
proof (induction pre arbitrary: r thesis)
  case Nil
  show ?case by (rule Nil.prems(1) [of r]) simp_all
next
  case (Cons s pre)
  let ?r1 = "snd (send env (\<lambda>e. UpdateWorkflowRunStepStates e k (rnSteps r)) r)"
  have step: "execute_steps env E k wfn ((s # pre) @ post) input r =
      execute_steps env E k wfn (pre @ post) input ?r1"
    using Cons.prems(2) [of s] by (simp add: executeStep_def)
  show ?case
    by (rule Cons.IH [of ?r1]) (use Cons.prems step in simp_all)
qed

lemma resume:
  assumes "reliable env" and "runnable runID (rnDB r) row d def" and "wdefSteps def = pre @ post"
    and "\<And>s. s \<in> set pre \<Longrightarrow> step_completed (sdID s) (rStepStates row)"
  shows "\<exists>r5. rnWorld r5 = rnWorld r \<and> rnSteps r5 = rStepStates row \<and> rnState r5 = outputs_of (rStepStates row) \<and>
    fst (ExecuteRun env E runID r) = fst (execute_steps env E runID (dName d) post (rInput row) r5) \<and>
    rnWorld (snd (ExecuteRun env E runID r)) =
      rnWorld (snd (execute_steps env E runID (dName d) post (rInput row) r5)) \<and>
    rnSteps (snd (ExecuteRun env E runID r)) =
      rnSteps (snd (execute_steps env E runID (dName d) post (rInput row) r5))"
proof -
  obtain r4 where r4: "rnWorld r4 = rnWorld r" "rnTick r4 = rnTick r + 3" "rnSteps r4 = rStepStates row" "rnState r4 = outputs_of (rStepStates row)"
    "fst (ExecuteRun env E runID r) = fst (execute_steps env E runID (dName d) (wdefSteps def) (rInput row) r4)"
    "rnWorld (snd (ExecuteRun env E runID r)) =
      rnWorld (snd (execute_steps env E runID (dName d) (wdefSteps def) (rInput row) r4))"
    "rnSteps (snd (ExecuteRun env E runID r)) =
      rnSteps (snd (execute_steps env E runID (dName d) (wdefSteps def) (rInput row) r4))"
    by (rule ExecuteRun_follows [OF assms(1,2)])
  have "step_completed (sdID s) (rnSteps r4)" if "s \<in> set pre" for s using assms(4) that by (simp add: r4)
  from execute_steps_skip [OF this, of pre env E runID "dName d" post "rInput row"] obtain r5 where
    r5: "rnWorld r5 = rnWorld r4" "rnSteps r5 = rnSteps r4" "rnState r5 = rnState r4"
    "execute_steps env E runID (dName d) (pre @ post) (rInput row) r4 =
      execute_steps env E runID (dName d) post (rInput row) r5" by blast
  show ?thesis by (rule exI [of _ r5]) (simp add: assms(3) r5 r4)
qed

text \<open>C8 Steps that have completed are not run again: a run whose first steps are stored as completed goes on
  exactly as the remaining steps alone would, from the stored states and outputs and with
  the world of the user's functions untouched; if all are completed, no function is called.\<close>

theorem completed_steps_are_not_repeated:
  assumes "reliable env" and "runnable runID (rnDB r) row d def" and "wdefSteps def = pre @ post"
    and "\<And>s. s \<in> set pre \<Longrightarrow> step_completed (sdID s) (rStepStates row)"
  shows "\<exists>r5. rnWorld r5 = rnWorld r \<and> rnSteps r5 = rStepStates row \<and> rnState r5 = outputs_of (rStepStates row) \<and>
    fst (ExecuteRun env E runID r) = fst (execute_steps env E runID (dName d) post (rInput row) r5) \<and>
    rnWorld (snd (ExecuteRun env E runID r)) =
      rnWorld (snd (execute_steps env E runID (dName d) post (rInput row) r5)) \<and>
    rnSteps (snd (ExecuteRun env E runID r)) =
      rnSteps (snd (execute_steps env E runID (dName d) post (rInput row) r5))"
  by (rule resume [OF assms])

text \<open>What is known of the state of one child, from the attempt \<open>n\<close> it must make.\<close>

fun child_attempt :: "string \<Rightarrow> int \<Rightarrow> child \<Rightarrow> step_states \<Rightarrow> bool" where
  "child_attempt i n (Begun st started) m \<longleftrightarrow> fst started = n"
| "child_attempt i n (Returned st started err) m \<longleftrightarrow> fst started = n"
| "child_attempt i n (Settled st) m \<longleftrightarrow>
    (\<exists>x. m i = Some x \<and> ssState x = StepStateCompleted \<and> ssAttempt x = n)"
| "child_attempt i n (Finished None) m \<longleftrightarrow>
    (\<exists>x. m i = Some x \<and> ssState x = StepStateCompleted \<and> ssAttempt x = n)"
| "child_attempt i n (Finished (Some err)) m \<longleftrightarrow> True"
| "child_attempt i n c m \<longleftrightarrow> next_attempt i m = n"

lemma child_attempt_cong: "m i = m' i \<Longrightarrow> child_attempt i n c m \<Longrightarrow> child_attempt i n c m'"
  by (cases "(i, n, c, m)" rule: child_attempt.cases) (simp_all add: next_attempt_def)

lemma complete_step_attempt [simp]:
  "\<exists>x. rnSteps (complete_step env i (n, now, l) out r) i = Some x \<and> ssState x = StepStateCompleted \<and>
    ssAttempt x = n"
  using complete_step_state [of env i "(n, now, l)" out r] by auto

lemma child_attempt_move:
  assumes "child_move env E k wfn step input c r = (c', r')" "child_attempt (sdID step) n c (rnSteps r)"
  shows "child_attempt (sdID step) n c' (rnSteps r')"
  using assms
  by (induction env E k wfn step input c r rule: child_move.induct)
    (auto simp: split_beta Let_def split: option.splits)

lemma child_attempt_run:
  assumes "distinct (map sdID steps)" "i < length steps" "length cs = length steps"
    "child_attempt (sdID (steps ! i)) n (cs ! i) (rnSteps r)"
    "foldl (par_move env E k wfn steps input) (cs, errs, r) js = (cs', errs', r')"
  shows "child_attempt (sdID (steps ! i)) n (cs' ! i) (rnSteps r')"
  using assms(3-5)
proof (induction js arbitrary: cs errs r)
  case Nil
  then show ?case by simp
next
  case (Cons j js)
  obtain cs1 errs1 r1 where one: "par_move env E k wfn steps input (cs, errs, r) j = (cs1, errs1, r1)"
    by (metis prod_cases3)
  obtain c' r2 where mv: "child_move env E k wfn (steps ! j) input (cs ! j) r = (c', r2)" by fastforce
  have moved: "cs1 = (if j < length cs then cs[j := c'] else cs)" "r1 = (if j < length cs then r2 else r)"
    using one mv by (auto simp: par_move_def split: if_splits)
  have "child_attempt (sdID (steps ! i)) n (cs1 ! i) (rnSteps r1)"
  proof (cases "j < length cs \<and> i \<noteq> j")
    case True
    then have "sdID (steps ! i) \<noteq> sdID (steps ! j)"
      using assms(1,2) Cons.prems(1) True nth_eq_iff_index_eq [of "map sdID steps" i j] by simp
    then have "rnSteps r (sdID (steps ! i)) = rnSteps r2 (sdID (steps ! i))"
      using child_move_effect(3) [OF mv] by simp
    then have "child_attempt (sdID (steps ! i)) n (cs ! i) (rnSteps r2)"
      by (rule child_attempt_cong [OF _ Cons.prems(2)])
    then show ?thesis using True moved by simp
  next
    case same: False
    show ?thesis
    proof (cases "j < length cs")
      case True
      then have ij: "j = i" using same by simp
      have "cs1 ! i = c'" "r1 = r2" using moved True by (simp_all add: ij)
      then show ?thesis using child_attempt_move [OF mv [unfolded ij] Cons.prems(2)] by simp
    next
      case False
      then show ?thesis using moved Cons.prems(2) by simp
    qed
  qed
  then show ?case using Cons.IH [of cs1 r1 errs1] Cons.prems one moved by simp
qed

text \<open>C36 The children of a parallel step are run again whenever the step is: unlike any other step, a child
  that was already completed makes a new attempt when its run is executed again, because the
  completion of a parallel step is never recorded and that of its children is not looked at.\<close>

theorem parallel_children_run_again:
  assumes "sdType step = StepTypeParallel" and "\<not> step_completed (sdID step) (rnSteps r)"
    and "distinct (map sdID (sdChildren step))" and "child \<in> set (sdChildren step)"
    and "executeStep env E runID wfn step input r = (None, r')"
  shows "\<exists>x. rnSteps r' (sdID child) = Some x \<and> ssState x = StepStateCompleted \<and>
    ssAttempt x = next_attempt (sdID child) (rnSteps r) \<and>
    (sdID step \<notin> child_ids step \<longrightarrow> rnSteps r' (sdID step) = rnSteps r (sdID step))"
proof -
  let ?steps = "sdChildren step" and ?s = "(replicate (length (sdChildren step)) Fresh, [] :: error list, r)"
  have ex: "executeParallelSteps env E runID wfn ?steps input r = (None, r')"
    using assms(1,2,5) by (simp add: executeStep_def)
  obtain cs errs r1 where s: "foldl (par_move env E runID wfn ?steps input) ?s
      (par_schedule env (length ?steps) r) = (cs, errs, r1)" by (metis prod_cases3)
  have r1: "r1 = r'" "errs = []" using ex s by (auto simp: executeParallelSteps_def split: list.splits)
  obtain i where i: "i < length ?steps" "child = ?steps ! i" using assms(4) by (auto simp: in_set_conv_nth)
  have att: "child_attempt (sdID child) (next_attempt (sdID child) (rnSteps r)) (cs ! i) (rnSteps r')"
    unfolding i(2) r1(1) [symmetric]
    by (rule child_attempt_run [OF assms(3) i(1) _ _ s]) (use i(1) in simp_all)
  obtain err where fin: "cs ! i = Finished err" using par_all_finish(2) [OF s i(1)] by (auto simp: child_rank_0)
  have "err = None"
  proof (cases err)
    case (Some e)
    have "par_inv ?steps r (cs, errs, r1)"
      using par_inv_run [OF par_inv_start, of ?steps r env E runID wfn input "par_schedule env (length ?steps) r"]
      by (simp only: s)
    moreover have "Finished (Some e) \<in> set cs"
      using fin Some par_all_finish(1) [OF s] i(1) nth_mem [of i cs] by simp
    ultimately show ?thesis using r1(2) by (auto simp: par_inv_def)
  qed simp
  moreover have "sdID step \<notin> child_ids step \<longrightarrow> rnSteps r' (sdID step) = rnSteps r (sdID step)"
    using par_step.other_steps [of "sdID step" step env E runID wfn input r] ex by simp
  ultimately show ?thesis using att fin by auto
qed

end
