(* ===== verification/Engine_Outputs.thy ===== *)
theory Engine_Outputs
  imports Engine_Run
begin

text \<open>
  What becomes of the outputs: the results of a fan-out are in the order of its items, an
  output is only written by the step it belongs to, and so a reduce step whose source is a
  parallel step can never find one.
\<close>

section \<open>Fan-out\<close>

lemma run_items_results:
  assumes "\<And>c x j w. fst (fhMap h c x j w) = g x j"
  shows "fst (run_items h k i input items js r) = (None, res) \<Longrightarrow> j \<in> set js \<Longrightarrow>
    \<exists>v. g (items ! j) j = Inr v \<and> res j = Some v"
proof (induction js arbitrary: r res)
  case Nil
  then show ?case by simp
next
  case (Cons j0 js)
  obtain a r1 where a: "call (fhMap h (context_of k (i @ ''['' @ digits (int j0) @ '']'') '''' input r) (items ! j0) j0) r
      = (a, r1)" by fastforce
  have ga: "a = g (items ! j0) j0"
    using a assms call_simps(5) by (metis fst_conv)
  obtain err res1 r2 where rest: "run_items h k i input items js r1 = ((err, res1), r2)"
    by (metis prod.collapse)
  obtain v where v: "a = Inr v" "err = None" "res = res1(j0 \<mapsto> v)"
    using Cons.prems(1) [unfolded run_items.simps a] by (cases a) (auto simp: rest)
  show ?case
  proof (cases "j = j0")
    case True
    then show ?thesis using v ga by simp
  next
    case False
    then show ?thesis using Cons.IH [of r1 res1] Cons.prems(2) v rest by simp
  qed
qed

lemma collect_InrD: "collect xs = Inr ys \<Longrightarrow> xs = map Inr ys"
  by (induction xs arbitrary: ys rule: collect.induct) (auto split: sum.splits)

lemma marshal_results_InrD:
  assumes "marshal_results n res = Inr v"
  shows "\<exists>vs. v = JArr vs \<and> length vs = n \<and>
    (\<forall>j < n. (case res j of Some x \<Rightarrow> x | None \<Rightarrow> Inr JNull) = Inr (vs ! j))"
proof -
  let ?xs = "map (\<lambda>j. case res j of Some x \<Rightarrow> x | None \<Rightarrow> Inr JNull) [0..<n]"
  obtain vs where vs: "collect ?xs = Inr vs" "v = JArr vs"
    using assms by (auto simp: marshal_results_def map_sum_def split: sum.splits)
  have eq: "?xs = map Inr vs" by (rule collect_InrD [OF vs(1)])
  have "length vs = n" using arg_cong [OF eq, of length] by (simp del: map_eq_conv)
  moreover have "(case res j of Some x \<Rightarrow> x | None \<Rightarrow> Inr JNull) = Inr (vs ! j)" if "j < n" for j
    using arg_cong [OF eq, of "\<lambda>l. l ! j"] that \<open>length vs = n\<close> by simp
  ultimately show ?thesis using vs(2) by blast
qed

text \<open>C20 The results of a fan-out step are in the order of its items: in whatever order the goroutines
  finish, a fan-out that succeeds has run its function on every item, each without an error,
  and its output is the array of the results, that of item j at position j.\<close>

theorem fan_out_results_in_item_order:
  assumes "enFanOuts E (wfn, sdID step) = Some h"
    and "\<And>n js. mset (evOrder env n js) = mset js"
    and "\<And>c x j w. fst (fhMap h c x j w) = g x j"
    and "executeFanOutStep env E runID wfn step input r = (None, r')"
  shows "\<exists>c w items vs. fst (fhItems h c w) = Inr items \<and> length vs = length items \<and>
    (\<forall>j < length items. g (items ! j) j = Inr (Inr (vs ! j))) \<and>
    rnState r' (sdID step) = Some (Some (JArr vs))"
proof -
  let ?i = "sdID step"
  obtain now r1 where c1: "clock env r = (now, r1)" by fastforce
  let ?r2 = "set_step ?i (running_step 1 now) r1"
  let ?c = "context_of runID ?i '''' input ?r2"
  obtain a r3 where c3: "call (fhItems h ?c) ?r2 = (a, r3)" by fastforce
  note x = assms(4) [unfolded executeFanOutStep_def Let_def assms(1) option.case c1 prod.case c3]
  obtain items where items: "a = Inr items" using x by (cases a) auto
  have fst3: "fst (fhItems h ?c (rnWorld ?r2)) = Inr items"
    using c3 items call_simps(5) by (metis fst_conv)
  let ?js = "evOrder env (rnTick r3) [0..<length items]"
  obtain err res r4 where run: "run_items h runID ?i input items ?js r3 = ((err, res), r4)"
    by (metis prod.collapse)
  note y = x [unfolded items sum.case run prod.case]
  have err: "err = None" using y by (cases err) auto
  note z = y [unfolded err option.case]
  obtain v where v: "marshal_results (length items) res = Inr v"
    using z by (cases "marshal_results (length items) res") auto
  obtain ended r5 where c5: "clock env (set_output ?i (Some v) r4) = (ended, r5)" by fastforce
  have r': "r' = set_step ?i (completed_step 1 now ended (Some v)) r5"
    using z unfolding v sum.case c5 by simp
  then have out: "rnState r' ?i = Some (Some v)" using clock_pairD [OF c5] by simp
  obtain vs where vs: "v = JArr vs" "length vs = length items"
    "\<forall>j < length items. (case res j of Some x \<Rightarrow> x | None \<Rightarrow> Inr JNull) = Inr (vs ! j)"
    using marshal_results_InrD [OF v] by blast
  have "g (items ! j) j = Inr (Inr (vs ! j))" if j: "j < length items" for j
  proof -
    have "j \<in> set ?js" using mset_eq_setD [OF assms(2) [of "rnTick r3" "[0..<length items]"]] j by simp
    moreover have "fst (run_items h runID ?i input items ?js r3) = (None, res)" using run err by simp
    ultimately obtain x where "g (items ! j) j = Inr x" "res j = Some x"
      using run_items_results [OF assms(3)] by blast
    then show ?thesis using vs(3) j by auto
  qed
  then show ?thesis using fst3 vs out by blast
qed

section \<open>Outputs are written by their steps\<close>

lemma execute_steps_append:
  "execute_steps env E k wfn (xs @ ys) input r =
    (case execute_steps env E k wfn xs input r of
      (Some err, r1) \<Rightarrow> (Some err, r1) | (None, r1) \<Rightarrow> execute_steps env E k wfn ys input r1)"
  by (induction xs arbitrary: r) (simp_all split: prod.split option.split)

lemma execute_steps_outputs:
  "i \<notin> \<Union> (step_ids ` set steps) \<Longrightarrow>
    rnState (snd (execute_steps env E k wfn steps input r)) i = rnState r i \<and>
    rnSteps (snd (execute_steps env E k wfn steps input r)) i = rnSteps r i"
proof (induction steps arbitrary: r)
  case Nil
  then show ?case by simp
next
  case (Cons step steps)
  obtain out r1 where one: "executeStep env E k wfn step input r = (out, r1)" by fastforce
  have "rnState r1 i = rnState r i" "rnSteps r1 i = rnSteps r i"
    using Cons.prems any_step.other_outputs [of i step env E k wfn input r]
      any_step.other_steps [of i step env E k wfn input r] by (simp_all add: one)
  then show ?case using Cons by (cases out) (simp_all add: one)
qed

lemma reduce_without_source:
  assumes "sdType step = StepTypeReduce" "\<not> step_completed (sdID step) (rnSteps r)"
    "rnState r (sdSourceStepID step) = None"
  shows "fst (executeStep env E k wfn step input r) \<noteq> None"
  using assms by (simp add: executeStep_def executeReduceStep_def Let_def split: option.split)

lemma run_needs_sources:
  assumes "reliable env" "runnable k (rnDB r) row d def" "wdefSteps def = pre @ step # post"
    "sdType step = StepTypeReduce"
    "{sdID step, sdSourceStepID step} \<inter> \<Union> (step_ids ` set pre) = {}"
    "\<not> step_completed (sdID step) (rStepStates row)"
    "outputs_of (rStepStates row) (sdSourceStepID step) = None"
  shows "fst (ExecuteRun env E k r) \<noteq> None"
proof
  assume none: "fst (ExecuteRun env E k r) = None"
  obtain r4 where r4: "rnWorld r4 = rnWorld r" "rnTick r4 = rnTick r + 3" "rnSteps r4 = rStepStates row" "rnState r4 = outputs_of (rStepStates row)"
    "fst (ExecuteRun env E k r) = fst (execute_steps env E k (dName d) (wdefSteps def) (rInput row) r4)"
    by (rule ExecuteRun_follows [OF assms(1,2)])
  obtain err5 r5 where pre: "execute_steps env E k (dName d) pre (rInput row) r4 = (err5, r5)" by fastforce
  have r5: "rnState r5 (sdSourceStepID step) = None" "\<not> step_completed (sdID step) (rnSteps r5)"
    using execute_steps_outputs [of "sdSourceStepID step" pre env E k "dName d" "rInput row" r4]
      execute_steps_outputs [of "sdID step" pre env E k "dName d" "rInput row" r4] assms(5-7)
    by (auto simp: pre r4 step_completed_def)
  have "fst (execute_steps env E k (dName d) (wdefSteps def) (rInput row) r4) = None"
    using none r4(5) by simp
  then have "fst (executeStep env E k (dName d) step (rInput row) r5) = None"
    unfolding assms(3) execute_steps_append
    by (cases err5) (auto simp: pre split: prod.splits option.splits)
  then show False using reduce_without_source [OF assms(4) r5(2,1)] by blast
qed

text \<open>The ids a step of the builder may write, in the definition that is read from it.\<close>

lemma step_def_simps [simp]:
  "sdID (step_def st) = wsId st" "sdType (step_def st) = step_type_of (wsType st)"
  "sdSourceStepID (step_def (WorkflowStep i n stepTypeReduce h cs c r d fo m (Some x) hid)) = rcSourceStepID x"
  by (cases st; simp)+

lemma step_ids_def_names: "step_ids (step_def st) = set (step_names st)"
  by (cases st) (auto simp: step_ids_def child_ids_def own_id_def image_image elim: step_type_of.elims)

lemma Steps_ids: "\<Union> (step_ids ` set (wdefSteps (workflow_def w))) = set (Steps w)"
  by (simp add: workflow_def_def Steps_def step_ids_def_names image_image del: step_names.simps)

text \<open>C39 A reduce step right after a parallel step never succeeds: its source is the id of the parallel
  step, under which nothing ever puts an output (unless another step has taken that id), so
  the run of such a workflow ends with an error whatever its functions do.\<close>

theorem reduce_after_parallel_fails:
  fixes w :: "'w Workflow" and children :: "'w ParallelStep list"
  assumes "reliable env" and "runnable runID (rnDB r) row d def"
    and "dDefinition d = serializeWorkflowDefinition (Reduce i f (Parallel children w))"
    and "\<not> step_completed i (rStepStates row)"
    and "''parallel_'' @ digits (int (length (wfSteps w))) \<notin> dom (rStepStates row)"
    and "i \<notin> set (Steps (Parallel children w))"
    and "''parallel_'' @ digits (int (length (wfSteps w))) \<notin> set (Steps (Parallel children w))"
  shows "fst (ExecuteRun env E runID r) \<noteq> None"
proof -
  let ?w = "Reduce i f (Parallel children w)" and ?p = "''parallel_'' @ digits (int (length (wfSteps w)))"
  have "parse_definition (serializeWorkflowDefinition ?w) = Inr def"
    using assms(2,3) by (simp add: runnable_def)
  then have d: "def = workflow_def ?w" by (simp add: parse_serialized split: if_splits)
  let ?s = "step_def (WorkflowStep i i stepTypeReduce None [] None None 0 None None
    (Some \<lparr>rcSourceStepID = ?p, rcReduce = f\<rparr>) '''') :: StepDefinition"
  have steps: "wdefSteps def = wdefSteps (workflow_def (Parallel children w)) @ ?s # []"
    by (simp add: d workflow_def_def Reduce_def Parallel_def add_step_def Let_def del: step_def.simps)
  have ids: "sdID ?s = i" "sdSourceStepID ?s = ?p" "sdType ?s = StepTypeReduce" by simp_all
  have "?p \<notin> set (Steps (Parallel children w))" "i \<notin> set (Steps (Parallel children w))" using assms(6,7) by simp_all
  then have fresh: "{sdID ?s, sdSourceStepID ?s} \<inter> \<Union> (step_ids ` set (wdefSteps (workflow_def (Parallel children w)))) = {}"
    by (simp only: ids Steps_ids) simp
  have out: "outputs_of (rStepStates row) ?p = None"
    using assms(5) by (simp only: outputs_of_def domIff not_not option.case)
  show ?thesis
    by (rule run_needs_sources [OF assms(1,2) steps ids(3) fresh]) (simp_all only: ids assms(4) out not_False_eq_True)
qed

end
