(* ===== verification/Engine_Oblivious.thy ===== *)
theory Engine_Oblivious
  imports Engine_Outputs
begin

text \<open>
  The engine executes the steps of a run without looking at the database: every error of a
  statement in between is ignored, and the state of the run's row is not read again. Two
  executions that see the same clock and schedule do the same, whatever the database holds
  and answers.
\<close>

definition same_env :: "env \<Rightarrow> env \<Rightarrow> bool" where
  "same_env env env' \<longleftrightarrow> (\<forall>n. pgNow (evAnswer env n) = pgNow (evAnswer env' n)) \<and>
    evMoves env = evMoves env' \<and> evOrder env = evOrder env'"

text \<open>Two runs that differ in the database only.\<close>

definition same_run :: "'w run \<Rightarrow> 'w run \<Rightarrow> bool" where
  "same_run r q \<longleftrightarrow> q = r\<lparr>rnDB := rnDB q\<rparr>"

lemma same_run_iff:
  "same_run r q \<longleftrightarrow> rnTick r = rnTick q \<and> rnWorld r = rnWorld q \<and> rnState r = rnState q \<and> rnSteps r = rnSteps q"
  by (cases r, cases q) (auto simp: same_run_def)

lemma same_runD:
  "same_run r q \<Longrightarrow> rnTick q = rnTick r" "same_run r q \<Longrightarrow> rnWorld q = rnWorld r"
  "same_run r q \<Longrightarrow> rnState q = rnState r" "same_run r q \<Longrightarrow> rnSteps q = rnSteps r"
  by (simp_all add: same_run_iff)

text \<open>Two outcomes of an operation on runs.\<close>

definition same_out :: "('a \<Rightarrow> 'b \<Rightarrow> bool) \<Rightarrow> 'a \<times> 'w run \<Rightarrow> 'b \<times> 'w run \<Rightarrow> bool" where
  "same_out P x y \<longleftrightarrow> P (fst x) (fst y) \<and> same_run (snd x) (snd y)"

lemma same_clock:
  "same_env env env' \<Longrightarrow> same_run r q \<Longrightarrow> same_out (=) (clock env r) (clock env' q)"
  by (simp add: same_out_def clock_def same_env_def same_run_iff)

lemma send_tick [simp]: "rnTick (snd (send env st r)) = Suc (rnTick r)"
  by (simp add: send_def split: prod.split)

lemma same_send: "same_run r q \<Longrightarrow> same_run (snd (send env st r)) (snd (send env' st' q))"
  by (simp add: same_run_iff)

lemma same_set:
  "same_run r q \<Longrightarrow> same_run (set_step i x r) (set_step i x q)"
  "same_run r q \<Longrightarrow> same_run (set_output i out r) (set_output i out q)"
  by (simp_all add: same_run_iff set_step_def set_output_def)

lemma same_call: "same_run r q \<Longrightarrow> same_out (=) (call f r) (call f q)"
  by (simp add: same_out_def same_run_iff call_def split: prod.split)

lemma same_context: "same_run r q \<Longrightarrow> context_of k i prev input q = context_of k i prev input r"
  by (simp add: context_of_def same_run_iff)

text \<open>The id of the log is the only thing that comes back from the database.\<close>

definition same_start :: "int \<times> instant \<times> int \<Rightarrow> int \<times> instant \<times> int \<Rightarrow> bool" where
  "same_start a b \<longleftrightarrow> fst a = fst b \<and> fst (snd a) = fst (snd b)"

lemma same_begin:
  assumes "same_env env env'" "same_run r q"
  shows "same_out same_start (begin_step env E k i input r) (begin_step env' E k i input q)"
  using same_clock [OF assms] assms(2)
  by (auto simp: begin_step_def Let_def split_beta same_out_def same_start_def same_runD intro!: same_send same_set)

lemma same_fail:
  assumes "same_env env env'" "same_run r q" "same_start a b"
  shows "same_run (fail_step env i a err r) (fail_step env' i b err q)"
  using same_clock [OF assms(1,2)] assms(3)
  by (cases a; cases b) (auto simp: fail_step_def Let_def split_beta same_out_def same_start_def intro!: same_send same_set)

lemma same_complete:
  assumes "same_env env env'" "same_run r q" "same_start a b"
  shows "same_run (complete_step env i a out r) (complete_step env' i b out q)"
  using same_clock [OF assms(1,2)] assms(3)
  by (cases a; cases b) (auto simp: complete_step_def Let_def split_beta same_out_def same_start_def intro!: same_send same_set)

text \<open>The second of two outcomes, from the first.\<close>

lemma same_outE:
  assumes "same_out P x y"
  obtains a r b q where "x = (a, r)" "y = (b, q)" "P a b" "same_run r q"
  using assms by (cases x; cases y) (auto simp: same_out_def)

lemma same_call_pure:
  assumes "same_run r q"
  obtains a r' q' where "call f r = (a, r')" "call f q = (a, q')" "same_run r' q'"
  using same_call [OF assms, of f] by (auto elim!: same_outE)

lemma same_clock_pure:
  assumes "same_env env env'" "same_run r q"
  obtains t r' q' where "clock env r = (t, r')" "clock env' q = (t, q')" "same_run r' q'"
  using same_clock [OF assms] by (auto elim!: same_outE)

lemma same_sequential:
  assumes "same_env env env'" "same_run r q"
  shows "same_out (=) (executeSequentialStep env E k wfn step input r) (executeSequentialStep env' E k wfn step input q)"
proof (cases "enHandlers E (wfn, sdID step)")
  case None
  then show ?thesis using assms by (simp add: executeSequentialStep_def same_out_def)
next
  case (Some h)
  let ?i = "sdID step"
  obtain a r1 b q1 where s: "begin_step env E k ?i input r = (a, r1)" "begin_step env' E k ?i input q = (b, q1)"
    and ab: "same_start a b" and r1: "same_run r1 q1"
    using same_begin [OF assms, of E k ?i input] by (rule same_outE)
  obtain x r2 q2 where c: "call (h (context_of k ?i '''' input r1)) r1 = (x, r2)"
    "call (h (context_of k ?i '''' input r1)) q1 = (x, q2)" and r2: "same_run r2 q2"
    by (rule same_call_pure [OF r1])
  obtain err out where x: "x = (err, out)" by fastforce
  let ?f = "\<lambda>r2 :: 'a run. case out of None \<Rightarrow> r2 | Some v \<Rightarrow> set_output ?i (Some v) r2"
  have r3: "same_run (?f r2) (?f q2)" using r2 by (auto intro: same_set split: option.split)
  have out: "output_of ?i (rnState (?f q2)) = output_of ?i (rnState (?f r2))" by (simp only: same_runD [OF r3])
  show ?thesis
    using same_fail [OF assms(1) r3 ab, of ?i]
      same_complete [OF assms(1) r3 ab, of ?i "output_of ?i (rnState (?f r2))"] out
    by (cases err) (simp_all add: executeSequentialStep_def Let_def Some s same_context [OF r1] c x same_out_def)
qed

lemma same_conditional:
  assumes "same_env env env'" "same_run r q"
  shows "same_out (=) (executeConditionalStep env E k wfn step input r) (executeConditionalStep env' E k wfn step input q)"
proof (cases "enConditions E (wfn, sdID step)")
  case None
  then show ?thesis using assms by (simp add: executeConditionalStep_def same_out_def same_set)
next
  case (Some c)
  obtain b r1 q1 where x: "call (c (context_of k (sdID step) '''' input r)) r = (b, r1)"
    "call (c (context_of k (sdID step) '''' input r)) q = (b, q1)" and r1: "same_run r1 q1"
    by (rule same_call_pure [OF assms(2)])
  show ?thesis
    using same_sequential [OF assms(1) r1, of E k wfn step input]
    by (cases b) (simp_all add: executeConditionalStep_def Some same_context [OF assms(2)] x same_out_def same_set r1)
qed

lemma same_value:
  assumes "same_env env env'" "same_run r q" "\<And>r q. same_run r q \<Longrightarrow> same_out (=) (f r) (g q)"
  shows "same_out (=) (value_step env i failed marshal f r) (value_step env' i failed marshal g q)"
proof -
  obtain now r1 q1 where c: "clock env r = (now, r1)" "clock env' q = (now, q1)" and r1: "same_run r1 q1"
    by (rule same_clock_pure [OF assms(1,2)])
  have r2: "same_run (set_step i (running_step 1 now) r1) (set_step i (running_step 1 now) q1)"
    by (rule same_set(1) [OF r1])
  obtain a r3 b q3 where x: "f (set_step i (running_step 1 now) r1) = (a, r3)"
    "g (set_step i (running_step 1 now) q1) = (b, q3)" and ab: "a = b" and r3: "same_run r3 q3"
    using assms(3) [OF r2] by (rule same_outE)
  show ?thesis
  proof (cases a)
    case (Inl err)
    obtain t r4 q4 where "clock env r3 = (t, r4)" "clock env' q3 = (t, q4)" "same_run r4 q4"
      by (rule same_clock_pure [OF assms(1) r3])
    then show ?thesis using c x ab [symmetric] Inl by (simp add: value_step_def same_out_def same_set)
  next
    case (Inr v)
    show ?thesis
    proof (cases v)
      case (Inl err)
      then show ?thesis using c x ab [symmetric] Inr Inl r3 by (simp add: value_step_def same_out_def)
    next
      case v: (Inr j)
      obtain t r4 q4 where "clock env (set_output i (Some j) r3) = (t, r4)"
        "clock env' (set_output i (Some j) q3) = (t, q4)" "same_run r4 q4"
        by (rule same_clock_pure [OF assms(1) same_set(2) [OF r3]])
      then show ?thesis using c x ab [symmetric] Inr v by (simp add: value_step_def same_out_def same_set)
    qed
  qed
qed

lemma same_map:
  "same_env env env' \<Longrightarrow> same_run r q \<Longrightarrow>
    same_out (=) (executeMapStep env E k wfn step input r) (executeMapStep env' E k wfn step input q)"
  by (auto simp: executeMapStep_def Let_def same_out_def [of _ "(Some _, _)"] same_context
      intro!: same_value same_call split: option.split)

lemma same_reduce:
  "same_env env env' \<Longrightarrow> same_run r q \<Longrightarrow>
    same_out (=) (executeReduceStep env E k wfn step input r) (executeReduceStep env' E k wfn step input q)"
  by (auto simp: executeReduceStep_def Let_def same_out_def [of _ "(Some _, _)"] same_context same_runD
      intro!: same_value same_call split: option.split)

lemma same_handler:
  assumes "same_env env env'" "same_run r q"
  shows "same_out (=) (executeHandlerStep env E k wfn step input r) (executeHandlerStep env' E k wfn step input q)"
proof (cases "enExecutor E")
  case None
  then show ?thesis using assms by (simp add: executeHandlerStep_def same_out_def)
next
  case (Some ex)
  let ?i = "sdID step"
  obtain a r1 b q1 where s: "begin_step env E k ?i input r = (a, r1)" "begin_step env' E k ?i input q = (b, q1)"
    and ab: "same_start a b" and r1: "same_run r1 q1"
    using same_begin [OF assms, of E k ?i input] by (rule same_outE)
  obtain x r2 q2 where c: "call (ex (sdHandlerID step) input) r1 = (x, r2)"
    "call (ex (sdHandlerID step) input) q1 = (x, q2)" and r2: "same_run r2 q2"
    by (rule same_call_pure [OF r1])
  show ?thesis
  proof (cases x)
    case (Inl err)
    then show ?thesis using same_fail [OF assms(1) r2 ab, of ?i err]
      by (simp add: executeHandlerStep_def Let_def Some s c same_out_def)
  next
    case (Inr out)
    then show ?thesis using same_complete [OF assms(1) same_set(2) [OF r2, of ?i out] ab, of ?i out]
      by (simp add: executeHandlerStep_def Let_def Some s c same_out_def)
  qed
qed

lemma same_items:
  "same_run r q \<Longrightarrow>
    same_out (=) (run_items h k i input items js r) (run_items h k i input items js q)"
proof (induction js arbitrary: r q)
  case Nil
  then show ?case by (simp add: same_out_def)
next
  case (Cons j js)
  obtain a r1 q1 where c: "call (fhMap h (context_of k (i @ ''['' @ digits (int j) @ '']'') '''' input r) (items ! j) j) r = (a, r1)"
    "call (fhMap h (context_of k (i @ ''['' @ digits (int j) @ '']'') '''' input r) (items ! j) j) q = (a, q1)"
    and r1: "same_run r1 q1"
    by (rule same_call_pure [OF Cons.prems])
  obtain b r2 b' q2 where x: "run_items h k i input items js r1 = (b, r2)" "run_items h k i input items js q1 = (b', q2)"
    and b: "b = b'" and r2: "same_run r2 q2"
    using Cons.IH [OF r1] by (rule same_outE)
  show ?case
    unfolding run_items.simps same_context [OF Cons.prems] c prod.case x b
    using r2 by (simp add: same_out_def split_beta split: sum.split)
qed

lemma same_fan_out:
  assumes "same_env env env'" "same_run r q"
  shows "same_out (=) (executeFanOutStep env E k wfn step input r) (executeFanOutStep env' E k wfn step input q)"
proof (cases "enFanOuts E (wfn, sdID step)")
  case None
  then show ?thesis using assms by (simp add: executeFanOutStep_def same_out_def)
next
  case (Some h)
  let ?i = "sdID step"
  have fail: "same_run (case clock env r of (t, r') \<Rightarrow> set_step ?i (failed_step 1 now t msg) r')
      (case clock env' q of (t, q') \<Rightarrow> set_step ?i (failed_step 1 now t msg) q')"
    if "same_run r q" for r q :: "'a run" and now msg
    by (rule same_clock_pure [OF assms(1) that]) (simp add: same_set)
  obtain now r1 q1 where c: "clock env r = (now, r1)" "clock env' q = (now, q1)" and r1: "same_run r1 q1"
    by (rule same_clock_pure [OF assms])
  let ?r2 = "set_step ?i (running_step 1 now) r1" and ?q2 = "set_step ?i (running_step 1 now) q1"
  have r2: "same_run ?r2 ?q2" by (rule same_set(1) [OF r1])
  obtain a r3 q3 where x: "call (fhItems h (context_of k ?i '''' input ?r2)) ?r2 = (a, r3)"
    "call (fhItems h (context_of k ?i '''' input ?r2)) ?q2 = (a, q3)" and r3: "same_run r3 q3"
    by (rule same_call_pure [OF r2])
  note start = executeFanOutStep_def Let_def Some option.case c prod.case same_context [OF r2] x
  show ?thesis
  proof (cases a)
    case (Inl err)
    show ?thesis unfolding start Inl sum.case using fail [OF r3] by (simp add: same_out_def)
  next
    case (Inr items)
    let ?js = "evOrder env (rnTick r3) [0..<length items]"
    have js: "evOrder env' (rnTick q3) [0..<length items] = ?js"
      using assms(1) same_runD(1) [OF r3] by (simp add: same_env_def)
    obtain b r4 b' q4 where run: "run_items h k ?i input items ?js r3 = (b, r4)"
      "run_items h k ?i input items ?js q3 = (b', q4)" and b: "b = b'" and r4: "same_run r4 q4"
      using same_items [OF r3] by (rule same_outE)
    obtain err res where b': "b' = (err, res)" by fastforce
    note ran = start Inr sum.case js run b b' prod.case
    show ?thesis
    proof (cases err)
      case (Some e)
      show ?thesis unfolding ran Some option.case using fail [OF r4] by (simp add: same_out_def)
    next
      case None
      show ?thesis
      proof (cases "marshal_results (length items) res")
        case (Inl e)
        show ?thesis unfolding ran None option.case Inl sum.case using r4 by (simp add: same_out_def)
      next
        case v: (Inr v)
        obtain t r5 q5 where "clock env (set_output ?i (Some v) r4) = (t, r5)"
          "clock env' (set_output ?i (Some v) q4) = (t, q5)" "same_run r5 q5"
          by (rule same_clock_pure [OF assms(1) same_set(2) [OF r4]])
        then show ?thesis unfolding ran None option.case v sum.case by (simp add: same_out_def same_set)
      qed
    qed
  qed
qed

section \<open>Parallel steps\<close>

text \<open>Two children in the same phase, up to the ids of their logs.\<close>

fun same_child :: "child \<Rightarrow> child \<Rightarrow> bool" where
  "same_child (Begun st a) (Begun st' b) \<longleftrightarrow> st = st' \<and> same_start a b"
| "same_child (Returned st a err) (Returned st' b err') \<longleftrightarrow> st = st' \<and> same_start a b \<and> err = err'"
| "same_child c d \<longleftrightarrow> c = d"

lemma same_child_simps [simp]:
  "same_child Fresh d \<longleftrightarrow> d = Fresh" "same_child (Copied st) d \<longleftrightarrow> d = Copied st"
  "same_child (Settled st) d \<longleftrightarrow> d = Settled st" "same_child (Finished err) d \<longleftrightarrow> d = Finished err"
  "same_child (Begun st a) d \<longleftrightarrow> (\<exists>b. d = Begun st b \<and> same_start a b)"
  "same_child (Returned st a err) d \<longleftrightarrow> (\<exists>b. d = Returned st b err \<and> same_start a b)"
  by (cases d; auto)+

lemma same_move:
  assumes "same_env env env'" "same_run r q" "same_child c d"
  shows "same_out same_child (child_move env E k wfn step input c r) (child_move env' E k wfn step input d q)"
proof (cases c)
  case Fresh
  then show ?thesis using assms by (simp add: same_out_def same_runD)
next
  case (Copied st)
  obtain a r1 b q1 where "begin_step env E k (sdID step) input r = (a, r1)"
    "begin_step env' E k (sdID step) input q = (b, q1)" "same_start a b" "same_run r1 q1"
    using same_begin [OF assms(1,2), of E k "sdID step" input] by (rule same_outE)
  moreover have "d = Copied st" using Copied assms(3) by simp
  ultimately show ?thesis using Copied assms(2) by (simp add: same_out_def split: option.split)
next
  case (Begun st a)
  then obtain b where d: "d = Begun st b" "same_start a b" using assms(3) by auto
  show ?thesis
  proof (cases "enHandlers E (wfn, sdID step)")
    case None
    then show ?thesis using Begun d assms(2) by (simp add: same_out_def)
  next
    case (Some h)
    obtain x r1 q1 where "call (h \<lparr>cxRunID = k, cxStepID = sdID step, cxPreviousStepID = '''', cxInput = input,
        cxState = st\<rparr>) r = (x, r1)" "call (h \<lparr>cxRunID = k, cxStepID = sdID step, cxPreviousStepID = '''',
        cxInput = input, cxState = st\<rparr>) q = (x, q1)" "same_run r1 q1"
      by (rule same_call_pure [OF assms(2)])
    then show ?thesis using Begun d Some by (cases x) (simp add: same_out_def)
  qed
next
  case (Returned st a err)
  then obtain b where d: "d = Returned st b err" "same_start a b" using assms(3) by auto
  show ?thesis
    using Returned d same_fail [OF assms(1,2) d(2)] same_complete [OF assms(1,2) d(2)]
    by (cases err) (simp_all add: same_out_def)
next
  case (Settled st)
  moreover have "d = Settled st" using Settled assms(3) by simp
  ultimately show ?thesis using assms(2) by (simp add: same_out_def same_run_iff)
next
  case (Finished err)
  moreover have "d = Finished err" using Finished assms(3) by simp
  ultimately show ?thesis using assms(2) by (simp add: same_out_def)
qed

definition same_par :: "child list \<times> error list \<times> 'w run \<Rightarrow> child list \<times> error list \<times> 'w run \<Rightarrow> bool" where
  "same_par x y \<longleftrightarrow>
    list_all2 same_child (fst x) (fst y) \<and> fst (snd x) = fst (snd y) \<and> same_run (snd (snd x)) (snd (snd y))"

definition errs_after :: "child \<Rightarrow> child \<Rightarrow> error list \<Rightarrow> error list" where
  "errs_after old c errs =
    (case (old, c) of (Finished _, _) \<Rightarrow> errs | (_, Finished (Some err)) \<Rightarrow> errs @ [err] | _ \<Rightarrow> errs)"

lemma errs_after_same: "same_child c d \<Longrightarrow> same_child c' d' \<Longrightarrow> errs_after c c' errs = errs_after d d' errs"
  by (cases c; cases c') (auto simp: errs_after_def split: option.split)

lemma same_par_move:
  assumes "same_env env env'" "same_par x y"
  shows "same_par (par_move env E k wfn steps input x j) (par_move env' E k wfn steps input y j)"
proof -
  obtain cs errs r ds q where x: "x = (cs, errs, r)" and y: "y = (ds, errs, q)"
    and cd: "list_all2 same_child cs ds" and r: "same_run r q"
    using assms(2) by (cases x; cases y) (auto simp: same_par_def)
  show ?thesis
  proof (cases "j < length cs")
    case False
    then show ?thesis using assms(2) list_all2_lengthD [OF cd] by (simp add: par_move_def x y)
  next
    case True
    have c: "same_child (cs ! j) (ds ! j)" by (rule list_all2_nthD [OF cd True])
    obtain c' r' d' q' where mv: "child_move env E k wfn (steps ! j) input (cs ! j) r = (c', r')"
      "child_move env' E k wfn (steps ! j) input (ds ! j) q = (d', q')" "same_child c' d'" "same_run r' q'"
      using same_move [OF assms(1) r c, of E k wfn "steps ! j" input] by (rule same_outE)
    have "par_move env E k wfn steps input x j = (cs[j := c'], errs_after (cs ! j) c' errs, r')"
      "par_move env' E k wfn steps input y j = (ds[j := d'], errs_after (ds ! j) d' errs, q')"
      using True list_all2_lengthD [OF cd] by (simp_all add: par_move_def x y mv errs_after_def)
    then show ?thesis
      using mv(3,4) errs_after_same [OF c mv(3)] list_all2_update_cong [OF cd mv(3)]
      by (simp add: same_par_def)
  qed
qed

lemma same_par_run:
  "same_env env env' \<Longrightarrow> same_par x y \<Longrightarrow>
    same_par (foldl (par_move env E k wfn steps input) x js) (foldl (par_move env' E k wfn steps input) y js)"
  by (induction js arbitrary: x y) (simp_all add: same_par_move)

lemma same_parallel:
  assumes "same_env env env'" "same_run r q"
  shows "same_out (=) (executeParallelSteps env E k wfn steps input r) (executeParallelSteps env' E k wfn steps input q)"
proof -
  have sched: "par_schedule env' (length steps) q = par_schedule env (length steps) r"
    using assms by (simp add: par_schedule_def same_env_def same_run_iff)
  have start: "same_par (replicate (length steps) Fresh, [], r) (replicate (length steps) Fresh, [], q)"
    using assms(2) by (simp add: same_par_def list_all2_same)
  show ?thesis
    using same_par_run [OF assms(1) start, of E k wfn steps input "par_schedule env (length steps) r"]
    by (simp add: executeParallelSteps_def sched same_par_def same_out_def split_beta)
qed

section \<open>Runs\<close>

lemma same_step:
  "same_env env env' \<Longrightarrow> same_run r q \<Longrightarrow>
    same_out (=) (executeStep env E k wfn step input r) (executeStep env' E k wfn step input q)"
  by (simp add: executeStep_def same_runD same_out_def [of _ "(None, _)"] same_parallel same_conditional
      same_fan_out same_map same_reduce same_handler same_sequential split: StepType.split)

lemma same_execute:
  assumes "same_env env env'" and "same_run r q"
  shows "fst (execute_steps env E runID wfn steps input r) = fst (execute_steps env' E runID wfn steps input q) \<and>
    same_run (snd (execute_steps env E runID wfn steps input r)) (snd (execute_steps env' E runID wfn steps input q))"
  using assms(2)
proof (induction steps arbitrary: r q)
  case Nil
  then show ?case by simp
next
  case (Cons step steps)
  obtain out r1 out' q1 where x: "executeStep env E runID wfn step input r = (out, r1)"
    "executeStep env' E runID wfn step input q = (out', q1)" "out = out'" "same_run r1 q1"
    using same_step [OF assms(1) Cons.prems, of E runID wfn step input] by (rule same_outE)
  show ?case
  proof (cases out)
    case (Some err)
    then show ?thesis using x by (auto intro: same_send)
  next
    case None
    then show ?thesis using x Cons.IH [OF same_send [OF x(4)]] by (auto simp: same_runD [OF x(4)])
  qed
qed

text \<open>C31 The engine is blind to the database while it executes the steps of a run: with the same clock and
  the same scheduling, what the user's functions are called with and return, the steps'
  states and outputs and the outcome do not depend on what the database holds nor on whether
  the statements succeed. So the failure to store step states or logs goes unnoticed.\<close>

theorem execution_ignores_the_database:
  assumes "same_env env env'" and "same_run r q"
  shows "fst (execute_steps env E runID wfn steps input r) = fst (execute_steps env' E runID wfn steps input q) \<and>
    same_run (snd (execute_steps env E runID wfn steps input r)) (snd (execute_steps env' E runID wfn steps input q))"
  by (rule same_execute [OF assms])

end
