(* ===== verification/Client_Workflows.thy ===== *)
theory Client_Workflows
  imports Engine_Oblivious Enqueue
begin

text \<open>
  The client's operations on workflow runs (\<^verbatim>\<open>client.go\<close>): starting, reading,
  listing, cancelling and rerunning. Starting and rerunning hand the run to a goroutine
  that calls \<open>ExecuteRun\<close>, which is a step of its own here.
\<close>

section \<open>Reading runs\<close>

record WorkflowRun =
  wrID :: int
  wrWorkflowName :: string
  wrNamespace :: string
  wrState :: WorkflowState
  wrInput :: json
  wrOutput :: "json option"
  wrStepStates :: step_states
  wrCurrentStep :: string
  wrError :: string
  wrStartedAt :: "instant option"
  wrCompletedAt :: "instant option"
  wrCreatedAt :: instant
  wrUpdatedAt :: instant

definition workflowRunFromRow :: "WorkflowRunRow \<Rightarrow> string \<Rightarrow> WorkflowRun" where
  "workflowRunFromRow row name =
    \<lparr>wrID = rID row, wrWorkflowName = name, wrNamespace = rNamespace row, wrState = rState row,
     wrInput = rInput row, wrOutput = rOutput row, wrStepStates = rStepStates row, wrCurrentStep = '''',
     wrError = text_or_empty (WorkflowRunRow.rError row), wrStartedAt = rStartedAt row,
     wrCompletedAt = rCompletedAt row, wrCreatedAt = rCreatedAt row, wrUpdatedAt = rUpdatedAt row\<rparr>"

definition def_name :: "WorkflowDefinitionRow option \<Rightarrow> string" where
  "def_name d = (case d of None \<Rightarrow> '''' | Some x \<Rightarrow> dName x)"

definition GetWorkflowRun_client :: "env \<Rightarrow> int \<Rightarrow> 'w run \<Rightarrow> (error + WorkflowRun option) \<times> 'w run" where
  "GetWorkflowRun_client env i r =
    (case send env (\<lambda>e. GetWorkflowRun e i) r of
      (Inl err, r1) \<Rightarrow> (Inl err, r1)
    | (Inr None, r1) \<Rightarrow> (Inr None, r1)
    | (Inr (Some row), r1) \<Rightarrow>
        (case send env (\<lambda>e. GetWorkflowDefinitionByID e (rDefinitionID row)) r1 of
          (Inl err, r2) \<Rightarrow> (Inl err, r2)
        | (Inr d, r2) \<Rightarrow> (Inr (Some (workflowRunFromRow row (def_name d))), r2)))"

text \<open>In a list, an error of reading a definition leaves the name empty.\<close>

fun name_runs :: "env \<Rightarrow> WorkflowRunRow list \<Rightarrow> 'w run \<Rightarrow> WorkflowRun list \<times> 'w run" where
  "name_runs env [] r = ([], r)"
| "name_runs env (row # rows) r =
    (case send env (\<lambda>e. GetWorkflowDefinitionByID e (rDefinitionID row)) r of
      (d, r1) \<Rightarrow> (case name_runs env rows r1 of
        (runs, r2) \<Rightarrow>
          (workflowRunFromRow row (case d of Inl _ \<Rightarrow> '''' | Inr d \<Rightarrow> def_name d) # runs, r2)))"

definition ListWorkflowRuns_client ::
  "env \<Rightarrow> (WorkflowRunRow list \<Rightarrow> WorkflowRunRow list) \<Rightarrow> string \<Rightarrow> string \<Rightarrow> int \<Rightarrow> 'w run
    \<Rightarrow> (error + WorkflowRun list) \<times> 'w run" where
  "ListWorkflowRuns_client env ord ns st limit r =
    (case send env (\<lambda>e. ListWorkflowRuns ord e ns st limit) r of
      (Inl err, r1) \<Rightarrow> (Inl err, r1)
    | (Inr rows, r1) \<Rightarrow> map_prod Inr id (name_runs env rows r1))"

definition RegisteredWorkflows :: "(string \<rightharpoonup> 'w Workflow) \<Rightarrow> string set" where
  "RegisteredWorkflows wfs = dom wfs"

section \<open>Starting and cancelling\<close>

definition ErrWorkflowNotFound :: error where
  "ErrWorkflowNotFound = Sentinel 4 ''workflow not found''"

definition ErrWorkflowRunNotFound :: error where
  "ErrWorkflowRunNotFound = Sentinel 5 ''workflow run not found''"

definition pending_step :: "int \<Rightarrow> StepRunState" where
  "pending_step attempt =
    \<lparr>ssState = StepStatePending, ssOutput = None, ssError = '''', ssAttempt = attempt,
     ssStartedAt = None, ssCompletedAt = None\<rparr>"

fun initial_states :: "string list \<Rightarrow> step_states" where
  "initial_states [] = Map.empty"
| "initial_states (i # is) = (initial_states is)(i \<mapsto> pending_step 0)"

text \<open>The idempotency key of the parameters is not used.\<close>

definition StartWorkflow ::
  "env \<Rightarrow> string \<Rightarrow> (string \<rightharpoonup> 'w Workflow) \<Rightarrow> string \<Rightarrow> go_value \<Rightarrow> 'w run \<Rightarrow> (error + WorkflowRun) \<times> 'w run" where
  "StartWorkflow env ns wfs name input r =
    (case wfs name of
      None \<Rightarrow> (Inl (Wrapped '''' ErrWorkflowNotFound ('': '' @ name)), r)
    | Some w \<Rightarrow>
      (case input of
        Inl err \<Rightarrow> (Inl (Wrapped ''marshaling input: '' err ''''), r)
      | Inr inputJSON \<Rightarrow>
        (case send env (\<lambda>e. InsertWorkflowDefinition e (wfName w) ns (serializeWorkflowDefinition w)) r of
          (Inl err, r1) \<Rightarrow> (Inl (Wrapped ''inserting workflow definition: '' err ''''), r1)
        | (Inr d, r1) \<Rightarrow>
          (case send env (\<lambda>e. CreateWorkflowRun e (dID d) ns inputJSON (initial_states (Steps w))) r1 of
            (Inl err, r2) \<Rightarrow> (Inl (Wrapped ''creating workflow run: '' err ''''), r2)
          | (Inr row, r2) \<Rightarrow> (Inr (workflowRunFromRow row (wfName w)), r2)))))"

definition CancelWorkflowRun :: "pg \<Rightarrow> int \<Rightarrow> db \<Rightarrow> (error + unit) \<times> db" where
  "CancelWorkflowRun e i = UpdateWorkflowRunState e i WorkflowStateCancelled '''' ''cancelled by user''"

section \<open>Rerunning\<close>

fun step_index :: "string \<Rightarrow> string list \<Rightarrow> nat option" where
  "step_index i [] = None"
| "step_index i (x # xs) = (if x = i then Some 0 else map_option Suc (step_index i xs))"

definition rerun_states :: "string list \<Rightarrow> nat \<Rightarrow> step_states \<Rightarrow> step_states" where
  "rerun_states stepIDs stepIndex states i =
    map_option (\<lambda>st. if list_ex (\<lambda>sid. sid = i) (drop stepIndex stepIDs) then pending_step (ssAttempt st) else st)
      (states i)"

definition RerunWorkflowStep ::
  "env \<Rightarrow> (string \<rightharpoonup> 'w Workflow) \<Rightarrow> int \<Rightarrow> string \<Rightarrow> 'w run \<Rightarrow> error option \<times> 'w run" where
  "RerunWorkflowStep env wfs runID stepID r =
    (case GetWorkflowRun_client env runID r of
      (Inl err, r1) \<Rightarrow> (Some (Wrapped ''getting workflow run: '' err ''''), r1)
    | (Inr None, r1) \<Rightarrow> (Some ErrWorkflowRunNotFound, r1)
    | (Inr (Some run), r1) \<Rightarrow>
      if wrState run \<noteq> WorkflowStateFailed \<and> wrState run \<noteq> WorkflowStateCancelled
      then (Some (Errorf ''workflow must be in failed or cancelled state to rerun steps''), r1)
      else (case wfs (wrWorkflowName run) of
        None \<Rightarrow> (Some (Wrapped '''' ErrWorkflowNotFound ('': '' @ wrWorkflowName run)), r1)
      | Some w \<Rightarrow>
        (case step_index stepID (Steps w) of
          None \<Rightarrow> (Some (Errorf (''step not found: '' @ stepID)), r1)
        | Some stepIndex \<Rightarrow>
          (case send env (\<lambda>e. ResetWorkflowStepForRerun e runID
              (rerun_states (Steps w) stepIndex (wrStepStates run))) r1 of
            (Inl err, r2) \<Rightarrow> (Some (Wrapped ''resetting workflow step: '' err ''''), r2)
          | (Inr _, r2) \<Rightarrow> (None, r2)))))"

text \<open>The copy of a step log that the client returns has the same fields.\<close>

definition GetWorkflowStepLogs_client ::
  "(WorkflowStepLog list \<Rightarrow> WorkflowStepLog list) \<Rightarrow> pg \<Rightarrow> int \<Rightarrow> db \<Rightarrow> (error + WorkflowStepLog list) \<times> db" where
  "GetWorkflowStepLogs_client ord e runID s =
    (case GetWorkflowStepLogs ord e runID s of
      (Inl err, s') \<Rightarrow> (Inl err, s')
    | (Inr rows, s') \<Rightarrow> (Inr (map (\<lambda>row.
        \<lparr>sID = sID row, sWorkflowRunID = sWorkflowRunID row, sStepID = sStepID row, sAttempt = sAttempt row,
         sWorkerID = sWorkerID row, sStartedAt = sStartedAt row, sCompletedAt = sCompletedAt row,
         sDurationMs = sDurationMs row, sInput = sInput row, sOutput = sOutput row, sStatus = sStatus row,
         sError = sError row, sErrorStack = sErrorStack row, sLogs = sLogs row, sCreatedAt = sCreatedAt row\<rparr>) rows), s'))"

end
