(* ===== verification/Client_Workflow_Spec.thy ===== *)
theory Client_Workflow_Spec
  imports Client_Workflows
begin

text \<open>
  What the client's workflow operations achieve, together with the engine: a started run can
  be executed (unless its workflow has a timeout), a rerun repeats the steps from the named
  one on, and a cancelled run is executed all the same.
\<close>

section \<open>Starting\<close>

definition runs_wf :: "db \<Rightarrow> bool" where
  "runs_wf s \<longleftrightarrow> (\<forall>r \<in> set (tRuns s). rID r < seqRuns s)"

lemma create_run_InrD:
  assumes "CreateWorkflowRun e definitionID ns input states s = (Inr row, s')"
  shows "s' = s\<lparr>seqRuns := seqRuns s + 1, tRuns := tRuns s @ [row]\<rparr> \<and> rID row = seqRuns s \<and>
    rDefinitionID row = definitionID \<and> rNamespace row = ns \<and> rState row = WorkflowStatePending \<and>
    rInput row = input \<and> rStepStates row = states"
  using assms
  by (auto simp: CreateWorkflowRun_def run_stmt_def Let_def split: outcome.splits if_splits prod.splits sum.splits)

lemma insert_definition_runs:
  "InsertWorkflowDefinition e name ns def s = (Inr d, s') \<Longrightarrow>
    tRuns s' = tRuns s \<and> seqRuns s' = seqRuns s \<and> dName d = name"
  by (frule insert_definition_InrD)
    (auto split: option.splits dest: find_row_SomeD simp: def_key_def)

lemma StartWorkflow_InrD:
  assumes "StartWorkflow env ns wfs name input r = (Inr run, r')" "wfs name = Some w"
  obtains d s1 row inp where "input = Inr inp"
    "InsertWorkflowDefinition (evAnswer env (rnTick r)) (wfName w) ns (serializeWorkflowDefinition w) (rnDB r) = (Inr d, s1)"
    "CreateWorkflowRun (evAnswer env (Suc (rnTick r))) (dID d) ns inp (initial_states (Steps w)) s1 = (Inr row, rnDB r')"
    "run = workflowRunFromRow row (wfName w)" "rnWorld r' = rnWorld r"
  using assms
  by (auto simp: StartWorkflow_def send_def split: sum.splits prod.splits)

lemma started:
  assumes "defs_wf (rnDB r)" "runs_wf (rnDB r)" "wfs name = Some w"
    "StartWorkflow env ns wfs name input r = (Inr run, r')"
  obtains row d where "run_lookup (wrID run) (rnDB r') = Some row"
    "find_row dID (rDefinitionID row) (tDefs (rnDB r')) = Some d" "dName d = wfName w"
    "dDefinition d = serializeWorkflowDefinition w" "rState row = WorkflowStatePending" "Inr (rInput row) = input"
    "rStepStates row = initial_states (Steps w)" "run_lookup (wrID run) (rnDB r) = None"
proof -
  obtain d s1 row inp where inp: "input = Inr inp" and ins:
    "InsertWorkflowDefinition (evAnswer env (rnTick r)) (wfName w) ns (serializeWorkflowDefinition w) (rnDB r) = (Inr d, s1)"
    and cr: "CreateWorkflowRun (evAnswer env (Suc (rnTick r))) (dID d) ns inp (initial_states (Steps w)) s1 = (Inr row, rnDB r')"
    and run: "run = workflowRunFromRow row (wfName w)" by (rule StartWorkflow_InrD [OF assms(4,3)])
  note I = insert_definition_wf [OF assms(1) ins] insert_definition_runs [OF ins]
  note C = create_run_InrD [OF cr]
  have fresh: "run_lookup (seqRuns s1) (rnDB r) = None"
    using assms(2) I by (auto simp: run_lookup_def find_row_None_iff runs_wf_def)
  show thesis
  proof (rule that)
    show "run_lookup (wrID run) (rnDB r) = None" using fresh C by (simp add: run workflowRunFromRow_def)
    show "run_lookup (wrID run) (rnDB r') = Some row"
      using fresh C I by (simp add: run workflowRunFromRow_def run_lookup_def find_row_append)
    have "find_row dID (dID d) (tDefs s1) = Some d"
      using I(1,2) find_row_distinct [of dID "tDefs s1" d] by (simp add: defs_wf_def)
    then show "find_row dID (rDefinitionID row) (tDefs (rnDB r')) = Some d" using C by simp
  qed (use C I inp in simp_all)
qed


text \<open>C30 A workflow with a timeout starts but never runs: StartWorkflow reports success and leaves a
  pending run, and executing that run fails on its definition before anything is called or
  written, so that the run stays pending for ever.\<close>

theorem timed_workflow_never_runs:
  assumes "defs_wf (rnDB r)" and "runs_wf (rnDB r)" and "wfs name = Some w" and "workflow_timed w"
    and "StartWorkflow env ns wfs name input r = (Inr run, r')" and "reliable env'"
  shows "fst (ExecuteRun env' E (wrID run) r') = Some (Wrapped ''parsing workflow definition: '' type_error '''') \<and>
    rnDB (snd (ExecuteRun env' E (wrID run) r')) = rnDB r' \<and>
    rnWorld (snd (ExecuteRun env' E (wrID run) r')) = rnWorld r' \<and>
    map_option rState (run_lookup (wrID run) (rnDB r')) = Some WorkflowStatePending"
proof -
  obtain row d where "run_lookup (wrID run) (rnDB r') = Some row"
    "find_row dID (rDefinitionID row) (tDefs (rnDB r')) = Some d" "dName d = wfName w"
    "dDefinition d = serializeWorkflowDefinition w" "rState row = WorkflowStatePending" "Inr (rInput row) = input"
    "rStepStates row = initial_states (Steps w)" "run_lookup (wrID run) (rnDB r) = None"
    by (rule started [OF assms(1-3,5)])
  then show ?thesis
    using assms(4)
    by (simp add: ExecuteRun_def send_def reliable_stmts reliableD [OF assms(6)] parse_serialized)
qed

section \<open>Rerunning\<close>

lemma GetWorkflowRun_client_reliable:
  assumes "reliable env"
  shows "fst (GetWorkflowRun_client env k r) = Inr (map_option
      (\<lambda>row. workflowRunFromRow (run_view row) (def_name (find_row dID (rDefinitionID row) (tDefs (rnDB r)))))
      (run_lookup k (rnDB r))) \<and>
    rnDB (snd (GetWorkflowRun_client env k r)) = rnDB r \<and> rnWorld (snd (GetWorkflowRun_client env k r)) = rnWorld r"
  by (cases "run_lookup k (rnDB r)")
    (simp_all add: GetWorkflowRun_client_def send_def reliable_stmts reliableD [OF assms])

lemma step_index_SomeD: "step_index i xs = Some n \<Longrightarrow> n < length xs \<and> xs ! n = i \<and> i \<notin> set (take n xs)"
  by (induction xs arbitrary: n) (auto split: if_splits)


lemma run_view_row [simp]:
  "rState (run_view row) = rState row" "rID (run_view row) = rID row"
  by (simp_all add: run_view_def)

lemma workflowRunFromRow_simps [simp]:
  "wrState (workflowRunFromRow row n) = rState row" "wrStepStates (workflowRunFromRow row n) = rStepStates row"
  "wrWorkflowName (workflowRunFromRow row n) = n" "wrID (workflowRunFromRow row n) = rID row"
  by (simp_all add: workflowRunFromRow_def)


text \<open>A rerun is refused, and changes nothing, unless the run has failed or was cancelled.\<close>

theorem rerun_only_after_failure:
  assumes "reliable env" and "run_lookup runID (rnDB r) = Some row"
    and "rState row \<noteq> WorkflowStateFailed" and "rState row \<noteq> WorkflowStateCancelled"
  shows "fst (RerunWorkflowStep env wfs runID stepID r) =
      Some (Errorf ''workflow must be in failed or cancelled state to rerun steps'') \<and>
    rnDB (snd (RerunWorkflowStep env wfs runID stepID r)) = rnDB r"
proof -
  obtain x r1 where g: "GetWorkflowRun_client env runID r = (x, r1)" by fastforce
  show ?thesis
    using GetWorkflowRun_client_reliable [OF assms(1), of runID r] assms(2-4)
    by (auto simp: RerunWorkflowStep_def g)
qed



section \<open>Cancelling\<close>

text \<open>Two executions of a run whose rows differ in nothing that the engine reads.\<close>

lemma same_ExecuteRun:
  assumes "reliable env" "runnable k (rnDB r) row d def" "runnable k (rnDB q) row' d def"
    "same_run r q" "rStepStates row' = rStepStates row" "rInput row' = rInput row"
  shows "fst (ExecuteRun env E k q) = fst (ExecuteRun env E k r) \<and>
    rnWorld (snd (ExecuteRun env E k q)) = rnWorld (snd (ExecuteRun env E k r))"
proof -
  obtain r4 where r4: "rnWorld r4 = rnWorld r" "rnTick r4 = rnTick r + 3" "rnSteps r4 = rStepStates row"
    "rnState r4 = outputs_of (rStepStates row)"
    "fst (ExecuteRun env E k r) = fst (execute_steps env E k (dName d) (wdefSteps def) (rInput row) r4)"
    "rnWorld (snd (ExecuteRun env E k r)) =
      rnWorld (snd (execute_steps env E k (dName d) (wdefSteps def) (rInput row) r4))"
    by (rule ExecuteRun_follows [OF assms(1,2)])
  obtain q4 where q4: "rnWorld q4 = rnWorld q" "rnTick q4 = rnTick q + 3" "rnSteps q4 = rStepStates row'"
    "rnState q4 = outputs_of (rStepStates row')"
    "fst (ExecuteRun env E k q) = fst (execute_steps env E k (dName d) (wdefSteps def) (rInput row') q4)"
    "rnWorld (snd (ExecuteRun env E k q)) =
      rnWorld (snd (execute_steps env E k (dName d) (wdefSteps def) (rInput row') q4))"
    by (rule ExecuteRun_follows [OF assms(1,3)])
  have "same_env env env" by (simp add: same_env_def)
  moreover have "same_run r4 q4" using assms(4,5) r4 q4 by (simp add: same_run_iff)
  ultimately show ?thesis
    using same_execute [of env env r4 q4 E k "dName d" "wdefSteps def" "rInput row"] assms(6) r4 q4
    by (simp add: same_runD)
qed

text \<open>C33 Cancelling does not stop a run: a run that is executed after it was cancelled calls the same
  functions with the same outcome as if it had not been, and if it succeeds its row goes
  from cancelled to completed.\<close>

theorem cancelling_does_not_stop_a_run:
  assumes "reliable env" and "runnable runID (rnDB r) row d def"
    and "CancelWorkflowRun e runID (rnDB r) = (Inr (), s')"
  shows "map_option rState (run_lookup runID s') = Some WorkflowStateCancelled \<and>
    fst (ExecuteRun env E runID (r\<lparr>rnDB := s'\<rparr>)) = fst (ExecuteRun env E runID r) \<and>
    rnWorld (snd (ExecuteRun env E runID (r\<lparr>rnDB := s'\<rparr>))) = rnWorld (snd (ExecuteRun env E runID r)) \<and>
    (fst (ExecuteRun env E runID r) = None \<longrightarrow>
      map_option rState (run_lookup runID (rnDB (snd (ExecuteRun env E runID (r\<lparr>rnDB := s'\<rparr>))))) =
        Some WorkflowStateCompleted)"
proof -
  let ?q = "r\<lparr>rnDB := s'\<rparr>" and ?row = "state_row (pgNow e) WorkflowStateCancelled ''cancelled by user'' row"
  have "pgOutcome e = Done"
    using assms(3) by (cases "pgOutcome e") (simp_all add: CancelWorkflowRun_def UpdateWorkflowRunState_def run_stmt_def)
  moreover have "s' = snd (CancelWorkflowRun e runID (rnDB r))" using assms(3) by simp
  ultimately have e: "pgOutcome e = Done" "s' = snd (CancelWorkflowRun e runID (rnDB r))" by simp_all
  have look: "run_lookup runID s' = Some ?row" "tDefs s' = tDefs (rnDB r)"
    using assms(2) by (simp_all add: e(2) CancelWorkflowRun_def run_lookup_stmts e(1) runnable_def)
      (simp add: UpdateWorkflowRunState_def run_stmt_def e(1))
  have run: "runnable runID (rnDB ?q) ?row d def"
    using assms(2) look by (simp add: runnable_def state_row_def)
  have same: "fst (ExecuteRun env E runID ?q) = fst (ExecuteRun env E runID r) \<and>
      rnWorld (snd (ExecuteRun env E runID ?q)) = rnWorld (snd (ExecuteRun env E runID r))"
    by (rule same_ExecuteRun [OF assms(1,2) run]) (simp_all add: same_run_iff state_row_def)
  have "map_option rState (run_lookup runID (rnDB (snd (ExecuteRun env E runID ?q)))) = Some WorkflowStateCompleted"
    if "fst (ExecuteRun env E runID r) = None"
  proof -
    have "ExecuteRun env E runID ?q = (None, snd (ExecuteRun env E runID ?q))"
      using same that by (simp add: prod_eq_iff)
    from ExecuteRun_completes [OF assms(1) this run] show ?thesis by (auto simp: run_synced_def)
  qed
  then show ?thesis using same look(1) by (simp add: state_row_def)
qed

end
