(* ===== verification/Engine_Samples.thy ===== *)
theory Engine_Samples
  imports Engine_Oblivious
begin

text \<open>
  Runs on which the properties of the engine are evaluated. The world of the sample
  functions is the list of their calls; a function may fail when the world begins with
  ''stop''.
\<close>

section \<open>A workflow, its engine and its run\<close>

definition run_env :: "int \<Rightarrow> env" where
  "run_env t = \<lparr>evAnswer = (\<lambda>n. pg_at (t + int n)), evMoves = (\<lambda>_. [1, 0, 1, 1]), evOrder = (\<lambda>_ xs. rev xs)\<rparr>"

lemma run_env_reliable [simp]: "reliable (run_env t)"
  by (simp add: reliable_def run_env_def pg_at_def)

definition demo_map :: "string list wf_value" where
  "demo_map c w = (Inr (Inr (JArr [JNum 1, JNum 2])), w @ [''values''])"

definition demo_reduce :: "string list wf_value" where
  "demo_reduce c w =
    (if hd w = ''stop'' then (Inl (Errorf ''no''), w) else (map_sum id Inr (GetPreviousOutput c), w @ [''sum'']))"

definition demo_workflow :: "string list Workflow" where
  "demo_workflow = Reduce ''sum'' demo_reduce (Map_step ''values'' demo_map (NewWorkflow ''demo''))"

definition demo_engine :: "string list Engine" where
  "demo_engine = snd (RegisterWorkflow id demo_workflow (Map.empty, NewEngine ''ns''))"

definition def_row :: "json \<Rightarrow> WorkflowDefinitionRow" where
  "def_row def =
    \<lparr>dID = 1, dName = ''demo'', dVersion = 1, dNamespace = ''ns'', dDefinition = def, dCreatedAt = 1\<rparr>"

definition run_row :: "step_states \<Rightarrow> WorkflowRunRow" where
  "run_row states =
    \<lparr>rID = 1, rDefinitionID = 1, rNamespace = ''ns'', rState = WorkflowStatePending, rInput = JNum 5,
     rOutput = None, rStepStates = states, WorkflowRunRow.rError = None, rStartedAt = None,
     rCompletedAt = None, rCreatedAt = 2, rUpdatedAt = 2\<rparr>"

definition demo_db :: "json \<Rightarrow> step_states \<Rightarrow> db" where
  "demo_db def states =
    empty_db\<lparr>tDefs := [def_row def], seqDefs := 2, tRuns := [run_row states], seqRuns := 2\<rparr>"

definition new_run :: "db \<Rightarrow> 'w \<Rightarrow> 'w run" where
  "new_run d w = \<lparr>rnDB = d, rnTick = 0, rnWorld = w, rnState = Map.empty, rnSteps = Map.empty\<rparr>"

lemma new_run_simps [simp]:
  "rnDB (new_run d w) = d" "rnWorld (new_run d w) = w" "rnSteps (new_run d w) = Map.empty"
  by (simp_all add: new_run_def)

lemma demo_runnable:
  "\<not> workflow_timed w \<Longrightarrow>
    runnable 1 (demo_db (serializeWorkflowDefinition w) states) (run_row states)
      (def_row (serializeWorkflowDefinition w)) (workflow_def w)"
  by (simp add: runnable_def demo_db_def run_lookup_def find_row_def run_row_def def_row_def parse_serialized)

lemma demo_untimed: "\<not> workflow_timed demo_workflow"
  by code_simp

abbreviation demo_def :: json where
  "demo_def \<equiv> serializeWorkflowDefinition demo_workflow"

definition demo_steps :: "StepDefinition list" where
  "demo_steps =
    [StepDefinition ''values'' ''values'' StepTypeMap [] False 0 '''' '''',
     StepDefinition ''sum'' ''sum'' StepTypeReduce [] False 0 '''' ''values'']"

lemma demo_steps: "wdefSteps (workflow_def demo_workflow) = demo_steps"
  by code_simp

lemma demo_handlers:
  "enMaps demo_engine (''demo'', ''values'') = Some (wrap_value demo_map)"
  "enReduces demo_engine (''demo'', ''sum'') = Some (wrap_value demo_reduce)"
  by (simp_all add: demo_engine_def RegisterWorkflow_def demo_workflow_def Reduce_def Map_step_def add_step_def
      NewWorkflow_def register_if_def RegisterMap_def RegisterReduce_def NewEngine_def)

lemma demo_execution:
  assumes "rnSteps r = Map.empty" "rnState r = Map.empty"
  shows "rnWorld r = [] \<Longrightarrow> fst (execute_steps env demo_engine k ''demo'' demo_steps input r) = None"
    and "rnWorld r = [''stop''] \<Longrightarrow> fst (execute_steps env demo_engine k ''demo'' demo_steps input r) \<noteq> None"
  using assms
  by (simp_all add: demo_steps_def executeStep_def step_completed_def executeMapStep_def executeReduceStep_def
      value_step_def demo_handlers wrap_value_def demo_map_def demo_reduce_def split_beta Let_def
      GetPreviousOutput_def GetStepOutput_def read_output_def createWorkflowContext_def context_of_def)

text \<open>How the run of the workflow ends, by what the world says.\<close>

lemma demo_run:
  shows "fst (ExecuteRun (run_env t) demo_engine 1 (new_run (demo_db demo_def Map.empty) [])) = None"
    and "fst (ExecuteRun (run_env t) demo_engine 1 (new_run (demo_db demo_def Map.empty) [''stop''])) \<noteq> None"
proof -
  have ends: "fst (ExecuteRun (run_env t) demo_engine 1 (new_run (demo_db demo_def Map.empty) w)) = None \<longleftrightarrow> w = []"
    if "w \<in> {[], [''stop'']}" for w
  proof -
    have R: "runnable 1 (rnDB (new_run (demo_db demo_def Map.empty) w)) (run_row Map.empty) (def_row demo_def)
        (workflow_def demo_workflow)" using demo_runnable [OF demo_untimed] by simp
    obtain r4 where r4: "rnWorld r4 = rnWorld (new_run (demo_db demo_def Map.empty) w)"
      "rnTick r4 = rnTick (new_run (demo_db demo_def Map.empty) w) + 3"
      "rnSteps r4 = rStepStates (run_row Map.empty)" "rnState r4 = outputs_of (rStepStates (run_row Map.empty))"
      "fst (ExecuteRun (run_env t) demo_engine 1 (new_run (demo_db demo_def Map.empty) w)) =
        fst (execute_steps (run_env t) demo_engine 1 (dName (def_row demo_def)) (wdefSteps (workflow_def demo_workflow))
          (rInput (run_row Map.empty)) r4)"
      by (rule ExecuteRun_follows [OF run_env_reliable R])
    have "dName (def_row demo_def) = ''demo''" by (simp add: def_row_def)
    moreover have "rnSteps r4 = Map.empty" "rnState r4 = Map.empty"
      using r4 by (simp_all add: run_row_def outputs_of_def fun_eq_iff)
    note demo_execution [OF this, of "run_env t" 1 "rInput (run_row Map.empty)"]
    ultimately show ?thesis using that r4(1,5) by (auto simp: demo_steps)
  qed
  show "fst (ExecuteRun (run_env t) demo_engine 1 (new_run (demo_db demo_def Map.empty) [])) = None"
    "fst (ExecuteRun (run_env t) demo_engine 1 (new_run (demo_db demo_def Map.empty) [''stop''])) \<noteq> None"
    using ends [of "[]"] ends [of "[''stop'']"] by simp_all
qed

section \<open>The properties on the samples\<close>

theorem successful_run_is_complete_witness:
  "\<exists>r' row'. ExecuteRun (run_env 10) demo_engine 1 (new_run (demo_db demo_def Map.empty) []) = (None, r') \<and>
    run_lookup 1 (rnDB r') = Some row' \<and> rState row' = WorkflowStateCompleted \<and> rStepStates row' = rnSteps r'"
proof -
  obtain r' where x: "ExecuteRun (run_env 10) demo_engine 1 (new_run (demo_db demo_def Map.empty) []) = (None, r')"
    using demo_run(1) by (metis prod.collapse)
  show ?thesis using x successful_run_is_complete [OF run_env_reliable x] by blast
qed


definition half_done :: step_states where
  "half_done = [''values'' \<mapsto> completed_step 1 3 4 (Some (JArr [JNum 1, JNum 2]))]"

theorem completed_steps_are_not_repeated_witness:
  "\<exists>r5. rnWorld r5 = [''stop''] \<and> rnSteps r5 = half_done \<and>
    fst (ExecuteRun (run_env 10) demo_engine 1 (new_run (demo_db demo_def half_done) [''stop''])) =
    fst (execute_steps (run_env 10) demo_engine 1 ''demo'' (drop 1 demo_steps) (JNum 5) r5)"
proof -
  have R: "runnable 1 (rnDB (new_run (demo_db demo_def half_done) [''stop''])) (run_row half_done) (def_row demo_def)
      (workflow_def demo_workflow)" using demo_runnable [OF demo_untimed] by simp
  have split: "wdefSteps (workflow_def demo_workflow) = take 1 demo_steps @ drop 1 demo_steps"
    by (simp only: demo_steps append_take_drop_id)
  have finished: "step_completed (sdID s) (rStepStates (run_row half_done))" if "s \<in> set (take 1 demo_steps)" for s
    using that by (simp add: demo_steps_def step_completed_def run_row_def half_done_def completed_step_def)
  show ?thesis
    using completed_steps_are_not_repeated [OF run_env_reliable R split finished, where E = demo_engine]
    by (auto simp: run_row_def def_row_def)
qed

definition par_step :: StepDefinition where
  "par_step = StepDefinition ''parallel_0'' '''' StepTypeParallel
    [StepDefinition ''b'' ''B'' StepTypeSequential [] False 0 '''' '''',
     StepDefinition ''c'' ''C'' StepTypeSequential [] False 0 '''' ''''] False 0 '''' ''''"

definition par_engine :: "string list Engine" where
  "par_engine = RegisterStep ''demo'' ''b'' (\<lambda>c w. ((None, Some (JNum 1)), w @ [''b'']))
    (RegisterStep ''demo'' ''c'' (\<lambda>c w. ((None, Some (JNum 2)), w @ [''c''])) (NewEngine ''ns''))"

definition par_run :: "string list run" where
  "par_run = (new_run empty_db [])\<lparr>rnSteps := [''b'' \<mapsto> completed_step 1 3 4 None]\<rparr>"

theorem parallel_children_run_again_witness:
  "\<exists>r' x. executeStep (run_env 10) par_engine 1 ''demo'' par_step JNull par_run = (None, r') \<and>
    step_completed ''b'' (rnSteps par_run) \<and> rnSteps r' ''b'' = Some x \<and> ssAttempt x = 2"
proof -
  let ?x = "executeStep (run_env 10) par_engine 1 ''demo'' par_step JNull par_run"
  have "fst ?x = None" by code_simp
  then obtain r' where x: "?x = (None, r')" by (metis prod.collapse)
  have "sdType par_step = StepTypeParallel" "\<not> step_completed (sdID par_step) (rnSteps par_run)"
    "distinct (map sdID (sdChildren par_step))" by code_simp+
  moreover have "hd (sdChildren par_step) \<in> set (sdChildren par_step)" by (simp add: par_step_def)
  ultimately have "\<exists>x. rnSteps r' (sdID (hd (sdChildren par_step))) = Some x \<and>
      ssAttempt x = next_attempt (sdID (hd (sdChildren par_step))) (rnSteps par_run)"
    using parallel_children_run_again [OF _ _ _ _ x] by blast
  moreover have "sdID (hd (sdChildren par_step)) = ''b''" "next_attempt ''b'' (rnSteps par_run) = 2"
    "step_completed ''b'' (rnSteps par_run)" by code_simp+
  ultimately show ?thesis using x by simp
qed

definition fan_step :: StepDefinition where
  "fan_step = StepDefinition ''fan'' ''fan'' StepTypeFanOut [] False 0 '''' ''''"

definition fan_value :: "json \<Rightarrow> nat \<Rightarrow> error + go_value" where
  "fan_value x j = Inr (Inr (JArr [x, JNum (int j)]))"

definition fan_handler :: "string list FanOutHandler" where
  "fan_handler = \<lparr>fhItems = (\<lambda>c w. (Inr [JNum 7, JNum 8, JNum 9], w)),
    fhMap = (\<lambda>c x j w. (fan_value x j, w @ [digits (int j)])), fhMaxConcurrency = 2\<rparr>"

theorem fan_out_results_in_item_order_witness:
  "\<exists>r' vs. executeFanOutStep (run_env 10) (RegisterFanOut ''demo'' ''fan'' fan_handler (NewEngine ''ns'')) 1
      ''demo'' fan_step JNull (new_run empty_db []) = (None, r') \<and>
    length vs = 3 \<and> fan_value (JNum 8) 1 = Inr (Inr (vs ! 1)) \<and> rnState r' ''fan'' = Some (Some (JArr vs))"
proof -
  let ?E = "RegisterFanOut ''demo'' ''fan'' fan_handler (NewEngine ''ns'')"
  let ?x = "executeFanOutStep (run_env 10) ?E 1 ''demo'' fan_step JNull (new_run empty_db [])"
  have "fst ?x = None" by code_simp
  then obtain r' where x: "?x = (None, r')" by (metis prod.collapse)
  have id: "sdID fan_step = ''fan''" by (simp add: fan_step_def)
  have "enFanOuts ?E (''demo'', sdID fan_step) = Some fan_handler" by (simp add: RegisterFanOut_def id)
  from fan_out_results_in_item_order [OF this _ _ x, of fan_value] obtain c w items vs where
    r: "fst (fhItems fan_handler c w) = Inr items" "length vs = length items"
      "\<forall>j < length items. fan_value (items ! j) j = Inr (Inr (vs ! j))"
      "rnState r' (sdID fan_step) = Some (Some (JArr vs))"
    by (auto simp: run_env_def fan_handler_def)
  have items: "items = [JNum 7, JNum 8, JNum 9]" using r(1) by (simp add: fan_handler_def)
  have "fan_value (items ! 1) 1 = Inr (Inr (vs ! 1))" by (rule r(3) [rule_format]) (simp add: items)
  then show ?thesis using r(2,4) x items id by (intro exI [of _ r'] exI [of _ vs]) simp
qed

theorem reduce_after_parallel_fails_witness:
  "fst (ExecuteRun (run_env 10) demo_engine 1 (new_run (demo_db
    (serializeWorkflowDefinition (Reduce ''sum'' demo_reduce (Parallel [] (NewWorkflow ''demo'')))) Map.empty) [])) \<noteq> None"
proof -
  let ?w = "Reduce ''sum'' demo_reduce (Parallel [] (NewWorkflow ''demo''))"
  have "\<not> workflow_timed ?w" by code_simp
  then have R: "runnable 1 (rnDB (new_run (demo_db (serializeWorkflowDefinition ?w) Map.empty) []))
      (run_row Map.empty) (def_row (serializeWorkflowDefinition ?w)) (workflow_def ?w)"
    using demo_runnable by simp
  have "Steps (Parallel [] (NewWorkflow ''demo'' :: string list Workflow)) = []" by code_simp
  then show ?thesis
    by (intro reduce_after_parallel_fails [OF run_env_reliable R, of "''sum''" demo_reduce "[]" "NewWorkflow ''demo''"])
      (simp_all add: def_row_def run_row_def step_completed_def)
qed

text \<open>An environment in which the server refuses every statement.\<close>

definition refusing_env :: "int \<Rightarrow> env" where
  "refusing_env t = (run_env t)\<lparr>evAnswer :=
    (\<lambda>n. \<lparr>pgNow = t + int n, pgOutcome = Refused (Errorf ''connection refused''), pgLocked = []\<rparr>)\<rparr>"

theorem execution_ignores_the_database_witness:
  "fst (execute_steps (refusing_env 10) demo_engine 1 ''demo'' demo_steps (JNum 5) (new_run empty_db [])) = None"
proof -
  have "same_env (run_env 10) (refusing_env 10)"
    by (simp add: same_env_def refusing_env_def run_env_def pg_at_def)
  moreover have "same_run (new_run (demo_db demo_def Map.empty) []) (new_run empty_db ([] :: string list))"
    by (simp add: same_run_def new_run_def)
  ultimately have "fst (execute_steps (run_env 10) demo_engine 1 ''demo'' demo_steps (JNum 5)
        (new_run (demo_db demo_def Map.empty) [])) =
      fst (execute_steps (refusing_env 10) demo_engine 1 ''demo'' demo_steps (JNum 5) (new_run empty_db []))"
    using execution_ignores_the_database by blast
  then show ?thesis using demo_execution(1) [of "new_run (demo_db demo_def Map.empty) []"]
    by (simp add: new_run_def)
qed

end
