(* ===== verification/Client_Samples.thy ===== *)
theory Client_Samples
  imports Client_Workflow_Spec Engine_Samples
begin

text \<open>The properties of the client's workflow operations on the sample workflow.\<close>

lemma empty_wf: "defs_wf empty_db" "runs_wf empty_db"
  by (simp_all add: defs_wf_def runs_wf_def empty_db_def)

lemma sample_answer [simp]: "evAnswer (run_env t) n = pg_at (t + int n)"
  by (simp add: run_env_def)

lemma start_ok:
  "\<exists>run r'. StartWorkflow (run_env t) ''ns'' [''demo'' \<mapsto> w] ''demo'' (Inr (JNum 5)) (new_run empty_db wo) = (Inr run, r')"
  by (simp add: StartWorkflow_def send_def InsertWorkflowDefinition_def CreateWorkflowRun_def empty_db_def seq_max_def Let_def)


definition slow_workflow :: "string list Workflow" where
  "slow_workflow = Timeout 1500000000 demo_workflow"

theorem timed_workflow_never_runs_witness:
  "\<exists>run r'. StartWorkflow (run_env 1) ''ns'' [''demo'' \<mapsto> slow_workflow] ''demo'' (Inr (JNum 5))
      (new_run empty_db []) = (Inr run, r') \<and>
    fst (ExecuteRun (run_env 10) demo_engine (wrID run) r') =
      Some (Wrapped ''parsing workflow definition: '' type_error '''')"
proof -
  obtain run r' where x: "StartWorkflow (run_env 1) ''ns'' [''demo'' \<mapsto> slow_workflow] ''demo'' (Inr (JNum 5))
      (new_run empty_db []) = (Inr run, r')" using start_ok [of 1 slow_workflow "[]"] by (elim exE)
  have wf: "defs_wf (rnDB (new_run empty_db []))" "runs_wf (rnDB (new_run empty_db []))" by (simp_all add: empty_wf)
  have "workflow_timed slow_workflow" by (simp add: slow_workflow_def workflow_timed_def Timeout_def)
  then show ?thesis using timed_workflow_never_runs [OF wf _ _ x run_env_reliable] x by auto
qed

theorem rerun_only_after_failure_witness:
  "rnDB (snd (RerunWorkflowStep (run_env 10) [''demo'' \<mapsto> demo_workflow] 1 ''sum''
    (new_run (demo_db demo_def Map.empty) []))) = demo_db demo_def Map.empty"
  using rerun_only_after_failure [OF run_env_reliable, of 1 "new_run (demo_db demo_def Map.empty) []"
      "run_row Map.empty" 10 "[''demo'' \<mapsto> demo_workflow]" "''sum''"]
  by (simp add: run_lookup_def demo_db_def run_row_def)



theorem cancelling_does_not_stop_a_run_witness:
  "\<exists>s'. CancelWorkflowRun (pg_at 5) 1 (demo_db demo_def Map.empty) = (Inr (), s') \<and>
    map_option rState (run_lookup 1 s') = Some WorkflowStateCancelled \<and>
    map_option rState (run_lookup 1 (rnDB (snd (ExecuteRun (run_env 10) demo_engine 1
      ((new_run (demo_db demo_def Map.empty) [])\<lparr>rnDB := s'\<rparr>))))) = Some WorkflowStateCompleted"
proof -
  have R: "runnable 1 (rnDB (new_run (demo_db demo_def Map.empty) ([] :: string list))) (run_row Map.empty) (def_row demo_def)
      (workflow_def demo_workflow)" using demo_runnable [OF demo_untimed] by simp
  obtain s' where c: "CancelWorkflowRun (pg_at 5) 1 (rnDB (new_run (demo_db demo_def Map.empty) ([] :: string list))) = (Inr (), s')"
    by (simp add: CancelWorkflowRun_def UpdateWorkflowRunState_def)
  show ?thesis
    using cancelling_does_not_stop_a_run [OF run_env_reliable R c, of 10 demo_engine] demo_run(1) [of 10] c
    by (intro exI [of _ s']) simp
qed

end
