(* ===== verification/Engine_Pipeline.thy ===== *)
theory Engine_Pipeline
  imports Client_Samples
begin

text \<open>
  A workflow from end to end: built with the builder, registered, started, written as JSON,
  read back, executed and stored. A map step followed by a reduce step computes the reduction
  of what the map step returned.
\<close>

definition map_reduce :: "string \<Rightarrow> string \<Rightarrow> 'w wf_value \<Rightarrow> string \<Rightarrow> 'w wf_value \<Rightarrow> 'w Workflow" where
  "map_reduce name i f j g = Reduce j g (Map_step i f (NewWorkflow name))"

lemma map_reduce_simps:
  "wfName (map_reduce name i f j g) = name"
  "\<not> workflow_timed (map_reduce name i f j g)"
  "Steps (map_reduce name i f j g) = [i, j]"
  "wdefSteps (workflow_def (map_reduce name i f j g)) =
    [StepDefinition i i StepTypeMap [] False 0 '''' '''', StepDefinition j j StepTypeReduce [] False 0 '''' i]"
  by (simp_all add: map_reduce_def Reduce_def Map_step_def add_step_def NewWorkflow_def workflow_timed_def
      Steps_def workflow_def_def)

lemma map_reduce_handlers:
  assumes "i \<noteq> j"
  shows "enMaps (snd (RegisterWorkflow num (map_reduce name i f j g) c)) (name, i) = Some (wrap_value f)"
    and "enReduces (snd (RegisterWorkflow num (map_reduce name i f j g) c)) (name, j) = Some (wrap_value g)"
  using assms
  by (simp_all add: RegisterWorkflow_def map_reduce_def Reduce_def Map_step_def add_step_def NewWorkflow_def
      register_if_def RegisterMap_def RegisterReduce_def split: prod.split)

lemma initial_not_completed: "step_completed k (initial_states is) = False"
  by (induction "is") (auto simp: step_completed_def pending_step_def)

lemma outputs_of_initial: "outputs_of (initial_states is) = Map.empty"
proof
  fix k
  show "outputs_of (initial_states is) k = None"
    by (induction "is") (auto simp: outputs_of_def pending_step_def)
qed

text \<open>The two steps, executed from the states of a new run.\<close>

lemma set_step_steps [simp]:
  "rnSteps (set_step i x r) = (rnSteps r)(i \<mapsto> x)" "rnState (set_step i x r) = rnState r"
  "rnWorld (set_step i x r) = rnWorld r"
  by (simp_all add: set_step_def)

lemma set_output_state [simp]:
  "rnState (set_output i v r) = (rnState r)(i \<mapsto> v)" "rnSteps (set_output i v r) = rnSteps r"
  "rnWorld (set_output i v r) = rnWorld r"
  by (simp_all add: set_output_def)

lemma clock_frame [simp]:
  "rnState (snd (clock env r)) = rnState r" "rnSteps (snd (clock env r)) = rnSteps r"
  "rnWorld (snd (clock env r)) = rnWorld r"
  by (simp_all add: clock_def)

lemma value_step_ok:
  assumes "\<And>q. rnWorld q = rnWorld r \<Longrightarrow> rnState q = rnState r \<Longrightarrow> F q = (Inr (Inr v), q\<lparr>rnWorld := w\<rparr>)"
  shows "\<exists>r' t u. value_step env i failed marshal F r = (None, r') \<and> rnWorld r' = w \<and>
    rnState r' = (rnState r)(i \<mapsto> Some v) \<and> rnSteps r' = (rnSteps r)(i \<mapsto> completed_step 1 t u (Some v))"
  using assms by (simp add: value_step_def split_beta Let_def) (intro exI, rule refl)

lemma send_frame_run [simp]:
  "rnState (snd (send env st r)) = rnState r" "rnSteps (snd (send env st r)) = rnSteps r"
  "rnWorld (snd (send env st r)) = rnWorld r"
  by (simp_all add: send_def split: prod.split)

lemma map_reduce_execution:
  assumes "enMaps E (name, i) = Some (wrap_value f)" "enReduces E (name, j) = Some (wrap_value g)"
    and "i \<noteq> j" "i \<noteq> ''''" "\<not> step_completed i (rnSteps r)" "\<not> step_completed j (rnSteps r)"
    and "\<And>c. wcInput c = Some x \<Longrightarrow> f c (rnWorld r) = (Inr (Inr v), w1)"
    and "\<And>c. wcInput c = Some x \<Longrightarrow> GetPreviousOutput c = Inr v \<Longrightarrow> g c w1 = (Inr (Inr out), w2)"
  shows "\<exists>r' t u t' u'. execute_steps env E k name
      [StepDefinition i i StepTypeMap [] False 0 '''' '''', StepDefinition j j StepTypeReduce [] False 0 '''' i] x r =
      (None, r') \<and> rnWorld r' = w2 \<and>
    rnSteps r' = (rnSteps r)(i \<mapsto> completed_step 1 t u (Some v), j \<mapsto> completed_step 1 t' u' (Some out))"
proof -
  let ?m = "StepDefinition i i StepTypeMap [] False 0 '''' ''''" and ?d = "StepDefinition j j StepTypeReduce [] False 0 '''' i"
  let ?F = "\<lambda>r. call (wrap_value f (context_of k i '''' x r)) r" and ?G = "\<lambda>r. call (wrap_value g (context_of k j i x r)) r"
  have map_step: "executeStep env E k name ?m x r =
      value_step env i (''map step '' @ i @ '' failed: '') ''marshal map output: '' ?F r"
    using assms(1,5) by (simp only: executeStep_def executeMapStep_def StepDefinition.sel StepType.case Let_def
        if_False option.case)
  have "?F q = (Inr (Inr v), q\<lparr>rnWorld := w1\<rparr>)" if "rnWorld q = rnWorld r" for q
    using assms(7) that by (simp add: call_def wrap_value_def createWorkflowContext_def context_of_def)
  from value_step_ok [of r ?F v w1 env i "''map step '' @ i @ '' failed: ''" "''marshal map output: ''", OF this]
  obtain r1 t u where r1: "executeStep env E k name ?m x r = (None, r1)" "rnWorld r1 = w1"
    "rnState r1 = (rnState r)(i \<mapsto> Some v)" "rnSteps r1 = (rnSteps r)(i \<mapsto> completed_step 1 t u (Some v))"
    unfolding map_step by blast
  let ?r2 = "snd (send env (\<lambda>e. UpdateWorkflowRunStepStates e k (rnSteps r1)) r1)"
  have pending: "\<not> step_completed j (rnSteps ?r2)"
    using assms(3,6) by (simp add: r1 step_completed_def)
  have source: "rnState ?r2 i \<noteq> None" by (simp add: r1)
  have reduce_step: "executeStep env E k name ?d x ?r2 =
      value_step env j (''reduce step '' @ j @ '' failed: '') ''marshal reduce output: '' ?G ?r2"
    using assms(2) pending source by (simp only: executeStep_def executeReduceStep_def StepDefinition.sel
        StepType.case Let_def if_False option.case)
  have "?G q = (Inr (Inr out), q\<lparr>rnWorld := w2\<rparr>)" if "rnWorld q = rnWorld ?r2" "rnState q = rnState ?r2" for q
    using assms(4,8) that
    by (simp add: r1 call_def wrap_value_def createWorkflowContext_def context_of_def GetPreviousOutput_def
        GetStepOutput_def read_output_def)
  from value_step_ok [of ?r2 ?G out w2 env j "''reduce step '' @ j @ '' failed: ''" "''marshal reduce output: ''", OF this]
  obtain r3 t' u' where r3: "executeStep env E k name ?d x ?r2 = (None, r3)" "rnWorld r3 = w2"
    "rnSteps r3 = (rnSteps ?r2)(j \<mapsto> completed_step 1 t' u' (Some out))"
    unfolding reduce_step by blast
  show ?thesis using r1 r3 by auto
qed

lemma started_runnable:
  assumes "defs_wf (rnDB r)" "runs_wf (rnDB r)" "wfs name = Some w" "\<not> workflow_timed w"
    "StartWorkflow env ns wfs name (Inr x) r = (Inr run, r')"
  obtains row d where "runnable (wrID run) (rnDB r') row d (workflow_def w)" "dName d = wfName w" "rInput row = x"
    "rStepStates row = initial_states (Steps w)"
proof -
  obtain row d where "run_lookup (wrID run) (rnDB r') = Some row"
    "find_row dID (rDefinitionID row) (tDefs (rnDB r')) = Some d" "dName d = wfName w"
    "dDefinition d = serializeWorkflowDefinition w" "rState row = WorkflowStatePending" "(Inr (rInput row) :: go_value) = Inr x"
    "rStepStates row = initial_states (Steps w)" "run_lookup (wrID run) (rnDB r) = None"
    by (rule started [OF assms(1-3,5)])
  then show ?thesis using assms(4) by (intro that [of row d]) (simp_all add: runnable_def parse_serialized)
qed

text \<open>C7 A workflow of a map step and a reduce step computes what it says, from end to end: built, registered,
  started with an input and executed, with a server that answers during the execution, it calls
  the map function with that input, then the reduce function, which reads the result of the map
  function as its previous output; the run is stored as completed, with both steps completed, each
  with the value that its function returned.\<close>

theorem map_reduce_workflow_computes:
  assumes "defs_wf (rnDB r)" and "runs_wf (rnDB r)" and "reliable env'"
    and "i \<noteq> j" and "i \<noteq> ''''"
    and "RegisterWorkflow num (map_reduce name i f j g) c = (wfs, E)"
    and "StartWorkflow env ns wfs name (Inr x) r = (Inr run, r1)"
    and "\<And>cx. wcInput cx = Some x \<Longrightarrow> f cx (rnWorld r1) = (Inr (Inr v), w1)"
    and "\<And>cx. wcInput cx = Some x \<Longrightarrow> GetPreviousOutput cx = Inr v \<Longrightarrow> g cx w1 = (Inr (Inr out), w2)"
  shows "\<exists>r2 row. ExecuteRun env' E (wrID run) r1 = (None, r2) \<and> rnWorld r2 = w2 \<and>
    run_lookup (wrID run) (rnDB r2) = Some row \<and> rState row = WorkflowStateCompleted \<and>
    map_option ssOutput (rStepStates row i) = Some (Some v) \<and>
    map_option ssOutput (rStepStates row j) = Some (Some out) \<and>
    step_completed i (rStepStates row) \<and> step_completed j (rStepStates row)"
proof -
  let ?w = "map_reduce name i f j g"
  have "wfs = (fst c)(wfName ?w \<mapsto> ?w)" using assms(6) by (cases c) (simp add: RegisterWorkflow_def)
  then have w: "wfs name = Some ?w" by (simp add: map_reduce_simps)
  have E: "enMaps E (name, i) = Some (wrap_value f)" "enReduces E (name, j) = Some (wrap_value g)"
    using map_reduce_handlers [OF assms(4), of num name f g c] assms(6) by simp_all
  obtain row d where R: "runnable (wrID run) (rnDB r1) row d (workflow_def ?w)" and d: "dName d = name"
    and row: "rInput row = x" "rStepStates row = initial_states [i, j]"
    using started_runnable [OF assms(1,2) w map_reduce_simps(2) assms(7)] map_reduce_simps by metis
  obtain r4 t where r4: "rnWorld r4 = rnWorld r1" "rnSteps r4 = rStepStates row"
    "ExecuteRun env' E (wrID run) r1 =
      (case execute_steps env' E (wrID run) (dName d) (wdefSteps (workflow_def ?w)) (rInput row) r4 of
        (Some err, r5) \<Rightarrow> (Some err, r5)
      | (None, r5) \<Rightarrow>
          (None, snd (send env' (\<lambda>e. UpdateWorkflowRunState e (wrID run) WorkflowStateCompleted '''' '''') r5)))"
    by (rule ExecuteRun_begins [OF assms(3)]) (use R in \<open>auto simp: runnable_def\<close>)
  have fresh: "\<not> step_completed i (rnSteps r4)" "\<not> step_completed j (rnSteps r4)"
    unfolding r4(2) row(2) initial_not_completed by simp_all
  note f = assms(8) [folded r4(1)]
  from map_reduce_execution [OF E assms(4,5) fresh f assms(9), where env = env' and k = "wrID run"]
  obtain r5 t u t' u' where r5: "execute_steps env' E (wrID run) (dName d) (wdefSteps (workflow_def ?w)) (rInput row) r4 =
      (None, r5)" "rnWorld r5 = w2"
    "rnSteps r5 = (rnSteps r4)(i \<mapsto> completed_step 1 t u (Some v), j \<mapsto> completed_step 1 t' u' (Some out))"
    unfolding map_reduce_simps d row(1) by blast
  let ?r2 = "snd (send env' (\<lambda>e. UpdateWorkflowRunState e (wrID run) WorkflowStateCompleted '''' '''') r5)"
  have x: "ExecuteRun env' E (wrID run) r1 = (None, ?r2)" using r4(3) r5(1) by simp
  obtain row' where row': "run_synced (wrID run) row' ?r2" "rState row' = WorkflowStateCompleted"
    using ExecuteRun_completes [OF assms(3) x R] by blast
  then have "rStepStates row' = rnSteps r5" "run_lookup (wrID run) (rnDB ?r2) = Some row'"
    by (simp_all add: run_synced_def)
  moreover have "rnWorld ?r2 = w2" by (simp add: r5(2))
  ultimately show ?thesis
    using x row'(2) assms(4) by (auto simp: r5(3) completed_step_def step_completed_def)
qed

theorem map_reduce_workflow_computes_witness:
  "\<exists>run r1 r2 row. StartWorkflow (run_env 1) ''ns'' [''demo'' \<mapsto> demo_workflow] ''demo'' (Inr (JNum 5))
      (new_run empty_db []) = (Inr run, r1) \<and>
    ExecuteRun (run_env 10) demo_engine (wrID run) r1 = (None, r2) \<and> rnWorld r2 = [''values'', ''sum''] \<and>
    run_lookup (wrID run) (rnDB r2) = Some row \<and>
    map_option ssOutput (rStepStates row ''sum'') = Some (Some (JArr [JNum 1, JNum 2]))"
proof -
  have w: "map_reduce ''demo'' ''values'' demo_map ''sum'' demo_reduce = demo_workflow"
    by (simp add: map_reduce_def demo_workflow_def)
  obtain run r1 where x: "StartWorkflow (run_env 1) ''ns'' [''demo'' \<mapsto> demo_workflow] ''demo'' (Inr (JNum 5))
      (new_run empty_db []) = (Inr run, r1)" using start_ok [of 1 demo_workflow "[]"] by (elim exE)
  have world: "rnWorld r1 = []"
    using StartWorkflow_InrD [OF x] by (metis fun_upd_same new_run_simps(2))
  have "RegisterWorkflow id demo_workflow (Map.empty, NewEngine ''ns'') = ([''demo'' \<mapsto> demo_workflow], demo_engine)"
    by (simp add: demo_engine_def RegisterWorkflow_def demo_workflow_def Reduce_def Map_step_def add_step_def NewWorkflow_def)
  note reg = this [folded w]
  have wf: "defs_wf (rnDB (new_run empty_db []))" "runs_wf (rnDB (new_run empty_db []))" by (simp_all add: empty_wf)
  have f: "demo_map cx (rnWorld r1) = (Inr (Inr (JArr [JNum 1, JNum 2])), [''values''])" for cx
    by (simp add: demo_map_def world)
  have g: "demo_reduce cx [''values''] = (Inr (Inr (JArr [JNum 1, JNum 2])), [''values'', ''sum''])"
    if "GetPreviousOutput cx = Inr (JArr [JNum 1, JNum 2])" for cx
    using that by (simp add: demo_reduce_def)
  have "\<exists>r2 row. ExecuteRun (run_env 10) demo_engine (wrID run) r1 = (None, r2) \<and> rnWorld r2 = [''values'', ''sum''] \<and>
    run_lookup (wrID run) (rnDB r2) = Some row \<and> rState row = WorkflowStateCompleted \<and>
    map_option ssOutput (rStepStates row ''values'') = Some (Some (JArr [JNum 1, JNum 2])) \<and>
    map_option ssOutput (rStepStates row ''sum'') = Some (Some (JArr [JNum 1, JNum 2])) \<and>
    step_completed ''values'' (rStepStates row) \<and> step_completed ''sum'' (rStepStates row)"
    by (rule map_reduce_workflow_computes [OF wf run_env_reliable _ _ reg x [folded w] f g]) simp_all
  then show ?thesis using x by blast
qed

end
