(* ===== verification/Migrations.thy ===== *)
theory Migrations
  imports Queue_Admin Workflow_Def
begin

text \<open>
  The migrator (\<^verbatim>\<open>internal/migration/migrator.go\<close>). What a migration does to the
  schema is PostgreSQL's affair: \<open>exec\<close> is a parameter, from the text and the schema to
  an error or a new schema. The model keeps the schema, the table of applied versions
  (which may not exist yet) and the advisory lock with the session that holds it; each
  statement takes the next answer of the server and the session that the pool gives it.
\<close>

section \<open>Texts\<close>

fun strings_Index :: "string \<Rightarrow> string \<Rightarrow> nat option" where
  "strings_Index sub [] = (if sub = [] then Some 0 else None)"
| "strings_Index sub (c # cs) =
    (if take (length sub) (c # cs) = sub then Some 0 else map_option Suc (strings_Index sub cs))"

text \<open>White space is that of ASCII; the migration files have no other.\<close>

definition is_space :: "char \<Rightarrow> bool" where
  "is_space c \<longleftrightarrow> of_char c \<in> {9, 10, 11, 12, 13, 32 :: nat}"

definition TrimSpace :: "string \<Rightarrow> string" where
  "TrimSpace s = rev (dropWhile is_space (rev (dropWhile is_space s)))"

definition up_marker :: string where "up_marker = ''-- +migrate Up''"
definition down_marker :: string where "down_marker = ''-- +migrate Down''"

definition extractUpSQL :: "string \<Rightarrow> string" where
  "extractUpSQL content =
    (case strings_Index up_marker content of
      None \<Rightarrow> content
    | Some upIdx \<Rightarrow>
        (let rest = drop (upIdx + length up_marker) content in
         TrimSpace (case strings_Index down_marker rest of None \<Rightarrow> rest | Some downIdx \<Rightarrow> take downIdx rest)))"

text \<open>\<^verbatim>\<open>strconv.Atoi\<close>: an optional sign, digits, and the range of a 64-bit integer.\<close>

fun digits_value :: "int \<Rightarrow> string \<Rightarrow> int option" where
  "digits_value n [] = Some n"
| "digits_value n (c # cs) =
    (let d = (of_char c :: int) - 48 in if 0 \<le> d \<and> d \<le> 9 then digits_value (10 * n + d) cs else None)"

definition Atoi :: "string \<Rightarrow> int option" where
  "Atoi s =
    (let (neg, ds) = (case s of
        CHR ''-'' # cs \<Rightarrow> (True, cs) | CHR ''+'' # cs \<Rightarrow> (False, cs) | _ \<Rightarrow> (False, s))
     in if ds = [] then None
        else case digits_value 0 ds of
          None \<Rightarrow> None
        | Some n \<Rightarrow> (let v = (if neg then - n else n) in if int8_ok v then Some v else None))"

section \<open>Loading\<close>

record migration =
  mgVersion :: int
  mgUpSQL :: string

text \<open>An entry of the embedded directory: its name, and its content unless it is a directory.\<close>

record dir_entry =
  deName :: string
  deIsDir :: bool
  deContent :: "error + string"

definition parse_version :: "string \<Rightarrow> int option" where
  "parse_version name = (if CHR ''_'' \<in> set name then Atoi (takeWhile (\<lambda>c. c \<noteq> CHR ''_'') name) else None)"

fun load_entries :: "dir_entry list \<Rightarrow> error + migration list" where
  "load_entries [] = Inr []"
| "load_entries (d # ds) =
    (if deIsDir d \<or> drop (length (deName d) - 4) (deName d) \<noteq> ''.sql'' then load_entries ds
     else case parse_version (deName d) of
       None \<Rightarrow> load_entries ds
     | Some v \<Rightarrow>
       (case deContent d of
         Inl err \<Rightarrow> Inl err
       | Inr content \<Rightarrow>
           (case load_entries ds of
             Inl err \<Rightarrow> Inl err
           | Inr ms \<Rightarrow>
               (let up = extractUpSQL content
                in Inr (if up = '''' then ms else \<lparr>mgVersion = v, mgUpSQL = up\<rparr> # ms)))))"

text \<open>
  \<^verbatim>\<open>sort.Slice\<close> is not stable: \<open>ord\<close> stands for where it leaves files with the
  same version. Reading the directory may fail as a whole.
\<close>

definition loadMigrations ::
  "(migration list \<Rightarrow> migration list) \<Rightarrow> error + dir_entry list \<Rightarrow> error + migration list" where
  "loadMigrations ord entries =
    bind_sum entries (\<lambda>ds. bind_sum (load_entries ds) (\<lambda>ms. Inr (sort_key mgVersion (ord ms))))"

section \<open>Applying\<close>

record 's mig_state =
  msSchema :: 's
  msApplied :: "int list option"
  msLock :: "(nat \<times> nat) option"
  msTick :: nat

record mig_env =
  meOutcome :: "nat \<Rightarrow> outcome"
  meSession :: "nat \<Rightarrow> nat"

definition tick :: "'s mig_state \<Rightarrow> 's mig_state" where
  "tick s = s\<lparr>msTick := Suc (msTick s)\<rparr>"

text \<open>One statement: what it does when it runs, with the three ways it can end.\<close>

definition mig_stmt ::
  "mig_env \<Rightarrow> (nat \<Rightarrow> 's mig_state \<Rightarrow> (error + 'a) \<times> 's mig_state) \<Rightarrow> 's mig_state \<Rightarrow> (error + 'a) \<times> 's mig_state" where
  "mig_stmt env st s =
    (case meOutcome env (msTick s) of
      Done \<Rightarrow> st (meSession env (msTick s)) (tick s)
    | Refused err \<Rightarrow> (Inl err, tick s)
    | Lost err \<Rightarrow> (Inl err, snd (st (meSession env (msTick s)) (tick s))))"

definition try_advisory_lock :: "nat \<Rightarrow> 's mig_state \<Rightarrow> (error + bool) \<times> 's mig_state" where
  "try_advisory_lock me s =
    (case msLock s of
      None \<Rightarrow> (Inr True, s\<lparr>msLock := Some (me, 1)\<rparr>)
    | Some (holder, n) \<Rightarrow>
        if holder = me then (Inr True, s\<lparr>msLock := Some (me, n + 1)\<rparr>) else (Inr False, s))"

definition advisory_unlock :: "nat \<Rightarrow> 's mig_state \<Rightarrow> (error + bool) \<times> 's mig_state" where
  "advisory_unlock me s =
    (case msLock s of
      None \<Rightarrow> (Inr False, s)
    | Some (holder, n) \<Rightarrow>
        if holder \<noteq> me then (Inr False, s)
        else (Inr True, s\<lparr>msLock := (if n \<le> 1 then None else Some (me, n - 1))\<rparr>))"

definition int_text :: "int \<Rightarrow> string" where
  "int_text n = (if n < 0 then ''-'' @ digits (- n) else digits n)"

text \<open>
  A migration is a transaction of its own: both of its statements take effect at the commit,
  or neither does.
\<close>

definition applyMigration ::
  "mig_env \<Rightarrow> (string \<Rightarrow> 's \<Rightarrow> error + 's) \<Rightarrow> migration \<Rightarrow> 's mig_state \<Rightarrow> error option \<times> 's mig_state" where
  "applyMigration env exec m s =
    (case mig_stmt env (\<lambda>_ s. (Inr (), s)) s of
      (Inl err, s1) \<Rightarrow> (Some err, s1)
    | (Inr _, s1) \<Rightarrow>
      (case mig_stmt env (\<lambda>_ s. (exec (mgUpSQL m) (msSchema s), s)) s1 of
        (Inl err, s2) \<Rightarrow> (Some (Wrapped ''executing SQL: '' err ''''), s2)
      | (Inr schema, s2) \<Rightarrow>
        (case mig_stmt env (\<lambda>_ s.
            (case msApplied s of
              None \<Rightarrow> Inl (Errorf ''relation rivo_migrations does not exist'')
            | Some vs \<Rightarrow> if mgVersion m \<in> set vs then Inl unique_error
                else if \<not> int4_ok (mgVersion m) then Inl int4_error else Inr (vs @ [mgVersion m]), s)) s2 of
          (Inl err, s3) \<Rightarrow> (Some (Wrapped ''recording migration: '' err ''''), s3)
        | (Inr vs, s3) \<Rightarrow>
          (case mig_stmt env (\<lambda>_ s. (Inr (), s\<lparr>msSchema := schema, msApplied := Some vs\<rparr>)) s3 of
            (Inl err, s4) \<Rightarrow> (Some err, s4)
          | (Inr _, s4) \<Rightarrow> (None, s4)))))"

fun apply_pending ::
  "mig_env \<Rightarrow> (string \<Rightarrow> 's \<Rightarrow> error + 's) \<Rightarrow> int set \<Rightarrow> migration list \<Rightarrow> 's mig_state \<Rightarrow> error option \<times> 's mig_state" where
  "apply_pending env exec applied [] s = (None, s)"
| "apply_pending env exec applied (m # ms) s =
    (if mgVersion m \<in> applied then apply_pending env exec applied ms s
     else case applyMigration env exec m s of
       (Some err, s1) \<Rightarrow> (Some (Wrapped (''applying migration '' @ int_text (mgVersion m) @ '': '') err ''''), s1)
     | (None, s1) \<Rightarrow> apply_pending env exec applied ms s1)"

definition getAppliedVersions :: "mig_env \<Rightarrow> 's mig_state \<Rightarrow> (error + int set) \<times> 's mig_state" where
  "getAppliedVersions env s =
    mig_stmt env (\<lambda>_ s. (case msApplied s of
        None \<Rightarrow> Inl (Errorf ''relation rivo_migrations does not exist'') | Some vs \<Rightarrow> Inr (set vs), s)) s"

definition migrate_locked ::
  "mig_env \<Rightarrow> (string \<Rightarrow> 's \<Rightarrow> error + 's) \<Rightarrow> error + migration list \<Rightarrow> 's mig_state \<Rightarrow> error option \<times> 's mig_state" where
  "migrate_locked env exec loaded s =
    (case mig_stmt env (\<lambda>_ s. (Inr (), s\<lparr>msApplied :=
        (case msApplied s of None \<Rightarrow> Some [] | Some vs \<Rightarrow> Some vs)\<rparr>)) s of
      (Inl err, s1) \<Rightarrow> (Some (Wrapped ''creating migrations table: '' err ''''), s1)
    | (Inr _, s1) \<Rightarrow>
      (case getAppliedVersions env s1 of
        (Inl err, s2) \<Rightarrow> (Some (Wrapped ''getting applied migrations: '' err ''''), s2)
      | (Inr applied, s2) \<Rightarrow>
        (case loaded of
          Inl err \<Rightarrow> (Some (Wrapped ''loading migrations: '' err ''''), s2)
        | Inr ms \<Rightarrow> apply_pending env exec applied ms s2)))"

definition Migrate ::
  "mig_env \<Rightarrow> (string \<Rightarrow> 's \<Rightarrow> error + 's) \<Rightarrow> error + migration list \<Rightarrow> 's mig_state \<Rightarrow> error option \<times> 's mig_state" where
  "Migrate env exec loaded s =
    (case mig_stmt env try_advisory_lock s of
      (Inl err, s1) \<Rightarrow> (Some (Wrapped ''acquiring advisory lock: '' err ''''), s1)
    | (Inr False, s1) \<Rightarrow> (Some (Errorf ''another migration is in progress''), s1)
    | (Inr True, s1) \<Rightarrow>
        (case migrate_locked env exec loaded s1 of
          (err, s2) \<Rightarrow> (err, snd (mig_stmt env advisory_unlock s2))))"

end
