(* ===== verification/Migration_Spec.thy ===== *)
theory Migration_Spec
  imports Migrations
begin

text \<open>
  The schema and the table of applied versions move together: whatever the server answers,
  what has been executed is a prefix of the pending migrations in the order of their
  versions, and exactly that prefix is recorded.
\<close>

section \<open>Sections of a migration file\<close>

lemma strings_Index_SomeD:
  "strings_Index sub s = Some n \<Longrightarrow> take (length sub) (drop n s) = sub \<and> n \<le> length s"
  by (induction sub s arbitrary: n rule: strings_Index.induct) (auto split: if_splits)

lemma strings_Index_first:
  "strings_Index sub s = Some n \<Longrightarrow> k < n \<Longrightarrow> take (length sub) (drop k s) \<noteq> sub"
proof (induction sub s arbitrary: n k rule: strings_Index.induct)
  case (1 sub)
  then show ?case by (auto split: if_splits)
next
  case (2 sub c cs)
  then show ?case by (cases k) (auto split: if_splits)
qed

lemma extract_without_markers: "strings_Index up_marker content = None \<Longrightarrow> extractUpSQL content = content"
  by (simp add: extractUpSQL_def)

section \<open>Effects\<close>

definition history :: "'s mig_state \<Rightarrow> int list" where
  "history s = (case msApplied s of None \<Rightarrow> [] | Some vs \<Rightarrow> vs)"

fun exec_all :: "(string \<Rightarrow> 's \<Rightarrow> error + 's) \<Rightarrow> migration list \<Rightarrow> 's \<Rightarrow> error + 's" where
  "exec_all exec [] schema = Inr schema"
| "exec_all exec (m # ms) schema = bind_sum (exec (mgUpSQL m) schema) (exec_all exec ms)"

definition pending :: "int set \<Rightarrow> migration list \<Rightarrow> migration list" where
  "pending applied ms = filter (\<lambda>m. mgVersion m \<notin> applied) ms"

lemma exec_all_append: "exec_all exec (xs @ ys) schema = bind_sum (exec_all exec xs schema) (exec_all exec ys)"
  by (induction xs arbitrary: schema) (simp_all add: bind_sum_def split: sum.split)

lemma tick_simps [simp]: "msSchema (tick s) = msSchema s" "msApplied (tick s) = msApplied s" "history (tick s) = history s"
  by (simp_all add: tick_def history_def)

text \<open>A statement that changes nothing when it runs.\<close>

lemma mig_stmt_reads:
  assumes "mig_stmt env (\<lambda>_ s. (f s, s)) s = (x, s')"
  shows "msSchema s' = msSchema s" "msApplied s' = msApplied s" "x = Inr a \<Longrightarrow> f (tick s) = Inr a"
  using assms by (auto simp: mig_stmt_def split: outcome.splits)

lemma history_cong: "msApplied s = msApplied s' \<Longrightarrow> history s = history s'"
  by (simp add: history_def)

text \<open>A migration: it took effect and is recorded, or nothing changed.\<close>

lemma applyMigration_atomic:
  assumes "applyMigration env exec m s = (err, s')"
  shows "(exec (mgUpSQL m) (msSchema s) = Inr (msSchema s') \<and> history s' = history s @ [mgVersion m]) \<or>
    (err \<noteq> None \<and> msSchema s' = msSchema s \<and> history s' = history s)"
proof -
  obtain a s1 where s1: "mig_stmt env (\<lambda>_ s. (Inr (), s)) s = (a :: error + unit, s1)" by fastforce
  note r1 = mig_stmt_reads [OF s1]
  obtain b s2 where s2: "mig_stmt env (\<lambda>_ s. (exec (mgUpSQL m) (msSchema s), s)) s1 = (b, s2)" by fastforce
  note r2 = mig_stmt_reads [OF s2]
  let ?ins = "\<lambda>s :: 'a mig_state. case msApplied s of
              None \<Rightarrow> Inl (Errorf ''relation rivo_migrations does not exist'')
            | Some vs \<Rightarrow> if mgVersion m \<in> set vs then Inl unique_error
                else if \<not> int4_ok (mgVersion m) then Inl int4_error else Inr (vs @ [mgVersion m])"
  obtain c s3 where s3: "mig_stmt env (\<lambda>_ s. (?ins s, s)) s2 = (c, s3)" by fastforce
  note r3 = mig_stmt_reads [OF s3]
  note ran = assms [unfolded applyMigration_def s1 prod.case]
  show ?thesis
  proof (cases a)
    case (Inl e)
    then show ?thesis using ran r1 by (auto intro: history_cong)
  next
    case a: (Inr u)
    show ?thesis
    proof (cases b)
      case (Inl e)
      then show ?thesis using ran [unfolded a sum.case s2 prod.case] r1 r2 by (auto intro: history_cong)
    next
      case b: (Inr schema)
      show ?thesis
      proof (cases c)
        case (Inl e)
        then show ?thesis
          using ran [unfolded a sum.case s2 prod.case b s3] r1 r2 r3 by (auto intro: history_cong)
      next
        case c: (Inr vs)
        have vs: "vs = history s @ [mgVersion m]"
          using r3(3) [OF c] r1 r2 by (auto simp: history_def split: option.splits if_splits)
        have ex: "exec (mgUpSQL m) (msSchema s) = Inr schema" using r2(3) [OF b] r1 by simp
        show ?thesis
          using ran [unfolded a sum.case s2 prod.case b s3 c] ex vs r1 r2 r3
          by (auto simp: mig_stmt_def history_def split: outcome.splits)
      qed
    qed
  qed
qed

lemma apply_pending_prefix:
  assumes "apply_pending env exec applied ms s = (err, s')"
  shows "\<exists>k \<le> length (pending applied ms).
    exec_all exec (take k (pending applied ms)) (msSchema s) = Inr (msSchema s') \<and>
    history s' = history s @ map mgVersion (take k (pending applied ms)) \<and>
    (err = None \<longrightarrow> k = length (pending applied ms))"
  using assms
proof (induction ms arbitrary: s)
  case Nil
  then show ?case by (simp add: pending_def)
next
  case (Cons m ms)
  show ?case
  proof (cases "mgVersion m \<in> applied")
    case True
    then show ?thesis using Cons by (simp add: pending_def)
  next
    case False
    obtain e s1 where one: "applyMigration env exec m s = (e, s1)" by fastforce
    have pend: "pending applied (m # ms) = m # pending applied ms" using False by (simp add: pending_def)
    note atomic = applyMigration_atomic [OF one]
    show ?thesis
    proof (cases e)
      case (Some x)
      then have s': "s' = s1" "err \<noteq> None" using Cons.prems False one by auto
      show ?thesis
        using atomic
      proof
        assume "exec (mgUpSQL m) (msSchema s) = Inr (msSchema s1) \<and> history s1 = history s @ [mgVersion m]"
        then show ?thesis using s' by (intro exI [of _ 1]) (auto simp: pend bind_sum_def)
      next
        assume "e \<noteq> None \<and> msSchema s1 = msSchema s \<and> history s1 = history s"
        then show ?thesis using s' by (intro exI [of _ 0]) auto
      qed
    next
      case None
      then have "apply_pending env exec applied ms s1 = (err, s')" using Cons.prems False one by simp
      from Cons.IH [OF this] obtain k where "k \<le> length (pending applied ms)"
        "exec_all exec (take k (pending applied ms)) (msSchema s1) = Inr (msSchema s')"
        "history s' = history s1 @ map mgVersion (take k (pending applied ms))"
        "err = None \<longrightarrow> k = length (pending applied ms)" by blast
      then show ?thesis using atomic None by (intro exI [of _ "Suc k"]) (auto simp: pend bind_sum_def)
    qed
  qed
qed

lemma lock_stmt_frame:
  "mig_stmt env try_advisory_lock s = (a, s') \<Longrightarrow> msSchema s' = msSchema s \<and> msApplied s' = msApplied s"
  "mig_stmt env advisory_unlock s = (b, s') \<Longrightarrow> msSchema s' = msSchema s \<and> msApplied s' = msApplied s"
  by (auto simp: mig_stmt_def try_advisory_lock_def advisory_unlock_def
      split: outcome.splits option.splits prod.splits if_splits)

lemma migrate_locked_prefix:
  assumes "migrate_locked env exec (Inr ms) s = (err, s')"
  shows "\<exists>k \<le> length (pending (set (history s)) ms).
    exec_all exec (take k (pending (set (history s)) ms)) (msSchema s) = Inr (msSchema s') \<and>
    history s' = history s @ map mgVersion (take k (pending (set (history s)) ms)) \<and>
    (err = None \<longrightarrow> k = length (pending (set (history s)) ms))"
proof -
  let ?create = "\<lambda>(_ :: nat) s :: 'a mig_state. (Inr () :: error + unit, s\<lparr>msApplied :=
        (case msApplied s of None \<Rightarrow> Some [] | Some vs \<Rightarrow> Some vs)\<rparr>)"
  obtain a s1 where s1: "mig_stmt env ?create s = (a, s1)" by fastforce
  have r1: "msSchema s1 = msSchema s" "history s1 = history s"
    using s1 by (auto simp: mig_stmt_def history_def split: outcome.splits option.splits)
  note ran = assms [unfolded migrate_locked_def s1 prod.case]
  show ?thesis
  proof (cases a)
    case (Inl e)
    then show ?thesis using ran r1 by (intro exI [of _ 0]) auto
  next
    case a: (Inr u)
    obtain b s2 where s2: "getAppliedVersions env s1 = (b, s2)" by fastforce
    have r2: "msSchema s2 = msSchema s" "history s2 = history s" "b = Inr v \<Longrightarrow> v = set (history s)" for v
      using mig_stmt_reads [OF s2 [unfolded getAppliedVersions_def]] r1
      by (auto simp: history_def split: option.splits)
    show ?thesis
    proof (cases b)
      case (Inl e)
      then show ?thesis using ran [unfolded a sum.case s2 prod.case] r2 by (intro exI [of _ 0]) auto
    next
      case (Inr v)
      have v: "v = set (history s)" by (rule r2(3) [OF Inr])
      have "apply_pending env exec (set (history s)) ms s2 = (err, s')"
        using ran [unfolded a sum.case s2 prod.case Inr] by (simp add: v)
      then show ?thesis using apply_pending_prefix [of env exec "set (history s)" ms s2 err s'] r2(1,2) by simp
    qed
  qed
qed

lemma Migrate_prefix:
  assumes "Migrate env exec (Inr ms) s = (err, s')"
  shows "\<exists>k \<le> length (pending (set (history s)) ms).
    exec_all exec (take k (pending (set (history s)) ms)) (msSchema s) = Inr (msSchema s') \<and>
    history s' = history s @ map mgVersion (take k (pending (set (history s)) ms)) \<and>
    (err = None \<longrightarrow> k = length (pending (set (history s)) ms))"
proof -
  obtain a s1 where s1: "mig_stmt env try_advisory_lock s = (a, s1)" by fastforce
  have r1: "msSchema s1 = msSchema s" "history s1 = history s"
    using lock_stmt_frame(1) [OF s1] by (simp_all add: history_def)
  note ran = assms [unfolded Migrate_def s1 prod.case]
  consider (refused) "err \<noteq> None" "s' = s1" | (locked) "a = Inr True"
    using ran by (cases a) (auto split: bool.splits)
  then show ?thesis
  proof cases
    case refused
    then show ?thesis using r1 by (intro exI [of _ 0]) auto
  next
    case locked
    obtain e s2 where s2: "migrate_locked env exec (Inr ms) s1 = (e, s2)" by fastforce
    obtain b s3 where s3: "mig_stmt env advisory_unlock s2 = (b, s3)" by fastforce
    have "err = e" "msSchema s' = msSchema s2" "history s' = history s2"
      using ran [unfolded locked sum.case bool.case s2 prod.case s3] lock_stmt_frame(2) [OF s3]
      by (auto simp: history_def)
    then show ?thesis using migrate_locked_prefix [OF s2] r1 by simp
  qed
qed

lemma loadMigrations_sorted: "loadMigrations ord entries = Inr ms \<Longrightarrow> sorted (map mgVersion ms)"
  by (auto simp: loadMigrations_def bind_sum_def split: sum.splits)

text \<open>C13 The schema is what the recorded migrations made it: whatever the server answers at each statement,
  Migrate executes a prefix of the migrations that are not recorded yet, in the order of
  their versions, and records exactly those; without an error that is all of them.\<close>

theorem migration_history_is_exact:
  assumes "loadMigrations ord entries = Inr ms"
    and "Migrate env exec (loadMigrations ord entries) s = (err, s')"
  shows "sorted (map mgVersion ms) \<and> (\<exists>k \<le> length (pending (set (history s)) ms).
    exec_all exec (take k (pending (set (history s)) ms)) (msSchema s) = Inr (msSchema s') \<and>
    history s' = history s @ map mgVersion (take k (pending (set (history s)) ms)) \<and>
    (err = None \<longrightarrow> k = length (pending (set (history s)) ms)))"
  using Migrate_prefix [OF assms(2) [unfolded assms(1)]] loadMigrations_sorted [OF assms(1)] by simp

text \<open>C38 Migrating twice is migrating once: after a migration without an error, another one with no newer
  versions executes nothing and records nothing, however it ends.\<close>

theorem migrating_again_changes_nothing:
  assumes "Migrate env exec (Inr ms) s = (None, s1)" and "Migrate env' exec (Inr ms') s1 = (err, s2)"
    and "mgVersion ` set ms' \<subseteq> mgVersion ` set ms"
  shows "msSchema s2 = msSchema s1 \<and> history s2 = history s1"
proof -
  have "history s1 = history s @ map mgVersion (pending (set (history s)) ms)"
    using Migrate_prefix [OF assms(1)] by auto
  then have "mgVersion ` set ms \<subseteq> set (history s1)" by (auto simp: pending_def)
  with assms(3) have "mgVersion ` set ms' \<subseteq> set (history s1)" by (rule subset_trans)
  then have "pending (set (history s1)) ms' = []" by (auto simp: pending_def filter_empty_conv)
  then show ?thesis using Migrate_prefix [OF assms(2)] by auto
qed

text \<open>
  The lock belongs to the session of the connection that took it. The pool may give the
  unlocking statement another connection: then the lock stays, and a migration on any other
  session is turned away.
\<close>

lemma migration_lock_may_stay:
  assumes "meOutcome env = (\<lambda>_. Done)" "msLock s = Some (holder, n)" "meSession env (msTick s) \<noteq> holder"
  shows "fst (Migrate env exec loaded s) = Some (Errorf ''another migration is in progress'')"
  using assms by (simp add: Migrate_def mig_stmt_def try_advisory_lock_def tick_def)

section \<open>A migration of two files\<close>

definition sample_files :: "dir_entry list" where
  "sample_files =
    [\<lparr>deName = ''001_a.sql'', deIsDir = False, deContent = Inr ''-- +migrate Up CREATE a; -- +migrate Down DROP a;''\<rparr>,
     \<lparr>deName = ''002_b.sql'', deIsDir = False, deContent = Inr ''CREATE b;''\<rparr>,
     \<lparr>deName = ''readme.md'', deIsDir = False, deContent = Inr ''text''\<rparr>]"

definition sample_migrations :: "migration list" where
  "sample_migrations =
    [\<lparr>mgVersion = 1, mgUpSQL = ''CREATE a;''\<rparr>, \<lparr>mgVersion = 2, mgUpSQL = ''CREATE b;''\<rparr>]"

definition sample_mig_env :: mig_env where
  "sample_mig_env = \<lparr>meOutcome = (\<lambda>_. Done), meSession = (\<lambda>_. 7)\<rparr>"

definition fresh_db :: "string list mig_state" where
  "fresh_db = \<lparr>msSchema = [], msApplied = None, msLock = None, msTick = 0\<rparr>"

definition exec_log :: "string \<Rightarrow> string list \<Rightarrow> error + string list" where
  "exec_log sql schema = Inr (schema @ [sql])"

lemma sample_load: "loadMigrations rev (Inr sample_files) = Inr sample_migrations"
  by code_simp

lemma sample_migrate:
  "Migrate sample_mig_env exec_log (Inr sample_migrations) fresh_db =
    (None, \<lparr>msSchema = [''CREATE a;'', ''CREATE b;''], msApplied = Some [1, 2], msLock = None, msTick = 12\<rparr>)"
  by code_simp

theorem migration_history_is_exact_witness:
  "exec_all exec_log sample_migrations [] = Inr [''CREATE a;'', ''CREATE b;''] \<and>
    map mgVersion sample_migrations = [1, 2]"
proof -
  have run: "Migrate sample_mig_env exec_log (loadMigrations rev (Inr sample_files)) fresh_db = (None,
      \<lparr>msSchema = [''CREATE a;'', ''CREATE b;''], msApplied = Some [1, 2], msLock = None, msTick = 12\<rparr>)"
    by (simp add: sample_load sample_migrate)
  have start: "history fresh_db = []" "msSchema fresh_db = []" by (simp_all add: history_def fresh_db_def)
  have pend: "pending {} sample_migrations = sample_migrations" by (simp add: pending_def)
  show ?thesis
    using migration_history_is_exact [OF sample_load run] by (auto simp: start pend) (simp_all add: history_def)
qed

theorem migrating_again_changes_nothing_witness:
  "\<exists>s1 err s2. Migrate sample_mig_env exec_log (Inr sample_migrations) fresh_db = (None, s1) \<and>
    Migrate sample_mig_env exec_log (Inr sample_migrations) s1 = (err, s2) \<and>
    msSchema s2 = [''CREATE a;'', ''CREATE b;'']"
proof -
  obtain err s2 where two: "Migrate sample_mig_env exec_log (Inr sample_migrations)
      \<lparr>msSchema = [''CREATE a;'', ''CREATE b;''], msApplied = Some [1, 2], msLock = None, msTick = 12\<rparr> = (err, s2)"
    by fastforce
  then show ?thesis using migrating_again_changes_nothing [OF sample_migrate two] sample_migrate by auto
qed

end
