(* ===== verification/Client_Lifecycle.thy ===== *)
theory Client_Lifecycle
  imports Executor_System Queue_Admin Client_Workflows
begin

text \<open>
  The life of a client (\<^verbatim>\<open>client.go\<close>, \<^verbatim>\<open>internal/db/db.go\<close> \<open>New\<close>): its settings and
  their defaults, \<open>NewClient\<close>, \<open>Start\<close>, the scheduler and the heartbeat, \<open>Shutdown\<close> and
  \<open>Close\<close>. What the database driver answers when a pool is made, and the result of the
  migrations, are arguments. Go visits a map in any order: \<open>ord\<close> lists a finite set.
\<close>

section \<open>Settings\<close>

record ClientQueue =
  cqName :: string
  cqPriority :: int
  cqConcurrency :: int

record Config =
  cfDatabaseURL :: string
  cfMaxConns :: int
  cfWorkers :: int
  cfQueues :: "ClientQueue list"
  cfNamespace :: string
  cfPollInterval :: duration
  cfJobTimeout :: duration
  cfAutoMigrate :: bool

definition with_defaults :: "Config \<Rightarrow> Config" where
  "with_defaults c =
    c\<lparr>cfMaxConns := (if cfMaxConns c = 0 then 25 else cfMaxConns c),
      cfWorkers := (if cfWorkers c = 0 then 10 else cfWorkers c),
      cfNamespace := (if cfNamespace c = '''' then ''default'' else cfNamespace c),
      cfPollInterval := (if cfPollInterval c = 0 then 100000000 else cfPollInterval c),
      cfJobTimeout := (if cfJobTimeout c = 0 then 300000000000 else cfJobTimeout c),
      cfQueues := (if cfQueues c = [] then [\<lparr>cqName = ''default'', cqPriority = 0, cqConcurrency = 0\<rparr>]
        else cfQueues c)\<rparr>"

text \<open>Making a pool: the answers to parsing the URL (with the pool size it sets), making and pinging.\<close>

record connection =
  cnParsed :: "error + int"
  cnCreated :: "error option"
  cnPinged :: "error option"

definition New_db :: "connection \<Rightarrow> int \<Rightarrow> error + int" where
  "New_db cn maxConns =
    (case cnParsed cn of
      Inl err \<Rightarrow> Inl (Wrapped ''parsing database URL: '' err '''')
    | Inr m \<Rightarrow>
      (case cnCreated cn of
        Some err \<Rightarrow> Inl (Wrapped ''creating pool: '' err '''')
      | None \<Rightarrow>
        (case cnPinged cn of
          Some err \<Rightarrow> Inl (Wrapped ''pinging database: '' err '''')
        | None \<Rightarrow> Inr (if maxConns > 0 then maxConns else m))))"

section \<open>The client\<close>

record 'w Client =
  clConfig :: Config
  clPoolSize :: int
  clWorkerID :: string
  clHandlers :: handlers
  clWorkflows :: "string \<rightharpoonup> 'w Workflow"
  clEngine :: "'w Engine"
  clPipeline :: "pipeline option"
  clStarted :: bool
  clShutdown :: bool
  clDone :: bool

text \<open>
  \<open>migrated\<close> is the result of \<open>Migrate\<close>, \<open>ex\<close> the executor of handler steps over the
  client's handlers (\<open>handler_step_executor\<close>).
\<close>

definition NewClient ::
  "connection \<Rightarrow> error option \<Rightarrow> string \<Rightarrow> (string \<Rightarrow> json \<Rightarrow> 'w \<Rightarrow> (error + json option) \<times> 'w) \<Rightarrow> Config
    \<Rightarrow> error + 'w Client" where
  "NewClient cn migrated uuid ex config =
    (if cfDatabaseURL config = '''' then Inl (Errorf ''database URL is required'')
     else let c = with_defaults config in
       case New_db cn (cfMaxConns c) of
         Inl err \<Rightarrow> Inl (Wrapped ''connecting to database: '' err '''')
       | Inr n \<Rightarrow>
         (case (if cfAutoMigrate c then migrated else None) of
           Some err \<Rightarrow> Inl (Wrapped ''running migrations: '' err '''')
         | None \<Rightarrow> Inr
             \<lparr>clConfig = c, clPoolSize = n, clWorkerID = uuid, clHandlers = Map.empty,
              clWorkflows = Map.empty,
              clEngine = SetHandlerStepExecutor ex (SetWorkerID uuid (NewEngine (cfNamespace c))),
              clPipeline = None, clStarted = False, clShutdown = False, clDone = False\<rparr>))"

definition RegisterHandler_client :: "string \<Rightarrow> HandlerOptions list \<Rightarrow> 'w Client \<Rightarrow> 'w Client" where
  "RegisterHandler_client kind opts c = c\<lparr>clHandlers := RegisterHandler kind opts (clHandlers c)\<rparr>"

definition RegisterWorkflow_client :: "(json \<Rightarrow> json) \<Rightarrow> 'w Workflow \<Rightarrow> 'w Client \<Rightarrow> 'w Client" where
  "RegisterWorkflow_client num w c =
    (case RegisterWorkflow num w (clWorkflows c, clEngine c) of
      (wfs, E) \<Rightarrow> c\<lparr>clWorkflows := wfs, clEngine := E\<rparr>)"

record HandlerInfo =
  hiKind :: string
  hiQueue :: string
  hiConcurrency :: int
  hiMaxAttempts :: int

definition handler_info :: "registeredHandler \<Rightarrow> HandlerInfo" where
  "handler_info h =
    \<lparr>hiKind = hKind h, hiQueue = hQueue h, hiConcurrency = hoConcurrency (hOptions h),
     hiMaxAttempts = (let n = hrMaxAttempts (hoRetry (hOptions h)) in if n = 0 then 25 else n)\<rparr>"

definition RegisteredHandlers :: "(string set \<Rightarrow> string list) \<Rightarrow> 'w Client \<Rightarrow> HandlerInfo list" where
  "RegisteredHandlers ord c =
    map (\<lambda>k. handler_info (the (clHandlers c k))) (ord (dom (clHandlers c)))"

section \<open>Jobs\<close>

definition GetJob_client :: "pg \<Rightarrow> int \<Rightarrow> db \<Rightarrow> (error + Job option) \<times> db" where
  "GetJob_client e i d =
    (case GetJob e i d of
      (Inl err, d') \<Rightarrow> (Inl err, d')
    | (Inr None, d') \<Rightarrow> (Inr None, d')
    | (Inr (Some row), d') \<Rightarrow> (Inr (Some (jobFromRow row)), d'))"

definition CancelJob_client :: "pg \<Rightarrow> int \<Rightarrow> db \<Rightarrow> (error + unit) \<times> db" where
  "CancelJob_client e i d = CancelJob e i d"

section \<open>Starting\<close>

datatype 'a outcome_of = Returned 'a | Panicked

definition ErrAlreadyStarted :: error where
  "ErrAlreadyStarted = Sentinel 1 ''client already started''"

definition queue_set :: "'w Client \<Rightarrow> string set" where
  "queue_set c =
    (let qs = hQueue ` ran (clHandlers c) \<union> cqName ` set (cfQueues (clConfig c))
     in if qs = {} then {''default''} else qs)"

definition this_worker :: "instant \<Rightarrow> string list \<Rightarrow> 'w Client \<Rightarrow> Worker" where
  "this_worker now queues c =
    \<lparr>wID = clWorkerID c, wNamespace = cfNamespace (clConfig c), wQueues = queues,
     wConcurrency = cfWorkers (clConfig c), wStatus = ''active'', wStartedAt = now, wLastHeartbeat = 0,
     wJobsProcessed = 0, wJobsFailed = 0\<rparr>"

text \<open>
  A negative number of workers makes the size of the jobs channel negative: \<^verbatim>\<open>make\<close>
  panics, after the client is marked as started and the worker is registered.
\<close>

definition Start ::
  "(string set \<Rightarrow> string list) \<Rightarrow> pg \<Rightarrow> instant \<Rightarrow> 'w Client \<Rightarrow> db \<Rightarrow> error option outcome_of \<times> 'w Client \<times> db" where
  "Start ord e now c d =
    (if clStarted c then (Returned (Some ErrAlreadyStarted), c, d)
     else let queues = ord (queue_set c); c1 = c\<lparr>clStarted := True\<rparr>;
              d1 = snd (RegisterWorker e (this_worker now queues c) d)
       in if cfWorkers (clConfig c) < 0 then (Panicked, c1, d1)
          else (Returned None,
            c1\<lparr>clPipeline := Some (new_pipeline (cfNamespace (clConfig c)) queues (clWorkerID c)
              (nat (cfWorkers (clConfig c))))\<rparr>, d1))"

text \<open>The loops of the scheduler and the heartbeat, by what their select picks.\<close>

datatype loop_event = Ticked pg | Stopped

fun runScheduler :: "string \<Rightarrow> loop_event list \<Rightarrow> db \<Rightarrow> db" where
  "runScheduler ns [] d = d"
| "runScheduler ns (Stopped # evs) d = d"
| "runScheduler ns (Ticked e # evs) d = runScheduler ns evs (snd (PromoteScheduledJobs e ns d))"

fun runHeartbeat :: "string \<Rightarrow> loop_event list \<Rightarrow> db \<Rightarrow> db" where
  "runHeartbeat workerID [] d = d"
| "runHeartbeat workerID (Stopped # evs) d = d"
| "runHeartbeat workerID (Ticked e # evs) d = runHeartbeat workerID evs (snd (WorkerHeartbeat e workerID d))"

section \<open>Stopping\<close>

text \<open>
  Closing the channel a second time panics. \<open>wait\<close> is the error of the context if that
  ends before the components have stopped; the goroutine of \<open>Start\<close> ends with
  \<open>finish_shutdown\<close> when they have.
\<close>

definition Shutdown :: "error option \<Rightarrow> 'w Client \<Rightarrow> error option outcome_of \<times> 'w Client" where
  "Shutdown wait c =
    (if \<not> clStarted c then (Returned None, c)
     else if clShutdown c then (Panicked, c)
     else (Returned wait, c\<lparr>clShutdown := True\<rparr>))"

definition finish_shutdown :: "pg \<Rightarrow> 'w Client \<Rightarrow> db \<Rightarrow> 'w Client \<times> db" where
  "finish_shutdown e c d = (c\<lparr>clDone := True\<rparr>, snd (DeregisterWorker e (clWorkerID c) d))"

definition Close :: "error option \<Rightarrow> 'w Client \<Rightarrow> error option outcome_of \<times> 'w Client" where
  "Close wait c =
    (case Shutdown wait c of
      (Panicked, c') \<Rightarrow> (Panicked, c')
    | (Returned _, c') \<Rightarrow> (Returned None, c'))"

end
