(* ===== verification/Client_Lifecycle_Spec.thy ===== *)
theory Client_Lifecycle_Spec
  imports Client_Lifecycle "HOL-Library.List_Lexorder" "HOL-Library.Char_ord"
begin

text \<open>
  What starting and stopping a client guarantees: the queues it serves, the state of its
  channels, the row of its worker, the second call of \<open>Start\<close>, \<open>Shutdown\<close> and \<open>Close\<close>;
  and which queue an enqueued job ends up in, seen from the clients that could run it.
\<close>

section \<open>Settings and registrations\<close>

text \<open>The queues of the settings after the defaults.\<close>

definition config_queues :: "Config \<Rightarrow> string set" where
  "config_queues cfg = (if cfQueues cfg = [] then {''default''} else cqName ` set (cfQueues cfg))"

definition register_all :: "(string \<times> HandlerOptions list) list \<Rightarrow> 'w Client \<Rightarrow> 'w Client" where
  "register_all regs c = fold (\<lambda>(kind, opts). RegisterHandler_client kind opts) regs c"

text \<open>A client as \<open>NewClient\<close> and registrations leave it.\<close>

definition ready :: "Config \<Rightarrow> 'w Client \<Rightarrow> bool" where
  "ready cfg c \<longleftrightarrow> clConfig c = with_defaults cfg \<and> clPipeline c = None \<and>
    \<not> clStarted c \<and> \<not> clShutdown c \<and> finite (dom (clHandlers c))"

lemma NewClient_ready: "NewClient cn mg uuid ex cfg = Inr c \<Longrightarrow> ready cfg c \<and> clHandlers c = Map.empty"
  by (auto simp: NewClient_def ready_def Let_def split: if_splits sum.splits option.splits)

lemma register_ready: "ready cfg c \<Longrightarrow> ready cfg (RegisterHandler_client k o' c)"
  by (auto simp: ready_def RegisterHandler_client_def RegisterHandler_def Let_def)

lemma register_all_ready: "ready cfg c \<Longrightarrow> ready cfg (register_all regs c)"
  by (induction regs arbitrary: c) (auto simp: register_all_def register_ready)

lemma register_workflow_ready: "ready cfg c \<Longrightarrow> ready cfg (RegisterWorkflow_client num w c)"
  by (simp add: ready_def RegisterWorkflow_client_def split: prod.split)

lemma with_defaults_queues: "cqName ` set (cfQueues (with_defaults cfg)) = config_queues cfg"
  by (simp add: with_defaults_def config_queues_def)

lemma config_queues_not_empty [simp]: "config_queues cfg \<noteq> {}"
  by (auto simp: config_queues_def)

lemma queue_set_ready: "ready cfg c \<Longrightarrow> queue_set c = hQueue ` ran (clHandlers c) \<union> config_queues cfg"
  using with_defaults_queues [of cfg] by (auto simp: queue_set_def ready_def Let_def)

lemma queue_set_finite: "finite (dom (clHandlers c)) \<Longrightarrow> finite (queue_set c)"
  by (simp add: queue_set_def Let_def ran_def [symmetric] finite_ran)

text \<open>The handler registered last for a kind is in force, and its queue is the kind unless it names one.\<close>

lemma register_all_last:
  "clHandlers (register_all (regs @ [(kind, opts)]) c) kind =
    Some (let options = (case opts of [] \<Rightarrow> zero_options | opt # _ \<Rightarrow> opt) in
      \<lparr>hKind = kind, hQueue = (if hoQueue options = '''' then kind else hoQueue options), hOptions = options\<rparr>)"
  by (simp add: register_all_def RegisterHandler_client_def RegisterHandler_def Let_def)

section \<open>Starting\<close>

text \<open>Any order in which Go may visit a map.\<close>

definition lists_sets :: "(string set \<Rightarrow> string list) \<Rightarrow> bool" where
  "lists_sets ord \<longleftrightarrow> (\<forall>A. finite A \<longrightarrow> distinct (ord A) \<and> set (ord A) = A)"

lemma sorted_lists_sets: "lists_sets sorted_list_of_set"
  by (simp add: lists_sets_def)

lemma with_defaults_workers: "0 \<le> cfWorkers (with_defaults cfg) \<longleftrightarrow> 0 \<le> cfWorkers cfg"
  by (simp add: with_defaults_def)

lemma queues_new: "pdQueues (plProducer (new_pipeline ns qs w n)) = (if qs = [] then [''default''] else qs)"
  by (simp add: new_pipeline_def NewProducer_def)

lemma Start_ready:
  assumes "ready cfg c" and "0 \<le> cfWorkers cfg" and "lists_sets ord"
  shows "\<exists>p. Start ord e now c d =
      (Returned None, c\<lparr>clStarted := True, clPipeline := Some p\<rparr>,
       snd (RegisterWorker e (this_worker now (ord (queue_set c)) c) d)) \<and>
    p = new_pipeline (cfNamespace (with_defaults cfg)) (ord (queue_set c)) (clWorkerID c)
      (nat (cfWorkers (with_defaults cfg))) \<and>
    distinct (pdQueues (plProducer p)) \<and> set (pdQueues (plProducer p)) = queue_set c"
proof -
  have "queue_set c \<noteq> {}" using queue_set_ready [OF assms(1)] by simp
  moreover have qs: "distinct (ord (queue_set c)) \<and> set (ord (queue_set c)) = queue_set c"
    using assms by (simp add: lists_sets_def queue_set_finite ready_def)
  ultimately have "ord (queue_set c) \<noteq> []" by force
  moreover note qs
  moreover have "\<not> cfWorkers (clConfig c) < 0" "clConfig c = with_defaults cfg" "\<not> clStarted c"
    using assms by (simp_all add: ready_def with_defaults_workers not_less)
  ultimately show ?thesis
    by (intro exI [of _ "new_pipeline (cfNamespace (with_defaults cfg)) (ord (queue_set c)) (clWorkerID c)
      (nat (cfWorkers (with_defaults cfg)))"])
      (simp add: Start_def Let_def queues_new)
qed

text \<open>C23 A client made with valid settings starts once and serves its queues: after NewClient and any
  registrations, Start returns no error, its producer polls exactly the queues of the handlers
  and of the settings (default if these name none), each once, with empty channels and at least one worker;
  its row is recorded as active when the statement runs and the worker is new; and a second Start is refused with
  ErrAlreadyStarted and changes nothing.\<close>

theorem started_client_serves_its_queues:
  assumes "NewClient cn mg uuid ex cfg = Inr c0" and "c = register_all regs c0"
    and "0 \<le> cfWorkers cfg" and "lists_sets ord"
  shows "\<exists>c1 d1 p. Start ord e now c d = (Returned None, c1, d1) \<and> clPipeline c1 = Some p \<and>
    distinct (pdQueues (plProducer p)) \<and>
    set (pdQueues (plProducer p)) = hQueue ` ran (clHandlers c) \<union> config_queues cfg \<and>
    held p = [] \<and> exWorkers (plExecutor p) > 0 \<and>
    (find_row wID (clWorkerID c) (tWorkers d) = None \<longrightarrow> pgOutcome e = Done \<longrightarrow> int4_ok (cfWorkers cfg) \<longrightarrow>
      map_option wStatus (find_row wID (clWorkerID c) (tWorkers d1)) = Some ''active'') \<and>
    Start ord e' now' c1 d1 = (Returned (Some ErrAlreadyStarted), c1, d1)"
proof -
  have ready: "ready cfg c"
    using NewClient_ready [OF assms(1)] register_all_ready assms(2) by blast
  obtain p where start: "Start ord e now c d =
      (Returned None, c\<lparr>clStarted := True, clPipeline := Some p\<rparr>,
       snd (RegisterWorker e (this_worker now (ord (queue_set c)) c) d))"
    and p: "p = new_pipeline (cfNamespace (with_defaults cfg)) (ord (queue_set c)) (clWorkerID c)
      (nat (cfWorkers (with_defaults cfg)))"
    and qs: "distinct (pdQueues (plProducer p))" "set (pdQueues (plProducer p)) = queue_set c"
    using Start_ready [OF ready assms(3,4)] by metis
  have workers: "exWorkers (plExecutor p) > 0"
    by (simp add: p new_pipeline_def NewExecutor_def Let_def)
  have row: "map_option wStatus (find_row wID (clWorkerID c)
      (tWorkers (snd (RegisterWorker e (this_worker now (ord (queue_set c)) c) d)))) = Some ''active''"
    if "find_row wID (clWorkerID c) (tWorkers d) = None" "pgOutcome e = Done" "int4_ok (cfWorkers cfg)"
    using that ready
    by (auto simp: RegisterWorker_def run_stmt_def this_worker_def ready_def with_defaults_def int4_ok_def)
  show ?thesis
    using qs workers row queue_set_ready [OF ready] by (simp add: start p) (simp add: Start_def)
qed

section \<open>The queue of an enqueued job\<close>

lemma fetched_queue:
  assumes "jobs_wf s" and "FetchJobs ord e ns qs limit w s = (Inr got, s')" and "\<forall>xs. mset (ord xs) = mset xs"
    and "r \<in> set (tJobs s)" and "jQueue r \<notin> set qs"
  shows "jID r \<notin> jID ` set got"
proof
  assume "jID r \<in> jID ` set got"
  moreover have "set got = claim (pgNow e) w ` set (next_jobs e ns qs (nat limit) (tJobs s))"
    using FetchJobs_returns [OF assms(1-3)] by (metis set_map set_mset_mset)
  ultimately obtain t where t: "t \<in> set (next_jobs e ns qs (nat limit) (tJobs s))" "jID t = jID r"
    by auto
  then have "t \<in> set (tJobs s)" "jQueue t \<in> set qs"
    using subsetD [OF set_top_by t(1) [unfolded next_jobs_def]] by (simp_all add: fetchable_def)
  with t(2) assms(1,4,5) show False
    by (metis distinct_key_eq jobs_wf_def)
qed

lemma Enqueue_new_row:
  assumes "Enqueue ns ev q s = (Inr res, s')" and "\<not> erDuplicate res"
  shows "\<exists>r \<in> set (tJobs s'). jID r = ID (erJob res) \<and> erJob res = jobFromRow r \<and>
    jQueue r = (if eqQueue q = '''' then ''default'' else eqQueue q)"
proof -
  obtain pl md row where
    ins: "InsertJob (evFind ev) (evInsert ev) (insert_params ns ev q pl md) s = (Inr (row, erDuplicate res), s')"
    and job: "erJob res = jobFromRow row"
    using Enqueue_InrE [OF assms(1)] by metis
  from insert_new_InrD [OF InsertJob_new [OF ins assms(2)]] job show ?thesis
    by (auto simp: jobFromRow_def new_job_def insert_params_def Let_def)
qed

text \<open>C28 A job enqueued without a queue goes to the queue default, although a handler registered without
  a queue serves the queue named after its kind: a client whose settings name their queues, none of
  them default, and whose handlers have other queues never fetches such a job, even one of a kind it handles.\<close>

theorem job_without_queue_is_not_served:
  assumes "NewClient cn mg uuid ex cfg = Inr c0" and "c = register_all regs c0"
    and "lists_sets ord" and "Start ord e now c d = (Returned None, c1, d1)"
    and "clPipeline c1 = Some p"
    and "''default'' \<notin> hQueue ` ran (clHandlers c) \<union> config_queues cfg"
    and "jobs_wf d2" and "Enqueue ns ev q d2 = (Inr res, d3)" and "\<not> erDuplicate res" and "eqQueue q = ''''"
    and "FetchJobs ord' e' ns' (pdQueues (plProducer p)) limit w d3 = (Inr got, d4)"
    and "\<forall>xs. mset (ord' xs) = mset xs"
  shows "Queue (erJob res) = ''default'' \<and> ID (erJob res) \<notin> jID ` set got"
proof -
  have ready: "ready cfg c"
    using NewClient_ready [OF assms(1)] register_all_ready assms(2) by blast
  have workers: "0 \<le> cfWorkers cfg"
    using assms(4) ready with_defaults_workers [of cfg] by (simp add: Start_def ready_def Let_def split: if_splits)
  have "set (pdQueues (plProducer p)) = queue_set c"
    using Start_ready [OF ready workers assms(3), of e now d] assms(4,5) by auto
  then have out: "''default'' \<notin> set (pdQueues (plProducer p))"
    using assms(6) queue_set_ready [OF ready] by simp
  obtain r where r: "r \<in> set (tJobs d3)" "jID r = ID (erJob res)" "erJob res = jobFromRow r" "jQueue r = ''default''"
    using Enqueue_new_row [OF assms(8,9)] assms(10) by auto
  have "jobs_wf d3" using Enqueue_wf [OF assms(7), of ns ev q] assms(8) by simp
  moreover have "jQueue r \<notin> set (pdQueues (plProducer p))" using out r(4) by simp
  ultimately have "jID r \<notin> jID ` set got" using fetched_queue [OF _ assms(11,12) r(1)] by blast
  moreover have "Queue (erJob res) = ''default''" using r(3,4) by (simp add: jobFromRow_def)
  ultimately show ?thesis using r(2) by simp
qed

section \<open>Stopping\<close>

text \<open>
  A client that was not started ignores \<open>Shutdown\<close> and \<open>Close\<close>; a started one is told to
  stop once, and the second call panics, because it closes a closed channel.
\<close>

lemma shutdown_not_started: "\<not> clStarted c \<Longrightarrow> Shutdown wait c = (Returned None, c) \<and> Close wait c = (Returned None, c)"
  by (simp add: Shutdown_def Close_def)

lemma second_stop_panics:
  assumes "clStarted c" and "\<not> clShutdown c" and "Shutdown wait c = (x, c1)"
  shows "x = Returned wait \<and> Shutdown wait' c1 = (Panicked, c1) \<and> Close wait' c1 = (Panicked, c1)"
  using assms by (auto simp: Shutdown_def Close_def)

lemma negative_workers_panic:
  assumes "ready cfg c" and "cfWorkers cfg < 0"
  shows "fst (Start ord e now c d) = Panicked"
  using assms with_defaults_workers [of cfg] by (simp add: ready_def Start_def Let_def)

section \<open>Samples\<close>

definition sample_config :: Config where
  "sample_config =
    \<lparr>cfDatabaseURL = ''postgres://localhost/jobs'', cfMaxConns = 0, cfWorkers = 4,
     cfQueues = [\<lparr>cqName = ''fast'', cqPriority = 1, cqConcurrency = 2\<rparr>], cfNamespace = ''ns'',
     cfPollInterval = 0, cfJobTimeout = 0, cfAutoMigrate = True\<rparr>"

definition sample_connection :: connection where
  "sample_connection = \<lparr>cnParsed = Inr 4, cnCreated = None, cnPinged = None\<rparr>"

definition sample_client :: "unit Client" where
  "sample_client =
    \<lparr>clConfig = with_defaults sample_config, clPoolSize = 25, clWorkerID = ''w1'', clHandlers = Map.empty,
     clWorkflows = Map.empty,
     clEngine = SetHandlerStepExecutor (\<lambda>_ _ w. (Inr None, w)) (SetWorkerID ''w1'' (NewEngine ''ns'')),
     clPipeline = None, clStarted = False, clShutdown = False, clDone = False\<rparr>"

definition sample_regs :: "(string \<times> HandlerOptions list) list" where
  "sample_regs = [(''mail'', [])]"

lemma sample_new_client:
  "NewClient sample_connection None ''w1'' (\<lambda>_ _ w. (Inr None, w)) sample_config = Inr sample_client"
  by (simp add: NewClient_def sample_connection_def sample_config_def sample_client_def New_db_def
      with_defaults_def Let_def)

lemma sample_queue_set:
  "hQueue ` ran (clHandlers (register_all sample_regs sample_client)) \<union> config_queues sample_config = {''fast'', ''mail''}"
  by (simp add: sample_regs_def register_all_def RegisterHandler_client_def RegisterHandler_def
      sample_client_def config_queues_def sample_config_def zero_options_def Let_def)

theorem started_client_serves_its_queues_witness:
  "\<exists>c1 d1 p. Start sorted_list_of_set (pg_at 1) 1 (register_all sample_regs sample_client) empty_db =
      (Returned None, c1, d1) \<and> clPipeline c1 = Some p \<and>
    set (pdQueues (plProducer p)) = {''fast'', ''mail''} \<and>
    map_option wStatus (find_row wID ''w1'' (tWorkers d1)) = Some ''active''"
proof -
  have worker: "clWorkerID (register_all sample_regs sample_client) = ''w1''"
    by (simp add: sample_regs_def register_all_def RegisterHandler_client_def sample_client_def)
  have "0 \<le> cfWorkers sample_config" "int4_ok (cfWorkers sample_config)"
    "find_row wID ''w1'' (tWorkers empty_db) = None" "pgOutcome (pg_at 1) = Done"
    by (simp_all add: sample_config_def int4_ok_def empty_db_def)
  note facts = this
  obtain c1 d1 p where got: "Start sorted_list_of_set (pg_at 1) 1 (register_all sample_regs sample_client) empty_db =
      (Returned None, c1, d1)" "clPipeline c1 = Some p" "set (pdQueues (plProducer p)) = {''fast'', ''mail''}"
    "find_row wID ''w1'' (tWorkers empty_db) = None \<longrightarrow> pgOutcome (pg_at 1) = Done \<longrightarrow>
      int4_ok (cfWorkers sample_config) \<longrightarrow>
      map_option wStatus (find_row wID ''w1'' (tWorkers d1)) = Some ''active''"
    using started_client_serves_its_queues [OF sample_new_client refl facts(1) sorted_lists_sets,
        where regs = sample_regs and e = "pg_at 1" and now = 1 and d = empty_db]
    unfolding sample_queue_set worker by metis
  with facts show ?thesis by metis
qed

theorem job_without_queue_is_not_served_witness:
  "\<exists>c1 d1 p got d3 d4. Start sorted_list_of_set (pg_at 1) 1 (register_all sample_regs sample_client) empty_db =
      (Returned None, c1, d1) \<and> clPipeline c1 = Some p \<and> clHandlers c1 (eqKind sample_enqueue) \<noteq> None \<and>
    Enqueue ''ns'' (sample_env 60) sample_enqueue sample_db = (Inr sample_result, d3) \<and>
    FetchJobs rev (pg_at 80) ''ns'' (pdQueues (plProducer p)) 10 ''w1'' d3 = (Inr got, d4) \<and>
    ID (erJob sample_result) \<notin> jID ` set got"
proof -
  let ?c = "register_all sample_regs sample_client" and ?d = "snd (Enqueue ''ns'' (sample_env 60) sample_enqueue sample_db)"
  have ready: "ready sample_config ?c"
    using NewClient_ready [OF sample_new_client] register_all_ready by blast
  have "0 \<le> cfWorkers sample_config" by (simp add: sample_config_def)
  from Start_ready [OF ready this sorted_lists_sets, of "pg_at 1" 1 empty_db] queue_set_ready [OF ready]
  obtain p d1 where start: "Start sorted_list_of_set (pg_at 1) 1 ?c empty_db =
      (Returned None, ?c\<lparr>clStarted := True, clPipeline := Some p\<rparr>, d1)"
    and p: "p = new_pipeline (cfNamespace (with_defaults sample_config)) (sorted_list_of_set {''fast'', ''mail''})
      (clWorkerID ?c) (nat (cfWorkers (with_defaults sample_config)))"
    unfolding sample_queue_set by metis
  have "sorted_list_of_set {''fast'', ''mail''} = [''fast'', ''mail'']" by code_simp
  then have qs: "pdQueues (plProducer p) = [''fast'', ''mail'']" by (simp add: p queues_new)
  have "\<not> isl (fst (FetchJobs rev (pg_at 80) ''ns'' [''fast'', ''mail''] 10 ''w1'' ?d))" by code_simp
  then obtain got d4 where f: "FetchJobs rev (pg_at 80) ''ns'' (pdQueues (plProducer p)) 10 ''w1'' ?d = (Inr got, d4)"
    unfolding qs by (metis prod.collapse sum.collapse(2))
  have new: "\<not> erDuplicate sample_result" by code_simp
  have "''default'' \<notin> {''fast'', ''mail''}" by simp
  then have "ID (erJob sample_result) \<notin> jID ` set got"
    using job_without_queue_is_not_served [OF sample_new_client refl sorted_lists_sets start _ _ sample_wf
        sample_enqueued new _ f rev_rearranges] sample_queue_set
    by (simp add: sample_enqueue_def)
  moreover have "clHandlers ?c (eqKind sample_enqueue) \<noteq> None"
    by (simp add: sample_regs_def register_all_def RegisterHandler_client_def RegisterHandler_def
        sample_client_def sample_enqueue_def Let_def)
  ultimately show ?thesis using start f sample_enqueued by fastforce
qed

end
