(* ===== verification/Http_Api.thy ===== *)
theory Http_Api
  imports Client_Lifecycle Migrations
begin

text \<open>
  The HTTP API (\<^verbatim>\<open>api/http/server.go\<close>): the routes, the decoding of requests and the
  handlers over the operations of the client. A request has a method, the segments of
  its path (cleaned and unescaped, none of them empty) and a body, which is an error or
  the JSON value that it starts with. The texts of the errors of the standard library
  are not kept: one text stands for all errors of a kind.
\<close>

section \<open>Texts\<close>

text \<open>\<^verbatim>\<open>strconv.ParseInt (s, 10, 64)\<close> accepts what \<^verbatim>\<open>Atoi\<close> does.\<close>

definition ParseInt :: "string \<Rightarrow> error + int" where
  "ParseInt s = (case Atoi s of None \<Rightarrow> Inl (Errorf ''strconv.ParseInt: invalid number'') | Some n \<Rightarrow> Inr n)"

text \<open>
  A time in the strict format of RFC 3339, as \<^verbatim>\<open>Time.UnmarshalJSON\<close> reads it from a JSON
  string: digits in fixed places, an optional fraction of which nine digits count, and
  \<open>Z\<close> or an offset.
\<close>

definition parse_uint :: "int \<Rightarrow> int \<Rightarrow> string \<Rightarrow> int option" where
  "parse_uint lo hi s =
    (case digits_value 0 s of None \<Rightarrow> None | Some n \<Rightarrow> if lo \<le> n \<and> n \<le> hi then Some n else None)"

definition leap_year :: "int \<Rightarrow> bool" where
  "leap_year y \<longleftrightarrow> y mod 4 = 0 \<and> (y mod 100 \<noteq> 0 \<or> y mod 400 = 0)"

definition month_lengths :: "int \<Rightarrow> int list" where
  "month_lengths y = [31, if leap_year y then 29 else 28, 31, 30, 31, 30, 31, 31, 30, 31, 30, 31]"

text \<open>Days since the first of January of the year 1, the day of the zero time.\<close>

definition days_since :: "int \<Rightarrow> int \<Rightarrow> int \<Rightarrow> int" where
  "days_since y m d =
    365 * (y - 1) + (y - 1) div 4 - (y - 1) div 100 + (y - 1) div 400 +
    sum_list (take (nat (m - 1)) (month_lengths y)) + (d - 1)"

definition is_digit :: "char \<Rightarrow> bool" where
  "is_digit c \<longleftrightarrow> (of_char c :: int) \<in> {48..57}"

text \<open>The nanoseconds of a fraction and what follows it.\<close>

definition parse_fraction :: "string \<Rightarrow> int \<times> string" where
  "parse_fraction s =
    (case s of
      CHR ''.'' # cs \<Rightarrow>
        (let ds = takeWhile is_digit cs in
         if ds = [] then (0, s)
         else (case digits_value 0 (take 9 ds) of Some n \<Rightarrow> n * 10 ^ (9 - length (take 9 ds)) | None \<Rightarrow> 0,
               drop (length ds) cs))
    | _ \<Rightarrow> (0, s))"

text \<open>The offset in seconds.\<close>

definition parse_zone :: "string \<Rightarrow> int option" where
  "parse_zone s =
    (if s = ''Z'' then Some 0
     else if length s \<noteq> 6 \<or> hd s \<notin> {CHR ''+'', CHR ''-''} \<or> s ! 3 \<noteq> CHR '':'' then None
     else Option.bind (parse_uint 0 23 (take 2 (drop 1 s))) (\<lambda>h.
       Option.bind (parse_uint 0 59 (drop 4 s)) (\<lambda>m.
         Some ((if hd s = CHR ''-'' then - 1 else 1) * (h * 60 + m) * 60))))"

definition parse_time :: "string \<Rightarrow> instant option" where
  "parse_time s =
    (if length s < 19 \<or> s ! 4 \<noteq> CHR ''-'' \<or> s ! 7 \<noteq> CHR ''-'' \<or> s ! 10 \<noteq> CHR ''T'' \<or>
        s ! 13 \<noteq> CHR '':'' \<or> s ! 16 \<noteq> CHR '':'' then None
     else
       Option.bind (parse_uint 0 9999 (take 4 s)) (\<lambda>y.
       Option.bind (parse_uint 1 12 (take 2 (drop 5 s))) (\<lambda>mo.
       Option.bind (parse_uint 1 (month_lengths y ! nat (mo - 1)) (take 2 (drop 8 s))) (\<lambda>d.
       Option.bind (parse_uint 0 23 (take 2 (drop 11 s))) (\<lambda>h.
       Option.bind (parse_uint 0 59 (take 2 (drop 14 s))) (\<lambda>mi.
       Option.bind (parse_uint 0 59 (take 2 (drop 17 s))) (\<lambda>sec.
       (case parse_fraction (drop 19 s) of (ns, rest) \<Rightarrow>
         map_option (\<lambda>zone.
           ((days_since y mo d * 24 + h) * 3600 + mi * 60 + sec - zone) * 1000000000 + ns)
           (parse_zone rest)))))))))"

section \<open>Requests\<close>

record enqueueRequest =
  rqKind :: string
  rqPayload :: "json option"
  rqQueue :: string
  rqPriority :: int16
  rqScheduleAt :: "instant option"
  rqIdempotencyKey :: string
  rqMaxAttempts :: int16

definition zero_request :: enqueueRequest where
  "zero_request =
    \<lparr>rqKind = '''', rqPayload = None, rqQueue = '''', rqPriority = 0, rqScheduleAt = None,
     rqIdempotencyKey = '''', rqMaxAttempts = 0\<rparr>"

text \<open>
  \<^verbatim>\<open>Decode\<close> sets the field a key names, in the order of the keys and without regard to
  case; null leaves a text or a number as it is. Any error is an error of the whole call.
  The payload takes every value, null too.
\<close>

fun decode_text :: "json \<Rightarrow> string \<Rightarrow> string option" where
  "decode_text JNull old = Some old"
| "decode_text (JStr s) old = Some s"
| "decode_text _ old = None"

fun decode_int16 :: "json \<Rightarrow> int16 \<Rightarrow> int16 option" where
  "decode_int16 JNull old = Some old"
| "decode_int16 (JNum n) old = (if - 32768 \<le> n \<and> n \<le> 32767 then Some (word_of_int n) else None)"
| "decode_int16 _ old = None"

fun decode_time :: "json \<Rightarrow> instant option option" where
  "decode_time JNull = Some None"
| "decode_time (JStr s) = map_option Some (parse_time s)"
| "decode_time _ = None"

definition decode_field :: "string \<times> json \<Rightarrow> enqueueRequest \<Rightarrow> enqueueRequest option" where
  "decode_field kv q =
    (case kv of (a, v) \<Rightarrow>
      (let k = lower a in
       if k = ''kind'' then map_option (\<lambda>x. q\<lparr>rqKind := x\<rparr>) (decode_text v (rqKind q))
       else if k = ''payload'' then Some (q\<lparr>rqPayload := Some v\<rparr>)
       else if k = ''queue'' then map_option (\<lambda>x. q\<lparr>rqQueue := x\<rparr>) (decode_text v (rqQueue q))
       else if k = ''priority'' then map_option (\<lambda>x. q\<lparr>rqPriority := x\<rparr>) (decode_int16 v (rqPriority q))
       else if k = ''schedule_at'' then map_option (\<lambda>x. q\<lparr>rqScheduleAt := x\<rparr>) (decode_time v)
       else if k = ''idempotency_key''
         then map_option (\<lambda>x. q\<lparr>rqIdempotencyKey := x\<rparr>) (decode_text v (rqIdempotencyKey q))
       else if k = ''max_attempts''
         then map_option (\<lambda>x. q\<lparr>rqMaxAttempts := x\<rparr>) (decode_int16 v (rqMaxAttempts q))
       else Some q))"

fun decode_fields :: "(string \<times> json) list \<Rightarrow> enqueueRequest \<Rightarrow> enqueueRequest option" where
  "decode_fields [] q = Some q"
| "decode_fields (kv # kvs) q = Option.bind (decode_field kv q) (decode_fields kvs)"

definition decode_request :: "error + json \<Rightarrow> error + enqueueRequest" where
  "decode_request body =
    (case body of
      Inl err \<Rightarrow> Inl err
    | Inr JNull \<Rightarrow> Inr zero_request
    | Inr (JObj kvs) \<Rightarrow> (case decode_fields kvs zero_request of None \<Rightarrow> Inl type_error | Some q \<Rightarrow> Inr q)
    | Inr _ \<Rightarrow> Inl type_error)"

section \<open>Responses\<close>

record jobResponse =
  jrID :: int
  jrKind :: string
  jrQueue :: string
  jrState :: string
  jrPayload :: json
  jrPriority :: int16
  jrAttempt :: int16
  jrMaxAttempts :: int16
  jrScheduledAt :: instant
  jrCreatedAt :: instant
  jrUpdatedAt :: instant

record errorResponse =
  erError :: string
  erMessage :: string

datatype response_body =
    JobBody jobResponse
  | ErrorBody errorResponse
  | StatusBody string
  | LogsBody "WorkflowStepLog list"
  | PlainBody string
  | NoBody

record response =
  rpStatus :: int
  rpBody :: response_body

fun StatusText :: "int \<Rightarrow> string" where
  "StatusText n =
    (if n = 200 then ''OK'' else if n = 201 then ''Created'' else if n = 204 then ''No Content''
     else if n = 400 then ''Bad Request'' else if n = 404 then ''Not Found''
     else if n = 500 then ''Internal Server Error'' else if n = 501 then ''Not Implemented'' else '''')"

definition writeJSON :: "int \<Rightarrow> response_body \<Rightarrow> response" where
  "writeJSON status data = \<lparr>rpStatus = status, rpBody = data\<rparr>"

definition writeError :: "int \<Rightarrow> string \<Rightarrow> error option \<Rightarrow> response" where
  "writeError status message err =
    writeJSON status (ErrorBody
      \<lparr>erError = StatusText status,
       erMessage = (case err of None \<Rightarrow> message | Some e \<Rightarrow> message @ '': '' @ err_msg e)\<rparr>)"

definition jobToResponse :: "Job \<Rightarrow> jobResponse" where
  "jobToResponse j =
    \<lparr>jrID = ID j, jrKind = Kind j, jrQueue = Queue j, jrState = job_state_text (State j),
     jrPayload = Payload j, jrPriority = Priority j, jrAttempt = Attempt j, jrMaxAttempts = Job.MaxAttempts j,
     jrScheduledAt = ScheduledAt j, jrCreatedAt = CreatedAt j, jrUpdatedAt = UpdatedAt j\<rparr>"

section \<open>Handlers\<close>

definition request_params :: "enqueueRequest \<Rightarrow> EnqueueParams" where
  "request_params q =
    \<lparr>eqKind = rqKind q, eqPayload = map_option Inr (rqPayload q), eqQueue = rqQueue q,
     eqPriority = rqPriority q, eqScheduleAt = (case rqScheduleAt q of None \<Rightarrow> 0 | Some t \<Rightarrow> t),
     eqIdempotencyKey = rqIdempotencyKey q, eqMetadata = None, eqMaxAttempts = rqMaxAttempts q,
     eqWorkflowRunID = None, eqStepID = ''''\<rparr>"

definition handleEnqueue :: "string \<Rightarrow> enqueue_env \<Rightarrow> error + json \<Rightarrow> db \<Rightarrow> response \<times> db" where
  "handleEnqueue ns ev body d =
    (case decode_request body of
      Inl err \<Rightarrow> (writeError 400 ''invalid request body'' (Some err), d)
    | Inr req \<Rightarrow>
      (case Enqueue ns ev (request_params req) d of
        (Inl err, d') \<Rightarrow> (writeError 500 ''failed to enqueue job'' (Some err), d')
      | (Inr result, d') \<Rightarrow>
          (writeJSON (if erDuplicate result then 200 else 201) (JobBody (jobToResponse (erJob result))), d')))"

definition handleGetJob :: "pg \<Rightarrow> string \<Rightarrow> db \<Rightarrow> response \<times> db" where
  "handleGetJob e i d =
    (case ParseInt i of
      Inl err \<Rightarrow> (writeError 400 ''invalid job ID'' (Some err), d)
    | Inr n \<Rightarrow>
      (case GetJob_client e n d of
        (Inl err, d') \<Rightarrow> (writeError 500 ''failed to get job'' (Some err), d')
      | (Inr None, d') \<Rightarrow> (writeError 404 ''job not found'' None, d')
      | (Inr (Some job), d') \<Rightarrow> (writeJSON 200 (JobBody (jobToResponse job)), d')))"

definition handleCancelJob :: "pg \<Rightarrow> string \<Rightarrow> db \<Rightarrow> response \<times> db" where
  "handleCancelJob e i d =
    (case ParseInt i of
      Inl err \<Rightarrow> (writeError 400 ''invalid job ID'' (Some err), d)
    | Inr n \<Rightarrow>
      (case CancelJob_client e n d of
        (Inl err, d') \<Rightarrow> (writeError 500 ''failed to cancel job'' (Some err), d')
      | (Inr _, d') \<Rightarrow> (\<lparr>rpStatus = 204, rpBody = NoBody\<rparr>, d')))"

definition handleRetryJob :: response where
  "handleRetryJob = writeError 501 ''not implemented'' None"

definition handleStartWorkflow :: response where
  "handleStartWorkflow = writeError 501 ''not implemented'' None"

definition handleGetWorkflowRun :: response where
  "handleGetWorkflowRun = writeError 501 ''not implemented'' None"

definition handleCancelWorkflow :: "pg \<Rightarrow> string \<Rightarrow> db \<Rightarrow> response \<times> db" where
  "handleCancelWorkflow e i d =
    (case ParseInt i of
      Inl err \<Rightarrow> (writeError 400 ''invalid workflow run ID'' (Some err), d)
    | Inr n \<Rightarrow>
      (case CancelWorkflowRun e n d of
        (Inl err, d') \<Rightarrow> (writeError 500 ''failed to cancel workflow'' (Some err), d')
      | (Inr _, d') \<Rightarrow> (\<lparr>rpStatus = 204, rpBody = NoBody\<rparr>, d')))"

definition handleGetWorkflowStepLogs ::
  "(WorkflowStepLog list \<Rightarrow> WorkflowStepLog list) \<Rightarrow> pg \<Rightarrow> string \<Rightarrow> db \<Rightarrow> response \<times> db" where
  "handleGetWorkflowStepLogs ord e i d =
    (case ParseInt i of
      Inl err \<Rightarrow> (writeError 400 ''invalid workflow run ID'' (Some err), d)
    | Inr n \<Rightarrow>
      (case GetWorkflowStepLogs_client ord e n d of
        (Inl err, d') \<Rightarrow> (writeError 500 ''failed to get step logs'' (Some err), d')
      | (Inr logs, d') \<Rightarrow> (writeJSON 200 (LogsBody logs), d')))"

definition handleRerunWorkflowStep ::
  "env \<Rightarrow> (string \<rightharpoonup> 'w Workflow) \<Rightarrow> string \<Rightarrow> string \<Rightarrow> 'w run \<Rightarrow> response \<times> 'w run" where
  "handleRerunWorkflowStep env wfs i stepID r =
    (case ParseInt i of
      Inl err \<Rightarrow> (writeError 400 ''invalid workflow run ID'' (Some err), r)
    | Inr n \<Rightarrow>
      if stepID = '''' then (writeError 400 ''step ID is required'' None, r)
      else (case RerunWorkflowStep env wfs n stepID r of
        (Some err, r') \<Rightarrow> (writeError 500 ''failed to rerun step'' (Some err), r')
      | (None, r') \<Rightarrow> (writeJSON 200 (StatusBody ''rerun started''), r')))"

definition handleHealth :: response where
  "handleHealth = writeJSON 200 (StatusBody ''ok'')"

section \<open>Routes\<close>

datatype segment = Lit string | Wild

datatype endpoint =
    Enqueue_Job | Get_Job | Cancel_Job | Retry_Job | Start_Workflow | Get_Workflow_Run
  | Cancel_Workflow | Get_Step_Logs | Rerun_Step | Health

type_synonym 'e route = "string \<times> segment list \<times> 'e"

definition routes :: "endpoint route list" where
  "routes =
    (let v1 = (\<lambda>rest. Lit ''api'' # Lit ''v1'' # rest); job = (\<lambda>rest. v1 (Lit ''jobs'' # rest));
         wf = (\<lambda>rest. v1 (Lit ''workflows'' # rest))
     in [(''POST'', job [], Enqueue_Job),
         (''GET'', job [Wild], Get_Job),
         (''POST'', job [Wild, Lit ''cancel''], Cancel_Job),
         (''POST'', job [Wild, Lit ''retry''], Retry_Job),
         (''POST'', wf [Wild, Lit ''start''], Start_Workflow),
         (''GET'', wf [Lit ''runs'', Wild], Get_Workflow_Run),
         (''POST'', wf [Lit ''runs'', Wild, Lit ''cancel''], Cancel_Workflow),
         (''GET'', wf [Lit ''runs'', Wild, Lit ''steps''], Get_Step_Logs),
         (''POST'', wf [Lit ''runs'', Wild, Lit ''steps'', Wild, Lit ''rerun''], Rerun_Step),
         (''GET'', [Lit ''health''], Health)])"

text \<open>
  \<^verbatim>\<open>http.ServeMux\<close>: a wildcard takes one segment, \<^verbatim>\<open>GET\<close> serves \<^verbatim>\<open>HEAD\<close> too, and a
  path that only other methods have is answered 405. Patterns that conflict would make
  \<open>NewServer\<close> panic; there are none (lemma \<open>routes_distinct\<close>).
\<close>

fun match_segments :: "segment list \<Rightarrow> string list \<Rightarrow> string list option" where
  "match_segments [] [] = Some []"
| "match_segments (Lit s # ps) (x # xs) = (if s = x then match_segments ps xs else None)"
| "match_segments (Wild # ps) (x # xs) = map_option ((#) x) (match_segments ps xs)"
| "match_segments _ _ = None"

definition method_fits :: "string \<Rightarrow> string \<Rightarrow> bool" where
  "method_fits pattern m \<longleftrightarrow> pattern = m \<or> pattern = ''GET'' \<and> m = ''HEAD''"

fun matching :: "'e route list \<Rightarrow> string \<Rightarrow> string list \<Rightarrow> ('e \<times> string list) list" where
  "matching [] m path = []"
| "matching ((pm, pattern, target) # rest) m path =
    (case match_segments pattern path of
      Some args \<Rightarrow> if method_fits pm m then (target, args) # matching rest m path else matching rest m path
    | None \<Rightarrow> matching rest m path)"

record request =
  rqMethod :: string
  rqPath :: "string list"
  rqBody :: "error + json"

text \<open>What a request gets from outside.\<close>

record http_env =
  heEnqueue :: enqueue_env
  heAnswer :: pg
  heOrder :: "WorkflowStepLog list \<Rightarrow> WorkflowStepLog list"
  heRun :: env

definition on_db :: "(db \<Rightarrow> response \<times> db) \<Rightarrow> 'w run \<Rightarrow> response \<times> 'w run" where
  "on_db h r = (case h (rnDB r) of (resp, d) \<Rightarrow> (resp, r\<lparr>rnDB := d\<rparr>))"

fun call_endpoint ::
  "string \<Rightarrow> (string \<rightharpoonup> 'w Workflow) \<Rightarrow> http_env \<Rightarrow> error + json \<Rightarrow> endpoint \<Rightarrow> string list \<Rightarrow> 'w run \<Rightarrow> response \<times> 'w run" where
  "call_endpoint ns wfs h body Enqueue_Job args r = on_db (handleEnqueue ns (heEnqueue h) body) r"
| "call_endpoint ns wfs h body Get_Job args r = on_db (handleGetJob (heAnswer h) (hd args)) r"
| "call_endpoint ns wfs h body Cancel_Job args r = on_db (handleCancelJob (heAnswer h) (hd args)) r"
| "call_endpoint ns wfs h body Retry_Job args r = (handleRetryJob, r)"
| "call_endpoint ns wfs h body Start_Workflow args r = (handleStartWorkflow, r)"
| "call_endpoint ns wfs h body Get_Workflow_Run args r = (handleGetWorkflowRun, r)"
| "call_endpoint ns wfs h body Cancel_Workflow args r = on_db (handleCancelWorkflow (heAnswer h) (hd args)) r"
| "call_endpoint ns wfs h body Get_Step_Logs args r =
    on_db (handleGetWorkflowStepLogs (heOrder h) (heAnswer h) (hd args)) r"
| "call_endpoint ns wfs h body Rerun_Step args r =
    handleRerunWorkflowStep (heRun h) wfs (hd args) (args ! 1) r"
| "call_endpoint ns wfs h body Health args r = (handleHealth, r)"

definition mux :: "string \<Rightarrow> (string \<rightharpoonup> 'w Workflow) \<Rightarrow> http_env \<Rightarrow> request \<Rightarrow> 'w run \<Rightarrow> response \<times> 'w run" where
  "mux ns wfs h q r =
    (case matching routes (rqMethod q) (rqPath q) of
      (target, args) # _ \<Rightarrow> call_endpoint ns wfs h (rqBody q) target args r
    | [] \<Rightarrow>
        if list_ex (\<lambda>(m, p, t). match_segments p (rqPath q) \<noteq> None) routes
        then (\<lparr>rpStatus = 405, rpBody = PlainBody ''Method Not Allowed''\<rparr>, r)
        else (\<lparr>rpStatus = 404, rpBody = PlainBody ''404 page not found''\<rparr>, r))"

text \<open>The authentication of the configuration wraps all routes.\<close>

definition NewServer ::
  "((request \<Rightarrow> 'w run \<Rightarrow> response \<times> 'w run) \<Rightarrow> request \<Rightarrow> 'w run \<Rightarrow> response \<times> 'w run) option
    \<Rightarrow> string \<Rightarrow> (string \<rightharpoonup> 'w Workflow) \<Rightarrow> http_env \<Rightarrow> request \<Rightarrow> 'w run \<Rightarrow> response \<times> 'w run" where
  "NewServer auth ns wfs h = (case auth of None \<Rightarrow> mux ns wfs h | Some middleware \<Rightarrow> middleware (mux ns wfs h))"

end
