(* ===== verification/Http_Spec.thy ===== *)
theory Http_Spec
  imports Http_Api Job_Types
begin

text \<open>
  What the HTTP API guarantees: the routes do not overlap, the identifiers it writes are the
  ones it reads, a posted job can be read and cancelled under its identifier, and what the
  statuses tell of the effect of a request.
\<close>

section \<open>Routes\<close>

fun overlap :: "segment list \<Rightarrow> segment list \<Rightarrow> bool" where
  "overlap [] [] = True"
| "overlap (Lit s # ps) (Lit t # qs) = (s = t \<and> overlap ps qs)"
| "overlap (p # ps) (q # qs) = overlap ps qs"
| "overlap _ _ = False"

lemma match_overlap: "match_segments p xs \<noteq> None \<Longrightarrow> match_segments q xs \<noteq> None \<Longrightarrow> overlap p q"
proof (induction p arbitrary: q xs)
  case Nil
  then show ?case by (cases xs; cases q; cases "hd q") auto
next
  case (Cons a p)
  then obtain x rest where xs: "xs = x # rest" by (cases xs; cases a) auto
  with Cons.prems obtain b q' where q: "q = b # q'" by (cases q) auto
  from Cons show ?case by (cases a; cases b) (auto simp: xs q split: if_splits)
qed

text \<open>Two patterns of one method never take the same path.\<close>

definition no_conflict :: "'e route list \<Rightarrow> bool" where
  "no_conflict rs \<longleftrightarrow>
    sorted_wrt (\<lambda>(m, p, _) (m', p', _). m = m' \<longrightarrow> \<not> overlap p p') rs \<and> list_all (\<lambda>(m, _). m \<noteq> ''HEAD'') rs"

lemma routes_no_conflict: "no_conflict routes"
  by code_simp

lemma matching_one: "no_conflict rs \<Longrightarrow> length (matching rs m path) \<le> 1"
proof (induction rs)
  case (Cons r rs)
  obtain pm p t where r: "r = (pm, p, t)" by (cases r)
  have "matching rs m path = []"
    if "match_segments p path \<noteq> None" "method_fits pm m"
      "list_all (\<lambda>(m', p', _). (pm = m' \<longrightarrow> \<not> overlap p p') \<and> m' \<noteq> ''HEAD'') rs" "pm \<noteq> ''HEAD''"
    using that
  proof (induction rs)
    case (Cons r' rs)
    obtain pm' p' t' where r': "r' = (pm', p', t')" by (cases r')
    have "\<not> (match_segments p' path \<noteq> None \<and> method_fits pm' m)"
      using Cons.prems match_overlap [of p path p'] by (auto simp: r' method_fits_def)
    moreover have "matching rs m path = []" using Cons by auto
    ultimately show ?case by (auto simp: r' split: option.splits)
  qed simp
  moreover have "list_all (\<lambda>(m', p', _). (pm = m' \<longrightarrow> \<not> overlap p p') \<and> m' \<noteq> ''HEAD'') rs" "pm \<noteq> ''HEAD''"
    using Cons.prems by (auto simp: no_conflict_def r list_all_iff)
  moreover have "length (matching rs m path) \<le> 1"
    using Cons by (auto simp: no_conflict_def)
  ultimately show ?case by (auto simp: r split: option.splits)
qed simp

lemma matching_alone:
  assumes "no_conflict rs" and "(target, args) \<in> set (matching rs m path)"
  shows "matching rs m path = [(target, args)]"
  using assms(2) matching_one [OF assms(1), of m path]
  by (cases "matching rs m path") (auto simp: le_Suc_eq)

lemma routes_distinct: "length (matching routes m path) \<le> 1"
  by (rule matching_one [OF routes_no_conflict])

text \<open>A request is served by the route that takes it.\<close>

lemma mux_by:
  assumes "(target, args) \<in> set (matching routes (rqMethod q) (rqPath q))"
  shows "mux ns wfs h q r = call_endpoint ns wfs h (rqBody q) target args r"
  using matching_alone [OF routes_no_conflict assms] by (simp add: mux_def)

section \<open>Identifiers\<close>

lemma digits_value_append:
  "digits_value n (xs @ ys) = (case digits_value n xs of None \<Rightarrow> None | Some k \<Rightarrow> digits_value k ys)"
  by (induction xs arbitrary: n) (simp_all add: Let_def)

lemma of_char_digit: "0 \<le> k \<Longrightarrow> k < 10 \<Longrightarrow> (of_char (char_of (48 + k) :: char) :: int) = 48 + k"
  by simp

lemma digits_value_digits: "0 \<le> n \<Longrightarrow> digits_value 0 (digits n) = Some n"
proof (induction n rule: digits.induct)
  case (1 n)
  show ?case
  proof (cases "n < 10")
    case True
    then show ?thesis using 1(2) by (simp add: digits.simps [of n] Let_def)
  next
    case False
    then have "digits_value 0 (digits (n div 10)) = Some (n div 10)" using 1 by simp
    then show ?thesis
      using False by (simp add: digits.simps [of n] digits_value_append Let_def)
  qed
qed

lemma digit_no_sign: "0 \<le> n \<Longrightarrow> n < 10 \<Longrightarrow> char_of (48 + n :: int) \<noteq> CHR ''-''"
    "0 \<le> n \<Longrightarrow> n < 10 \<Longrightarrow> char_of (48 + n :: int) \<noteq> CHR ''+''"
  by (rule notI, drule arg_cong [where f = "of_char :: char \<Rightarrow> int"], simp)+

lemma digits_no_sign: "0 \<le> n \<Longrightarrow> \<exists>c cs. digits n = c # cs \<and> c \<noteq> CHR ''-'' \<and> c \<noteq> CHR ''+''"
proof (induction n rule: digits.induct)
  case (1 n)
  show ?case
  proof (cases "n < 10")
    case True
    then show ?thesis using 1(2) digit_no_sign [of n] by (simp add: digits.simps [of n])
  next
    case False
    moreover have "0 \<le> n div 10" using 1(2) by simp
    ultimately show ?thesis using 1(1) by (auto simp: digits.simps [of n])
  qed
qed

lemma unsigned_case:
  "c \<noteq> CHR ''-'' \<Longrightarrow> c \<noteq> CHR ''+'' \<Longrightarrow>
    (case c # cs of CHR ''-'' # cs \<Rightarrow> (True, cs) | CHR ''+'' # cs \<Rightarrow> (False, cs) | _ \<Rightarrow> (False, c # cs)) = (False, c # cs)"
  by (cases c) (auto split: bool.split)

lemma Atoi_int_text: "int8_ok n \<Longrightarrow> Atoi (int_text n) = Some n"
proof (cases "n < 0")
  case True
  assume "int8_ok n"
  with True show ?thesis by (simp add: Atoi_def int_text_def digits_value_digits)
next
  case False
  assume ok: "int8_ok n"
  obtain c cs where d: "digits n = c # cs" "c \<noteq> CHR ''-''" "c \<noteq> CHR ''+''"
    using digits_no_sign [of n] False by auto
  have "digits_value 0 (c # cs) = Some n" using digits_value_digits [of n] False d(1) by simp
  then show ?thesis
    using False d(1) ok unsigned_case [OF d(2,3), of cs]
    by (simp only: Atoi_def int_text_def if_False) (simp del: digits_value.simps list.case)
qed

lemma ParseInt_int_text: "int8_ok n \<Longrightarrow> ParseInt (int_text n) = Inr n"
  by (simp add: ParseInt_def Atoi_int_text)

section \<open>Posted jobs\<close>

lemma insert_new_in_table: "insert_new e p s = (Inr (r, d), s') \<Longrightarrow> r \<in> set (tJobs s')"
  using insert_new_InrD [of e p s r d s'] by simp

lemma InsertJob_in_table: "InsertJob e1 e2 p s = (Inr (r, d), s') \<Longrightarrow> r \<in> set (tJobs s')"
  by (auto simp: InsertJob_def run_stmt_def dest: find_live_SomeD insert_new_in_table
      split: option.splits outcome.splits)

lemma Enqueue_can_be_read:
  assumes "jobs_wf s" and "Enqueue ns ev q s = (Inr res, s')" and "pgOutcome e = Done"
  shows "GetJob_client e (ID (erJob res)) s' = (Inr (Some (erJob res)), s')"
proof -
  obtain pl md row where
    ins: "InsertJob (evFind ev) (evInsert ev) (insert_params ns ev q pl md) s = (Inr (row, erDuplicate res), s')"
    and job: "erJob res = jobFromRow row"
    using Enqueue_InrE [OF assms(2)] by metis
  have "jobs_wf s'" using InsertJob_wfD [OF assms(1) ins] .
  then have "job_lookup (jID row) s' = Some row"
    using InsertJob_in_table [OF ins] by (simp add: lookup_iff)
  moreover have "ID (erJob res) = jID row" by (simp add: job jobFromRow_def)
  ultimately show ?thesis
    using assms(3) by (simp add: GetJob_client_def GetJob_def run_stmt_def job_lookup_def job)
qed

lemma Enqueue_duplicate:
  assumes "Enqueue ns ev q s = (Inr res, s')" and "erDuplicate res"
  shows "s' = s"
proof -
  obtain pl md row where
    "InsertJob (evFind ev) (evInsert ev) (insert_params ns ev q pl md) s = (Inr (row, True), s')"
    using Enqueue_InrE [OF assms(1)] assms(2) by metis
  then show ?thesis
    by (auto simp: InsertJob_def run_stmt_def dest: insert_new_InrD split: option.splits outcome.splits)
qed

lemma Enqueue_typed:
  assumes "jobs_typed s" and "Enqueue ns ev q s = (Inr res, s')"
  shows "jobs_typed s'" and "int8_ok (ID (erJob res))"
proof -
  obtain pl md row where
    ins: "InsertJob (evFind ev) (evInsert ev) (insert_params ns ev q pl md) s = (Inr (row, erDuplicate res), s')"
    and job: "erJob res = jobFromRow row"
    using Enqueue_InrE [OF assms(2)] by metis
  have "s' = s \<or> s' = snd (insert_new (evInsert ev) (insert_params ns ev q pl md) s)"
    using InsertJob_state [of "evFind ev" "evInsert ev" "insert_params ns ev q pl md" s] ins by simp
  then show typed: "jobs_typed s'" using assms(1) insert_typed by blast
  show "int8_ok (ID (erJob res))"
    using typed InsertJob_in_table [OF ins]
    by (fastforce simp: job jobFromRow_def jobs_typed_def int8_ok_def seq_max_def)
qed

text \<open>The requests of the API, as a client writes them.\<close>

definition post_job :: "error + json \<Rightarrow> request" where
  "post_job body = \<lparr>rqMethod = ''POST'', rqPath = [''api'', ''v1'', ''jobs''], rqBody = body\<rparr>"

definition get_job :: "int \<Rightarrow> request" where
  "get_job i = \<lparr>rqMethod = ''GET'', rqPath = [''api'', ''v1'', ''jobs'', int_text i], rqBody = Inl (Errorf ''EOF'')\<rparr>"

definition cancel_job :: "int \<Rightarrow> request" where
  "cancel_job i =
    \<lparr>rqMethod = ''POST'', rqPath = [''api'', ''v1'', ''jobs'', int_text i, ''cancel''], rqBody = Inl (Errorf ''EOF'')\<rparr>"

lemma mux_post_job: "mux ns wfs h (post_job body) r = on_db (handleEnqueue ns (heEnqueue h) body) r"
  by (subst mux_by [of Enqueue_Job "[]"]) (simp_all add: post_job_def routes_def method_fits_def)

lemma mux_get_job: "mux ns wfs h (get_job i) r = on_db (handleGetJob (heAnswer h) (int_text i)) r"
  by (subst mux_by [of Get_Job "[int_text i]"]) (simp_all add: get_job_def routes_def method_fits_def)

lemma mux_cancel_job: "mux ns wfs h (cancel_job i) r = on_db (handleCancelJob (heAnswer h) (int_text i)) r"
  by (subst mux_by [of Cancel_Job "[int_text i]"]) (simp_all add: cancel_job_def routes_def method_fits_def)

text \<open>C18 A job posted through the API can be read through it: a POST that is answered with a status below 400
  returns a job, 201 for a new one and 200 for a duplicate, and a GET of the identifier it shows,
  when the server answers, returns 200 and the very same job and changes nothing.\<close>

theorem posted_job_can_be_read:
  assumes "jobs_wf (rnDB r)" and "jobs_typed (rnDB r)"
    and "mux ns wfs h (post_job body) r = (resp, r')" and "rpStatus resp < 400"
    and "pgOutcome (heAnswer h') = Done"
  shows "\<exists>j. rpBody resp = JobBody j \<and> (rpStatus resp = 201 \<or> rpStatus resp = 200 \<and> r' = r) \<and>
    mux ns wfs h' (get_job (jrID j)) r' = (\<lparr>rpStatus = 200, rpBody = JobBody j\<rparr>, r')"
proof -
  obtain q where q: "decode_request body = Inr q"
    using assms(3,4) by (cases "decode_request body")
      (auto simp: mux_post_job on_db_def handleEnqueue_def writeError_def writeJSON_def)
  obtain x d where run: "Enqueue ns (heEnqueue h) (request_params q) (rnDB r) = (x, d)" by fastforce
  obtain res where x: "x = Inr res"
    using assms(3,4) q run by (cases x)
      (auto simp: mux_post_job on_db_def handleEnqueue_def writeError_def writeJSON_def)
  have resp: "resp = writeJSON (if erDuplicate res then 200 else 201) (JobBody (jobToResponse (erJob res)))"
    and r': "r' = r\<lparr>rnDB := d\<rparr>"
    using assms(3) q run x by (simp_all add: mux_post_job on_db_def handleEnqueue_def)
  have dup: "d = rnDB r" if "erDuplicate res"
    using Enqueue_duplicate run x that by blast
  have get: "GetJob_client (heAnswer h') (ID (erJob res)) d = (Inr (Some (erJob res)), d)"
    using Enqueue_can_be_read [OF assms(1) run [unfolded x] assms(5)] .
  have "mux ns wfs h' (get_job (ID (erJob res))) r' = (\<lparr>rpStatus = 200, rpBody = JobBody (jobToResponse (erJob res))\<rparr>, r')"
    using Enqueue_typed(2) [OF assms(2) run [unfolded x]] get
    by (simp add: mux_get_job on_db_def handleGetJob_def ParseInt_int_text r' writeJSON_def)
  then show ?thesis
    using dup by (auto simp: resp writeJSON_def jobToResponse_def r')
qed

definition sample_body :: "error + json" where
  "sample_body = Inr (JObj [(''Kind'', JStr ''mail''), (''payload'', JObj [(''to'', JStr ''a'')]), (''priority'', JNum 3),
    (''schedule_at'', JStr ''1970-01-01T00:00:00Z'')])"

definition sample_http :: http_env where
  "sample_http =
    \<lparr>heEnqueue = \<lparr>evNow1 = 60, evNow2 = 60, evFind = pg_at 60, evInsert = pg_at 60\<rparr>, heAnswer = pg_at 70,
     heOrder = id, heRun = \<lparr>evAnswer = (\<lambda>_. pg_at 70), evMoves = (\<lambda>_. []), evOrder = (\<lambda>_. id)\<rparr>\<rparr>"

definition sample_server :: "unit run" where
  "sample_server = \<lparr>rnDB = empty_db, rnTick = 0, rnWorld = (), rnState = Map.empty, rnSteps = Map.empty\<rparr>"

theorem posted_job_can_be_read_witness:
  "\<exists>resp r' j. mux ''ns'' Map.empty sample_http (post_job sample_body) sample_server = (resp, r') \<and>
    rpBody resp = JobBody j \<and>
    mux ''ns'' Map.empty sample_http (get_job (jrID j)) r' = (\<lparr>rpStatus = 200, rpBody = JobBody j\<rparr>, r')"
proof -
  let ?p = "mux ''ns'' Map.empty sample_http (post_job sample_body) sample_server"
  have "rpStatus (fst ?p) = 201"
    unfolding mux_post_job by code_simp
  then have "rpStatus (fst ?p) < 400" by simp
  moreover have "jobs_wf (rnDB sample_server)" "jobs_typed (rnDB sample_server)"
    by (simp_all add: sample_server_def empty_db_wf) (simp add: jobs_typed_def empty_db_def seq_max_def)
  moreover have "pgOutcome (heAnswer sample_http) = Done" by (simp add: sample_http_def)
  ultimately show ?thesis
    using posted_job_can_be_read [where resp = "fst ?p" and r' = "snd ?p"] by (metis prod.collapse)
qed

section \<open>Requests that read\<close>

text \<open>Every route that serves GET only reads.\<close>

lemma matching_in:
  "(target, args) \<in> set (matching rs m path) \<Longrightarrow> \<exists>pm p. (pm, p, target) \<in> set rs \<and> method_fits pm m"
  by (induction rs m path rule: matching.induct) (auto split: option.splits if_splits)

lemma reading_routes:
  "(target, args) \<in> set (matching routes m path) \<Longrightarrow> m = ''GET'' \<or> m = ''HEAD'' \<Longrightarrow>
    target \<in> {Get_Job, Get_Workflow_Run, Get_Step_Logs, Health}"
proof -
  assume "(target, args) \<in> set (matching routes m path)" and m: "m = ''GET'' \<or> m = ''HEAD''"
  then obtain pm p where "(pm, p, target) \<in> set routes" "method_fits pm m"
    using matching_in [of target args routes m path] by blast
  moreover have "list_all (\<lambda>(pm, _, t). pm = ''POST'' \<or>
      t \<in> {Get_Job, Get_Workflow_Run, Get_Step_Logs, Health}) routes"
    by (simp add: routes_def Let_def)
  ultimately show ?thesis using m by (auto simp: list_all_iff method_fits_def)
qed

lemma GetJob_client_reads: "snd (GetJob_client e i d) = d"
  by (auto simp: GetJob_client_def GetJob_def run_stmt_def split: outcome.split option.split)

lemma GetWorkflowStepLogs_client_reads: "snd (GetWorkflowStepLogs_client ord e i d) = d"
  by (auto simp: GetWorkflowStepLogs_client_def GetWorkflowStepLogs_def run_stmt_def split: outcome.split)

lemma on_db_reads: "(\<And>d. snd (h d) = d) \<Longrightarrow> snd (on_db h r) = r"
  by (simp add: on_db_def split: prod.split) (metis run.surjective run.update_convs(1) snd_conv)

text \<open>Requests that read change nothing: whatever its path and body, and however the server answers, a
  GET or HEAD request leaves everything stored as it was.\<close>

theorem reads_change_nothing:
  assumes "rqMethod q = ''GET'' \<or> rqMethod q = ''HEAD''"
  shows "snd (mux ns wfs h q r) = r"
proof (cases "matching routes (rqMethod q) (rqPath q)")
  case Nil
  then show ?thesis by (simp add: mux_def)
next
  case (Cons t ts)
  obtain target args where t: "t = (target, args)" by (cases t)
  have "target \<in> {Get_Job, Get_Workflow_Run, Get_Step_Logs, Health}"
    using reading_routes [of target args "rqMethod q" "rqPath q"] Cons t assms by simp
  then have "snd (call_endpoint ns wfs h (rqBody q) target args r) = r"
    by (auto intro!: on_db_reads simp: handleGetJob_def handleGetWorkflowStepLogs_def
        split: sum.split prod.split option.split)
      (metis GetJob_client_reads GetWorkflowStepLogs_client_reads snd_conv)+
  then show ?thesis by (simp add: mux_def Cons t)
qed

theorem reads_change_nothing_witness:
  "snd (mux ''ns'' Map.empty sample_http (get_job 7) sample_server) = sample_server"
  by (rule reads_change_nothing) (simp add: get_job_def)

section \<open>Errors\<close>

text \<open>
  A request without a kind is the client's mistake, but the answer is 500; and a cancellation of
  a job that does not exist, or that has finished, is answered as if it had happened.
\<close>

lemma missing_kind_is_answered_500:
  assumes "decode_request body = Inr q" and "rqKind q = ''''"
  shows "\<exists>resp. mux ns wfs h (post_job body) r = (resp, r) \<and> rpStatus resp = 500"
  using assms
  by (simp add: mux_post_job on_db_def handleEnqueue_def Enqueue_def enqueueJob_def request_params_def
      writeError_def writeJSON_def)

lemma cancel_is_always_answered_204:
  assumes "int8_ok i" and "pgOutcome (heAnswer h) = Done"
  shows "fst (mux ns wfs h (cancel_job i) r) = \<lparr>rpStatus = 204, rpBody = NoBody\<rparr>"
  using assms
  by (simp add: mux_cancel_job on_db_def handleCancelJob_def CancelJob_client_def CancelJob_def run_stmt_def
      ParseInt_int_text)

lemma parse_time_samples:
  "parse_time ''0001-01-01T00:00:00Z'' = Some 0"
  "parse_time ''1970-01-01T01:00:00.5+01:00'' = Some 62135596800500000000"
  "parse_time ''2023-02-29T12:30:15Z'' = None"
  by code_simp+

end
