(* ===== verification/Job_Logger.thy ===== *)
theory Job_Logger
  imports Enqueue
begin

text \<open>
  The logger of a job (\<^verbatim>\<open>logger.go\<close>) and the context that carries it to the handler
  (\<^verbatim>\<open>context.go\<close>). Every method holds the lock of the logger, so the calls of any
  goroutines take effect one after another; the time of each entry is an argument.
\<close>

section \<open>The logger\<close>

datatype LogLevel = LogLevelDebug | LogLevelInfo | LogLevelWarn | LogLevelError

fun log_level_text :: "LogLevel \<Rightarrow> string" where
  "log_level_text LogLevelDebug = ''debug''"
| "log_level_text LogLevelInfo = ''info''"
| "log_level_text LogLevelWarn = ''warn''"
| "log_level_text LogLevelError = ''error''"

record LogEntry =
  leTimestamp :: instant
  leLevel :: LogLevel
  leMessage :: string

type_synonym JobLogger = "LogEntry list"

definition NewJobLogger :: JobLogger where "NewJobLogger = []"

text \<open>
  An argument to be printed: a string, or another value with the text that \<^verbatim>\<open>%v\<close> gives it.
  \<^verbatim>\<open>Sprint\<close> puts a space between two arguments if neither is a string, \<^verbatim>\<open>Sprintln\<close>
  between all. The interpretation of the verbs of a format is the parameter \<open>sprintf\<close>.
\<close>

datatype log_arg = StrArg string | ValArg string

fun arg_text :: "log_arg \<Rightarrow> string" where
  "arg_text (StrArg s) = s"
| "arg_text (ValArg s) = s"

fun Sprint :: "log_arg list \<Rightarrow> string" where
  "Sprint [] = ''''"
| "Sprint [a] = arg_text a"
| "Sprint (ValArg s # ValArg t # rest) = s @ '' '' @ Sprint (ValArg t # rest)"
| "Sprint (a # rest) = arg_text a @ Sprint rest"

fun Sprintln :: "log_arg list \<Rightarrow> string" where
  "Sprintln [] = [CHR 0x0A]"
| "Sprintln [a] = arg_text a @ [CHR 0x0A]"
| "Sprintln (a # rest) = arg_text a @ '' '' @ Sprintln rest"

definition log_call ::
  "(string \<Rightarrow> log_arg list \<Rightarrow> string) \<Rightarrow> instant \<Rightarrow> LogLevel \<Rightarrow> string \<Rightarrow> log_arg list \<Rightarrow> JobLogger \<Rightarrow> JobLogger" where
  "log_call sprintf now level format args l =
    (let message = (if args \<noteq> [] then sprintf format args else format)
     in l @ [\<lparr>leTimestamp = now, leLevel = level, leMessage = message\<rparr>])"

definition log_Debug ::
  "(string \<Rightarrow> log_arg list \<Rightarrow> string) \<Rightarrow> instant \<Rightarrow> string \<Rightarrow> log_arg list \<Rightarrow> JobLogger \<Rightarrow> JobLogger" where
  "log_Debug sprintf now format args = log_call sprintf now LogLevelDebug format args"

definition log_Info ::
  "(string \<Rightarrow> log_arg list \<Rightarrow> string) \<Rightarrow> instant \<Rightarrow> string \<Rightarrow> log_arg list \<Rightarrow> JobLogger \<Rightarrow> JobLogger" where
  "log_Info sprintf now format args = log_call sprintf now LogLevelInfo format args"

definition log_Warn ::
  "(string \<Rightarrow> log_arg list \<Rightarrow> string) \<Rightarrow> instant \<Rightarrow> string \<Rightarrow> log_arg list \<Rightarrow> JobLogger \<Rightarrow> JobLogger" where
  "log_Warn sprintf now format args = log_call sprintf now LogLevelWarn format args"

definition log_Error ::
  "(string \<Rightarrow> log_arg list \<Rightarrow> string) \<Rightarrow> instant \<Rightarrow> string \<Rightarrow> log_arg list \<Rightarrow> JobLogger \<Rightarrow> JobLogger" where
  "log_Error sprintf now format args = log_call sprintf now LogLevelError format args"

definition log_Print ::
  "(string \<Rightarrow> log_arg list \<Rightarrow> string) \<Rightarrow> instant \<Rightarrow> log_arg list \<Rightarrow> JobLogger \<Rightarrow> JobLogger" where
  "log_Print sprintf now args = log_call sprintf now LogLevelInfo ''%s'' [StrArg (Sprint args)]"

definition log_Printf ::
  "(string \<Rightarrow> log_arg list \<Rightarrow> string) \<Rightarrow> instant \<Rightarrow> string \<Rightarrow> log_arg list \<Rightarrow> JobLogger \<Rightarrow> JobLogger" where
  "log_Printf sprintf now format args = log_call sprintf now LogLevelInfo format args"

definition log_Println ::
  "(string \<Rightarrow> log_arg list \<Rightarrow> string) \<Rightarrow> instant \<Rightarrow> log_arg list \<Rightarrow> JobLogger \<Rightarrow> JobLogger" where
  "log_Println sprintf now args = log_call sprintf now LogLevelInfo ''%s'' [StrArg (Sprintln args)]"

definition Entries :: "JobLogger \<Rightarrow> LogEntry list" where
  "Entries l = l"

text \<open>
  The text of a time in JSON depends on the local zone and fails for a year after 9999:
  \<open>stamp\<close> is a parameter. The error is dropped, and the result is nil then.
\<close>

definition entry_json :: "(instant \<Rightarrow> string option) \<Rightarrow> LogEntry \<Rightarrow> json option" where
  "entry_json stamp e =
    map_option (\<lambda>t. JObj [(''timestamp'', JStr t), (''level'', JStr (log_level_text (leLevel e))),
      (''message'', JStr (leMessage e))]) (stamp (leTimestamp e))"

definition logger_JSON :: "(instant \<Rightarrow> string option) \<Rightarrow> JobLogger \<Rightarrow> json option" where
  "logger_JSON stamp l = map_option JArr (those (map (entry_json stamp) l))"

definition logger_Clear :: "JobLogger \<Rightarrow> JobLogger" where
  "logger_Clear l = []"

section \<open>Calls of several goroutines\<close>

datatype log_op =
    Log instant LogLevel string "log_arg list"
  | Print instant "log_arg list"
  | Println instant "log_arg list"

fun do_log :: "(string \<Rightarrow> log_arg list \<Rightarrow> string) \<Rightarrow> log_op \<Rightarrow> JobLogger \<Rightarrow> JobLogger" where
  "do_log sprintf (Log now level format args) l = log_call sprintf now level format args l"
| "do_log sprintf (Print now args) l = log_Print sprintf now args l"
| "do_log sprintf (Println now args) l = log_Println sprintf now args l"

definition logged :: "(string \<Rightarrow> log_arg list \<Rightarrow> string) \<Rightarrow> log_op list \<Rightarrow> LogEntry list" where
  "logged sprintf ops = Entries (fold (do_log sprintf) ops NewJobLogger)"

lemma do_log_appends: "do_log sprintf op l = l @ do_log sprintf op []"
  by (cases op) (simp_all add: log_call_def log_Print_def log_Println_def Let_def)

lemma fold_log: "fold (do_log sprintf) ops l = l @ concat (map (\<lambda>op. do_log sprintf op []) ops)"
proof (induction ops arbitrary: l)
  case (Cons op ops)
  then show ?case using do_log_appends [of sprintf op l] by simp
qed simp

lemma do_log_one: "\<exists>e. do_log sprintf op [] = [e]"
  by (cases op) (simp_all add: log_call_def log_Print_def log_Println_def Let_def)

lemma logged_map: "logged sprintf ops = map (\<lambda>op. hd (do_log sprintf op [])) ops"
proof -
  have one: "do_log sprintf op [] = [hd (do_log sprintf op [])]" for op
    using do_log_one [of sprintf op] by auto
  have "concat (map (\<lambda>op. do_log sprintf op []) ops) = map (\<lambda>op. hd (do_log sprintf op [])) ops"
    by (induction ops) (simp, subst one, simp)
  then show ?thesis by (simp add: logged_def NewJobLogger_def Entries_def fold_log)
qed

lemma map_shuffles: "zs \<in> shuffles xs ys \<Longrightarrow> map f zs \<in> shuffles (map f xs) (map f ys)"
  by (induction xs ys arbitrary: zs rule: shuffles.induct) auto

text \<open>Whatever way the calls of two goroutines interleave, no entry is lost and each keeps its order.\<close>

lemma concurrent_logging:
  "ops \<in> shuffles as bs \<Longrightarrow> logged sprintf ops \<in> shuffles (logged sprintf as) (logged sprintf bs)"
  unfolding logged_map by (rule map_shuffles)

text \<open>The logs of a job are never nil while times can be written, unlike those the engine passes on.\<close>

lemma those_map_Some: "(\<And>x. x \<in> set xs \<Longrightarrow> f x = Some (g x)) \<Longrightarrow> those (map f xs) = Some (map g xs)"
  by (induction xs) auto

lemma logger_json_not_nil:
  assumes "\<And>t. stamp t \<noteq> None"
  shows "\<exists>js. logger_JSON stamp l = Some (JArr js) \<and> length js = length l"
proof -
  have "entry_json stamp e = Some (the (entry_json stamp e))" for e
    using assms by (simp add: entry_json_def)
  then have "those (map (entry_json stamp) l) = Some (map (\<lambda>e. the (entry_json stamp e)) l)"
    by (intro those_map_Some) blast
  then show ?thesis by (simp add: logger_JSON_def)
qed

section \<open>The context of a job\<close>

text \<open>
  A context of the standard library with what the program puts on it: values under keys,
  timeouts, and the \<open>JobContext\<close>, which keeps its logger and job under keys of a private
  type. A logger is known by the number of its address.
\<close>

datatype context_key = RivoKey string | OtherKey nat

datatype context_value = LoggerValue nat | JobValue Job | OtherValue nat

datatype job_context =
    Background
  | WithTimeout job_context
  | WithValue job_context nat context_value
  | JobContext job_context nat Job

definition loggerKey :: context_key where "loggerKey = RivoKey ''rivo_logger''"
definition jobKey :: context_key where "jobKey = RivoKey ''rivo_job''"

text \<open>Users of the package have no keys of the private type, so \<open>WithValue\<close> takes another.\<close>

fun context_Value :: "job_context \<Rightarrow> context_key \<Rightarrow> context_value option" where
  "context_Value Background key = None"
| "context_Value (WithTimeout c) key = context_Value c key"
| "context_Value (WithValue c k v) key = (if key = OtherKey k then Some v else context_Value c key)"
| "context_Value (JobContext c l j) key =
    (if key = loggerKey then Some (LoggerValue l)
     else if key = jobKey then Some (JobValue j)
     else context_Value c key)"

definition LoggerFromContext :: "job_context \<Rightarrow> nat option" where
  "LoggerFromContext c =
    (case c of
      JobContext _ l _ \<Rightarrow> Some l
    | _ \<Rightarrow> (case context_Value c loggerKey of Some (LoggerValue l) \<Rightarrow> Some l | _ \<Rightarrow> None))"

definition JobFromContext :: "job_context \<Rightarrow> Job option" where
  "JobFromContext c =
    (case c of
      JobContext _ _ j \<Rightarrow> Some j
    | _ \<Rightarrow> (case context_Value c jobKey of Some (JobValue j) \<Rightarrow> Some j | _ \<Rightarrow> None))"

definition NewJobContext :: "nat \<Rightarrow> job_context \<Rightarrow> Job \<Rightarrow> job_context" where
  "NewJobContext l c j = JobContext c l j"

text \<open>What a handler derives from its context.\<close>

inductive derived :: "job_context \<Rightarrow> job_context \<Rightarrow> bool" for c where
  derived_self: "derived c c"
| derived_timeout: "derived c d \<Longrightarrow> derived c (WithTimeout d)"
| derived_value: "derived c d \<Longrightarrow> derived c (WithValue d k v)"

inductive_cases derivedE: "derived c d"

lemma derived_Value:
  "derived (NewJobContext l c j) d \<Longrightarrow>
    context_Value d loggerKey = Some (LoggerValue l) \<and> context_Value d jobKey = Some (JobValue j)"
  by (induction rule: derived.induct) (auto simp: NewJobContext_def loggerKey_def jobKey_def)

text \<open>A derived context still gives the logger and the job, also across a nested job's context.\<close>

lemma derived_context_keeps_job:
  assumes "derived (NewJobContext l c j) d"
  shows "LoggerFromContext d = Some l \<and> JobFromContext d = Some j"
  using assms
proof cases
  case derived_self
  then show ?thesis by (simp add: NewJobContext_def LoggerFromContext_def JobFromContext_def)
qed (use derived_Value [OF assms] in \<open>simp_all add: LoggerFromContext_def JobFromContext_def\<close>)

end
