(* ===== verification/Script_Handlers.thy ===== *)
theory Script_Handlers
  imports Queue_Admin
begin

text \<open>
  The statements on script handlers (\<^verbatim>\<open>internal/db/db.go\<close>). No migration creates the
  table \<^verbatim>\<open>rivo_handlers\<close>: the state is an optional table, and without it every
  statement fails. What the statements do on a table is what their SQL says of one whose
  column \<^verbatim>\<open>kind\<close> is unique, as \<^verbatim>\<open>ON CONFLICT (kind)\<close> demands.
\<close>

record ScriptHandlerRow =
  shKind :: string
  shNamespace :: string
  shHandlerType :: string
  shCode :: "string option"
  shConfig :: json
  shVersion :: int
  shEnabled :: bool
  shCreatedAt :: instant
  shUpdatedAt :: instant

type_synonym script_table = "ScriptHandlerRow list option"

definition no_table :: error where
  "no_table = Errorf ''relation rivo_handlers does not exist''"

definition on_table ::
  "(ScriptHandlerRow list \<Rightarrow> (error + 'a) \<times> ScriptHandlerRow list) \<Rightarrow> script_table \<Rightarrow> (error + 'a) \<times> script_table" where
  "on_table f t = (case t of None \<Rightarrow> (Inl no_table, None) | Some rows \<Rightarrow> map_prod id Some (f rows))"

definition coalesce_code :: "ScriptHandlerRow \<Rightarrow> ScriptHandlerRow" where
  "coalesce_code h = h\<lparr>shCode := Some (case shCode h of None \<Rightarrow> '''' | Some c \<Rightarrow> c)\<rparr>"

text \<open>\<open>ord\<close> sorts the kinds as the collation of the server does.\<close>

definition GetScriptHandlers ::
  "(ScriptHandlerRow list \<Rightarrow> ScriptHandlerRow list) \<Rightarrow> pg \<Rightarrow> string \<Rightarrow> script_table
    \<Rightarrow> (error + ScriptHandlerRow list) \<times> script_table" where
  "GetScriptHandlers ord e ns =
    run_stmt e (on_table (\<lambda>rows.
      (Inr (map coalesce_code (ord (filter (\<lambda>h. shNamespace h = ns \<and> shEnabled h) rows))), rows)))"

definition GetScriptHandler ::
  "pg \<Rightarrow> string \<Rightarrow> string \<Rightarrow> script_table \<Rightarrow> (error + ScriptHandlerRow option) \<times> script_table" where
  "GetScriptHandler e ns kind =
    run_stmt e (on_table (\<lambda>rows.
      (Inr (map_option coalesce_code (find (\<lambda>h. shNamespace h = ns \<and> shKind h = kind) rows)), rows)))"

definition UpsertScriptHandler :: "pg \<Rightarrow> ScriptHandlerRow \<Rightarrow> script_table \<Rightarrow> (error + unit) \<times> script_table" where
  "UpsertScriptHandler e h =
    run_stmt e (on_table (\<lambda>rows.
      if find_row shKind (shKind h) rows = None
      then (Inr (), rows @ [h\<lparr>shCreatedAt := pgNow e, shUpdatedAt := pgNow e\<rparr>])
      else (Inr (), update_where (\<lambda>x. shKind x = shKind h)
        (\<lambda>x. x\<lparr>shHandlerType := shHandlerType h, shCode := shCode h, shConfig := shConfig h,
          shVersion := shVersion x + 1, shEnabled := shEnabled h, shUpdatedAt := pgNow e\<rparr>) rows)))"

definition DeleteScriptHandler :: "pg \<Rightarrow> string \<Rightarrow> string \<Rightarrow> script_table \<Rightarrow> (error + unit) \<times> script_table" where
  "DeleteScriptHandler e ns kind =
    run_stmt e (on_table (\<lambda>rows. (Inr (), filter (\<lambda>h. \<not> (shNamespace h = ns \<and> shKind h = kind)) rows)))"

interpretation upsert_script: keyed_update shKind
    "\<lambda>x. x\<lparr>shHandlerType := ty, shCode := c, shConfig := cf, shVersion := shVersion x + 1, shEnabled := en,
      shUpdatedAt := now\<rparr>" for ty c cf en now
  by unfold_locales simp

text \<open>Without the table nothing works.\<close>

lemma script_handlers_fail:
  "fst (GetScriptHandlers ord (pg_at t) ns None) = Inl no_table"
  "fst (GetScriptHandler (pg_at t) ns kind None) = Inl no_table"
  "fst (UpsertScriptHandler (pg_at t) h None) = Inl no_table"
  "fst (DeleteScriptHandler (pg_at t) ns kind None) = Inl no_table"
  by (simp_all add: GetScriptHandlers_def GetScriptHandler_def UpsertScriptHandler_def DeleteScriptHandler_def
      on_table_def)

text \<open>
  With a table, an upsert keeps one row per kind; but the conflict does not look at the
  namespace, so it replaces the code of the handler of another namespace, which stays there.
\<close>

lemma upsert_keeps_kinds_distinct:
  "distinct (map shKind rows) \<Longrightarrow>
    distinct (map shKind (the (snd (UpsertScriptHandler (pg_at t) h (Some rows)))))"
  by (auto simp: UpsertScriptHandler_def on_table_def upsert_script.distinct_update find_row_None_iff)

lemma upsert_crosses_namespaces:
  assumes "find_row shKind (shKind h) rows = Some x"
  shows "\<exists>x'. find_row shKind (shKind h) (the (snd (UpsertScriptHandler (pg_at t) h (Some rows)))) = Some x' \<and>
    shNamespace x' = shNamespace x \<and> shCode x' = shCode h"
  using assms by (simp add: UpsertScriptHandler_def on_table_def upsert_script.find_update_key)

end
