(* ===== verification/Periodic_Jobs.thy ===== *)
theory Periodic_Jobs
  imports Go_Base
begin

text \<open>
  Periodic jobs (\<^verbatim>\<open>scheduler.go\<close>): the interface is declared, and every operation
  answers that it is not implemented. The table \<^verbatim>\<open>rivo_periodic_jobs\<close> is never used.
\<close>

record ScheduleParams =
  spName :: string
  spKind :: string
  spCronExpr :: string
  spQueue :: string
  spPayload :: go_value
  spTimezone :: string
  spEnabled :: bool

record PeriodicJob =
  pjID :: int
  pjName :: string
  pjNamespace :: string
  pjKind :: string
  pjQueue :: string
  pjCronExpr :: string
  pjTimezone :: string
  pjEnabled :: bool
  pjLastRunAt :: "instant option"
  pjNextRunAt :: instant
  pjCreatedAt :: instant
  pjUpdatedAt :: instant

definition ErrNotImplemented :: error where
  "ErrNotImplemented = Sentinel 6 ''not implemented''"

definition Schedule :: "ScheduleParams \<Rightarrow> error + PeriodicJob" where
  "Schedule params = Inl ErrNotImplemented"

definition Unschedule :: "string \<Rightarrow> error option" where
  "Unschedule name = Some ErrNotImplemented"

definition GetSchedule :: "string \<Rightarrow> error + PeriodicJob" where
  "GetSchedule name = Inl ErrNotImplemented"

definition ListSchedules :: "error + PeriodicJob list" where
  "ListSchedules = Inl ErrNotImplemented"

end
