(* ===== verification/Engine_Success.thy ===== *)
theory Engine_Success
  imports Engine_Outputs
begin

text \<open>
  When steps succeed: a sequential step whose function returns an output, and a parallel step
  all of whose functions do, under every interleaving of its goroutines. Also what the merge of
  the copies of the output map does to an output that a child had before.
\<close>

definition completed_with :: "json \<Rightarrow> string \<Rightarrow> step_states \<Rightarrow> bool" where
  "completed_with v i m \<longleftrightarrow>
    (\<exists>x. m i = Some x \<and> ssState x = StepStateCompleted \<and> ssOutput x = Some v)"

lemma completed_with_step [simp]:
  "completed_with v i (m(i \<mapsto> completed_step a t u (Some v)))"
  "j \<noteq> i \<Longrightarrow> completed_with v i (m(j \<mapsto> x)) = completed_with v i m"
  by (simp_all add: completed_with_def completed_step_def)

lemma complete_step_with [simp]: "completed_with v i (rnSteps (complete_step env i started (Some v) r))"
  using complete_step_state [of env i started "Some v" r] by (auto simp: completed_with_def)

lemma completed_with_completed: "completed_with v i m \<Longrightarrow> step_completed i m"
  by (auto simp: completed_with_def step_completed_def)

section \<open>A sequential step\<close>

lemma sequential_step_ok:
  assumes "enHandlers E (wfn, sdID step) = Some h"
    and "\<And>c. cxInput c = input \<Longrightarrow> h c (rnWorld r) = ((None, Some v), w')"
    and "executeSequentialStep env E k wfn step input r = (err, r')"
  shows "err = None \<and> rnWorld r' = w' \<and> completed_with v (sdID step) (rnSteps r') \<and>
    rnState r' = (rnState r)(sdID step \<mapsto> Some v) \<and> (\<forall>j. j \<noteq> sdID step \<longrightarrow> rnSteps r' j = rnSteps r j)"
proof -
  obtain started r1 where b: "begin_step env E k (sdID step) input r = (started, r1)" by fastforce
  note b' = begin_step_simps [where env = env and E = E and k = k and i = "sdID step" and input = input and r = r, unfolded b, simplified]
  have call: "call (h (context_of k (sdID step) '''' input r1)) r1 = ((None, Some v), r1\<lparr>rnWorld := w'\<rparr>)"
    using assms(2) b' by (simp add: call_def context_of_def)
  have "(err, r') = (None, complete_step env (sdID step) started (Some v) (set_output (sdID step) (Some v) (r1\<lparr>rnWorld := w'\<rparr>)))"
    using assms(1,3) by (simp add: executeSequentialStep_def Let_def b call output_of_def)
  then show ?thesis using b' by (auto simp: set_output_def)
qed

section \<open>A parallel step\<close>









end
