(* ===== verification/Engine_Data.thy ===== *)
theory Engine_Data
  imports Engine_Parallel
begin

text \<open>
  What executing a run does to the tables: a step writes step logs only, and the execution of a run
  writes, apart from these, the state and the step states of that run and nothing else.
\<close>

definition without_logs :: "db \<Rightarrow> db" where
  "without_logs d = d\<lparr>tStepLogs := [], seqStepLogs := 0\<rparr>"

lemma without_logs_simps:
  "without_logs (d\<lparr>tStepLogs := x\<rparr>) = without_logs d" "without_logs (d\<lparr>seqStepLogs := n\<rparr>) = without_logs d"
  "without_logs (d\<lparr>tRuns := rs\<rparr>) = without_logs d\<lparr>tRuns := rs\<rparr>" "tRuns (without_logs d) = tRuns d"
  by (simp_all add: without_logs_def)

lemma step_log_stmts [simp]:
  "without_logs (snd (CreateWorkflowStepLog e k i a w input d)) = without_logs d"
  "without_logs (snd (CompleteWorkflowStepLog e l out logs d)) = without_logs d"
  "without_logs (snd (FailWorkflowStepLog e l msg st logs d)) = without_logs d"
  by (simp_all add: CreateWorkflowStepLog_def CompleteWorkflowStepLog_def FailWorkflowStepLog_def run_stmt_def Let_def
      without_logs_simps split: outcome.split option.split)

section \<open>A step\<close>

lemma step_parts_logs [simp]:
  "without_logs (rnDB (snd (begin_step env E k i input r))) = without_logs (rnDB r)"
  "without_logs (rnDB (fail_step env i started err r)) = without_logs (rnDB r)"
  "without_logs (rnDB (complete_step env i started out r)) = without_logs (rnDB r)"
  by (simp add: begin_step_def Let_def split_beta) (cases started; simp add: fail_step_def complete_step_def Let_def split_beta)+

lemma sequential_logs [simp]:
  "without_logs (rnDB (snd (executeSequentialStep env E k wfn step input r))) = without_logs (rnDB r)"
  by (auto simp: executeSequentialStep_def Let_def split_beta split: option.split)

lemma conditional_logs [simp]:
  "without_logs (rnDB (snd (executeConditionalStep env E k wfn step input r))) = without_logs (rnDB r)"
  by (auto simp: executeConditionalStep_def Let_def split_beta split: option.split bool.split)

lemma value_step_db:
  assumes "\<And>r. rnDB (snd (f r)) = rnDB r"
  shows "rnDB (snd (value_step env i failed marshal f r)) = rnDB r"
proof -
  have "rnDB r2 = rnDB r1" if "f r1 = (x, r2)" for r1 x r2 using assms [of r1] that by simp
  then show ?thesis by (auto simp: value_step_def Let_def split_beta split: sum.split)
      (metis clock_simps(1) prod.collapse set_simps(1))+
qed

lemma value_logs [simp]:
  "rnDB (snd (executeMapStep env E k wfn step input r)) = rnDB r"
  "rnDB (snd (executeReduceStep env E k wfn step input r)) = rnDB r"
  "rnDB (snd (executeFanOutStep env E k wfn step input r)) = rnDB r"
  by (auto simp: executeMapStep_def executeReduceStep_def executeFanOutStep_def value_step_db Let_def split_beta
      split: option.split sum.split)

lemma handler_logs [simp]:
  "without_logs (rnDB (snd (executeHandlerStep env E k wfn step input r))) = without_logs (rnDB r)"
  by (auto simp: executeHandlerStep_def Let_def split_beta split: option.split sum.split)

lemma child_move_logs: "without_logs (rnDB (snd (child_move env E k wfn step input c r))) = without_logs (rnDB r)"
  by (induction env E k wfn step input c r rule: child_move.induct) (auto simp: split_beta split: option.split)

lemma par_move_logs:
  "without_logs (rnDB (snd (snd (par_move env E k wfn steps input s j)))) = without_logs (rnDB (snd (snd s)))"
proof -
  obtain cs errs r where s: "s = (cs, errs, r)" by (cases s)
  show ?thesis using child_move_logs [of env E k wfn "steps ! j" input "cs ! j" r]
    by (auto simp: par_move_def s split: prod.split)
qed

lemma parallel_logs [simp]:
  "without_logs (rnDB (snd (executeParallelSteps env E k wfn steps input r))) = without_logs (rnDB r)"
proof -
  have "without_logs (rnDB (snd (snd (foldl (par_move env E k wfn steps input) s js)))) = without_logs (rnDB (snd (snd s)))"
    for s js by (induction js arbitrary: s) (simp_all add: par_move_logs)
  from this [of "(replicate (length steps) Fresh, [], r)" "par_schedule env (length steps) r"]
  show ?thesis by (simp add: executeParallelSteps_def split_beta)
qed

lemma executeStep_logs [simp]:
  "without_logs (rnDB (snd (executeStep env E k wfn step input r))) = without_logs (rnDB r)"
  by (auto simp: executeStep_def split: StepType.split)

section \<open>A run\<close>

text \<open>An invariant that does not look at the step logs and that the updates of a run keep.\<close>

locale run_updates =
  fixes ok :: "db \<Rightarrow> bool"
  assumes blind: "without_logs d = without_logs d' \<Longrightarrow> ok d = ok d'"
    and state: "ok d \<Longrightarrow> ok (snd (UpdateWorkflowRunState e k st cs msg d))"
    and states: "ok d \<Longrightarrow> ok (snd (UpdateWorkflowRunStepStates e k m d))"
begin

lemma steps: "ok (rnDB r) \<Longrightarrow> ok (rnDB (snd (execute_steps env E k wfn sts input r)))"
proof (induction sts arbitrary: r)
  case (Cons st sts)
  obtain err r1 where x: "executeStep env E k wfn st input r = (err, r1)" by fastforce
  have "ok (rnDB r1)" using blind [of "rnDB r1" "rnDB r"] executeStep_logs [of env E k wfn st input r] Cons.prems by (simp add: x)
  then show ?case using Cons.IH by (cases err) (simp_all add: x state states)
qed simp

lemma execute:
  assumes "ok (rnDB r)"
  shows "ok (rnDB (snd (ExecuteRun env E k r)))"
proof -
  obtain x1 r1 where g: "send env (\<lambda>e. GetWorkflowRun e k) r = (x1, r1)" by fastforce
  have r1: "rnDB r1 = rnDB r"
    using send_simps(4) [of env "\<lambda>e. GetWorkflowRun e k" r]
    by (simp add: g GetWorkflowRun_def run_stmt_def split: outcome.split)
  show ?thesis
  proof (cases "\<exists>run. x1 = Inr (Some run)")
    case False
    then show ?thesis using assms r1 by (auto simp: ExecuteRun_def g split: sum.split option.split)
  next
    case True
    then obtain run where x1: "x1 = Inr (Some run)" by blast
    obtain x2 r2 where d: "send env (\<lambda>e. GetWorkflowDefinitionByID e (rDefinitionID run)) r1 = (x2, r2)" by fastforce
    have r2: "rnDB r2 = rnDB r"
      using send_simps(4) [of env "\<lambda>e. GetWorkflowDefinitionByID e (rDefinitionID run)" r1] r1
      by (simp add: d GetWorkflowDefinitionByID_def run_stmt_def split: outcome.split)
    have up: "ok (rnDB q')" if "send env (\<lambda>e. UpdateWorkflowRunState e k st cs msg) q = (y, q')" "ok (rnDB q)"
      for st cs msg q y and q' :: "'a run"
      using send_simps(4) [of env "\<lambda>e. UpdateWorkflowRunState e k st cs msg" q] state [OF that(2)] that(1) by simp
    have ex: "ok (rnDB q')" if "execute_steps env E k wfn sts input q = (y, q')" "ok (rnDB q)"
      for wfn sts input q y and q' :: "'a run"
      using steps [OF that(2), of env E k wfn sts input] that(1) by simp
    show ?thesis
      using assms r2 by (auto simp: ExecuteRun_def g x1 d Let_def split: sum.split option.split prod.split intro: ex dest!: up)
  qed
qed

end

end
