(* ===== verification/Retry_Rounds.thy ===== *)
theory Retry_Rounds
  imports Completer_Spec Job_Types
begin

text \<open>
  The life of a job that fails and is tried again, by the operations of the pipeline in the order
  in which one worker process performs them: the scheduler promotes what is due, the producer
  fetches a batch, and each job of the batch is executed and its result written back.
\<close>

section \<open>Rounds of a worker process\<close>




section \<open>One job of a batch\<close>










section \<open>One round\<close>












section \<open>Rounds until the job ends\<close>










end
