(* ===== verification/Fullstack_Server.thy ===== *)
theory Fullstack_Server
  imports Http_Api
begin

text \<open>
  The server of \<^verbatim>\<open>_examples/fullstack/main.go\<close>, the one the dashboard talks to: its routes
  and handlers over the client and the statements of the database, the middleware for cross-origin
  requests, and the settings it takes from the process environment. A response is held as the
  Go value that is handed to the JSON encoder, with the keys of a map in the order of the
  source (the encoder sorts them).
\<close>

section \<open>Values and responses\<close>

datatype data =
    DNull
  | DBool bool
  | DInt int
  | DStr string
  | DTime instant
  | DRaw json
  | DSteps step_states
  | DList "data list"
  | DMap "(string \<times> data) list"

definition opt_data :: "('a \<Rightarrow> data) \<Rightarrow> 'a option \<Rightarrow> data" where
  "opt_data f x = (case x of None \<Rightarrow> DNull | Some a \<Rightarrow> f a)"

datatype api_body = JSON data | Html string | Empty

record api_response =
  arStatus :: int
  arHeaders :: "(string \<times> string) list"
  arBody :: api_body

definition api_writeJSON :: "int \<Rightarrow> data \<Rightarrow> api_response" where
  "api_writeJSON status d =
    \<lparr>arStatus = status, arHeaders = [(''Content-Type'', ''application/json'')], arBody = JSON d\<rparr>"

definition api_writeError :: "int \<Rightarrow> string \<Rightarrow> api_response" where
  "api_writeError status message = api_writeJSON status (DMap [(''error'', DStr message)])"

definition api_noContent :: api_response where
  "api_noContent = \<lparr>arStatus = 204, arHeaders = [], arBody = Empty\<rparr>"

definition jobToJSON :: "Job \<Rightarrow> data" where
  "jobToJSON job = DMap
    [(''id'', DInt (ID job)), (''kind'', DStr (Kind job)), (''queue'', DStr (Queue job)),
     (''state'', DStr (job_state_text (State job))), (''payload'', DRaw (Payload job)),
     (''priority'', DInt (sint (Priority job))), (''attempt'', DInt (sint (Attempt job))),
     (''max_attempts'', DInt (sint (Job.MaxAttempts job))), (''scheduled_at'', DTime (ScheduledAt job)),
     (''created_at'', DTime (CreatedAt job)), (''updated_at'', DTime (UpdatedAt job))]"

definition workflowRunToJSON :: "WorkflowRun \<Rightarrow> data" where
  "workflowRunToJSON run = DMap
    [(''id'', DInt (wrID run)), (''workflow_name'', DStr (wrWorkflowName run)),
     (''namespace'', DStr (wrNamespace run)), (''state'', DStr (workflow_state_text (wrState run))),
     (''input'', DRaw (wrInput run)), (''output'', opt_data DRaw (wrOutput run)),
     (''step_states'', DSteps (wrStepStates run)), (''error'', DStr (wrError run)),
     (''started_at'', opt_data DTime (wrStartedAt run)), (''completed_at'', opt_data DTime (wrCompletedAt run)),
     (''created_at'', DTime (wrCreatedAt run)), (''updated_at'', DTime (wrUpdatedAt run))]"

section \<open>Requests\<close>

text \<open>\<open>aqLength\<close> is the content length, -1 where it is not known.\<close>

record api_request =
  aqMethod :: string
  aqPath :: "string list"
  aqQuery :: "(string \<times> string) list"
  aqLength :: int
  aqBody :: "error + json"

definition query_get :: "string \<Rightarrow> api_request \<Rightarrow> string" where
  "query_get k q = (case map_of (aqQuery q) k of None \<Rightarrow> '''' | Some v \<Rightarrow> v)"

definition query_limit :: "api_request \<Rightarrow> int" where
  "query_limit q =
    (case Atoi (query_get ''limit'' q) of
      None \<Rightarrow> 100
    | Some parsed \<Rightarrow> if parsed > 0 \<and> parsed \<le> 1000 then parsed else 100)"

text \<open>What a request gets from outside, and the orders that the server and Go leave open.\<close>

record api_env =
  aeEnqueue :: enqueue_env
  aeAnswer :: pg
  aeRun :: env
  aeJobs :: "JobRow list \<Rightarrow> JobRow list"
  aeLogs :: "JobLog list \<Rightarrow> JobLog list"
  aeWorkers :: "Worker list \<Rightarrow> Worker list"
  aeQueues :: "QueueConfig list \<Rightarrow> QueueConfig list"
  aeStats :: "string list \<Rightarrow> string list"
  aeRuns :: "WorkflowRunRow list \<Rightarrow> WorkflowRunRow list"
  aeStepLogs :: "WorkflowStepLog list \<Rightarrow> WorkflowStepLog list"
  aeNames :: "string set \<Rightarrow> string list"

text \<open>The struct that the body of a new job is read into has no field for the attempts.\<close>

fun decode_job_fields :: "(string \<times> json) list \<Rightarrow> enqueueRequest \<Rightarrow> enqueueRequest option" where
  "decode_job_fields [] q = Some q"
| "decode_job_fields (kv # kvs) q =
    (if lower (fst kv) = ''max_attempts'' then decode_job_fields kvs q
     else Option.bind (decode_field kv q) (decode_job_fields kvs))"

definition decode_job :: "error + json \<Rightarrow> error + enqueueRequest" where
  "decode_job body =
    (case body of
      Inl err \<Rightarrow> Inl err
    | Inr JNull \<Rightarrow> Inr zero_request
    | Inr (JObj kvs) \<Rightarrow> (case decode_job_fields kvs zero_request of None \<Rightarrow> Inl type_error | Some q \<Rightarrow> Inr q)
    | Inr _ \<Rightarrow> Inl type_error)"

text \<open>A struct with one raw field: nil if the key is missing.\<close>

definition decode_raw :: "string \<Rightarrow> error + json \<Rightarrow> error + json option" where
  "decode_raw k body =
    (case body of
      Inl err \<Rightarrow> Inl err
    | Inr JNull \<Rightarrow> Inr None
    | Inr (JObj kvs) \<Rightarrow> Inr (json_lookup k kvs)
    | Inr _ \<Rightarrow> Inl type_error)"

record queue_request =
  uqConcurrency :: int
  uqPriority :: int
  uqPaused :: bool

fun decode_int :: "json \<Rightarrow> int \<Rightarrow> int option" where
  "decode_int JNull old = Some old"
| "decode_int (JNum n) old = (if int8_ok n then Some n else None)"
| "decode_int _ old = None"

fun decode_bool :: "json \<Rightarrow> bool \<Rightarrow> bool option" where
  "decode_bool JNull old = Some old"
| "decode_bool (JBool b) old = Some b"
| "decode_bool _ old = None"

definition decode_queue_field :: "string \<times> json \<Rightarrow> queue_request \<Rightarrow> queue_request option" where
  "decode_queue_field kv q =
    (case kv of (a, v) \<Rightarrow>
      (let k = lower a in
       if k = ''concurrency'' then map_option (\<lambda>x. q\<lparr>uqConcurrency := x\<rparr>) (decode_int v (uqConcurrency q))
       else if k = ''priority'' then map_option (\<lambda>x. q\<lparr>uqPriority := x\<rparr>) (decode_int v (uqPriority q))
       else if k = ''paused'' then map_option (\<lambda>x. q\<lparr>uqPaused := x\<rparr>) (decode_bool v (uqPaused q))
       else Some q))"

fun decode_queue_fields :: "(string \<times> json) list \<Rightarrow> queue_request \<Rightarrow> queue_request option" where
  "decode_queue_fields [] q = Some q"
| "decode_queue_fields (kv # kvs) q = Option.bind (decode_queue_field kv q) (decode_queue_fields kvs)"

definition decode_queue :: "error + json \<Rightarrow> error + queue_request" where
  "decode_queue body =
    (let zero = \<lparr>uqConcurrency = 0, uqPriority = 0, uqPaused = False\<rparr> in
     case body of
      Inl err \<Rightarrow> Inl err
    | Inr JNull \<Rightarrow> Inr zero
    | Inr (JObj kvs) \<Rightarrow> (case decode_queue_fields kvs zero of None \<Rightarrow> Inl type_error | Some q \<Rightarrow> Inr q)
    | Inr _ \<Rightarrow> Inl type_error)"

section \<open>Handlers of jobs and statistics\<close>

definition stats_JSON :: "QueueStats list \<Rightarrow> data" where
  "stats_JSON stats = DMap
    [(''total'', DInt (\<Sum>s\<leftarrow>stats. int (qsTotal s))), (''available'', DInt (\<Sum>s\<leftarrow>stats. int (qsAvailable s))),
     (''running'', DInt (\<Sum>s\<leftarrow>stats. int (qsRunning s))), (''completed'', DInt (\<Sum>s\<leftarrow>stats. int (qsCompleted s))),
     (''failed'', DInt (\<Sum>s\<leftarrow>stats. int (qsFailed s))),
     (''queues'', DList (map (\<lambda>s. DMap
       [(''name'', DStr (qsQueue s)), (''available'', DInt (int (qsAvailable s))),
        (''running'', DInt (int (qsRunning s))), (''completed'', DInt (int (qsCompleted s))),
        (''retryable'', DInt (int (qsRetryable s))), (''failed'', DInt (int (qsFailed s))),
        (''total'', DInt (int (qsTotal s)))]) stats))]"

definition api_handleStats :: "api_env \<Rightarrow> string \<Rightarrow> db \<Rightarrow> api_response \<times> db" where
  "api_handleStats ev ns d =
    (case GetQueueStats (aeStats ev) (aeAnswer ev) ns d of
      (Inl err, d') \<Rightarrow> (api_writeError 500 (err_msg err), d')
    | (Inr stats, d') \<Rightarrow> (api_writeJSON 200 (stats_JSON stats), d'))"

definition row_JSON :: "JobRow \<Rightarrow> data" where
  "row_JSON j = DMap
    [(''id'', DInt (jID j)), (''kind'', DStr (jKind j)), (''queue'', DStr (jQueue j)),
     (''state'', DStr (job_state_text (jState j))), (''payload'', DRaw (jPayload j)),
     (''priority'', DInt (sint (jPriority j))), (''attempt'', DInt (sint (jAttempt j))),
     (''max_attempts'', DInt (sint (jMaxAttempts j))), (''scheduled_at'', DTime (jScheduledAt j)),
     (''attempted_at'', opt_data DTime (jAttemptedAt j)), (''completed_at'', opt_data DTime (jCompletedAt j)),
     (''created_at'', DTime (jCreatedAt j)), (''updated_at'', DTime (jUpdatedAt j))]"

definition api_handleListJobs :: "api_env \<Rightarrow> string \<Rightarrow> api_request \<Rightarrow> db \<Rightarrow> api_response \<times> db" where
  "api_handleListJobs ev ns q d =
    (case ListJobs (aeJobs ev) (aeAnswer ev) ns (query_get ''state'' q) (query_get ''queue'' q) (query_limit q) d of
      (Inl err, d') \<Rightarrow> (api_writeError 500 (err_msg err), d')
    | (Inr jobs, d') \<Rightarrow> (api_writeJSON 200 (DList (map row_JSON jobs)), d'))"

definition api_handleGetJob :: "api_env \<Rightarrow> string \<Rightarrow> db \<Rightarrow> api_response \<times> db" where
  "api_handleGetJob ev i d =
    (case ParseInt i of
      Inl err \<Rightarrow> (api_writeError 400 ''invalid job ID'', d)
    | Inr n \<Rightarrow>
      (case GetJob_client (aeAnswer ev) n d of
        (Inl err, d') \<Rightarrow> (api_writeError 500 (err_msg err), d')
      | (Inr None, d') \<Rightarrow> (api_writeError 404 ''job not found'', d')
      | (Inr (Some job), d') \<Rightarrow> (api_writeJSON 200 (jobToJSON job), d')))"

definition api_handleEnqueueJob :: "api_env \<Rightarrow> string \<Rightarrow> api_request \<Rightarrow> db \<Rightarrow> api_response \<times> db" where
  "api_handleEnqueueJob ev ns q d =
    (case decode_job (aqBody q) of
      Inl err \<Rightarrow> (api_writeError 400 ''invalid request body'', d)
    | Inr req \<Rightarrow>
      (case Enqueue ns (aeEnqueue ev) (request_params req) d of
        (Inl err, d') \<Rightarrow> (api_writeError 500 (err_msg err), d')
      | (Inr result, d') \<Rightarrow>
          (api_writeJSON (if erDuplicate result then 200 else 201) (jobToJSON (erJob result)), d')))"

definition api_handleCancelJob :: "api_env \<Rightarrow> string \<Rightarrow> db \<Rightarrow> api_response \<times> db" where
  "api_handleCancelJob ev i d =
    (case ParseInt i of
      Inl err \<Rightarrow> (api_writeError 400 ''invalid job ID'', d)
    | Inr n \<Rightarrow>
      (case CancelJob_client (aeAnswer ev) n d of
        (Inl err, d') \<Rightarrow> (api_writeError 500 (err_msg err), d')
      | (Inr _, d') \<Rightarrow> (api_noContent, d')))"

definition api_handleRetryJob :: api_response where
  "api_handleRetryJob = api_writeError 501 ''not implemented''"

definition api_handleHealth :: api_response where
  "api_handleHealth = api_writeJSON 200 (DMap [(''status'', DStr ''ok'')])"

definition log_JSON :: "JobLog \<Rightarrow> data" where
  "log_JSON l = DMap
    [(''id'', DInt (lID l)), (''job_id'', DInt (lJobID l)), (''attempt'', DInt (sint (lAttempt l))),
     (''worker_id'', DStr (lWorkerID l)), (''started_at'', DTime (lStartedAt l)),
     (''completed_at'', opt_data DTime (lCompletedAt l)), (''duration_ms'', opt_data DInt (lDurationMs l)),
     (''input'', opt_data DRaw (lInput l)), (''output'', opt_data DRaw (lOutput l)),
     (''status'', DStr (lStatus l)), (''error'', DStr (text_or_empty (lError l))),
     (''error_stack'', DStr (text_or_empty (lErrorStack l))), (''logs'', DRaw (lLogs l)),
     (''created_at'', DTime (lCreatedAt l))]"

definition api_handleGetJobLogs :: "api_env \<Rightarrow> string \<Rightarrow> db \<Rightarrow> api_response \<times> db" where
  "api_handleGetJobLogs ev i d =
    (case ParseInt i of
      Inl err \<Rightarrow> (api_writeError 400 ''invalid job ID'', d)
    | Inr n \<Rightarrow>
      (case GetJobLogs (aeLogs ev) (aeAnswer ev) n d of
        (Inl err, d') \<Rightarrow> (api_writeError 500 (err_msg err), d')
      | (Inr logs, d') \<Rightarrow> (api_writeJSON 200 (DList (map log_JSON logs)), d')))"

section \<open>Handlers of workers and queues\<close>

definition worker_JSON :: "Worker \<Rightarrow> data" where
  "worker_JSON w = DMap
    [(''id'', DStr (wID w)), (''namespace'', DStr (wNamespace w)), (''queues'', DList (map DStr (wQueues w))),
     (''concurrency'', DInt (wConcurrency w)), (''status'', DStr (wStatus w)),
     (''started_at'', DTime (wStartedAt w)), (''last_heartbeat'', DTime (wLastHeartbeat w)),
     (''jobs_processed'', DInt (wJobsProcessed w)), (''jobs_failed'', DInt (wJobsFailed w))]"

definition api_handleListWorkers :: "api_env \<Rightarrow> string \<Rightarrow> db \<Rightarrow> api_response \<times> db" where
  "api_handleListWorkers ev ns d =
    (case GetWorkers (aeWorkers ev) (aeAnswer ev) ns d of
      (Inl err, d') \<Rightarrow> (api_writeError 500 (err_msg err), d')
    | (Inr workers, d') \<Rightarrow> (api_writeJSON 200 (DList (map worker_JSON workers)), d'))"

definition health_JSON :: "WorkerHealth \<Rightarrow> data" where
  "health_JSON h = DMap
    [(''id'', DStr (whID h)), (''status'', DStr (whStatus h)), (''is_healthy'', DBool (whIsHealthy h)),
     (''last_heartbeat'', DTime (whLastHeartbeat h)),
     (''heartbeat_age'', DStr (duration_String (word_of_int (whHeartbeatAge h)))),
     (''jobs_processed'', DInt (whJobsProcessed h)), (''jobs_failed'', DInt (whJobsFailed h))]"

definition api_handleWorkersHealth :: "api_env \<Rightarrow> string \<Rightarrow> db \<Rightarrow> api_response \<times> db" where
  "api_handleWorkersHealth ev ns d =
    (case GetWorkerHealth (aeWorkers ev) (aeAnswer ev) ns d of
      (Inl err, d') \<Rightarrow> (api_writeError 500 (err_msg err), d')
    | (Inr health, d') \<Rightarrow> (api_writeJSON 200 (DList (map health_JSON health)), d'))"

definition queue_JSON :: "QueueConfig \<Rightarrow> data" where
  "queue_JSON q = DMap
    [(''name'', DStr (qName q)), (''namespace'', DStr (qNamespace q)), (''concurrency'', DInt (qConcurrency q)),
     (''paused'', DBool (qPaused q)), (''priority'', DInt (qPriority q)),
     (''created_at'', DTime (qCreatedAt q)), (''updated_at'', DTime (qUpdatedAt q))]"

definition api_handleListQueues :: "api_env \<Rightarrow> string \<Rightarrow> db \<Rightarrow> api_response \<times> db" where
  "api_handleListQueues ev ns d =
    (case GetQueues (aeQueues ev) (aeAnswer ev) ns d of
      (Inl err, d') \<Rightarrow> (api_writeError 500 (err_msg err), d')
    | (Inr queues, d') \<Rightarrow> (api_writeJSON 200 (DList (map queue_JSON queues)), d'))"

definition queue_stats_JSON :: "QueueStats \<Rightarrow> data" where
  "queue_stats_JSON s = DMap
    [(''namespace'', DStr (qsNamespace s)), (''queue'', DStr (qsQueue s)),
     (''available'', DInt (int (qsAvailable s))), (''running'', DInt (int (qsRunning s))),
     (''completed'', DInt (int (qsCompleted s))), (''retryable'', DInt (int (qsRetryable s))),
     (''failed'', DInt (int (qsFailed s))), (''total'', DInt (int (qsTotal s)))]"

definition api_handleQueueStats :: "api_env \<Rightarrow> string \<Rightarrow> db \<Rightarrow> api_response \<times> db" where
  "api_handleQueueStats ev ns d =
    (case GetQueueStats (aeStats ev) (aeAnswer ev) ns d of
      (Inl err, d') \<Rightarrow> (api_writeError 500 (err_msg err), d')
    | (Inr stats, d') \<Rightarrow> (api_writeJSON 200 (DList (map queue_stats_JSON stats)), d'))"

definition api_handleUpdateQueue :: "api_env \<Rightarrow> string \<Rightarrow> api_request \<Rightarrow> string \<Rightarrow> db \<Rightarrow> api_response \<times> db" where
  "api_handleUpdateQueue ev ns q name d =
    (case decode_queue (aqBody q) of
      Inl err \<Rightarrow> (api_writeError 400 ''invalid request body'', d)
    | Inr req \<Rightarrow>
      (case UpsertQueue (aeAnswer ev)
          (NewQueueConfig name ns (uqConcurrency req) (uqPaused req) (uqPriority req)) d of
        (Inl err, d') \<Rightarrow> (api_writeError 500 (err_msg err), d')
      | (Inr _, d') \<Rightarrow> (api_writeJSON 200 (DMap [(''status'', DStr ''ok'')]), d')))"

definition api_handlePauseQueue :: "api_env \<Rightarrow> string \<Rightarrow> string \<Rightarrow> db \<Rightarrow> api_response \<times> db" where
  "api_handlePauseQueue ev ns name d =
    (case PauseQueue (aeAnswer ev) ns name True d of
      (Inl err, d') \<Rightarrow> (api_writeError 500 (err_msg err), d')
    | (Inr _, d') \<Rightarrow> (api_writeJSON 200 (DMap [(''status'', DStr ''paused'')]), d'))"

definition api_handleResumeQueue :: "api_env \<Rightarrow> string \<Rightarrow> string \<Rightarrow> db \<Rightarrow> api_response \<times> db" where
  "api_handleResumeQueue ev ns name d =
    (case PauseQueue (aeAnswer ev) ns name False d of
      (Inl err, d') \<Rightarrow> (api_writeError 500 (err_msg err), d')
    | (Inr _, d') \<Rightarrow> (api_writeJSON 200 (DMap [(''status'', DStr ''resumed'')]), d'))"

section \<open>Handlers of registrations and workflows\<close>

definition info_JSON :: "HandlerInfo \<Rightarrow> data" where
  "info_JSON h = DMap
    [(''kind'', DStr (hiKind h)), (''queue'', DStr (hiQueue h)), (''concurrency'', DInt (hiConcurrency h)),
     (''max_attempts'', DInt (hiMaxAttempts h))]"

definition api_handleListHandlers :: "api_env \<Rightarrow> 'w Client \<Rightarrow> api_response" where
  "api_handleListHandlers ev c = api_writeJSON 200 (DList (map info_JSON (RegisteredHandlers (aeNames ev) c)))"

fun find_queue :: "HandlerInfo list \<Rightarrow> string \<Rightarrow> string" where
  "find_queue [] kind = ''''"
| "find_queue (h # hs) kind = (if hiKind h = kind then hiQueue h else find_queue hs kind)"

definition run_payload :: "api_request \<Rightarrow> json" where
  "run_payload q =
    (if aqLength q > 0
     then case decode_raw ''payload'' (aqBody q) of Inr (Some v) \<Rightarrow> v | _ \<Rightarrow> JObj []
     else JObj [])"

definition run_params :: "string \<Rightarrow> string \<Rightarrow> json \<Rightarrow> EnqueueParams" where
  "run_params kind queue payload =
    \<lparr>eqKind = kind, eqPayload = Some (Inr payload), eqQueue = queue, eqPriority = 0, eqScheduleAt = 0,
     eqIdempotencyKey = '''', eqMetadata = None, eqMaxAttempts = 0, eqWorkflowRunID = None, eqStepID = ''''\<rparr>"

definition api_handleRunHandler ::
  "api_env \<Rightarrow> 'w Client \<Rightarrow> api_request \<Rightarrow> string \<Rightarrow> db \<Rightarrow> api_response \<times> db" where
  "api_handleRunHandler ev c q kind d =
    (let queue = find_queue (RegisteredHandlers (aeNames ev) c) kind in
     if queue = '''' then (api_writeError 404 ''handler not found'', d)
     else case Enqueue (cfNamespace (clConfig c)) (aeEnqueue ev) (run_params kind queue (run_payload q)) d of
       (Inl err, d') \<Rightarrow> (api_writeError 500 (err_msg err), d')
     | (Inr result, d') \<Rightarrow> (api_writeJSON 201 (DMap
         [(''job_id'', DInt (ID (erJob result))), (''kind'', DStr (Kind (erJob result))),
          (''queue'', DStr (Queue (erJob result))), (''state'', DStr (job_state_text (State (erJob result)))),
          (''message'', DStr ''Job enqueued successfully'')]), d'))"

definition api_handleListWorkflows :: "api_env \<Rightarrow> 'w Client \<Rightarrow> api_response" where
  "api_handleListWorkflows ev c =
    api_writeJSON 200 (DList (map DStr (aeNames ev (RegisteredWorkflows (clWorkflows c)))))"

definition start_input :: "api_request \<Rightarrow> json" where
  "start_input q =
    (if aqLength q > 0
     then case decode_raw ''input'' (aqBody q) of Inr (Some v) \<Rightarrow> v | _ \<Rightarrow> JObj []
     else JObj [])"

text \<open>The goroutine that \<open>StartWorkflow\<close> leaves behind is \<open>ExecuteRun\<close>, a step of its own.\<close>

definition api_handleStartWorkflow ::
  "api_env \<Rightarrow> 'w Client \<Rightarrow> api_request \<Rightarrow> string \<Rightarrow> 'w run \<Rightarrow> api_response \<times> 'w run" where
  "api_handleStartWorkflow ev c q name r =
    (case StartWorkflow (aeRun ev) (cfNamespace (clConfig c)) (clWorkflows c) name (Inr (start_input q)) r of
      (Inl err, r') \<Rightarrow> (api_writeError 500 (err_msg err), r')
    | (Inr run, r') \<Rightarrow> (api_writeJSON 201 (workflowRunToJSON run), r'))"

definition api_handleListWorkflowRuns ::
  "api_env \<Rightarrow> 'w Client \<Rightarrow> api_request \<Rightarrow> 'w run \<Rightarrow> api_response \<times> 'w run" where
  "api_handleListWorkflowRuns ev c q r =
    (case ListWorkflowRuns_client (aeRun ev) (aeRuns ev) (cfNamespace (clConfig c)) (query_get ''state'' q)
        (query_limit q) r of
      (Inl err, r') \<Rightarrow> (api_writeError 500 (err_msg err), r')
    | (Inr runs, r') \<Rightarrow> (api_writeJSON 200 (DList (map workflowRunToJSON runs)), r'))"

definition api_handleGetWorkflowRun :: "api_env \<Rightarrow> string \<Rightarrow> 'w run \<Rightarrow> api_response \<times> 'w run" where
  "api_handleGetWorkflowRun ev i r =
    (case ParseInt i of
      Inl err \<Rightarrow> (api_writeError 400 ''invalid workflow run ID'', r)
    | Inr n \<Rightarrow>
      (case GetWorkflowRun_client (aeRun ev) n r of
        (Inl err, r') \<Rightarrow> (api_writeError 500 (err_msg err), r')
      | (Inr None, r') \<Rightarrow> (api_writeError 404 ''workflow run not found'', r')
      | (Inr (Some run), r') \<Rightarrow> (api_writeJSON 200 (workflowRunToJSON run), r')))"

definition api_handleCancelWorkflowRun :: "api_env \<Rightarrow> string \<Rightarrow> db \<Rightarrow> api_response \<times> db" where
  "api_handleCancelWorkflowRun ev i d =
    (case ParseInt i of
      Inl err \<Rightarrow> (api_writeError 400 ''invalid workflow run ID'', d)
    | Inr n \<Rightarrow>
      (case CancelWorkflowRun (aeAnswer ev) n d of
        (Inl err, d') \<Rightarrow> (api_writeError 500 (err_msg err), d')
      | (Inr _, d') \<Rightarrow> (api_noContent, d')))"

definition step_log_JSON :: "WorkflowStepLog \<Rightarrow> data" where
  "step_log_JSON l = DMap
    [(''id'', DInt (sID l)), (''workflow_run_id'', DInt (sWorkflowRunID l)), (''step_id'', DStr (sStepID l)),
     (''attempt'', DInt (sAttempt l)), (''worker_id'', DStr (sWorkerID l)), (''started_at'', DTime (sStartedAt l)),
     (''completed_at'', opt_data DTime (sCompletedAt l)), (''duration_ms'', opt_data DInt (sDurationMs l)),
     (''input'', DRaw (sInput l)), (''output'', opt_data DRaw (sOutput l)), (''status'', DStr (sStatus l)),
     (''error'', DStr (text_or_empty (sError l))), (''error_stack'', DStr (text_or_empty (sErrorStack l))),
     (''logs'', DRaw (sLogs l)), (''created_at'', DTime (sCreatedAt l))]"

definition api_handleGetWorkflowStepLogs :: "api_env \<Rightarrow> string \<Rightarrow> db \<Rightarrow> api_response \<times> db" where
  "api_handleGetWorkflowStepLogs ev i d =
    (case ParseInt i of
      Inl err \<Rightarrow> (api_writeError 400 ''invalid workflow run ID'', d)
    | Inr n \<Rightarrow>
      (case GetWorkflowStepLogs_client (aeStepLogs ev) (aeAnswer ev) n d of
        (Inl err, d') \<Rightarrow> (api_writeError 500 (err_msg err), d')
      | (Inr logs, d') \<Rightarrow> (api_writeJSON 200 (DList (map step_log_JSON logs)), d')))"

definition api_handleRerunWorkflowStep ::
  "api_env \<Rightarrow> 'w Client \<Rightarrow> string \<Rightarrow> string \<Rightarrow> 'w run \<Rightarrow> api_response \<times> 'w run" where
  "api_handleRerunWorkflowStep ev c i stepID r =
    (case ParseInt i of
      Inl err \<Rightarrow> (api_writeError 400 ''invalid workflow run ID'', r)
    | Inr n \<Rightarrow>
      if stepID = '''' then (api_writeError 400 ''step ID is required'', r)
      else (case RerunWorkflowStep (aeRun ev) (clWorkflows c) n stepID r of
        (Some err, r') \<Rightarrow> (api_writeError 500 (err_msg err), r')
      | (None, r') \<Rightarrow> (api_writeJSON 200 (DMap [(''status'', DStr ''rerun started'')]), r')))"

section \<open>Routes\<close>

datatype api_endpoint =
    Api_Stats | Api_List_Jobs | Api_Get_Job | Api_Job_Logs | Api_Enqueue | Api_Cancel_Job | Api_Retry_Job
  | Api_Health | Api_List_Workers | Api_Workers_Health | Api_List_Queues | Api_Queue_Stats
  | Api_Update_Queue | Api_Pause_Queue | Api_Resume_Queue | Api_List_Handlers | Api_Run_Handler
  | Api_List_Workflows | Api_Start_Workflow | Api_List_Runs | Api_Get_Run | Api_Cancel_Run
  | Api_Step_Logs | Api_Rerun_Step

definition api_routes :: "api_endpoint route list" where
  "api_routes =
    (let v1 = (\<lambda>rest. Lit ''api'' # Lit ''v1'' # rest)
     in [(''GET'', v1 [Lit ''stats''], Api_Stats),
         (''GET'', v1 [Lit ''jobs''], Api_List_Jobs),
         (''GET'', v1 [Lit ''jobs'', Wild], Api_Get_Job),
         (''GET'', v1 [Lit ''jobs'', Wild, Lit ''logs''], Api_Job_Logs),
         (''POST'', v1 [Lit ''jobs''], Api_Enqueue),
         (''POST'', v1 [Lit ''jobs'', Wild, Lit ''cancel''], Api_Cancel_Job),
         (''POST'', v1 [Lit ''jobs'', Wild, Lit ''retry''], Api_Retry_Job),
         (''GET'', v1 [Lit ''health''], Api_Health),
         (''GET'', v1 [Lit ''workers''], Api_List_Workers),
         (''GET'', v1 [Lit ''workers'', Lit ''health''], Api_Workers_Health),
         (''GET'', v1 [Lit ''queues''], Api_List_Queues),
         (''GET'', v1 [Lit ''queues'', Lit ''stats''], Api_Queue_Stats),
         (''PUT'', v1 [Lit ''queues'', Wild], Api_Update_Queue),
         (''POST'', v1 [Lit ''queues'', Wild, Lit ''pause''], Api_Pause_Queue),
         (''POST'', v1 [Lit ''queues'', Wild, Lit ''resume''], Api_Resume_Queue),
         (''GET'', v1 [Lit ''handlers''], Api_List_Handlers),
         (''POST'', v1 [Lit ''handlers'', Wild, Lit ''run''], Api_Run_Handler),
         (''GET'', v1 [Lit ''workflows''], Api_List_Workflows),
         (''POST'', v1 [Lit ''workflows'', Wild, Lit ''start''], Api_Start_Workflow),
         (''GET'', v1 [Lit ''workflow-runs''], Api_List_Runs),
         (''GET'', v1 [Lit ''workflow-runs'', Wild], Api_Get_Run),
         (''POST'', v1 [Lit ''workflow-runs'', Wild, Lit ''cancel''], Api_Cancel_Run),
         (''GET'', v1 [Lit ''workflow-runs'', Wild, Lit ''steps''], Api_Step_Logs),
         (''POST'', v1 [Lit ''workflow-runs'', Wild, Lit ''steps'', Wild, Lit ''rerun''], Api_Rerun_Step)])"

definition over_db :: "(db \<Rightarrow> 'a \<times> db) \<Rightarrow> 'w run \<Rightarrow> 'a \<times> 'w run" where
  "over_db h r = (case h (rnDB r) of (x, d) \<Rightarrow> (x, r\<lparr>rnDB := d\<rparr>))"

fun call_api :: "api_env \<Rightarrow> 'w Client \<Rightarrow> api_request \<Rightarrow> api_endpoint \<Rightarrow> string list \<Rightarrow> 'w run \<Rightarrow> api_response \<times> 'w run" where
  "call_api ev c q Api_Stats args r = over_db (api_handleStats ev (cfNamespace (clConfig c))) r"
| "call_api ev c q Api_List_Jobs args r = over_db (api_handleListJobs ev (cfNamespace (clConfig c)) q) r"
| "call_api ev c q Api_Get_Job args r = over_db (api_handleGetJob ev (hd args)) r"
| "call_api ev c q Api_Job_Logs args r = over_db (api_handleGetJobLogs ev (hd args)) r"
| "call_api ev c q Api_Enqueue args r = over_db (api_handleEnqueueJob ev (cfNamespace (clConfig c)) q) r"
| "call_api ev c q Api_Cancel_Job args r = over_db (api_handleCancelJob ev (hd args)) r"
| "call_api ev c q Api_Retry_Job args r = (api_handleRetryJob, r)"
| "call_api ev c q Api_Health args r = (api_handleHealth, r)"
| "call_api ev c q Api_List_Workers args r = over_db (api_handleListWorkers ev (cfNamespace (clConfig c))) r"
| "call_api ev c q Api_Workers_Health args r = over_db (api_handleWorkersHealth ev (cfNamespace (clConfig c))) r"
| "call_api ev c q Api_List_Queues args r = over_db (api_handleListQueues ev (cfNamespace (clConfig c))) r"
| "call_api ev c q Api_Queue_Stats args r = over_db (api_handleQueueStats ev (cfNamespace (clConfig c))) r"
| "call_api ev c q Api_Update_Queue args r = over_db (api_handleUpdateQueue ev (cfNamespace (clConfig c)) q (hd args)) r"
| "call_api ev c q Api_Pause_Queue args r = over_db (api_handlePauseQueue ev (cfNamespace (clConfig c)) (hd args)) r"
| "call_api ev c q Api_Resume_Queue args r = over_db (api_handleResumeQueue ev (cfNamespace (clConfig c)) (hd args)) r"
| "call_api ev c q Api_List_Handlers args r = (api_handleListHandlers ev c, r)"
| "call_api ev c q Api_Run_Handler args r = over_db (api_handleRunHandler ev c q (hd args)) r"
| "call_api ev c q Api_List_Workflows args r = (api_handleListWorkflows ev c, r)"
| "call_api ev c q Api_Start_Workflow args r = api_handleStartWorkflow ev c q (hd args) r"
| "call_api ev c q Api_List_Runs args r = api_handleListWorkflowRuns ev c q r"
| "call_api ev c q Api_Get_Run args r = api_handleGetWorkflowRun ev (hd args) r"
| "call_api ev c q Api_Cancel_Run args r = over_db (api_handleCancelWorkflowRun ev (hd args)) r"
| "call_api ev c q Api_Step_Logs args r = over_db (api_handleGetWorkflowStepLogs ev (hd args)) r"
| "call_api ev c q Api_Rerun_Step args r = api_handleRerunWorkflowStep ev c (hd args) (args ! 1) r"

text \<open>The pattern \<open>/\<close> takes every path and method that no other pattern takes; \<open>index_html\<close> is its page.\<close>

definition api_mux :: "string \<Rightarrow> api_env \<Rightarrow> 'w Client \<Rightarrow> api_request \<Rightarrow> 'w run \<Rightarrow> api_response \<times> 'w run" where
  "api_mux index_html ev c q r =
    (case matching api_routes (aqMethod q) (aqPath q) of
      (target, args) # _ \<Rightarrow> call_api ev c q target args r
    | [] \<Rightarrow> (\<lparr>arStatus = 200, arHeaders = [(''Content-Type'', ''text/html'')], arBody = Html index_html\<rparr>, r))"

definition cors_headers :: "(string \<times> string) list" where
  "cors_headers =
    [(''Access-Control-Allow-Origin'', ''*''),
     (''Access-Control-Allow-Methods'', ''GET, POST, PUT, DELETE, OPTIONS''),
     (''Access-Control-Allow-Headers'', ''Content-Type, Authorization'')]"

definition corsMiddleware ::
  "(api_request \<Rightarrow> 'w run \<Rightarrow> api_response \<times> 'w run) \<Rightarrow> api_request \<Rightarrow> 'w run \<Rightarrow> api_response \<times> 'w run" where
  "corsMiddleware next q r =
    (if aqMethod q = ''OPTIONS'' then (\<lparr>arStatus = 200, arHeaders = cors_headers, arBody = Empty\<rparr>, r)
     else case next q r of (resp, r') \<Rightarrow> (resp\<lparr>arHeaders := cors_headers @ arHeaders resp\<rparr>, r'))"

definition api_server :: "string \<Rightarrow> api_env \<Rightarrow> 'w Client \<Rightarrow> api_request \<Rightarrow> 'w run \<Rightarrow> api_response \<times> 'w run" where
  "api_server index_html ev c = corsMiddleware (api_mux index_html ev c)"

section \<open>Settings from the environment\<close>

definition getEnv :: "(string \<rightharpoonup> string) \<Rightarrow> string \<Rightarrow> string \<Rightarrow> string" where
  "getEnv os key defaultVal =
    (case os key of None \<Rightarrow> defaultVal | Some val \<Rightarrow> if val \<noteq> '''' then val else defaultVal)"

definition getEnvInt :: "(string \<rightharpoonup> string) \<Rightarrow> string \<Rightarrow> int \<Rightarrow> int" where
  "getEnvInt os key defaultVal =
    (case os key of
      None \<Rightarrow> defaultVal
    | Some val \<Rightarrow>
        if val \<noteq> '''' then (case Atoi val of Some i \<Rightarrow> i | None \<Rightarrow> defaultVal) else defaultVal)"

definition main_config :: "(string \<rightharpoonup> string) \<Rightarrow> Config" where
  "main_config os =
    \<lparr>cfDatabaseURL = getEnv os ''DATABASE_URL'' ''postgres://localhost:5432/rivo?sslmode=disable'',
     cfMaxConns = 0, cfWorkers = getEnvInt os ''WORKERS'' 10, cfQueues = [], cfNamespace = '''',
     cfPollInterval = 100000000, cfJobTimeout = 0, cfAutoMigrate = True\<rparr>"

end
