(* ===== verification/Server_Data.thy ===== *)
theory Server_Data
  imports Http_Spec Fullstack_Server Engine_Data Client_Workflow_Spec
begin

text \<open>
  What the requests of the two servers do to the data: the locale \<open>client_ops\<close> is what the
  servers rely on, an invariant of the database that every operation of the client and every
  statement the handlers send keeps. With \<open>run_updates\<close>, the same for the execution of runs, it is
  interpreted for the consistency of all tables and for the identity of a stored job and of a
  stored run, and all three are invariants of everything that acts on the database together.
\<close>

section \<open>The effects of the handlers\<close>

lemma over_db_state: "rnDB (snd (over_db h r)) = snd (h (rnDB r))"
  by (simp add: over_db_def split: prod.split)

lemma client_reads:
  "snd (GetQueueStats o1 e ns d) = d" "snd (ListJobs o2 e ns st queue n d) = d" "snd (GetJob_client e i d) = d"
  "snd (GetJobLogs o3 e i d) = d" "snd (GetWorkers o4 e ns d) = d" "snd (GetWorkerHealth o4 e ns d) = d"
  "snd (GetQueues o5 e ns d) = d" "snd (GetWorkflowStepLogs_client o6 e i d) = d"
  by (simp_all add: GetQueueStats_def ListJobs_def GetJob_client_reads GetJobLogs_def GetWorkers_def GetWorkerHealth_def
      GetQueues_def GetWorkflowStepLogs_client_reads run_stmt_def split: outcome.split)

lemma state_of_case: "snd (case x of (Inl a, d) \<Rightarrow> (f a, d) | (Inr b, d) \<Rightarrow> (g b, d)) = snd x"
  by (simp split: prod.split sum.split)

lemma state_of_case2:
  "snd (case x of (Inl a, d) \<Rightarrow> (f a, d) | (Inr None, d) \<Rightarrow> (g, d) | (Inr (Some b), d) \<Rightarrow> (h b, d)) = snd x"
  by (simp split: prod.split sum.split option.split)

lemma api_reads:
  "snd (api_handleStats ev ns d) = d" "snd (api_handleListJobs ev ns q d) = d" "snd (api_handleGetJob ev i d) = d"
  "snd (api_handleGetJobLogs ev i d) = d" "snd (api_handleListWorkers ev ns d) = d"
  "snd (api_handleWorkersHealth ev ns d) = d" "snd (api_handleListQueues ev ns d) = d"
  "snd (api_handleQueueStats ev ns d) = d" "snd (api_handleGetWorkflowStepLogs ev i d) = d"
  by (simp_all add: api_handleStats_def api_handleListJobs_def api_handleGetJobLogs_def api_handleListWorkers_def
    api_handleWorkersHealth_def api_handleListQueues_def api_handleQueueStats_def api_handleGetWorkflowStepLogs_def
    api_handleGetJob_def state_of_case state_of_case2 client_reads split: sum.split)

lemma GetWorkflowRun_client_reads: "rnDB (snd (GetWorkflowRun_client env i r)) = rnDB r"
  by (simp add: GetWorkflowRun_client_def send_def GetWorkflowRun_def GetWorkflowDefinitionByID_def run_stmt_def
      split: sum.split prod.split outcome.split option.split)

lemma definition_reads: "snd (GetWorkflowDefinitionByID e i d) = d"
  by (simp add: GetWorkflowDefinitionByID_def run_stmt_def split: outcome.split)

lemma name_runs_reads: "rnDB (snd (name_runs env rows r)) = rnDB r"
proof (induction rows arbitrary: r)
  case (Cons row rows)
  obtain a r1 where s: "send env (\<lambda>e. GetWorkflowDefinitionByID e (rDefinitionID row)) r = (a, r1)" by fastforce
  then have "rnDB r1 = rnDB r" using definition_reads by (auto simp: send_def split: prod.splits) (metis snd_conv)
  then show ?case using Cons [of r1] by (simp add: s split: prod.split) (metis snd_conv)
qed simp

lemma ListWorkflowRuns_client_reads: "rnDB (snd (ListWorkflowRuns_client env o1 ns st n r)) = rnDB r"
  by (simp add: ListWorkflowRuns_client_def send_def ListWorkflowRuns_def run_stmt_def name_runs_reads
      split: sum.split prod.split outcome.split)

lemma api_run_reads:
  "rnDB (snd (api_handleGetWorkflowRun ev i r)) = rnDB r" "rnDB (snd (api_handleListWorkflowRuns ev c q r)) = rnDB r"
  by (simp_all add: api_handleGetWorkflowRun_def api_handleListWorkflowRuns_def state_of_case state_of_case2
      ListWorkflowRuns_client_reads GetWorkflowRun_client_reads split: sum.split)

lemma api_writes:
  "snd (api_handleEnqueueJob ev ns q d) =
    (case decode_job (aqBody q) of Inl _ \<Rightarrow> d | Inr req \<Rightarrow> snd (Enqueue ns (aeEnqueue ev) (request_params req) d))"
  "snd (api_handleCancelJob ev i d) =
    (case ParseInt i of Inl _ \<Rightarrow> d | Inr n \<Rightarrow> snd (CancelJob (aeAnswer ev) n d))"
  "snd (api_handleUpdateQueue ev ns q name d) =
    (case decode_queue (aqBody q) of Inl _ \<Rightarrow> d | Inr req \<Rightarrow> snd (UpsertQueue (aeAnswer ev)
      (NewQueueConfig name ns (uqConcurrency req) (uqPaused req) (uqPriority req)) d))"
  "snd (api_handlePauseQueue ev ns name d) = snd (PauseQueue (aeAnswer ev) ns name True d)"
  "snd (api_handleResumeQueue ev ns name d) = snd (PauseQueue (aeAnswer ev) ns name False d)"
  "snd (api_handleRunHandler ev c q kind d) =
    (let queue = find_queue (RegisteredHandlers (aeNames ev) c) kind in
     if queue = '''' then d
     else snd (Enqueue (cfNamespace (clConfig c)) (aeEnqueue ev) (run_params kind queue (run_payload q)) d))"
  "snd (api_handleCancelWorkflowRun ev i d) =
    (case ParseInt i of Inl _ \<Rightarrow> d
     | Inr n \<Rightarrow> snd (UpdateWorkflowRunState (aeAnswer ev) n WorkflowStateCancelled '''' ''cancelled by user'' d))"
  by (simp_all add: api_handleEnqueueJob_def api_handleCancelJob_def CancelJob_client_def api_handleUpdateQueue_def
      api_handlePauseQueue_def api_handleResumeQueue_def api_handleRunHandler_def api_handleCancelWorkflowRun_def
      CancelWorkflowRun_def state_of_case Let_def split: sum.split)

lemma api_start_state:
  "rnDB (snd (api_handleStartWorkflow ev c q name r)) =
    rnDB (snd (StartWorkflow (aeRun ev) (cfNamespace (clConfig c)) (clWorkflows c) name (Inr (start_input q)) r))"
  by (simp add: api_handleStartWorkflow_def state_of_case)

lemma api_rerun_state:
  "rnDB (snd (api_handleRerunWorkflowStep ev c i stepID r)) =
    (case ParseInt i of Inl _ \<Rightarrow> rnDB r
     | Inr n \<Rightarrow> if stepID = '''' then rnDB r else rnDB (snd (RerunWorkflowStep (aeRun ev) (clWorkflows c) n stepID r)))"
  by (simp add: api_handleRerunWorkflowStep_def split: sum.split prod.split option.split)

lemma http_writes:
  "snd (handleEnqueue ns v body d) =
    (case decode_request body of Inl _ \<Rightarrow> d | Inr req \<Rightarrow> snd (Enqueue ns v (request_params req) d))"
  "snd (handleCancelJob e i d) = (case ParseInt i of Inl _ \<Rightarrow> d | Inr n \<Rightarrow> snd (CancelJob e n d))"
  "snd (handleCancelWorkflow e i d) =
    (case ParseInt i of Inl _ \<Rightarrow> d
     | Inr n \<Rightarrow> snd (UpdateWorkflowRunState e n WorkflowStateCancelled '''' ''cancelled by user'' d))"
  "snd (handleGetJob e i d) = d" "snd (handleGetWorkflowStepLogs ord e i d) = d"
  by (simp_all add: handleEnqueue_def handleCancelJob_def CancelJob_client_def handleCancelWorkflow_def CancelWorkflowRun_def
      handleGetJob_def handleGetWorkflowStepLogs_def state_of_case state_of_case2 GetJob_client_reads
      GetWorkflowStepLogs_client_reads split: sum.split)

lemma http_rerun_state:
  "rnDB (snd (handleRerunWorkflowStep env wfs i stepID r)) =
    (case ParseInt i of Inl _ \<Rightarrow> rnDB r
     | Inr n \<Rightarrow> if stepID = '''' then rnDB r else rnDB (snd (RerunWorkflowStep env wfs n stepID r)))"
  by (simp add: handleRerunWorkflowStep_def split: sum.split prod.split option.split)

lemma on_db_state: "rnDB (snd (on_db h r)) = snd (h (rnDB r))"
  by (simp add: on_db_def split: prod.split)

section \<open>The interface\<close>

locale client_ops =
  fixes ok :: "db \<Rightarrow> bool"
  assumes enqueue: "ok d \<Longrightarrow> ok (snd (Enqueue ns v p d))"
    and cancel_job: "ok d \<Longrightarrow> ok (snd (CancelJob e i d))"
    and upsert_queue: "ok d \<Longrightarrow> ok (snd (UpsertQueue e q d))"
    and pause_queue: "ok d \<Longrightarrow> ok (snd (PauseQueue e ns n b d))"
    and insert_definition: "ok d \<Longrightarrow> ok (snd (InsertWorkflowDefinition e n ns def d))"
    and create_run: "ok d \<Longrightarrow> ok (snd (CreateWorkflowRun e i ns input states d))"
    and run_state: "ok d \<Longrightarrow> ok (snd (UpdateWorkflowRunState e i st cs msg d))"
    and reset_run: "ok d \<Longrightarrow> ok (snd (ResetWorkflowStepForRerun e i states d))"
begin

lemma start:
  assumes "ok (rnDB r)"
  shows "ok (rnDB (snd (StartWorkflow env ns wfs name input r)))"
proof (cases "wfs name")
  case (Some w)
  have "ok (rnDB r1)" if "send env (\<lambda>e. InsertWorkflowDefinition e n ns def) r = (x, r1)" for n def x r1
    using insert_definition [OF assms] that by (auto simp: send_def split: prod.splits) (metis snd_conv)
  moreover have "ok (rnDB r2)"
    if "send env (\<lambda>e. CreateWorkflowRun e i ns inp states) r1 = (x, r2)" "ok (rnDB r1)" for i inp states x r1 r2
    using create_run [OF that(2)] that(1) by (auto simp: send_def split: prod.splits) (metis snd_conv)
  ultimately show ?thesis
    using assms Some by (auto simp: StartWorkflow_def split: sum.split prod.split) blast+
qed (use assms in \<open>simp add: StartWorkflow_def\<close>)

lemma rerun:
  assumes "ok (rnDB r)"
  shows "ok (rnDB (snd (RerunWorkflowStep env wfs i stepID r)))"
proof -
  have "ok (rnDB r2)" if "send env (\<lambda>e. ResetWorkflowStepForRerun e i states) r1 = (x, r2)" "rnDB r1 = rnDB r"
    for states x r1 r2
    using reset_run [of "rnDB r1"] assms that by (auto simp: send_def split: prod.splits) (metis snd_conv)
  then show ?thesis
    using GetWorkflowRun_client_reads [of env i r] assms by (auto simp: RerunWorkflowStep_def split: sum.split prod.split option.split)
qed

text \<open>The effect of a handler on the database is that of the operation it calls.\<close>

lemma call_api_keeps:
  assumes "ok (rnDB r)"
  shows "ok (rnDB (snd (call_api ev c q target args r)))"
  using assms start [OF assms] rerun [OF assms]
  by (cases target)
    (simp_all add: over_db_state api_reads api_run_reads api_writes api_start_state api_rerun_state Let_def
      enqueue cancel_job upsert_queue pause_queue run_state split: sum.split)

lemma api_server_keeps:
  assumes "ok (rnDB r)"
  shows "ok (rnDB (snd (api_server page ev c q r)))"
proof (cases "matching api_routes (aqMethod q) (aqPath q)")
  case Nil
  then show ?thesis using assms by (simp add: api_server_def corsMiddleware_def api_mux_def)
next
  case (Cons m ms)
  then show ?thesis
    using call_api_keeps [OF assms, of ev c q "fst m" "snd m"] assms
    by (cases m) (auto simp: api_server_def corsMiddleware_def api_mux_def split: prod.split)
qed

lemma mux_keeps:
  assumes "ok (rnDB r)"
  shows "ok (rnDB (snd (mux ns wfs h q r)))"
proof (cases "matching routes (rqMethod q) (rqPath q)")
  case Nil
  then show ?thesis using assms by (simp add: mux_def)
next
  case (Cons m ms)
  obtain target args where m: "m = (target, args)" by (cases m)
  have "ok (rnDB (snd (call_endpoint ns wfs h (rqBody q) target args r)))"
    using assms rerun [OF assms]
    by (cases target) (simp_all add: on_db_state http_writes http_rerun_state enqueue cancel_job run_state split: sum.split)
  then show ?thesis using Cons by (simp add: mux_def m)
qed

end

section \<open>Consistent tables\<close>

definition store_ok :: "db \<Rightarrow> bool" where
  "store_ok d \<longleftrightarrow> jobs_wf d \<and> defs_wf d \<and> runs_wf d \<and> distinct (map rID (tRuns d)) \<and>
    (\<forall>r \<in> set (tRuns d). rDefinitionID r \<in> dID ` set (tDefs d)) \<and> distinct (map queue_key (tQueues d))"

definition other_tables :: "db \<Rightarrow> db" where
  "other_tables d = d\<lparr>tJobs := [], seqJobs := 0\<rparr>"

lemma store_ok_jobs:
  assumes "store_ok d" and "jobs_wf d'" and "other_tables d' = other_tables d"
  shows "store_ok d'"
proof -
  have "db.tDefs (other_tables d') = tDefs (other_tables d)" "tRuns (other_tables d') = tRuns (other_tables d)"
    "tQueues (other_tables d') = tQueues (other_tables d)" "seqDefs (other_tables d') = seqDefs (other_tables d)"
    "seqRuns (other_tables d') = seqRuns (other_tables d)" using assms(3) by simp_all
  then have "tDefs d' = tDefs d" "tRuns d' = tRuns d" "tQueues d' = tQueues d" "seqDefs d' = seqDefs d" "seqRuns d' = seqRuns d"
    by (simp_all add: other_tables_def)
  then show ?thesis using assms(1,2) by (simp add: store_ok_def defs_wf_def runs_wf_def)
qed

lemma insert_new_other: "other_tables (snd (insert_new e p d)) = other_tables d"
  unfolding insert_new_state
  by (rule run_stmt_keeps [where P = "\<lambda>d'. other_tables d' = other_tables d"])
    (simp_all add: other_tables_def insert_stmt_def Let_def)

lemma Enqueue_state: "\<exists>pl md. snd (Enqueue ns v p d) = d \<or>
    snd (Enqueue ns v p d) = snd (insert_new (evInsert v) (insert_params ns v p pl md) d)"
proof -
  have "snd (Enqueue ns v p d) = d \<or> (\<exists>pl md. snd (Enqueue ns v p d) =
      snd (InsertJob (evFind v) (evInsert v) (insert_params ns v p pl md) d))"
    by (auto simp: Enqueue_def enqueueJob_def split: sum.split prod.split) (metis snd_conv)+
  then show ?thesis using InsertJob_state by metis
qed

lemma job_step_other: "other_tables (job_step d ev) = other_tables d"
proof (cases ev)
  case (Ev_Fetch ord e ns qs limit w)
  have "other_tables (snd (fetch_stmt ord e ns qs limit w d)) = other_tables d"
    by (simp add: fetch_stmt_def Let_def other_tables_def)
  then show ?thesis using FetchJobs_state [of ord e ns qs limit w d] by (auto simp: Ev_Fetch)
next
  case (Ev_Insert e p)
  then show ?thesis by (simp add: insert_new_other)
qed (simp_all add: CompleteJob_def FailJob_def CancelJob_def PromoteScheduledJobs_def run_stmt_def Let_def
    other_tables_def split: outcome.split)

lemma CancelJob_as_step: "snd (CancelJob e i d) = job_step d (Ev_Cancel e i)"
  by simp

text \<open>A row of the runs with the same identifier and definition changes nothing of this.\<close>

lemma store_ok_run:
  assumes "store_ok d" and "\<And>r. rID (f r) = rID r" and "\<And>r. rDefinitionID (f r) = rDefinitionID r"
  shows "store_ok (d\<lparr>tRuns := update_where p f (tRuns d)\<rparr>)"
proof -
  have "keyed_update rID f" using assms(2) by unfold_locales
  then have "map rID (update_where p f (tRuns d)) = map rID (tRuns d)" by (rule keyed_update.keys_update)
  then show ?thesis
    using assms by (auto simp: store_ok_def jobs_wf_def defs_wf_def runs_wf_def set_update_where)
qed

lemma store_ok_run_stmts:
  assumes "store_ok d"
  shows "store_ok (snd (UpdateWorkflowRunState e k st cs msg d))"
    and "store_ok (snd (UpdateWorkflowRunStepStates e k m d))"
    and "store_ok (snd (ResetWorkflowStepForRerun e k m d))"
  using assms
  by (auto simp: UpdateWorkflowRunState_def UpdateWorkflowRunStepStates_def ResetWorkflowStepForRerun_def run_stmt_def
      state_row_def states_row_def reset_row_def intro!: store_ok_run split: outcome.split)

lemma store_ok_queue:
  assumes "store_ok d" and "distinct (map queue_key qs)"
  shows "store_ok (d\<lparr>tQueues := qs\<rparr>)"
  using assms by (simp add: store_ok_def jobs_wf_def defs_wf_def runs_wf_def)

lemma store_ok_upsert: "store_ok d \<Longrightarrow> store_ok (snd (UpsertQueue e q d))"
proof -
  assume ok: "store_ok d"
  then have "distinct (map queue_key (tQueues d))" by (simp add: store_ok_def)
  then show ?thesis
    using ok by (auto simp: UpsertQueue_def run_stmt_def find_row_None_iff queue_key_def upsert_upd.distinct_update
        intro!: store_ok_queue split: outcome.split) 
qed

lemma store_ok_pause: "store_ok d \<Longrightarrow> store_ok (snd (PauseQueue e ns n b d))"
  by (auto simp: PauseQueue_def run_stmt_def store_ok_def pause_upd.distinct_update jobs_wf_def defs_wf_def runs_wf_def
      split: outcome.split)

lemma definition_ids:
  "dID ` set (update_where p (\<lambda>x. x\<lparr>dDefinition := def\<rparr>) rows) = dID ` set rows"
  using def_id_upd.keys_update [of p def rows] by (metis list.set_map)

lemma definition_state:
  "snd (InsertWorkflowDefinition e n ns def d) = d \<or>
   snd (InsertWorkflowDefinition e n ns def d) = snd (InsertWorkflowDefinition (pg_at (pgNow e)) n ns def d)"
  unfolding InsertWorkflowDefinition_def run_stmt_def state_of_case pg_at_simps by (cases "pgOutcome e") simp_all

lemma create_state:
  "snd (CreateWorkflowRun e i ns input states d) = d \<or>
   snd (CreateWorkflowRun e i ns input states d) = snd (CreateWorkflowRun (pg_at (pgNow e)) i ns input states d)"
  unfolding CreateWorkflowRun_def run_stmt_def state_of_case pg_at_simps by (cases "pgOutcome e") simp_all

lemma store_ok_definition: "store_ok d \<Longrightarrow> store_ok (snd (InsertWorkflowDefinition e n ns def d))"
proof -
  assume ok: "store_ok d"
  obtain x d' where i: "InsertWorkflowDefinition (pg_at (pgNow e)) n ns def d = (x, d')" by fastforce
  have "store_ok d'"
  proof (cases x)
    case (Inr f)
    have wf: "defs_wf d'" using insert_definition_wf(1) [OF _ i [unfolded Inr]] ok by (simp add: store_ok_def)
    have "dID ` set (tDefs d) \<subseteq> dID ` set (tDefs d')" "tRuns d' = tRuns d" "seqRuns d' = seqRuns d"
      "tJobs d' = tJobs d" "seqJobs d' = seqJobs d" "tQueues d' = tQueues d"
      using insert_definition_InrD [OF i [unfolded Inr]] by (auto simp: definition_ids split: option.splits)
    then show ?thesis using ok wf by (auto simp: store_ok_def jobs_wf_def runs_wf_def)
  next
    case (Inl err)
    then have "d' = d"
      using i by (auto simp: InsertWorkflowDefinition_def run_stmt_def Let_def split: if_splits option.splits)
    then show ?thesis using ok by simp
  qed
  then show ?thesis using definition_state [of e n ns def d] ok i by auto
qed

lemma store_ok_create: "store_ok d \<Longrightarrow> store_ok (snd (CreateWorkflowRun e i ns input states d))"
proof -
  assume ok: "store_ok d"
  have sim: "store_ok (d\<lparr>seqRuns := seqRuns d + 1\<rparr>)"
    using ok by (auto simp: store_ok_def jobs_wf_def defs_wf_def runs_wf_def)
  have new: "store_ok (d\<lparr>seqRuns := seqRuns d + 1, tRuns := tRuns d @ [r]\<rparr>)"
    if "rID r = seqRuns d" "rDefinitionID r = i" "find_row dID i (tDefs d) \<noteq> None" for r
    using ok that by (auto simp: store_ok_def jobs_wf_def defs_wf_def runs_wf_def find_row_None_iff)
  have "store_ok (snd (CreateWorkflowRun (pg_at (pgNow e)) i ns input states d))"
    using ok sim new by (auto simp: CreateWorkflowRun_def run_stmt_def Let_def)
  then show ?thesis using create_state [of e i ns input states d] ok by auto
qed

interpretation stored: client_ops store_ok
proof
  fix d and ns :: string and v :: enqueue_env and p :: EnqueueParams and e :: pg and i k :: int
    and n def input states st cs msg and q :: QueueConfig and b
  assume ok: "store_ok d"
  then have "jobs_wf d" by (simp add: store_ok_def)
  then show "store_ok (snd (Enqueue ns v p d))"
    using Enqueue_state [of ns v p d] Enqueue_wf store_ok_jobs [OF ok _ insert_new_other] insert_new_wf ok by metis
  show "store_ok (snd (CancelJob e i d))"
    using store_ok_jobs [OF ok _ job_step_other] job_step_wf [OF \<open>jobs_wf d\<close>] by (simp only: CancelJob_as_step)
  show "store_ok (snd (UpsertQueue e q d))" by (rule store_ok_upsert [OF ok])
  show "store_ok (snd (PauseQueue e ns n b d))" by (rule store_ok_pause [OF ok])
  show "store_ok (snd (InsertWorkflowDefinition e n ns def d))" by (rule store_ok_definition [OF ok])
  show "store_ok (snd (CreateWorkflowRun e i ns input states d))" by (rule store_ok_create [OF ok])
  show "store_ok (snd (UpdateWorkflowRunState e i st cs msg d))" by (rule store_ok_run_stmts(1) [OF ok])
  show "store_ok (snd (ResetWorkflowStepForRerun e i states d))" by (rule store_ok_run_stmts(3) [OF ok])
qed

lemma store_ok_blind: "without_logs d = without_logs d' \<Longrightarrow> store_ok d = store_ok d'"
proof -
  assume eq: "without_logs d = without_logs d'"
  have "store_ok (without_logs d) = store_ok d" for d
    by (simp add: without_logs_def store_ok_def jobs_wf_def defs_wf_def runs_wf_def)
  then show ?thesis using eq by metis
qed

interpretation stored_runs: run_updates store_ok
  by unfold_locales (use store_ok_blind store_ok_run_stmts in blast)+

section \<open>Stored rows keep their identity\<close>

text \<open>A stored run keeps the columns that say what is run.\<close>

definition run_identity :: "WorkflowRunRow \<Rightarrow> int \<times> string \<times> json \<times> instant" where
  "run_identity r = (rDefinitionID r, rNamespace r, rInput r, rCreatedAt r)"

definition same_run :: "int \<Rightarrow> WorkflowRunRow \<Rightarrow> db \<Rightarrow> bool" where
  "same_run k r0 d \<longleftrightarrow>
    (case run_lookup k d of None \<Rightarrow> False | Some r \<Rightarrow> run_identity r = run_identity r0)"

lemma same_run_cong: "tRuns d = tRuns d' \<Longrightarrow> same_run k r0 d = same_run k r0 d'"
  by (simp add: same_run_def run_lookup_def)

lemma same_identity_cong: "tJobs d = tJobs d' \<Longrightarrow> same_identity i r0 d = same_identity i r0 d'"
  by (simp add: same_identity_def job_lookup_def)

lemma run_stmts_jobs:
  "tJobs (snd (UpdateWorkflowRunState e k st cs msg d)) = tJobs d"
  "tJobs (snd (UpdateWorkflowRunStepStates e k m d)) = tJobs d"
  "tJobs (snd (ResetWorkflowStepForRerun e k m d)) = tJobs d"
  "tJobs (snd (CreateWorkflowRun e i ns input states d)) = tJobs d"
  "tJobs (snd (InsertWorkflowDefinition e n ns def d)) = tJobs d"
  "tJobs (snd (UpsertQueue e q d)) = tJobs d" "tJobs (snd (PauseQueue e ns n b d)) = tJobs d"
  by (auto simp: UpdateWorkflowRunState_def UpdateWorkflowRunStepStates_def ResetWorkflowStepForRerun_def
      CreateWorkflowRun_def InsertWorkflowDefinition_def UpsertQueue_def PauseQueue_def run_stmt_def Let_def
      state_of_case split: outcome.split option.split)

lemma job_stmts_runs:
  "tRuns (snd (InsertWorkflowDefinition e n ns def d)) = tRuns d" "tRuns (snd (UpsertQueue e q d)) = tRuns d"
  "tRuns (snd (PauseQueue e ns n b d)) = tRuns d" "tRuns (snd (Enqueue ns v p d)) = tRuns d"
  "tRuns (job_step d ev) = tRuns d"
proof -
  have other: "tRuns d = tRuns (other_tables d)" for d by (simp add: other_tables_def)
  show "tRuns (job_step d ev) = tRuns d" using other job_step_other by metis
  show "tRuns (snd (Enqueue ns v p d)) = tRuns d" using Enqueue_state [of ns v p d] other insert_new_other by metis
qed (auto simp: InsertWorkflowDefinition_def UpsertQueue_def PauseQueue_def run_stmt_def Let_def state_of_case
    split: outcome.split option.split)

lemma Enqueue_identity: "same_identity i r0 d \<Longrightarrow> same_identity i r0 (snd (Enqueue ns v p d))"
  using Enqueue_state [of ns v p d] same_identity_step [of i r0 d "Ev_Insert (evInsert v) _"] by fastforce

interpretation job_kept: client_ops "same_identity i r0" for i r0
proof
  fix d and e :: pg and j
  assume "same_identity i r0 d"
  then show "same_identity i r0 (snd (CancelJob e j d))" using same_identity_step [of i r0 d "Ev_Cancel e j"] by simp
qed (simp_all add: Enqueue_identity run_stmts_jobs cong: same_identity_cong)

lemma same_run_update:
  assumes "\<And>r. rID (f r) = rID r" and "\<And>r. run_identity (f r) = run_identity r"
  shows "same_run k r0 (d\<lparr>tRuns := update_where p f (tRuns d)\<rparr>) = same_run k r0 d"
proof -
  have "keyed_update rID f" using assms(1) by unfold_locales
  from keyed_update.find_update_prop [OF this, of "\<lambda>r. run_identity r = run_identity r0"] assms(2)
  show ?thesis by (simp add: same_run_def run_lookup_def)
qed

lemma same_run_stmts:
  "same_run k r0 (snd (UpdateWorkflowRunState e j st cs msg d)) = same_run k r0 d"
  "same_run k r0 (snd (UpdateWorkflowRunStepStates e j m d)) = same_run k r0 d"
  "same_run k r0 (snd (ResetWorkflowStepForRerun e j m d)) = same_run k r0 d"
proof -
  have "run_identity (state_row t st msg r) = run_identity r" "run_identity (states_row t m r) = run_identity r"
    "run_identity (reset_row t m r) = run_identity r" for t r
    by (simp_all add: run_identity_def state_row_def states_row_def reset_row_def)
  note upd = same_run_update [OF state_upd.key_kept this(1)] same_run_update [OF states_upd.key_kept this(2)]
    same_run_update [OF reset_upd.key_kept this(3)]
  show "same_run k r0 (snd (UpdateWorkflowRunState e j st cs msg d)) = same_run k r0 d"
    "same_run k r0 (snd (UpdateWorkflowRunStepStates e j m d)) = same_run k r0 d"
    "same_run k r0 (snd (ResetWorkflowStepForRerun e j m d)) = same_run k r0 d"
    by (simp_all add: UpdateWorkflowRunState_def UpdateWorkflowRunStepStates_def ResetWorkflowStepForRerun_def run_stmt_def upd
        split: outcome.split)
qed

lemma same_run_create: "same_run k r0 d \<Longrightarrow> same_run k r0 (snd (CreateWorkflowRun e i ns input states d))"
  by (auto simp: CreateWorkflowRun_def run_stmt_def Let_def same_run_def run_lookup_def split: outcome.split option.splits)

interpretation run_kept: client_ops "same_run k r0" for k r0
  by unfold_locales
    (simp_all add: same_run_stmts same_run_create job_stmts_runs CancelJob_as_step del: job_step.simps cong: same_run_cong)

lemma rows_blind: "without_logs d = without_logs d' \<Longrightarrow> tJobs d = tJobs d' \<and> tRuns d = tRuns d'"
proof -
  assume eq: "without_logs d = without_logs d'"
  have "tJobs (without_logs d) = tJobs d" "tRuns (without_logs d) = tRuns d" for d by (simp_all add: without_logs_def)
  then show ?thesis using eq by metis
qed

interpretation job_kept_runs: run_updates "same_identity i r0" for i r0
proof
  show "same_identity i r0 d = same_identity i r0 d'" if "without_logs d = without_logs d'" for d d'
    using rows_blind [OF that] by (intro same_identity_cong) simp
qed (simp_all add: run_stmts_jobs cong: same_identity_cong)

interpretation run_kept_runs: run_updates "same_run k r0" for k r0
proof
  show "same_run k r0 d = same_run k r0 d'" if "without_logs d = without_logs d'" for d d'
    using rows_blind [OF that] by (intro same_run_cong) simp
qed (simp_all add: same_run_stmts)

section \<open>Everything together\<close>

text \<open>
  What acts on the database of one installation: requests to the two servers, executions of runs
  by the engine, and the statements of the workers and of other clients on jobs.
\<close>

datatype activity =
    Api_Request api_env api_request
  | Http_Request http_env request
  | Execution env int
  | Job_Statement job_event

fun installation_step :: "string \<Rightarrow> 'w Client \<Rightarrow> 'w run \<Rightarrow> activity \<Rightarrow> 'w run" where
  "installation_step page c r (Api_Request ev q) = snd (api_server page ev c q r)"
| "installation_step page c r (Http_Request h q) = snd (mux (cfNamespace (clConfig c)) (clWorkflows c) h q r)"
| "installation_step page c r (Execution env k) = snd (ExecuteRun env (clEngine c) k r)"
| "installation_step page c r (Job_Statement ev) = r\<lparr>rnDB := job_step (rnDB r) ev\<rparr>"

lemma store_ok_job_step: "store_ok d \<Longrightarrow> store_ok (job_step d ev)"
  using store_ok_jobs [OF _ job_step_wf job_step_other] by (metis store_ok_def)

lemma same_run_job_step: "same_run k r0 d \<Longrightarrow> same_run k r0 (job_step d ev)"
  using job_stmts_runs(5) same_run_cong by metis

interpretation all_stored: reach_inv "installation_step page c" "\<lambda>r. store_ok (rnDB r)" for page c
proof
  show "store_ok (rnDB (installation_step page c r a))" if "store_ok (rnDB r)" for r a
    using that by (cases a) (simp_all add: stored.api_server_keeps stored.mux_keeps stored_runs.execute store_ok_job_step)
qed

interpretation all_jobs: reach_inv "installation_step page c" "\<lambda>r. same_identity i r0 (rnDB r)" for page c i r0
proof
  show "same_identity i r0 (rnDB (installation_step page c r a))" if "same_identity i r0 (rnDB r)" for r a
    using that
    by (cases a) (simp_all add: job_kept.api_server_keeps job_kept.mux_keeps job_kept_runs.execute same_identity_step)
qed

interpretation all_runs: reach_inv "installation_step page c" "\<lambda>r. same_run k r0 (rnDB r)" for page c k r0
proof
  show "same_run k r0 (rnDB (installation_step page c r a))" if "same_run k r0 (rnDB r)" for r a
    using that
    by (cases a) (simp_all add: run_kept.api_server_keeps run_kept.mux_keeps run_kept_runs.execute same_run_job_step)
qed

text \<open>C3 The data of an installation is kept: whatever requests its two servers get, whatever runs the engine
  executes and whatever statements the workers send, in any order and however the database server
  answers, the tables stay consistent (identifiers, live idempotency keys, definitions and queue
  names are unique, and every run has its definition), a stored job is never deleted and keeps what
  it was enqueued with, and a stored run is never deleted and keeps its definition, namespace and input.\<close>

theorem the_data_is_kept:
  assumes "store_ok (rnDB r)" and "r' = foldl (installation_step page c) r acts"
  shows "store_ok (rnDB r') \<and>
    (\<forall>i job. job_lookup i (rnDB r) = Some job \<longrightarrow>
      (\<exists>job'. job_lookup i (rnDB r') = Some job' \<and> job_identity job' = job_identity job)) \<and>
    (\<forall>k run. run_lookup k (rnDB r) = Some run \<longrightarrow>
      (\<exists>run'. run_lookup k (rnDB r') = Some run' \<and> run_identity run' = run_identity run))"
proof (intro conjI allI impI)
  show "store_ok (rnDB r')" unfolding assms(2) by (rule all_stored.run_inv [OF assms(1)])
  show "\<exists>job'. job_lookup i (rnDB r') = Some job' \<and> job_identity job' = job_identity job"
    if "job_lookup i (rnDB r) = Some job" for i job
  proof -
    have "same_identity i job (rnDB r)" using that by (simp add: same_identity_def)
    then have "same_identity i job (rnDB r')" unfolding assms(2) by (rule all_jobs.run_inv)
    then show ?thesis by (simp add: same_identity_def split: option.splits)
  qed
  show "\<exists>run'. run_lookup k (rnDB r') = Some run' \<and> run_identity run' = run_identity run"
    if "run_lookup k (rnDB r) = Some run" for k run
  proof -
    have "same_run k run (rnDB r)" using that by (simp add: same_run_def)
    then have "same_run k run (rnDB r')" unfolding assms(2) by (rule all_runs.run_inv)
    then show ?thesis by (simp add: same_run_def split: option.splits)
  qed
qed

end
