(* ===== verification/Fullstack_Workflows.thy ===== *)
theory Fullstack_Workflows
  imports Client_Lifecycle Job_Logger Migrations
begin

text \<open>
  What \<^verbatim>\<open>_examples/fullstack/main.go\<close> registers with its client: the job handlers with the
  log they write, the workflows of an order and of a data pipeline, and the start and the end of
  \<open>main\<close>. The third workflow is built with \<^verbatim>\<open>ForEach\<close> and \<^verbatim>\<open>WithReducer\<close>, which no file of
  the repository declares; it is the parameter \<open>batch\<close>. Pauses are left out.
\<close>

section \<open>Job handlers\<close>

text \<open>
  A handler gets the job and the logger of its context. \<open>now\<close> gives the time of each entry,
  \<open>sprintf\<close> the interpretation of the verbs of a format.
\<close>

type_synonym job_handler = "(string \<Rightarrow> log_arg list \<Rightarrow> string) \<Rightarrow> (nat \<Rightarrow> instant) \<Rightarrow> Job \<Rightarrow> JobLogger \<Rightarrow> error option \<times> JobLogger"

definition decode_email :: "json \<Rightarrow> error + string \<times> string" where
  "decode_email j =
    (case j of
      JNull \<Rightarrow> Inr ('''', '''')
    | JObj kvs \<Rightarrow>
        bind_sum (parse_string (json_field ''to'' kvs)) (\<lambda>to.
        bind_sum (parse_string (json_field ''subject'' kvs)) (\<lambda>subject.
        bind_sum (parse_string (json_field ''body'' kvs)) (\<lambda>_. Inr (to, subject))))
    | _ \<Rightarrow> Inl type_error)"

definition send_email_handler :: job_handler where
  "send_email_handler sprintf now job l0 =
    (let l1 = log_Info sprintf (now 0) ''Starting send-email job %d'' [ValArg (int_text (ID job))] l0 in
     case decode_email (Payload job) of
       Inl err \<Rightarrow> (Some err, log_Error sprintf (now 1) ''Failed to unmarshal payload: %v'' [ValArg (err_msg err)] l1)
     | Inr (to, subject) \<Rightarrow>
         (None, log_Info sprintf (now 2) ''Email sent successfully'' []
           (log_Info sprintf (now 1) ''Sending email to %s: %s'' [StrArg to, StrArg subject] l1)))"

text \<open>\<open>text_of\<close> is the text of a JSON value.\<close>

definition process_handler :: "(json \<Rightarrow> string) \<Rightarrow> job_handler" where
  "process_handler text_of sprintf now job l0 =
    (None, log_Info sprintf (now 2) ''Processing complete'' []
      (log_Debug sprintf (now 1) ''Payload: %s'' [StrArg (text_of (Payload job))]
        (log_Info sprintf (now 0) ''Processing job %d'' [ValArg (int_text (ID job))] l0)))"

definition flaky_handler :: job_handler where
  "flaky_handler sprintf now job l0 =
    (let n = [ValArg (int_text (sint (Attempt job)))];
         l1 = log_Info sprintf (now 0) ''Attempt %d of flaky job'' n l0
     in if sint (Attempt job) < 3
        then (Some (Errorf ''simulated failure''),
              log_Warn sprintf (now 1) ''Simulating failure on attempt %d'' n l1)
        else (None, log_Info sprintf (now 1) ''Success on attempt %d'' n l1))"

definition flaky_options :: HandlerOptions where
  "flaky_options = zero_options\<lparr>hoRetry :=
    \<lparr>hrMaxAttempts = 5, hrBackoff = Some (FixedBackoff time_Second), hrJitter = False, hrRetryableErrors = [],
     hrDiscardErrors = []\<rparr>\<rparr>"

text \<open>
  What \<open>handleJob\<close> sees of a call: the error, and the entries of the fresh logger of the
  context as JSON (nothing where the encoder fails, which the table refuses).
\<close>

definition handler_logs :: "(instant \<Rightarrow> string option) \<Rightarrow> error option \<times> JobLogger \<Rightarrow> handler_call option" where
  "handler_logs stamp x = (case x of (err, l) \<Rightarrow> map_option (Returns err) (logger_JSON stamp l))"

section \<open>The order workflow\<close>

text \<open>\<open>Input\<close> of a workflow context.\<close>

definition workflow_Input :: "WorkflowContext \<Rightarrow> error + json" where
  "workflow_Input c =
    (case wcInput c of None \<Rightarrow> Inl (Errorf ''unexpected end of JSON input'') | Some j \<Rightarrow> Inr j)"

text \<open>
  A number is read into a float64 if its magnitude rounds to a finite one. The literal of a
  number has a sign, digits, a fraction and an exponent.
\<close>

definition float_bound :: int where "float_bound = 2 ^ 1024 - 2 ^ 970"

definition is_decimal_digit :: "char \<Rightarrow> bool" where
  "is_decimal_digit c \<longleftrightarrow> (of_char c :: int) \<in> {48..57}"

definition digits_of :: "string \<Rightarrow> int" where
  "digits_of s = (case digits_value 0 s of Some n \<Rightarrow> n | None \<Rightarrow> 0)"

text \<open>The magnitude of a literal as a mantissa and a decimal exponent.\<close>

definition decimal_parts :: "string \<Rightarrow> int \<times> int" where
  "decimal_parts s =
    (let s1 = (case s of CHR ''-'' # cs \<Rightarrow> cs | _ \<Rightarrow> s);
         ip = takeWhile is_decimal_digit s1; r1 = drop (length ip) s1;
         fp = (case r1 of CHR ''.'' # cs \<Rightarrow> takeWhile is_decimal_digit cs | _ \<Rightarrow> '''');
         r2 = dropWhile (\<lambda>c. c \<noteq> CHR ''e'' \<and> c \<noteq> CHR ''E'') r1;
         x = (case r2 of
               _ # CHR ''-'' # cs \<Rightarrow> - digits_of cs
             | _ # CHR ''+'' # cs \<Rightarrow> digits_of cs
             | _ # cs \<Rightarrow> digits_of cs
             | [] \<Rightarrow> 0)
     in (digits_of (ip @ fp), x - int (length fp)))"

fun float_fits :: "json \<Rightarrow> bool" where
  "float_fits JNull = True"
| "float_fits (JNum n) = (\<bar>n\<bar> < float_bound)"
| "float_fits (JDec s) =
    (case decimal_parts s of (m, e) \<Rightarrow>
      if e \<ge> 0 then m * 10 ^ nat e < float_bound else m < float_bound * 10 ^ nat (- e))"
| "float_fits _ = False"

definition decode_order :: "json \<Rightarrow> error + string \<times> string" where
  "decode_order j =
    (case j of
      JNull \<Rightarrow> Inr ('''', '''')
    | JObj kvs \<Rightarrow>
        bind_sum (parse_string (json_field ''order_id'' kvs)) (\<lambda>ident.
        bind_sum (parse_string (json_field ''customer'' kvs)) (\<lambda>customer.
          if float_fits (json_field ''amount'' kvs) then Inr (ident, customer) else Inl type_error))
    | _ \<Rightarrow> Inl type_error)"

definition validate_order :: "'w wf_func" where
  "validate_order c w =
    (case bind_sum (workflow_Input c) decode_order of
      Inl err \<Rightarrow> ((Some (Wrapped ''invalid input: '' err ''''), None), w)
    | Inr (ident, _) \<Rightarrow>
        ((None, Some (JObj [(''order_id'', JStr ident), (''validated'', JBool True)])), w))"

text \<open>\<open>nano\<close> reads the clock of the world; the amount of the input is only logged.\<close>

definition process_payment :: "('w \<Rightarrow> int \<times> 'w) \<Rightarrow> 'w wf_func" where
  "process_payment nano c w =
    (case nano w of (t, w') \<Rightarrow>
      ((None, Some (JObj [(''payment_id'', JStr (''PAY-'' @ int_text t)), (''status'', JStr ''completed'')])), w'))"

definition send_confirmation :: "'w wf_func" where
  "send_confirmation c w = ((None, Some (JObj [(''email_sent'', JBool True)])), w)"

definition update_inventory :: "'w wf_func" where
  "update_inventory c w = ((None, Some (JObj [(''inventory_updated'', JBool True)])), w)"

definition ship_order :: "('w \<Rightarrow> int \<times> 'w) \<Rightarrow> 'w wf_func" where
  "ship_order nano c w =
    (case nano w of (t, w') \<Rightarrow>
      ((None, Some (JObj [(''shipped'', JBool True), (''tracking_number'', JStr (''TRACK-'' @ int_text t))])), w'))"

definition order_workflow :: "('w \<Rightarrow> int \<times> 'w) \<Rightarrow> 'w Workflow" where
  "order_workflow nano =
    Step ''ship-order'' (ship_order nano) []
      (Parallel
        [\<lparr>psID = ''send-confirmation'', psName = ''Send Confirmation Email'', psHandler = send_confirmation,
          psRetry = None, psTimeout = 0\<rparr>,
         \<lparr>psID = ''update-inventory'', psName = ''Update Inventory'', psHandler = update_inventory,
          psRetry = None, psTimeout = 0\<rparr>]
        (Step ''process-payment'' (process_payment nano) []
          (Step ''validate-order'' validate_order []
            (Description ''Process a customer order through validation, payment, and shipping''
              (NewWorkflow ''order-processing'')))))"

section \<open>The data pipeline\<close>

definition extract_step :: "'w wf_func" where
  "extract_step c w = ((None, Some (JObj [(''records'', JNum 1000)])), w)"

text \<open>The error of reading the output is dropped, and the struct keeps its zero then.\<close>

definition extracted_records :: "WorkflowContext \<Rightarrow> int64" where
  "extracted_records c =
    (case GetStepOutput c ''extract'' of
      Inr (JObj kvs) \<Rightarrow> (case parse_int64 (json_field ''records'' kvs) of Inr n \<Rightarrow> n | Inl _ \<Rightarrow> 0)
    | _ \<Rightarrow> 0)"

definition transform_step :: "'w wf_func" where
  "transform_step c w =
    ((None, Some (JObj [(''records'', JNum (sint (extracted_records c))), (''transformed'', JBool True)])), w)"

definition load_step :: "'w wf_func" where
  "load_step c w = ((None, Some (JObj [(''loaded'', JBool True)])), w)"

definition pipeline_workflow :: "'w Workflow" where
  "pipeline_workflow =
    Step ''load'' load_step [] (Step ''transform'' transform_step [] (Step ''extract'' extract_step []
      (Description ''Extract, transform, and load data'' (NewWorkflow ''data-pipeline''))))"

section \<open>Registration and main\<close>

definition registerWorkflows ::
  "(json \<Rightarrow> json) \<Rightarrow> ('w \<Rightarrow> int \<times> 'w) \<Rightarrow> 'w Workflow \<Rightarrow> 'w Client \<Rightarrow> 'w Client" where
  "registerWorkflows num nano batch c =
    RegisterWorkflow_client num batch (RegisterWorkflow_client num pipeline_workflow
      (RegisterWorkflow_client num (order_workflow nano) c))"

definition registerHandlers ::
  "(json \<Rightarrow> json) \<Rightarrow> ('w \<Rightarrow> int \<times> 'w) \<Rightarrow> 'w Workflow \<Rightarrow> 'w Client \<Rightarrow> 'w Client" where
  "registerHandlers num nano batch c =
    registerWorkflows num nano batch (RegisterHandler_client ''flaky'' [flaky_options]
      (RegisterHandler_client ''process'' [] (RegisterHandler_client ''send-email'' [] c)))"

text \<open>
  \<open>main\<close> up to the start of the client: \<open>log.Fatalf\<close> ends the process with a text, and a panic
  ends it too. \<open>migrated\<close>, \<open>uuid\<close> and \<open>ex\<close> are as in \<open>NewClient\<close>.
\<close>

definition main_start ::
  "connection \<Rightarrow> error option \<Rightarrow> string \<Rightarrow> (string \<Rightarrow> json \<Rightarrow> 'w \<Rightarrow> (error + json option) \<times> 'w)
    \<Rightarrow> (json \<Rightarrow> json) \<Rightarrow> ('w \<Rightarrow> int \<times> 'w) \<Rightarrow> 'w Workflow \<Rightarrow> (string set \<Rightarrow> string list) \<Rightarrow> pg \<Rightarrow> instant
    \<Rightarrow> Config \<Rightarrow> db \<Rightarrow> (string + 'w Client) outcome_of \<times> db" where
  "main_start cn migrated uuid ex num nano batch ord e now config d =
    (case NewClient cn migrated uuid ex config of
      Inl err \<Rightarrow> (Returned (Inl (''Failed to create client: '' @ err_msg err)), d)
    | Inr c \<Rightarrow>
      (case Start ord e now (registerHandlers num nano batch c) d of
        (Panicked, c', d') \<Rightarrow> (Panicked, d')
      | (Returned (Some err), c', d') \<Rightarrow> (Returned (Inl (''Failed to start client: '' @ err_msg err)), d')
      | (Returned None, c', d') \<Rightarrow> (Returned (Inr c'), d')))"

text \<open>
  The end of \<open>main\<close> after the signal: \<open>Shutdown\<close>, whose error is dropped, and the deferred
  \<open>Close\<close>, which runs in the course of a panic too. \<open>wait\<close> and \<open>wait'\<close> are the errors of
  the two waits.
\<close>

definition main_stop :: "error option \<Rightarrow> error option \<Rightarrow> 'w Client \<Rightarrow> unit outcome_of \<times> 'w Client" where
  "main_stop wait wait' c =
    (case Shutdown wait c of
      (Panicked, c') \<Rightarrow> (Panicked, snd (Close wait' c'))
    | (Returned _, c') \<Rightarrow>
        (case Close wait' c' of
          (Panicked, c'') \<Rightarrow> (Panicked, c'')
        | (Returned _, c'') \<Rightarrow> (Returned (), c'')))"

end
