(* ===== verification/Fullstack_Workflow_Spec.thy ===== *)
theory Fullstack_Workflow_Spec
  imports Engine_Pipeline Engine_Success Fullstack_Workflows Fullstack_Server Http_Spec
begin

text \<open>
  The workflows of the server from end to end: registered by \<open>main\<close>, started by a request,
  executed by the engine, and read by a request.
\<close>

section \<open>Registration\<close>

text \<open>Registering a workflow touches no step of another one.\<close>

lemma register_if_handlers:
  "(\<And>a E. enHandlers (reg a E) p = enHandlers E p) \<Longrightarrow> enHandlers (register_if x reg E) p = enHandlers E p"
  by (simp add: register_if_def split: option.split)

lemma register_step_other:
  "wfn \<noteq> name \<Longrightarrow> enHandlers (registerWorkflowStep num name st E) (wfn, i) = enHandlers E (wfn, i)"
proof (induction num name st E rule: registerWorkflowStep.induct)
  case (1 num name i' n t h cs c r d fo m rc hid E)
  show ?case
  proof (cases "t = stepTypeParallel")
    case True
    have "enHandlers (foldl (\<lambda>E child. registerWorkflowStep num name child E) E cs') (wfn, i) = enHandlers E (wfn, i)"
      if "set cs' \<subseteq> set cs" for cs' E
      using that
    proof (induction cs' arbitrary: E)
      case (Cons child cs')
      then show ?case using "1.IH" [OF True, of child E] "1.prems" by simp
    qed simp
    then show ?thesis using True by simp
  next
    case False
    then show ?thesis
      using "1.prems" by (auto simp: RegisterReduce_def RegisterMap_def RegisterFanOut_def RegisterCondition_def
          RegisterStep_def register_if_def split: option.split)
  qed
qed

lemma register_other:
  assumes "wfn \<noteq> wfName w"
  shows "enHandlers (clEngine (RegisterWorkflow_client num w c)) (wfn, i) = enHandlers (clEngine c) (wfn, i)"
    and "clWorkflows (RegisterWorkflow_client num w c) wfn = clWorkflows c wfn"
proof -
  have "enHandlers (foldl (\<lambda>E st. registerWorkflowStep num (wfName w) st E) E sts) (wfn, i) = enHandlers E (wfn, i)"
    for sts E using assms by (induction sts arbitrary: E) (simp_all add: register_step_other)
  then show "enHandlers (clEngine (RegisterWorkflow_client num w c)) (wfn, i) = enHandlers (clEngine c) (wfn, i)"
    by (simp add: RegisterWorkflow_client_def RegisterWorkflow_def)
  show "clWorkflows (RegisterWorkflow_client num w c) wfn = clWorkflows c wfn"
    using assms by (simp add: RegisterWorkflow_client_def RegisterWorkflow_def)
qed

lemma register_this: "clWorkflows (RegisterWorkflow_client num w c) (wfName w) = Some w"
  by (simp add: RegisterWorkflow_client_def RegisterWorkflow_def)

lemma order_names [simp]:
  "wfName (order_workflow nano) = ''order-processing''" "wfName pipeline_workflow = ''data-pipeline''"
  by (simp_all add: order_workflow_def pipeline_workflow_def Step_def Parallel_def add_step_def Description_def
      NewWorkflow_def)


definition seq_part :: "string \<Rightarrow> StepDefinition" where
  "seq_part i = StepDefinition i i StepTypeSequential [] False 0 '''' ''''"



lemma pipeline_definition:
  "wdefSteps (workflow_def pipeline_workflow) = [seq_part ''extract'', seq_part ''transform'', seq_part ''load'']"
  "\<not> workflow_timed pipeline_workflow"
  "Steps pipeline_workflow = [''extract'', ''transform'', ''load'']"
  by (simp_all add: pipeline_workflow_def workflow_def_def workflow_timed_def Steps_def Step_def add_step_def
      Description_def NewWorkflow_def seq_part_def)


lemma pipeline_handlers:
  assumes "wfName batch = ''batch-processing''"
  shows "clWorkflows (registerHandlers num nano batch c) ''data-pipeline'' = Some pipeline_workflow"
    and "enHandlers (clEngine (registerHandlers num nano batch c)) (''data-pipeline'', ''extract'') = Some (wrap_step num extract_step)"
    and "enHandlers (clEngine (registerHandlers num nano batch c)) (''data-pipeline'', ''transform'') = Some (wrap_step num transform_step)"
    and "enHandlers (clEngine (registerHandlers num nano batch c)) (''data-pipeline'', ''load'') = Some (wrap_step num load_step)"
proof -
  show "clWorkflows (registerHandlers num nano batch c) ''data-pipeline'' = Some pipeline_workflow"
    using register_this [of num pipeline_workflow] assms
    by (simp add: registerHandlers_def registerWorkflows_def register_other(2))
  have *: "enHandlers (clEngine (registerHandlers num nano batch c)) (''data-pipeline'', i) =
      enHandlers (foldl (\<lambda>E st. registerWorkflowStep num ''data-pipeline'' st E) E (wfSteps pipeline_workflow)) (''data-pipeline'', i)"
    if "E = clEngine (RegisterWorkflow_client num (order_workflow nano) (RegisterHandler_client ''flaky'' [flaky_options]
      (RegisterHandler_client ''process'' [] (RegisterHandler_client ''send-email'' [] c))))" for i E
    using assms order_names(2) that
    by (simp add: registerHandlers_def registerWorkflows_def register_other(1) RegisterWorkflow_client_def [of num pipeline_workflow]
        RegisterWorkflow_def [of num pipeline_workflow] split: prod.split)
  show "enHandlers (clEngine (registerHandlers num nano batch c)) (''data-pipeline'', ''extract'') = Some (wrap_step num extract_step)"
    "enHandlers (clEngine (registerHandlers num nano batch c)) (''data-pipeline'', ''transform'') = Some (wrap_step num transform_step)"
    "enHandlers (clEngine (registerHandlers num nano batch c)) (''data-pipeline'', ''load'') = Some (wrap_step num load_step)"
    by (simp_all add: * [OF refl] pipeline_workflow_def Step_def add_step_def Description_def NewWorkflow_def
        register_if_def RegisterStep_def)
qed

section \<open>Executing the steps\<close>

lemma executeStep_seq_part [simp]:
  "\<not> step_completed i (rnSteps r) \<Longrightarrow>
    executeStep env E k wfn (seq_part i) x r = executeSequentialStep env E k wfn (seq_part i) x r"
  by (simp add: executeStep_def seq_part_def)

lemma execute_sequential:
  assumes "enHandlers E (wfn, i) = Some (wrap_step num f)" and "\<not> step_completed i (rnSteps r)"
    and "\<And>c. wcInput c = Some x \<Longrightarrow> wcEngine c = None \<Longrightarrow> wcState c = Map.empty \<Longrightarrow>
      f c (rnWorld r) = ((None, Some v), w')"
    and "through_any num v = u"
  shows "\<exists>r'. (\<forall>steps. execute_steps env E k wfn (seq_part i # steps) x r = execute_steps env E k wfn steps x r') \<and>
    completed_with u i (rnSteps r') \<and> (\<forall>j. j \<noteq> i \<longrightarrow> rnSteps r' j = rnSteps r j)"
proof -
  have i: "sdID (seq_part i) = i" by (simp add: seq_part_def)
  obtain err r1 where x: "executeSequentialStep env E k wfn (seq_part i) x r = (err, r1)" by fastforce
  have h: "enHandlers E (wfn, sdID (seq_part i)) = Some (wrap_step num f)" by (simp add: i assms(1))
  have f: "wrap_step num f c (rnWorld r) = ((None, Some (through_any num v)), w')" if "cxInput c = x" for c
    using assms(3) that by (simp add: wrap_step_def step_context_def)
  note ok = sequential_step_ok [OF h f x]
  show ?thesis
    by (rule exI [of _ "snd (send env (\<lambda>e. UpdateWorkflowRunStepStates e k (rnSteps r1)) r1)"])
      (use ok x assms(2,4) in \<open>auto simp: i\<close>)
qed


section \<open>Requests\<close>

lemma api_routes_no_conflict: "no_conflict api_routes"
  by code_simp

lemma api_server_by:
  assumes "(target, args) \<in> set (matching api_routes (aqMethod q) (aqPath q))" and "aqMethod q \<noteq> ''OPTIONS''"
  shows "api_server page ev c q r =
    (case call_api ev c q target args r of (resp, r') \<Rightarrow> (resp\<lparr>arHeaders := cors_headers @ arHeaders resp\<rparr>, r'))"
  using matching_alone [OF api_routes_no_conflict assms(1)] assms(2)
  by (simp add: api_server_def corsMiddleware_def api_mux_def)

text \<open>The requests that start a workflow with an input, and that read a run.\<close>

definition starts :: "string \<Rightarrow> json \<Rightarrow> api_request \<Rightarrow> bool" where
  "starts name x q \<longleftrightarrow> aqMethod q = ''POST'' \<and>
    aqPath q = [''api'', ''v1'', ''workflows'', name, ''start''] \<and> start_input q = x"


lemma api_server_starts:
  assumes "starts name x q"
  shows "api_server page ev c q r = (case api_handleStartWorkflow ev c q name r of
    (resp, r') \<Rightarrow> (resp\<lparr>arHeaders := cors_headers @ arHeaders resp\<rparr>, r'))"
  using assms by (subst api_server_by [of Api_Start_Workflow "[name]"])
    (simp_all add: starts_def api_routes_def method_fits_def)


lemma api_started:
  assumes "starts name x q" and "api_server page ev c q r = (resp, r1)" and "arStatus resp = 201"
  obtains run where
    "StartWorkflow (aeRun ev) (cfNamespace (clConfig c)) (clWorkflows c) name (Inr x) r = (Inr run, r1)"
    "arBody resp = JSON (workflowRunToJSON run)"
  using assms
  by (auto simp: api_server_starts api_handleStartWorkflow_def starts_def api_writeError_def api_writeJSON_def
      split: prod.splits sum.splits)

lemma started_id:
  assumes "StartWorkflow env ns wfs name input r = (Inr run, r1)" and "wfs name = Some w"
    and "0 < seqRuns (rnDB r)"
  shows "int8_ok (wrID run)"
proof -
  obtain d s1 row inp where
    ins: "InsertWorkflowDefinition (evAnswer env (rnTick r)) (wfName w) ns (serializeWorkflowDefinition w) (rnDB r) = (Inr d, s1)"
    and cr: "CreateWorkflowRun (evAnswer env (Suc (rnTick r))) (dID d) ns inp (initial_states (Steps w)) s1 = (Inr row, rnDB r1)"
    and run: "run = workflowRunFromRow row (wfName w)" by (rule StartWorkflow_InrD [OF assms(1,2)])
  have "seqRuns s1 \<le> seq_max"
    using cr by (auto simp: CreateWorkflowRun_def run_stmt_def split: outcome.splits if_splits)
  then show ?thesis
    using create_run_InrD [OF cr] insert_definition_runs [OF ins] assms(3)
    by (simp add: run int8_ok_def seq_max_def)
qed


section \<open>A run of a registered workflow\<close>

text \<open>
  What every request that starts a workflow leads to: a run whose execution is that of the steps
  from fresh states, stored as completed if these succeed, and readable.
\<close>

lemma requested_run:
  assumes wf: "defs_wf (rnDB r)" "runs_wf (rnDB r)" "0 < seqRuns (rnDB r)"
    and w: "clWorkflows c name = Some w" "wfName w = name" "\<not> workflow_timed w"
    and start: "starts name x q" "api_server page ev c q r = (resp, r1)" "arStatus resp = 201"
    and rel: "reliable env"
    and steps: "\<And>r4 k. rnWorld r4 = rnWorld r1 \<Longrightarrow> rnSteps r4 = initial_states (Steps w) \<Longrightarrow>
      \<exists>r5. execute_steps env (clEngine c) k name (wdefSteps (workflow_def w)) x r4 = (None, r5) \<and> P (rnSteps r5)"
  obtains run r2 row where "arBody resp = JSON (workflowRunToJSON run)" "int8_ok (wrID run)"
    "ExecuteRun env (clEngine c) (wrID run) r1 = (None, r2)" "run_lookup (wrID run) (rnDB r2) = Some row"
    "rState row = WorkflowStateCompleted" "P (rStepStates row)"
proof -
  obtain run where run: "StartWorkflow (aeRun ev) (cfNamespace (clConfig c)) (clWorkflows c) name (Inr x) r = (Inr run, r1)"
    "arBody resp = JSON (workflowRunToJSON run)"
    by (rule api_started [OF start])
  obtain row d where R: "runnable (wrID run) (rnDB r1) row d (workflow_def w)" and d: "dName d = wfName w"
    and row: "rInput row = x" "rStepStates row = initial_states (Steps w)"
    by (rule started_runnable [OF wf(1,2) w(1,3) run(1)])
  obtain r4 where r4: "rnWorld r4 = rnWorld r1" "rnSteps r4 = rStepStates row"
    "ExecuteRun env (clEngine c) (wrID run) r1 =
      (case execute_steps env (clEngine c) (wrID run) (dName d) (wdefSteps (workflow_def w)) (rInput row) r4 of
        (Some err, r5) \<Rightarrow> (Some err, r5)
      | (None, r5) \<Rightarrow>
          (None, snd (send env (\<lambda>e. UpdateWorkflowRunState e (wrID run) WorkflowStateCompleted '''' '''') r5)))"
    by (rule ExecuteRun_begins [OF rel]) (use R in \<open>auto simp: runnable_def\<close>)
  obtain r5 where r5: "execute_steps env (clEngine c) (wrID run) name (wdefSteps (workflow_def w)) x r4 = (None, r5)" "P (rnSteps r5)"
    using steps [of r4 "wrID run"] r4 row by auto
  let ?r2 = "snd (send env (\<lambda>e. UpdateWorkflowRunState e (wrID run) WorkflowStateCompleted '''' '''') r5)"
  have x: "ExecuteRun env (clEngine c) (wrID run) r1 = (None, ?r2)" using r4(3) r5(1) d w(2) row(1) by simp
  obtain row' where row': "run_synced (wrID run) row' ?r2" "rState row' = WorkflowStateCompleted"
    using ExecuteRun_completes [OF rel x R] by blast
  then have "rStepStates row' = rnSteps r5" "run_lookup (wrID run) (rnDB ?r2) = Some row'"
    by (simp_all add: run_synced_def)
  then show thesis
    using that [OF run(2) started_id [OF run(1) w(1) wf(3)] x] row'(2) r5(2) by simp
qed

section \<open>The workflow of an order\<close>


lemma not_completed_initial: "rnSteps r = initial_states is \<Longrightarrow> \<not> step_completed i (rnSteps r)"
  by (simp add: initial_not_completed)

lemma step_completed_cong: "m i = m' i \<Longrightarrow> step_completed i m = step_completed i m'"
  by (simp add: step_completed_def)

lemma completed_with_cong: "m i = m' i \<Longrightarrow> completed_with v i m = completed_with v i m'"
  by (simp add: completed_with_def)




section \<open>The data pipeline\<close>

lemma pipeline_steps_execute:
  fixes r :: "'w run"
  assumes "wfName batch = ''batch-processing''" and "c = registerHandlers num nano batch c0"
    and "rnSteps r = initial_states (Steps (pipeline_workflow :: 'w Workflow))"
  shows "\<exists>r5. execute_steps env (clEngine c) k ''data-pipeline'' (wdefSteps (workflow_def (pipeline_workflow :: 'w Workflow))) x r =
      (None, r5) \<and>
    completed_with (JObj [(''records'', JNum 1000)]) ''extract'' (rnSteps r5) \<and>
    completed_with (JObj [(''records'', JNum 0), (''transformed'', JBool True)]) ''transform'' (rnSteps r5) \<and>
    completed_with (JObj [(''loaded'', JBool True)]) ''load'' (rnSteps r5)"
proof -
  let ?exec = "execute_steps env (clEngine c) k ''data-pipeline''"
  note h = pipeline_handlers(2-4) [OF assms(1), of num nano c0, folded assms(2)]
  have fresh: "\<not> step_completed i (rnSteps r)" for i using not_completed_initial [OF assms(3)] .
  let ?v1 = "JObj [(''records'', JNum 1000)]"
  have "extract_step cx (rnWorld r) = ((None, Some ?v1), rnWorld r)" for cx by (simp add: extract_step_def)
  moreover have "through_any num ?v1 = ?v1" by simp
  ultimately obtain r1 where r1: "\<forall>steps. ?exec (seq_part ''extract'' # steps) x r = ?exec steps x r1"
    "completed_with ?v1 ''extract'' (rnSteps r1)" "\<forall>j. j \<noteq> ''extract'' \<longrightarrow> rnSteps r1 j = rnSteps r j"
    using execute_sequential [OF h(1) fresh] by blast
  let ?v2 = "JObj [(''records'', JNum 0), (''transformed'', JBool True)]"
  have "transform_step cx (rnWorld r1) = ((None, Some ?v2), rnWorld r1)"
    if "wcInput cx = Some x" "wcEngine cx = None" "wcState cx = Map.empty" for cx
    using that by (simp add: transform_step_def extracted_records_def GetStepOutput_def read_output_def)
  moreover have "\<not> step_completed ''transform'' (rnSteps r1)"
    using fresh [of "''transform''"] r1(3) by (simp add: step_completed_def)
  moreover have "through_any num ?v2 = ?v2" by simp
  ultimately obtain r2 where r2: "\<forall>steps. ?exec (seq_part ''transform'' # steps) x r1 = ?exec steps x r2"
    "completed_with ?v2 ''transform'' (rnSteps r2)" "\<forall>j. j \<noteq> ''transform'' \<longrightarrow> rnSteps r2 j = rnSteps r1 j"
    using execute_sequential [OF h(2)] by blast
  let ?v3 = "JObj [(''loaded'', JBool True)]"
  have "load_step cx (rnWorld r2) = ((None, Some ?v3), rnWorld r2)" for cx by (simp add: load_step_def)
  moreover have "\<not> step_completed ''load'' (rnSteps r2)"
    using fresh [of "''load''"] r1(3) r2(3) by (simp add: step_completed_def)
  moreover have "through_any num ?v3 = ?v3" by simp
  ultimately obtain r3 where r3: "\<forall>steps. ?exec (seq_part ''load'' # steps) x r2 = ?exec steps x r3"
    "completed_with ?v3 ''load'' (rnSteps r3)" "\<forall>j. j \<noteq> ''load'' \<longrightarrow> rnSteps r3 j = rnSteps r2 j"
    using execute_sequential [OF h(3)] by blast
  have "?exec (wdefSteps (workflow_def pipeline_workflow)) x r = (None, r3)"
    unfolding pipeline_definition(1) using r1(1) r2(1) r3(1) by (simp del: execute_steps.simps(2))
  moreover have "completed_with ?v1 ''extract'' (rnSteps r3)" "completed_with ?v2 ''transform'' (rnSteps r3)"
    using r1(2) r2(2,3) r3(3) by (simp_all add: completed_with_def)
  ultimately show ?thesis using r3(2) by blast
qed

text \<open>C35 The data pipeline of the server loses its records: whatever its input, the run that a POST starts
  ends completed, its first step has put out 1000 records and its second step reports to have
  transformed none, because the function of a step cannot read the output of another step and
  drops the error.\<close>

theorem pipeline_loses_its_records:
  fixes r :: "'w run"
  assumes "defs_wf (rnDB r)" and "runs_wf (rnDB r)" and "0 < seqRuns (rnDB r)"
    and "wfName batch = ''batch-processing''" and "c = registerHandlers num nano batch c0"
    and "starts ''data-pipeline'' x q" and "api_server page ev c q r = (resp, r1)" and "arStatus resp = 201"
    and "reliable env"
  shows "\<exists>run r2 row. arBody resp = JSON (workflowRunToJSON run) \<and>
    ExecuteRun env (clEngine c) (wrID run) r1 = (None, r2) \<and>
    run_lookup (wrID run) (rnDB r2) = Some row \<and> rState row = WorkflowStateCompleted \<and>
    completed_with (JObj [(''records'', JNum 1000)]) ''extract'' (rStepStates row) \<and>
    completed_with (JObj [(''records'', JNum 0), (''transformed'', JBool True)]) ''transform'' (rStepStates row)"
proof -
  have w: "clWorkflows c ''data-pipeline'' = Some pipeline_workflow"
    using pipeline_handlers(1) [OF assms(4)] assms(5) by simp
  have steps: "\<exists>r5. execute_steps env (clEngine c) k ''data-pipeline'' (wdefSteps (workflow_def (pipeline_workflow :: 'w Workflow))) x r4 =
      (None, r5) \<and> completed_with (JObj [(''records'', JNum 1000)]) ''extract'' (rnSteps r5) \<and>
      completed_with (JObj [(''records'', JNum 0), (''transformed'', JBool True)]) ''transform'' (rnSteps r5)"
    if "rnSteps r4 = initial_states (Steps (pipeline_workflow :: 'w Workflow))" for r4 :: "'w run" and k
    using pipeline_steps_execute [OF assms(4,5) that] by blast
  show ?thesis
    by (rule requested_run [OF assms(1-3) w order_names(2) pipeline_definition(2) assms(6-9),
        where P = "\<lambda>m. completed_with (JObj [(''records'', JNum 1000)]) ''extract'' m \<and>
          completed_with (JObj [(''records'', JNum 0), (''transformed'', JBool True)]) ''transform'' m"])
      (use steps in blast)+
qed

end
