(* ===== verification/Fullstack_Server_Spec.thy ===== *)
theory Fullstack_Server_Spec
  imports Fullstack_Workflow_Spec Client_Lifecycle_Spec
begin

text \<open>
  The server of the example with its client: \<open>main\<close> from start to end, the button that runs a
  handler, the settings of queues, the statistics, and what requests get that no route takes.
\<close>

section \<open>The client of main\<close>

lemma registered_handlers:
  "clHandlers (registerHandlers num nano batch c) =
    (clHandlers c)(''send-email'' \<mapsto> \<lparr>hKind = ''send-email'', hQueue = ''send-email'', hOptions = zero_options\<rparr>,
      ''process'' \<mapsto> \<lparr>hKind = ''process'', hQueue = ''process'', hOptions = zero_options\<rparr>,
      ''flaky'' \<mapsto> \<lparr>hKind = ''flaky'', hQueue = ''flaky'', hOptions = flaky_options\<rparr>)"
  by (simp add: registerHandlers_def registerWorkflows_def RegisterWorkflow_client_def RegisterHandler_client_def
      RegisterHandler_def Let_def flaky_options_def zero_options_def split: prod.split)

definition main_kinds :: "string set" where
  "main_kinds = {''send-email'', ''process'', ''flaky''}"

text \<open>What a successful start of \<open>main\<close> gives: the handlers, and the queues it polls.\<close>

lemma main_started:
  assumes "main_start cn mg uuid ex num nano batch ord e now (main_config os) d = (Returned (Inr c), d1)"
    and "lists_sets ord"
  obtains p where "clPipeline c = Some p" "clStarted c" "\<not> clShutdown c" "cfNamespace (clConfig c) = ''default''"
    "dom (clHandlers c) = main_kinds" "\<forall>k h. clHandlers c k = Some h \<longrightarrow> hKind h = k \<and> hQueue h = k"
    "pdNamespace (plProducer p) = ''default''" "set (pdQueues (plProducer p)) = insert ''default'' main_kinds"
proof -
  let ?cfg = "main_config os"
  obtain c0 where c0: "NewClient cn mg uuid ex ?cfg = Inr c0"
    using assms(1) by (cases "NewClient cn mg uuid ex ?cfg") (simp_all add: main_start_def)
  let ?c = "registerHandlers num nano batch c0"
  have ready: "ready ?cfg ?c" and none: "clHandlers c0 = Map.empty"
    using NewClient_ready [OF c0] by (simp_all add: registerHandlers_def registerWorkflows_def register_ready register_workflow_ready)
  have started: "Start ord e now ?c d = (Returned None, c, d1)"
    using assms(1) c0 by (auto simp: main_start_def split: prod.splits outcome_of.splits option.splits)
  have "0 \<le> cfWorkers ?cfg"
    using started ready with_defaults_workers [of ?cfg] by (simp add: Start_def ready_def Let_def split: if_splits)
  then obtain p where p: "c = ?c\<lparr>clStarted := True, clPipeline := Some p\<rparr>"
    "p = new_pipeline (cfNamespace (with_defaults ?cfg)) (ord (queue_set ?c)) (clWorkerID ?c)
      (nat (cfWorkers (with_defaults ?cfg)))" "set (pdQueues (plProducer p)) = queue_set ?c"
    using Start_ready [OF ready _ assms(2), of e now d] started by auto
  have hs: "clHandlers c = [''send-email'' \<mapsto> \<lparr>hKind = ''send-email'', hQueue = ''send-email'', hOptions = zero_options\<rparr>,
      ''process'' \<mapsto> \<lparr>hKind = ''process'', hQueue = ''process'', hOptions = zero_options\<rparr>,
      ''flaky'' \<mapsto> \<lparr>hKind = ''flaky'', hQueue = ''flaky'', hOptions = flaky_options\<rparr>]"
    by (simp add: p(1) registered_handlers none)
  have ns: "cfNamespace (with_defaults ?cfg) = ''default''" by (simp add: with_defaults_def main_config_def)
  have keys: "hKind h = k \<and> hQueue h = k" if "clHandlers c k = Some h" for k h
    using that by (auto simp: hs split: if_splits)
  have "clHandlers ?c = clHandlers c" by (simp add: p(1))
  moreover have "hQueue ` ran (clHandlers c) = dom (clHandlers c)"
    using keys by (auto simp: ran_def dom_def image_def)
  ultimately have "hQueue ` ran (clHandlers ?c) = main_kinds" by (auto simp: hs main_kinds_def)
  moreover have "config_queues ?cfg = {''default''}" by (simp add: config_queues_def main_config_def)
  ultimately have "set (pdQueues (plProducer p)) = insert ''default'' main_kinds"
    using p(3) queue_set_ready [OF ready] by simp
  moreover have "clStarted c" "\<not> clShutdown c" "cfNamespace (clConfig c) = ''default''"
    using ready ns by (simp_all add: p(1) ready_def)
  moreover have "pdNamespace (plProducer p) = ''default''" using ns by (simp add: p(2) new_pipeline_def NewProducer_def)
  moreover have "dom (clHandlers c) = main_kinds" by (auto simp: hs main_kinds_def)
  moreover have "clPipeline c = Some p" by (simp add: p(1))
  ultimately show thesis using that [of p] keys by blast
qed

text \<open>
  Every orderly end of \<open>main\<close> is a panic: \<open>Shutdown\<close> closes the channel of the client, and the
  deferred \<open>Close\<close> closes it again.
\<close>

lemma main_panics_at_its_end:
  assumes "main_start cn mg uuid ex num nano batch ord e now (main_config os) d = (Returned (Inr c), d1)"
    and "lists_sets ord"
  shows "fst (main_stop wait wait' c) = Panicked"
proof -
  obtain p where "clPipeline c = Some p" "clStarted c" "\<not> clShutdown c" by (rule main_started [OF assms])
  then show ?thesis by (simp add: main_stop_def Shutdown_def Close_def)
qed

section \<open>Running a handler\<close>






section \<open>Statistics\<close>





section \<open>Settings of queues\<close>

text \<open>
  A PUT replaces all settings of a queue: what the body leaves out becomes zero or false, so that
  a PUT that is to pause a queue also sets its concurrency to zero.
\<close>

definition puts_queue :: "string \<Rightarrow> json \<Rightarrow> api_request \<Rightarrow> bool" where
  "puts_queue name body q \<longleftrightarrow>
    aqMethod q = ''PUT'' \<and> aqPath q = [''api'', ''v1'', ''queues'', name] \<and> aqBody q = Inr body"

lemma put_resets_what_it_omits:
  assumes "puts_queue name (JObj [(''paused'', JBool True)]) q" and "pgOutcome (aeAnswer ev) = Done" and "pgOutcome e = Done"
    and "api_server page ev c q r = (resp, r1)"
  shows "arStatus resp = 200 \<and>
    fst (GetQueueConcurrency e (cfNamespace (clConfig c)) name (rnDB r1)) = Inr (0, True)"
proof -
  let ?ns = "cfNamespace (clConfig c)"
  have route: "api_server page ev c q r = (case over_db (api_handleUpdateQueue ev ?ns q name) r of
      (resp, r') \<Rightarrow> (resp\<lparr>arHeaders := cors_headers @ arHeaders resp\<rparr>, r'))"
    using assms(1) by (subst api_server_by [of Api_Update_Queue "[name]"]) (simp_all add: puts_queue_def api_routes_def method_fits_def)
  have "decode_queue (aqBody q) = Inr \<lparr>uqConcurrency = 0, uqPriority = 0, uqPaused = True\<rparr>"
  proof -
    have "decode_queue (Inr (JObj [(''paused'', JBool True)])) = Inr \<lparr>uqConcurrency = 0, uqPriority = 0, uqPaused = True\<rparr>"
      by code_simp
    then show ?thesis using assms(1) by (simp add: puts_queue_def)
  qed
  moreover have "fst (UpsertQueue (aeAnswer ev) (NewQueueConfig name ?ns 0 True 0) (rnDB r)) = Inr ()"
    using assms(2) by (simp add: UpsertQueue_def run_stmt_def NewQueueConfig_def int4_ok_def)
  then obtain d where up: "UpsertQueue (aeAnswer ev) (NewQueueConfig name ?ns 0 True 0) (rnDB r) = (Inr (), d)"
    by (metis prod.collapse)
  ultimately have "resp = (api_writeJSON 200 (DMap [(''status'', DStr ''ok'')]))\<lparr>arHeaders := cors_headers @
      arHeaders (api_writeJSON 200 (DMap [(''status'', DStr ''ok'')]))\<rparr>" "rnDB r1 = d"
    using assms(4) by (auto simp: route over_db_def api_handleUpdateQueue_def)
  then show ?thesis
    using queue_settings_roundtrip [OF up assms(3), of ?ns name] by (simp add: NewQueueConfig_def api_writeJSON_def)
qed

section \<open>What no route takes\<close>

text \<open>The page is served for a path or a method that the API does not know, with status 200.\<close>

lemma unknown_request_gets_the_page:
  assumes "matching api_routes (aqMethod q) (aqPath q) = []" and "aqMethod q \<noteq> ''OPTIONS''"
  shows "\<exists>resp. api_server page ev c q r = (resp, r) \<and> arStatus resp = 200 \<and> arBody resp = Html page"
  using assms by (simp add: api_server_def corsMiddleware_def api_mux_def)

lemma delete_gets_the_page: "matching api_routes ''DELETE'' path = []"
proof -
  have "\<not> method_fits pm ''DELETE''" if "(pm, p, t) \<in> set api_routes" for pm p t
    using that by (auto simp: api_routes_def Let_def method_fits_def)
  then show ?thesis using matching_in [of _ _ api_routes "''DELETE''" path] by (metis list.set_intros(1) neq_Nil_conv surj_pair)
qed

end
