(* ===== verification/Fullstack_Samples.thy ===== *)
theory Fullstack_Samples
  imports Fullstack_Server_Spec Client_Samples Server_Data Retry_Rounds
begin

text \<open>The properties of the workflows of the server, on an empty database.\<close>

section \<open>A client and its requests\<close>

definition tick_clock :: "int \<Rightarrow> int \<times> int" where
  "tick_clock n = (n, n + 1)"

definition bare_client :: "int Client" where
  "bare_client =
    \<lparr>clConfig = with_defaults (main_config Map.empty), clPoolSize = 4, clWorkerID = ''w1'', clHandlers = Map.empty,
     clWorkflows = Map.empty, clEngine = SetWorkerID ''w1'' (NewEngine ''default''), clPipeline = None,
     clStarted = False, clShutdown = False, clDone = False\<rparr>"

definition full_client :: "int Client" where
  "full_client = registerHandlers id tick_clock (NewWorkflow ''batch-processing'') bare_client"

definition full_env :: "int \<Rightarrow> api_env" where
  "full_env t =
    \<lparr>aeEnqueue = \<lparr>evNow1 = t, evNow2 = t, evFind = pg_at t, evInsert = pg_at t\<rparr>, aeAnswer = pg_at t, aeRun = run_env t,
     aeJobs = id, aeLogs = id, aeWorkers = id, aeQueues = id, aeStats = id, aeRuns = id, aeStepLogs = id,
     aeNames = (\<lambda>_. [''process'', ''send-email'', ''flaky''])\<rparr>"

definition start_request :: "string \<Rightarrow> json \<Rightarrow> api_request" where
  "start_request name x =
    \<lparr>aqMethod = ''POST'', aqPath = [''api'', ''v1'', ''workflows'', name, ''start''], aqQuery = [], aqLength = 40,
     aqBody = Inr (JObj [(''input'', x)])\<rparr>"

definition sample_order :: json where
  "sample_order = JObj [(''order_id'', JStr ''A1''), (''customer'', JStr ''Bo''), (''amount'', JDec ''12.5'')]"

lemma lower_input: "lower ''input'' = ''input''"
  by code_simp

lemma start_request_starts: "starts name x (start_request name x)"
  by (simp add: lower_input starts_def start_request_def start_input_def decode_raw_def json_lookup_def)


text \<open>On an empty database every start of a registered workflow is answered 201.\<close>

lemma start_answered:
  assumes "clWorkflows c name = Some w"
  shows "arStatus (fst (api_server page (full_env t) c (start_request name x) (new_run empty_db wo))) = 201"
proof -
  have "\<exists>run r'. StartWorkflow (run_env t) ns (clWorkflows c) name (Inr x) (new_run empty_db wo) = (Inr run, r')" for ns
    using assms
    by (simp add: StartWorkflow_def send_def InsertWorkflowDefinition_def CreateWorkflowRun_def empty_db_def seq_max_def Let_def)
  then obtain run r' where "StartWorkflow (run_env t) (cfNamespace (clConfig c)) (clWorkflows c) name (Inr x)
      (new_run empty_db wo) = (Inr run, r')" by blast
  moreover have "start_input (start_request name x) = x"
    using start_request_starts [of name x] by (simp add: starts_def)
  ultimately show ?thesis
    by (simp add: api_server_starts [OF start_request_starts] api_handleStartWorkflow_def full_env_def api_writeJSON_def)
qed

lemma batch_name: "wfName (NewWorkflow ''batch-processing'' :: int Workflow) = ''batch-processing''"
  by (simp add: NewWorkflow_def)

lemma empty_runs: "0 < seqRuns empty_db"
  by (simp add: empty_db_def)

section \<open>The properties\<close>


theorem pipeline_loses_its_records_witness:
  "\<exists>(run :: WorkflowRun) r2 row.
    ExecuteRun (run_env 10) (clEngine full_client) (wrID run)
      (snd (api_server '''' (full_env 1) full_client (start_request ''data-pipeline'' JNull) (new_run empty_db 7))) = (None, r2) \<and>
    run_lookup (wrID run) (rnDB r2) = Some row \<and>
    completed_with (JObj [(''records'', JNum 0), (''transformed'', JBool True)]) ''transform'' (rStepStates row)"
proof -
  let ?x = "api_server '''' (full_env 1) full_client (start_request ''data-pipeline'' JNull) (new_run empty_db 7)"
  have "clWorkflows full_client ''data-pipeline'' = Some pipeline_workflow"
    by (simp add: full_client_def pipeline_handlers(1) [OF batch_name])
  from start_answered [OF this] have "arStatus (fst ?x) = 201" .
  from pipeline_loses_its_records [OF _ _ _ batch_name full_client_def start_request_starts surjective_pairing this run_env_reliable [of 10]]
  show ?thesis by (simp add: empty_wf empty_runs) blast
qed


section \<open>An installation\<close>

text \<open>Its database has jobs and a run.\<close>

definition busy_db :: db where
  "busy_db = (demo_db demo_def half_done)\<lparr>tJobs := tJobs sample_db, seqJobs := seqJobs sample_db\<rparr>"

lemma busy_db_rows:
  "job_lookup 3 busy_db = Some ((sample_job 3)\<lparr>jPriority := 5\<rparr>)" "run_lookup 1 busy_db = Some (run_row half_done)"
proof -
  have "job_lookup 3 sample_db = Some ((sample_job 3)\<lparr>jPriority := 5\<rparr>)" by code_simp
  then show "job_lookup 3 busy_db = Some ((sample_job 3)\<lparr>jPriority := 5\<rparr>)" by (simp add: busy_db_def job_lookup_def)
  show "run_lookup 1 busy_db = Some (run_row half_done)"
    by (simp add: busy_db_def demo_db_def run_lookup_def run_row_def)
qed

lemma busy_db_ok: "store_ok busy_db"
proof -
  have "jobs_wf sample_db" by (rule sample_wf)
  then show ?thesis
    by (simp add: store_ok_def busy_db_def demo_db_def jobs_wf_def defs_wf_def runs_wf_def run_row_def def_row_def
        empty_db_def)
qed

definition busy_day :: "activity list" where
  "busy_day =
    [Api_Request (full_env 60) (start_request ''order-processing'' sample_order), Execution (run_env 70) 2,
     Http_Request sample_http (post_job sample_body), Job_Statement (Ev_Cancel (pg_at 80) 3), Execution (run_env 90) 1]"

theorem the_data_is_kept_witness:
  "\<exists>job' run'. job_lookup 3 (rnDB (foldl (installation_step '''' full_client) (new_run busy_db 7) busy_day)) = Some job' \<and>
    job_identity job' = job_identity (sample_job 3\<lparr>jPriority := 5\<rparr>) \<and>
    run_lookup 1 (rnDB (foldl (installation_step '''' full_client) (new_run busy_db 7) busy_day)) = Some run' \<and>
    rInput run' = JNum 5"
proof -
  have "store_ok (rnDB (new_run busy_db 7))" by (simp add: busy_db_ok)
  from the_data_is_kept [OF this refl, of "''''" full_client busy_day] obtain job' run' where
    "job_lookup 3 (rnDB (foldl (installation_step '''' full_client) (new_run busy_db 7) busy_day)) = Some job'"
    "job_identity job' = job_identity (sample_job 3\<lparr>jPriority := 5\<rparr>)"
    "run_lookup 1 (rnDB (foldl (installation_step '''' full_client) (new_run busy_db 7) busy_day)) = Some run'"
    "run_identity run' = run_identity (run_row half_done)"
    using busy_db_rows by (metis new_run_simps(1))
  moreover have "rInput (run_row half_done) = JNum 5" by (simp add: run_row_def)
  ultimately show ?thesis by (auto simp: run_identity_def)
qed

section \<open>The flaky handler\<close>







section \<open>The server after main has started\<close>









end
